(* ===== verification/Prelude.thy ===== *)
theory Prelude
  imports Complex_Main "HOL-Library.Word"
begin

text \<open>
  Shared vocabulary of the development.

  \<^item> Machine integers: \<open>u32\<close>, \<open>u64\<close> and \<open>usize\<close> are words (the release profile of the
    workspace has no overflow checks, so plain \<open>+\<close> and \<open>-\<close> wrap around); the saturating and
    checked operations of the Rust standard library are written out below.
  \<^item> Strings: an identifier is the byte list of its UTF-8 text. A message built by
    \<open>format!\<close> is kept as the list of its pieces (literal bytes and the arguments), because
    the rendering of a \<open>Decimal\<close> or of a time is code of third-party crates.
  \<^item> \<open>named_theorems\<close> collections and generic lemmas on lists and maps.
\<close>

named_theorems gate_defs \<open>definitions of the pre-trade gates\<close>
named_theorems breaker_defs \<open>definitions of the circuit-breaker operations\<close>
named_theorems engine_defs \<open>definitions of the engine operations\<close>
named_theorems frame_simps \<open>fields an operation leaves unchanged\<close>

section \<open>Machine integers\<close>

type_synonym u32 = "32 word"
type_synonym u64 = "64 word"
type_synonym usize = "64 word"

text \<open>\<open>u32::MAX\<close> and \<open>u64::MAX\<close>.\<close>

abbreviation u32_max :: u32 where "u32_max \<equiv> 0xFFFFFFFF"
abbreviation u64_max :: u64 where "u64_max \<equiv> 0xFFFFFFFFFFFFFFFF"

definition saturating_add_u32 :: "u32 \<Rightarrow> u32 \<Rightarrow> u32" where
  "saturating_add_u32 a b = (if unat a + unat b < 2 ^ 32 then a + b else u32_max)"

definition saturating_sub_u32 :: "u32 \<Rightarrow> u32 \<Rightarrow> u32" where
  "saturating_sub_u32 a b = (if b \<le> a then a - b else 0)"

definition saturating_add_u64 :: "u64 \<Rightarrow> u64 \<Rightarrow> u64" where
  "saturating_add_u64 a b = (if unat a + unat b < 2 ^ 64 then a + b else u64_max)"

definition saturating_mul_u64 :: "u64 \<Rightarrow> u64 \<Rightarrow> u64" where
  "saturating_mul_u64 a b = (if unat a * unat b < 2 ^ 64 then a * b else u64_max)"

text \<open>\<open>2_u64.saturating_pow(exponent)\<close>.\<close>

definition saturating_pow2_u64 :: "u32 \<Rightarrow> u64" where
  "saturating_pow2_u64 e = (if unat e < 64 then 2 ^ unat e else u64_max)"

definition checked_add_u64 :: "u64 \<Rightarrow> u64 \<Rightarrow> u64 option" where
  "checked_add_u64 a b = (if unat a + unat b < 2 ^ 64 then Some (a + b) else None)"

text \<open>\<open>ToPrimitive::to_i64(&v).unwrap_or(i64::MAX)\<close> on an unsigned value.\<close>

definition to_i64_or_max :: "u64 \<Rightarrow> int" where
  "to_i64_or_max v = (if uint v < 2 ^ 63 then uint v else 2 ^ 63 - 1)"

text \<open>\<open>ToPrimitive::to_i32(&v).unwrap_or(i32::MAX)\<close> on an unsigned value.\<close>

definition to_i32_or_max :: "u32 \<Rightarrow> int" where
  "to_i32_or_max v = (if uint v < 2 ^ 31 then uint v else 2 ^ 31 - 1)"

text \<open>\<open>ToPrimitive::to_u32(&v).unwrap_or(0)\<close> on an \<open>i32\<close> value.\<close>

definition to_u32_or_zero :: "int \<Rightarrow> u32" where
  "to_u32_or_zero v = (if 0 \<le> v \<and> v < 2 ^ 32 then word_of_int v else 0)"

lemma unat_u32_less: "unat (w :: u32) < 2 ^ 32"
  using unsigned_less [of w] by simp

lemma unat_u64_less: "unat (w :: u64) < 2 ^ 64"
  using unsigned_less [of w] by simp

lemma unat_saturating_mul_u64:
  "unat (saturating_mul_u64 a b) = min (unat a * unat b) (2 ^ 64 - 1)"
  by (auto simp: saturating_mul_u64_def unat_word_ariths min_def)

lemma unat_pow2_u64: "n < 64 \<Longrightarrow> unat (2 ^ n :: u64) = 2 ^ n"
  using unat_of_nat [where 'a = 64, of "2 ^ n"] power_strict_increasing [of n 64 "2::nat"]
  by simp

lemma unat_saturating_pow2_u64:
  "unat (saturating_pow2_u64 e) = min (2 ^ unat e) (2 ^ 64 - 1)"
proof (cases "unat e < 64")
  case True
  then have "(2::nat) ^ unat e < 2 ^ 64" by (intro power_strict_increasing) auto
  with True show ?thesis by (simp add: saturating_pow2_u64_def unat_pow2_u64)
next
  case False
  then have "(2::nat) ^ 64 \<le> 2 ^ unat e" by (intro power_increasing) auto
  with False show ?thesis by (simp add: saturating_pow2_u64_def)
qed

lemma unat_saturating_add_u32:
  "unat (saturating_add_u32 a b) = min (unat a + unat b) (2 ^ 32 - 1)"
  by (auto simp: saturating_add_u32_def unat_word_ariths min_def)

lemma unat_saturating_sub_u32: "unat (saturating_sub_u32 a b) = unat a - unat b"
  by (auto simp: saturating_sub_u32_def unat_sub word_le_nat_alt)

lemma checked_add_u64_Some:
  "checked_add_u64 a b = Some c \<longleftrightarrow> unat a + unat b < 2 ^ 64 \<and> c = a + b"
  by (auto simp: checked_add_u64_def)

lemma unat_add_u64_exact: "unat a + unat b < 2 ^ 64 \<Longrightarrow> unat (a + b :: u64) = unat a + unat b"
  by (simp add: unat_word_ariths)

lemma to_i64_or_max_nonneg [simp]: "0 \<le> to_i64_or_max v"
  by (simp add: to_i64_or_max_def)

lemma to_i64_or_max_mono: "v \<le> w \<Longrightarrow> to_i64_or_max v \<le> to_i64_or_max w"
  by (auto simp: to_i64_or_max_def word_le_def)

lemma to_u32_of_i32: "uint v < 2 ^ 31 \<Longrightarrow> to_u32_or_zero (to_i32_or_max v) = v"
  by (simp add: to_u32_or_zero_def to_i32_or_max_def)

section \<open>Strings and messages\<close>

type_synonym ident = string

datatype piece =
    Lit string
  | PDec rat
  | PDecP nat rat
  | PInt int
  | PBool bool
  | PDate int

type_synonym message = "piece list"

text \<open>The UTF-8 bytes of the three non-ASCII characters that occur in messages.\<close>

definition sym_ge :: string where "sym_ge = [CHR 0xE2, CHR 0x89, CHR 0xA5]"
definition sym_le :: string where "sym_le = [CHR 0xE2, CHR 0x89, CHR 0xA4]"
definition em_dash :: string where "em_dash = [CHR 0xE2, CHR 0x80, CHR 0x94]"

section \<open>Generic lemmas\<close>

text \<open>\<open>Iterator::min_by\<close>: the first of the least elements.\<close>

fun min_by :: "('a \<Rightarrow> 'b::linorder) \<Rightarrow> 'a list \<Rightarrow> 'a option" where
  "min_by f [] = None"
| "min_by f (x # xs) =
     (case min_by f xs of None \<Rightarrow> Some x | Some y \<Rightarrow> Some (if f x \<le> f y then x else y))"

lemma min_by_None [simp]: "min_by f xs = None \<longleftrightarrow> xs = []"
  by (cases xs) (auto split: option.splits)

lemma min_by_mem: "min_by f xs = Some x \<Longrightarrow> x \<in> set xs"
  by (induction xs arbitrary: x) (auto split: option.splits if_splits)

lemma min_by_le: "min_by f xs = Some x \<Longrightarrow> y \<in> set xs \<Longrightarrow> f x \<le> f y"
proof (induction xs arbitrary: x)
  case Nil
  then show ?case by simp
next
  case (Cons a xs)
  show ?case
  proof (cases "min_by f xs")
    case None
    with Cons.prems show ?thesis by simp
  next
    case (Some z)
    with Cons.IH [OF Some] Cons.prems show ?thesis
      by (auto split: if_splits)
  qed
qed

lemma min_by_ne: "xs \<noteq> [] \<Longrightarrow> \<exists>x. min_by f xs = Some x"
  by (cases "min_by f xs") auto

end
