(* ===== verification/Decimal.thy ===== *)
theory Decimal
  imports Prelude
begin

text \<open>
  The third-party crate \<open>rust_decimal\<close> the money code computes with, as a parameter.

  A \<open>rust_decimal::Decimal\<close> is modelled by the rational number it denotes; comparison,
  negation, \<open>abs\<close>, \<open>min\<close> and \<open>max\<close> are those of the rationals. The operations that may round
  (\<open>+\<close>, \<open>-\<close>, \<open>*\<close>, \<open>/\<close>, \<open>round_dp\<close>) are the fields of the record \<open>decimal_ops\<close>, an argument
  of every definition that uses them. What the development relies on is the documented
  format (a 96-bit integer and a scale of at most 28) with results that never step over a
  representable value: the predicate \<open>decimal_laws\<close>, the locale \<open>decimal\<close>. An operation whose exact
  result is out of the format's range panics in the crate; the record's functions are total,
  so a statement speaks about the runs that return. Division by zero is a branch of the
  model wherever the source does not guard it.
\<close>

section \<open>rust-decimal\<close>

type_synonym decimal = rat
type_synonym usd = decimal

record decimal_ops =
  dec_add :: "decimal \<Rightarrow> decimal \<Rightarrow> decimal"
  dec_sub :: "decimal \<Rightarrow> decimal \<Rightarrow> decimal"
  dec_mul :: "decimal \<Rightarrow> decimal \<Rightarrow> decimal"
  dec_div :: "decimal \<Rightarrow> decimal \<Rightarrow> decimal"
  dec_round_dp :: "nat \<Rightarrow> decimal \<Rightarrow> decimal"

definition representable :: "decimal \<Rightarrow> bool" where
  "representable q \<longleftrightarrow> (\<exists>m e. \<bar>m\<bar> < 2 ^ 96 \<and> e \<le> 28 \<and> q = of_int m / 10 ^ e)"

text \<open>\<open>r\<close> is an admissible result for the exact value \<open>x\<close>: no representable number lies
  strictly between them.\<close>

definition faithful :: "decimal \<Rightarrow> decimal \<Rightarrow> bool" where
  "faithful x r \<longleftrightarrow>
     (\<forall>q. representable q \<longrightarrow> (x \<le> q \<longrightarrow> r \<le> q) \<and> (q \<le> x \<longrightarrow> q \<le> r))"

definition decimal_laws :: "'z decimal_ops_scheme \<Rightarrow> bool" where
  "decimal_laws D \<longleftrightarrow>
     (\<forall>a b. faithful (a + b) (dec_add D a b)) \<and>
     (\<forall>a b. faithful (a - b) (dec_sub D a b)) \<and>
     (\<forall>a b. faithful (a * b) (dec_mul D a b)) \<and>
     (\<forall>a b. b \<noteq> 0 \<longrightarrow> faithful (a / b) (dec_div D a b)) \<and>
     (\<forall>n a. \<bar>dec_round_dp D n a - a\<bar> \<le> 1 / (2 * 10 ^ n)) \<and>
     (\<forall>n a. \<exists>k. dec_round_dp D n a = of_int k / 10 ^ n)"

lemma representable_of_int: "\<bar>m\<bar> < 2 ^ 96 \<Longrightarrow> representable (of_int m)"
  unfolding representable_def by (intro exI [of _ m] exI [of _ 0]) simp

lemma representable_0 [simp]: "representable 0"
  using representable_of_int [of 0] by simp

lemma representable_1 [simp]: "representable 1"
  using representable_of_int [of 1] by simp

lemma representable_numeral: "(numeral n :: int) < 2 ^ 96 \<Longrightarrow> representable (numeral n)"
  using representable_of_int [of "numeral n"] by simp

lemma representable_uminus [simp]: "representable (- q) \<longleftrightarrow> representable q"
proof -
  have "representable (- q)" if "representable q" for q
  proof -
    from that obtain m e where "\<bar>m\<bar> < 2 ^ 96" "e \<le> 28" "q = of_int m / 10 ^ e"
      unfolding representable_def by blast
    then show ?thesis
      unfolding representable_def by (intro exI [of _ "- m"] exI [of _ e]) simp
  qed
  from this [of q] this [of "- q"] show ?thesis by auto
qed

text \<open>A probability-like value and its complement are both representable.\<close>

lemma representable_one_minus:
  assumes "representable q" "0 \<le> q" "q \<le> 1"
  shows "representable (1 - q)"
proof -
  from assms(1) obtain m e where me: "e \<le> 28" "q = of_int m / 10 ^ e"
    unfolding representable_def by blast
  from assms(2) me(2) have m0: "0 \<le> m"
    by (metis divide_less_0_iff not_less of_int_less_0_iff zero_less_numeral zero_less_power)
  from assms(3) me(2) have m1: "m \<le> 10 ^ e"
    by (simp add: divide_le_eq)
  have "(10::int) ^ e \<le> 10 ^ 28" using me(1) by (intro power_increasing) auto
  also have "\<dots> < 2 ^ 96" by simp
  finally have "\<bar>10 ^ e - m\<bar> < 2 ^ 96" using m0 m1 by linarith
  moreover have "1 - q = of_int (10 ^ e - m) / 10 ^ e"
    using me(2) by (simp add: field_simps)
  ultimately show ?thesis
    unfolding representable_def using me(1) by blast
qed

lemma faithful_exact: "faithful x r \<Longrightarrow> representable x \<Longrightarrow> r = x"
  unfolding faithful_def by (meson order.antisym order.refl)

lemma faithful_le: "faithful x r \<Longrightarrow> x \<le> q \<Longrightarrow> representable q \<Longrightarrow> r \<le> q"
  unfolding faithful_def by blast

lemma faithful_ge: "faithful x r \<Longrightarrow> q \<le> x \<Longrightarrow> representable q \<Longrightarrow> q \<le> r"
  unfolding faithful_def by blast

lemma faithful_refl [simp]: "faithful x x"
  unfolding faithful_def by blast

subsection \<open>What the laws give a client\<close>

text \<open>Amounts with at most eight decimal places. Sums of such amounts below \<open>10^20\<close> are
  representable, so the crate computes them exactly.\<close>

definition fixed8 :: "decimal \<Rightarrow> bool" where
  "fixed8 x \<longleftrightarrow> of_int \<lfloor>x * 10 ^ 8\<rfloor> = x * 10 ^ 8"

lemma fixed8_iff: "fixed8 x \<longleftrightarrow> (\<exists>k. x * 10 ^ 8 = of_int k)"
  unfolding fixed8_def by (metis floor_of_int)

lemma fixed8_add [simp]: "fixed8 a \<Longrightarrow> fixed8 b \<Longrightarrow> fixed8 (a + b)"
  unfolding fixed8_iff by (metis distrib_right of_int_add)

lemma fixed8_uminus [simp]: "fixed8 (- a) \<longleftrightarrow> fixed8 a"
  unfolding fixed8_iff by (metis minus_minus mult_minus_left of_int_minus)

lemma fixed8_diff [simp]: "fixed8 a \<Longrightarrow> fixed8 b \<Longrightarrow> fixed8 (a - b)"
  using fixed8_add [of a "- b"] by simp

lemma fixed8_of_int [simp]: "fixed8 (of_int k)"
  unfolding fixed8_iff by (rule exI [of _ "k * 10 ^ 8"]) simp

lemma fixed8_0 [simp]: "fixed8 0"
  using fixed8_of_int [of 0] by simp

lemma fixed8_abs [simp]: "fixed8 a \<Longrightarrow> fixed8 \<bar>a\<bar>"
  by (simp add: abs_if)

lemma fixed8_max [simp]: "fixed8 a \<Longrightarrow> fixed8 b \<Longrightarrow> fixed8 (max a b)"
  by (simp add: max_def)

lemma fixed8_sum_list: "(\<And>x. x \<in> set xs \<Longrightarrow> fixed8 (f x)) \<Longrightarrow> fixed8 (\<Sum>x\<leftarrow>xs. f x)"
  by (induction xs) simp_all

lemma representable_fixed8:
  assumes "fixed8 x" "\<bar>x\<bar> < 10 ^ 20"
  shows "representable x"
proof -
  obtain k where k: "x * 10 ^ 8 = of_int k" using assms(1) by (auto simp: fixed8_iff)
  have "of_int \<bar>k\<bar> = \<bar>x\<bar> * 10 ^ 8" by (simp add: k [symmetric] abs_mult)
  also have "\<dots> < 10 ^ 20 * 10 ^ 8" using assms(2) by (intro mult_strict_right_mono) simp_all
  finally have "of_int \<bar>k\<bar> < (of_int (10 ^ 28) :: rat)" by simp
  then have "\<bar>k\<bar> < 10 ^ 28" unfolding of_int_less_iff .
  then have "\<bar>k\<bar> < 2 ^ 96" by simp
  moreover have "x = of_int k / 10 ^ 8" using k by (simp add: field_simps)
  ultimately show ?thesis unfolding representable_def by (intro exI [of _ k] exI [of _ 8]) simp
qed

locale decimal =
  fixes D :: "'z decimal_ops_scheme"
  assumes laws: "decimal_laws D"
begin

lemma add_faithful: "faithful (a + b) (dec_add D a b)"
  and sub_faithful: "faithful (a - b) (dec_sub D a b)"
  and mul_faithful: "faithful (a * b) (dec_mul D a b)"
  and div_faithful: "b \<noteq> 0 \<Longrightarrow> faithful (a / b) (dec_div D a b)"
  using laws unfolding decimal_laws_def by auto

lemma round_close: "\<bar>dec_round_dp D n a - a\<bar> \<le> 1 / (2 * 10 ^ n)"
  using laws unfolding decimal_laws_def by blast

lemma round_grid: "\<exists>k. dec_round_dp D n a = of_int k / 10 ^ n"
  using laws unfolding decimal_laws_def by blast

lemmas add_exact = add_faithful [THEN faithful_exact]
lemmas sub_exact = sub_faithful [THEN faithful_exact]
lemmas mul_exact = mul_faithful [THEN faithful_exact]

lemma add_fixed8: "fixed8 a \<Longrightarrow> fixed8 b \<Longrightarrow> \<bar>a + b\<bar> < 10 ^ 20 \<Longrightarrow> dec_add D a b = a + b"
  by (intro add_exact representable_fixed8) simp_all

lemma sub_fixed8: "fixed8 a \<Longrightarrow> fixed8 b \<Longrightarrow> \<bar>a - b\<bar> < 10 ^ 20 \<Longrightarrow> dec_sub D a b = a - b"
  by (intro sub_exact representable_fixed8) simp_all

lemma add_nonneg: "0 \<le> a \<Longrightarrow> 0 \<le> b \<Longrightarrow> 0 \<le> dec_add D a b"
  using faithful_ge [OF add_faithful, of 0 a b] by simp

lemma add_ge_left: "representable a \<Longrightarrow> 0 \<le> b \<Longrightarrow> a \<le> dec_add D a b"
  using faithful_ge [OF add_faithful, of a a b] by simp

lemma add_le_bound: "a + b \<le> c \<Longrightarrow> representable c \<Longrightarrow> dec_add D a b \<le> c"
  by (rule faithful_le [OF add_faithful])

lemma add_gt_bound: "c < dec_add D a b \<Longrightarrow> representable c \<Longrightarrow> c < a + b"
  using faithful_le [OF add_faithful, of a b c] by force

lemma sub_nonneg: "b \<le> a \<Longrightarrow> 0 \<le> dec_sub D a b"
  using faithful_ge [OF sub_faithful, of 0 a b] by simp

lemma sub_le_left: "representable a \<Longrightarrow> 0 \<le> b \<Longrightarrow> dec_sub D a b \<le> a"
  using faithful_le [OF sub_faithful, of a b a] by simp

lemma sub_self [simp]: "dec_sub D a a = 0"
  by (rule faithful_exact) (use sub_faithful [of a a] in auto)

lemma sub_zero: "representable a \<Longrightarrow> dec_sub D a 0 = a"
  using sub_exact [of a 0] by simp

lemma add_zero: "representable a \<Longrightarrow> dec_add D a 0 = a"
  using add_exact [of a 0] by simp

lemma zero_add: "representable a \<Longrightarrow> dec_add D 0 a = a"
  using add_exact [of 0 a] by simp

lemma mul_nonneg: "0 \<le> a \<Longrightarrow> 0 \<le> b \<Longrightarrow> 0 \<le> dec_mul D a b"
  using faithful_ge [OF mul_faithful, of 0 a b] by simp

lemma mul_le_left: "representable a \<Longrightarrow> 0 \<le> a \<Longrightarrow> b \<le> 1 \<Longrightarrow> dec_mul D a b \<le> a"
  using faithful_le [OF mul_faithful, of a b a] by (simp add: mult_left_le)

lemma mul_le_right: "representable b \<Longrightarrow> 0 \<le> b \<Longrightarrow> a \<le> 1 \<Longrightarrow> dec_mul D a b \<le> b"
  using faithful_le [OF mul_faithful, of a b b] mult_right_mono [of a 1 b] by simp

lemma div_nonneg: "0 \<le> a \<Longrightarrow> 0 < b \<Longrightarrow> 0 \<le> dec_div D a b"
  using faithful_ge [OF div_faithful, of b 0 a] by simp

lemma div_le_one: "a \<le> b \<Longrightarrow> 0 < b \<Longrightarrow> dec_div D a b \<le> 1"
  using faithful_le [OF div_faithful, of b a 1] by (simp add: divide_le_eq)

lemma round_nonneg: "0 \<le> a \<Longrightarrow> 0 \<le> dec_round_dp D n a"
proof -
  assume a: "0 \<le> a"
  obtain k where k: "dec_round_dp D n a = of_int k / 10 ^ n" using round_grid by blast
  have "- (1 / (2 * 10 ^ n)) \<le> of_int k / (10 ^ n :: rat)"
    using round_close [of n a] a k by linarith
  then have "- 1 \<le> (of_int (2 * k) :: rat)" by (simp add: field_simps)
  then have "- 1 \<le> 2 * k" by linarith
  then have "0 \<le> k" by simp
  then show ?thesis using k by simp
qed

lemma round_le: "dec_round_dp D n a \<le> a + 1 / (2 * 10 ^ n)"
  and round_ge: "a - 1 / (2 * 10 ^ n) \<le> dec_round_dp D n a"
  using round_close [of n a] by linarith+

lemma round_on_grid:
  assumes "a * 10 ^ n = of_int j"
  shows "dec_round_dp D n a = a"
proof -
  obtain k where k: "dec_round_dp D n a = of_int k / 10 ^ n" using round_grid by blast
  have a: "a = of_int j / 10 ^ n" using assms by (simp add: field_simps)
  have "\<bar>of_int k / 10 ^ n - of_int j / (10 ^ n :: rat)\<bar> \<le> 1 / (2 * 10 ^ n)"
    using round_close [of n a] k a by simp
  then have "\<bar>of_int (k - j) :: rat\<bar> \<le> 1 / 2"
    by (simp add: diff_divide_distrib [symmetric] divide_le_eq field_simps)
  then have "k = j" by linarith
  then show ?thesis using k a by simp
qed

end

subsection \<open>Two concrete instances\<close>

text \<open>The instance whose every operation is exact and which rounds half to even, used where
  a concrete input is evaluated.\<close>

definition half_even :: "decimal \<Rightarrow> int" where
  "half_even x =
     (let f = \<lfloor>x\<rfloor>; d = x - of_int f in
      if d < 1 / 2 then f else if d > 1 / 2 then f + 1 else if even f then f else f + 1)"

definition round_half_even :: "nat \<Rightarrow> decimal \<Rightarrow> decimal" where
  "round_half_even n x = of_int (half_even (x * 10 ^ n)) / 10 ^ n"

definition exact_ops :: decimal_ops where
  "exact_ops = \<lparr>dec_add = (+), dec_sub = (-), dec_mul = (*), dec_div = (/),
     dec_round_dp = round_half_even\<rparr>"

text \<open>The instance that keeps 28 decimal places, rounding every result half to even.\<close>

definition dec28_ops :: decimal_ops where
  "dec28_ops = \<lparr>dec_add = (\<lambda>a b. round_half_even 28 (a + b)),
     dec_sub = (\<lambda>a b. round_half_even 28 (a - b)),
     dec_mul = (\<lambda>a b. round_half_even 28 (a * b)),
     dec_div = (\<lambda>a b. round_half_even 28 (a / b)),
     dec_round_dp = round_half_even\<rparr>"

lemma half_even_close: "\<bar>of_int (half_even x) - x\<bar> \<le> 1 / 2"
proof -
  have "of_int \<lfloor>x\<rfloor> \<le> x" "x < of_int \<lfloor>x\<rfloor> + 1" by linarith+
  then show ?thesis unfolding half_even_def Let_def by (auto simp: abs_le_iff split: if_split)
qed

lemma round_half_even_close: "\<bar>round_half_even n a - a\<bar> \<le> 1 / (2 * 10 ^ n)"
proof -
  have "\<bar>of_int (half_even (a * 10 ^ n)) - a * 10 ^ n\<bar> / 10 ^ n \<le> (1 / 2) / (10 ^ n :: rat)"
    by (intro divide_right_mono half_even_close) simp
  moreover have "round_half_even n a - a = (of_int (half_even (a * 10 ^ n)) - a * 10 ^ n) / 10 ^ n"
    by (simp add: round_half_even_def field_simps)
  ultimately show ?thesis by (simp add: abs_divide)
qed

lemma half_even_int_le: "x \<le> of_int k \<Longrightarrow> half_even x \<le> k"
  using half_even_close [of x] by (auto simp: half_even_def Let_def floor_less_iff split: if_splits)
    (linarith | metis floor_of_int floor_mono)+

lemma half_even_int_ge: "of_int k \<le> x \<Longrightarrow> k \<le> half_even x"
proof -
  assume "of_int k \<le> x"
  then have "k \<le> \<lfloor>x\<rfloor>" by (simp add: le_floor_iff)
  then show ?thesis by (auto simp: half_even_def Let_def)
qed

lemma faithful_round28: "faithful x (round_half_even 28 x)"
  unfolding faithful_def
proof (intro allI impI conjI)
  fix q :: rat
  assume "representable q"
  then obtain m e where me: "e \<le> 28" "q = of_int m / 10 ^ e"
    unfolding representable_def by blast
  define k where "k = m * 10 ^ (28 - e)"
  have ten: "(10::rat) ^ 28 = 10 ^ e * 10 ^ (28 - e)" using me(1) by (simp flip: power_add)
  have k: "q * 10 ^ 28 = of_int k"
    unfolding ten me(2) k_def by simp
  {
    assume "x \<le> q"
    then have "x * 10 ^ 28 \<le> of_int k" using k by (metis mult_right_mono zero_le_numeral zero_le_power)
    then have "half_even (x * 10 ^ 28) \<le> k" by (rule half_even_int_le)
    then have "(of_int (half_even (x * 10 ^ 28)) :: rat) \<le> q * 10 ^ 28" using k by (metis of_int_le_iff)
    then show "round_half_even 28 x \<le> q" by (simp add: round_half_even_def divide_le_eq)
  next
    assume "q \<le> x"
    then have "of_int k \<le> x * 10 ^ 28" using k by (metis mult_right_mono zero_le_numeral zero_le_power)
    then have "k \<le> half_even (x * 10 ^ 28)" by (rule half_even_int_ge)
    then have "q * 10 ^ 28 \<le> (of_int (half_even (x * 10 ^ 28)) :: rat)" using k by (metis of_int_le_iff)
    then show "q \<le> round_half_even 28 x" by (simp add: round_half_even_def le_divide_eq)
  }
qed

lemma round_half_even_grid: "\<exists>k. round_half_even n a = of_int k / 10 ^ n"
  by (auto simp: round_half_even_def)

lemma exact_ops_laws [simp]: "decimal_laws exact_ops"
  by (simp add: decimal_laws_def exact_ops_def round_half_even_close round_half_even_grid)

lemma dec28_ops_laws [simp]: "decimal_laws dec28_ops"
  by (simp add: decimal_laws_def dec28_ops_def round_half_even_close round_half_even_grid
      faithful_round28)

interpretation exact: decimal exact_ops
  by unfold_locales simp

interpretation dec28: decimal dec28_ops
  by unfold_locales simp

end
