(* ===== verification/Chrono.thy ===== *)
theory Chrono
  imports Decimal
begin

text \<open>
  The operations of the \<open>chrono\<close> crate that the code uses, as further fields of the library
  record. \<open>DateTime<Utc>\<close> is an \<open>instant\<close> (nanoseconds since the epoch), \<open>NaiveDate\<close> a \<open>date\<close>
  (days since the epoch); the order on both is that of the integers. The clock of the
  program (\<open>Clock::now\<close>) is read once per operation: the instant is an argument of the
  operation's definition. \<open>from_std_secs\<close> is \<open>chrono::Duration::from_std\<close> on whole seconds, whose
  documented range is that of milliseconds in an \<open>i64\<close>.
\<close>

type_synonym instant = int
type_synonym date = int

record libs = decimal_ops +
  add_secs :: "instant \<Rightarrow> int \<Rightarrow> instant"
  date_naive :: "instant \<Rightarrow> date"
  hour :: "instant \<Rightarrow> u32"
  num_days_from_monday :: "date \<Rightarrow> u32"
  sub_days :: "date \<Rightarrow> int \<Rightarrow> date"
  and_hms_utc :: "date \<Rightarrow> u32 \<Rightarrow> instant"
  num_seconds_since :: "instant \<Rightarrow> instant \<Rightarrow> int"
  from_std_secs :: "u64 \<Rightarrow> int option"

definition chrono_laws :: "'z libs_scheme \<Rightarrow> bool" where
  "chrono_laws L \<longleftrightarrow>
     (\<forall>t s. 0 \<le> s \<longrightarrow> t \<le> add_secs L t s) \<and>
     (\<forall>t s. 0 < s \<longrightarrow> t < add_secs L t s) \<and>
     (\<forall>t s s'. s \<le> s' \<longrightarrow> add_secs L t s \<le> add_secs L t s') \<and>
     (\<forall>t t'. t \<le> t' \<longrightarrow> date_naive L t \<le> date_naive L t') \<and>
     (\<forall>t t'. t \<le> t' \<longrightarrow> date_naive L t = date_naive L t' \<longrightarrow> hour L t \<le> hour L t') \<and>
     (\<forall>d. uint (num_days_from_monday L d) \<le> 6) \<and>
     (\<forall>d n. sub_days L d n = d - n) \<and>
     (\<forall>d. num_days_from_monday L (d - uint (num_days_from_monday L d)) = 0) \<and>
     (\<forall>d n. num_days_from_monday L d = 0 \<longrightarrow> 0 \<le> n \<longrightarrow> n \<le> 6 \<longrightarrow>
        uint (num_days_from_monday L (d + n)) = n) \<and>
     (\<forall>s. from_std_secs L s =
        (if uint s \<le> (2 ^ 63 - 1) div 1000 then Some (uint s) else None))"

locale chrono =
  fixes L :: "'z libs_scheme"
  assumes laws: "chrono_laws L"
begin

lemma add_secs_ge: "0 \<le> s \<Longrightarrow> t \<le> add_secs L t s"
  and add_secs_gt: "0 < s \<Longrightarrow> t < add_secs L t s"
  and add_secs_mono: "s \<le> s' \<Longrightarrow> add_secs L t s \<le> add_secs L t s'"
  and date_mono: "t \<le> t' \<Longrightarrow> date_naive L t \<le> date_naive L t'"
  and hour_mono: "t \<le> t' \<Longrightarrow> date_naive L t = date_naive L t' \<Longrightarrow> hour L t \<le> hour L t'"
  and weekday_le: "uint (num_days_from_monday L d) \<le> 6"
  and sub_days_eq: "sub_days L d n = d - n"
  and monday_weekday: "num_days_from_monday L (d - uint (num_days_from_monday L d)) = 0"
  and weekday_in_week:
    "num_days_from_monday L d = 0 \<Longrightarrow> 0 \<le> n \<Longrightarrow> n \<le> 6 \<Longrightarrow>
     uint (num_days_from_monday L (d + n)) = n"
  and from_std_secs_eq: "from_std_secs L v =
     (if uint v \<le> (2 ^ 63 - 1) div 1000 then Some (uint v) else None)"
  using laws unfolding chrono_laws_def by auto

end

text \<open>The Gregorian UTC instance: a day has 86400 seconds, and day 0 is a Thursday.\<close>

definition utc_libs :: libs where
  "utc_libs = decimal_ops.extend exact_ops
     \<lparr>add_secs = (\<lambda>t s. t + s * 1000000000),
      date_naive = (\<lambda>t. t div 86400000000000),
      hour = (\<lambda>t. word_of_int (t mod 86400000000000 div 3600000000000)),
      num_days_from_monday = (\<lambda>d. word_of_int ((d + 3) mod 7)),
      sub_days = (\<lambda>d n. d - n),
      and_hms_utc = (\<lambda>d h. d * 86400000000000 + uint h * 3600000000000),
      num_seconds_since = (\<lambda>a b. (if a \<ge> b then (a - b) div 1000000000
                                   else - ((b - a) div 1000000000))),
      from_std_secs = (\<lambda>s. if uint s \<le> (2 ^ 63 - 1) div 1000 then Some (uint s) else None)\<rparr>"

lemmas utc_libs_simps =
  utc_libs_def exact_ops_def decimal_ops.defs

lemma decimal_laws_more: "decimal_laws (decimal_ops.truncate D) \<longleftrightarrow> decimal_laws D"
  by (simp add: decimal_laws_def decimal_ops.truncate_def)

lemma utc_libs_decimal [simp]: "decimal_laws utc_libs"
proof -
  have "decimal_ops.truncate utc_libs = exact_ops"
    by (simp add: utc_libs_def decimal_ops.defs)
  then show ?thesis using decimal_laws_more [of utc_libs] by simp
qed

lemma weekday_word: "uint (word_of_int ((d + 3) mod 7) :: u32) = (d + 3) mod 7"
  by (simp add: uint_word_of_int take_bit_int_eq_self_iff)

lemma weekday_small: "0 \<le> n \<Longrightarrow> n \<le> 6 \<Longrightarrow> uint (word_of_int n :: u32) = n"
  by (simp add: uint_word_of_int take_bit_int_eq_self_iff)

lemma utc_libs_chrono [simp]: "chrono_laws utc_libs"
proof -
  have "uint (word_of_int ((d + 3) mod 7) :: u32) \<le> 6" for d
    unfolding weekday_word by (simp add: pos_mod_bound zle_add1_eq_le [symmetric] del: zle_add1_eq_le)
  moreover have "word_of_int ((d - (d + 3) mod 7 + 3) mod 7) = (0 :: u32)" for d
  proof -
    have "(d - (d + 3) mod 7 + 3) mod 7 = 0" by presburger
    then show ?thesis by simp
  qed
  moreover have "(d + n + 3) mod 7 = n"
    if "word_of_int ((d + 3) mod 7) = (0 :: u32)" "0 \<le> n" "n \<le> 6" for d n :: int
  proof -
    from that(1) have "(d + 3) mod 7 = 0" using weekday_word [of d] by simp
    with that(2,3) show ?thesis by presburger
  qed
  moreover have "(word_of_int (t mod 86400000000000 div 3600000000000) :: u32)
      \<le> word_of_int (t' mod 86400000000000 div 3600000000000)"
    if "t \<le> t'" "t div 86400000000000 = t' div 86400000000000" for t t' :: int
  proof -
    have "t mod 86400000000000 \<le> t' mod 86400000000000"
      using that by (simp add: minus_div_mult_eq_mod [symmetric])
    then have le: "t mod 86400000000000 div 3600000000000 \<le> t' mod 86400000000000 div 3600000000000"
      by (rule zdiv_mono1) simp
    have hr: "uint (word_of_int (u mod 86400000000000 div 3600000000000) :: u32)
        = u mod 86400000000000 div 3600000000000" for u :: int
    proof -
      have "0 \<le> u mod 86400000000000 div 3600000000000"
        by (simp add: pos_imp_zdiv_nonneg_iff)
      moreover have "u mod 86400000000000 div 3600000000000 \<le> 86399999999999 div 3600000000000"
        using pos_mod_bound [of 86400000000000 u] by (intro zdiv_mono1) simp_all
      ultimately have "0 \<le> u mod 86400000000000 div 3600000000000"
        "u mod 86400000000000 div 3600000000000 \<le> 23" by simp_all
      then show ?thesis by (simp add: uint_word_of_int take_bit_int_eq_self_iff)
    qed
    show ?thesis unfolding word_le_def hr by (rule le)
  qed
  ultimately show ?thesis
    unfolding chrono_laws_def
    by (auto simp: utc_libs_simps weekday_word weekday_small zdiv_mono1)
qed

interpretation utc: chrono utc_libs
  by unfold_locales simp

interpretation utc_dec: decimal utc_libs
  by unfold_locales simp

end
