(* ===== verification/Risk_Types.thy ===== *)
theory Risk_Types
  imports Chrono
begin

text \<open>
  The data of \<open>oxide-arb-models\<close> and of \<open>oxide-arb-risk/src/types.rs\<close> that the risk engine
  works on: the enums with the order the source derives for them, the risk configuration
  with its defaults, the opportunity, the probability input, the post-trade input and the
  persisted engine state. Field names are the source's with a prefix per record.
\<close>

section \<open>Errors\<close>

text \<open>The variants of \<open>OxideError\<close> that the modelled code raises or passes on.\<close>

datatype oxide_error = Internal message | Storage string

section \<open>Enums\<close>

datatype breaker_state_name = NClosed | NOpen | NHalfOpen | NRecovered | NHalted

datatype circuit_breaker_level = Trade | Session | Daily | System

datatype blacklist_scope = DataPath | TradingPath | Full

datatype blacklist_reason =
    ConsecutiveFokFailures | TradeFailedAfterMatched | DepthDrop | TickChange | Manual | DataNotFound

datatype trade_accounting_phase = Fill | Settlement

datatype reconciliation_status = RecOk | Warning | Critical

datatype window_type = WHourly | WDaily | WWeekly

datatype side = Buy | Sell

datatype execution_mode = DryRun | Paper | Live

datatype staleness_level = Fresh | Acceptable | Stale | Expired

datatype trade_business_outcome = Success | Miss | Failed

datatype ledger_status = Active | Resolved | LExpired

datatype market_category =
    Geopolitics | Sports | Politics | Finance | Tech | Culture | Weather | Economics | Crypto | Other

datatype price_zone = Z95 | Z96 | Z97 | Z98 | Z99

datatype duration_bucket = Short | Medium | Long | VeryLong

text \<open>The discriminants; \<open>#[derive(PartialOrd, Ord)]\<close> orders the variants by them.\<close>

fun level_as_u8 :: "circuit_breaker_level \<Rightarrow> nat" where
  "level_as_u8 Trade = 1"
| "level_as_u8 Session = 2"
| "level_as_u8 Daily = 3"
| "level_as_u8 System = 4"

fun scope_rank :: "blacklist_scope \<Rightarrow> nat" where
  "scope_rank DataPath = 0"
| "scope_rank TradingPath = 1"
| "scope_rank Full = 2"

fun staleness_rank :: "staleness_level \<Rightarrow> nat" where
  "staleness_rank Fresh = 0"
| "staleness_rank Acceptable = 1"
| "staleness_rank Stale = 2"
| "staleness_rank Expired = 3"

lemma level_as_u8_inject: "level_as_u8 a = level_as_u8 b \<Longrightarrow> a = b"
  by (cases a; cases b) simp_all

lemma scope_rank_inject: "scope_rank a = scope_rank b \<Longrightarrow> a = b"
  by (cases a; cases b) simp_all

lemma staleness_rank_inject: "staleness_rank a = staleness_rank b \<Longrightarrow> a = b"
  by (cases a; cases b) simp_all

instantiation circuit_breaker_level :: linorder
begin
definition less_eq_circuit_breaker_level :: "circuit_breaker_level \<Rightarrow> circuit_breaker_level \<Rightarrow> bool" where
  "less_eq_circuit_breaker_level a b \<longleftrightarrow> level_as_u8 a \<le> level_as_u8 b"
definition less_circuit_breaker_level :: "circuit_breaker_level \<Rightarrow> circuit_breaker_level \<Rightarrow> bool" where
  "less_circuit_breaker_level a b \<longleftrightarrow> level_as_u8 a < level_as_u8 b"
instance
  by standard (auto simp: less_eq_circuit_breaker_level_def less_circuit_breaker_level_def
      intro: level_as_u8_inject)
end

instantiation blacklist_scope :: linorder
begin
definition less_eq_blacklist_scope :: "blacklist_scope \<Rightarrow> blacklist_scope \<Rightarrow> bool" where
  "less_eq_blacklist_scope a b \<longleftrightarrow> scope_rank a \<le> scope_rank b"
definition less_blacklist_scope :: "blacklist_scope \<Rightarrow> blacklist_scope \<Rightarrow> bool" where
  "less_blacklist_scope a b \<longleftrightarrow> scope_rank a < scope_rank b"
instance
  by standard (auto simp: less_eq_blacklist_scope_def less_blacklist_scope_def
      intro: scope_rank_inject)
end

instantiation staleness_level :: linorder
begin
definition less_eq_staleness_level :: "staleness_level \<Rightarrow> staleness_level \<Rightarrow> bool" where
  "less_eq_staleness_level a b \<longleftrightarrow> staleness_rank a \<le> staleness_rank b"
definition less_staleness_level :: "staleness_level \<Rightarrow> staleness_level \<Rightarrow> bool" where
  "less_staleness_level a b \<longleftrightarrow> staleness_rank a < staleness_rank b"
instance
  by standard (auto simp: less_eq_staleness_level_def less_staleness_level_def
      intro: staleness_rank_inject)
end

lemmas level_order = less_eq_circuit_breaker_level_def less_circuit_breaker_level_def
lemmas scope_order = less_eq_blacklist_scope_def less_blacklist_scope_def
lemmas staleness_order = less_eq_staleness_level_def less_staleness_level_def

lemma le_System [simp]: "l \<le> System"
  by (cases l) (simp_all add: level_order)

lemma System_le [simp]: "System \<le> l \<longleftrightarrow> l = System"
  by (cases l) (simp_all add: level_order)

lemma le_Full [simp]: "(s :: blacklist_scope) \<le> Full"
  by (cases s) (simp_all add: scope_order)

text \<open>The strings the \<open>Display\<close> implementations print.\<close>

fun level_str :: "circuit_breaker_level \<Rightarrow> string" where
  "level_str Trade = ''trade''"
| "level_str Session = ''session''"
| "level_str Daily = ''daily''"
| "level_str System = ''system''"

fun scope_str :: "blacklist_scope \<Rightarrow> string" where
  "scope_str DataPath = ''data_path''"
| "scope_str TradingPath = ''trading_path''"
| "scope_str Full = ''full''"

fun blacklist_reason_str :: "blacklist_reason \<Rightarrow> string" where
  "blacklist_reason_str ConsecutiveFokFailures = ''consecutive_fok_failures''"
| "blacklist_reason_str TradeFailedAfterMatched = ''trade_failed_after_matched''"
| "blacklist_reason_str DepthDrop = ''depth_drop''"
| "blacklist_reason_str TickChange = ''tick_change''"
| "blacklist_reason_str Manual = ''manual''"
| "blacklist_reason_str DataNotFound = ''data_not_found''"

fun staleness_str :: "staleness_level \<Rightarrow> string" where
  "staleness_str Fresh = ''fresh''"
| "staleness_str Acceptable = ''acceptable''"
| "staleness_str Stale = ''stale''"
| "staleness_str Expired = ''expired''"

section \<open>Risk configuration\<close>

record circuit_breaker_config =
  cc_l1_cooldown_secs :: u64
  cc_l2_cooldown_secs :: u64
  cc_l3_cooldown_secs :: u64
  cc_l4_cooldown_secs :: u64
  cc_half_open_probes :: u32
  cc_recovery_observation_secs :: u64
  cc_max_cooldown_secs :: u64

record kelly_config =
  kc_max_kelly :: decimal
  kc_min_edge_bps :: decimal
  kc_min_probability_confidence :: decimal
  kc_min_calibration_samples :: u32
  kc_max_probability_staleness_secs :: u64

record drawdown_config =
  dc_max_drawdown_pct :: decimal
  dc_drawdown_reduction_factor :: decimal

record risk_config =
  rc_min_depth_usd :: decimal
  rc_max_depth_usage_pct :: decimal
  rc_max_consecutive_misses :: u32
  rc_max_hourly_loss_usd :: decimal
  rc_max_hourly_fee_spend_usd :: decimal
  rc_base_cooldown_secs :: u64
  rc_cooldown_multiplier :: decimal
  rc_max_cooldown_secs :: u64
  rc_max_daily_loss_usd :: decimal
  rc_max_daily_fee_spend_usd :: decimal
  rc_max_single_loss_usd :: decimal
  rc_max_weekly_loss_usd :: decimal
  rc_daily_budget_usd :: decimal
  rc_ws_disconnect_threshold_secs :: u64
  rc_min_balance_usd :: decimal
  rc_market_miss_blacklist_count :: u32
  rc_market_miss_blacklist_duration_secs :: u64
  rc_permanent_blacklist_markets :: "string list"
  rc_permanent_blacklist_tokens :: "string list"
  rc_max_total_exposure_usd :: decimal
  rc_reserve_balance_usd :: decimal
  rc_max_open_positions :: usize
  rc_max_single_market_exposure_usd :: decimal
  rc_max_single_bet_usd :: decimal
  rc_reservation_ttl_secs :: u64
  rc_reservation_gc_interval_secs :: u64
  rc_max_total_exposure_pct :: decimal
  rc_metrics_refresh_interval_secs :: u64
  rc_max_metrics_staleness_secs :: u64
  rc_reconciliation_interval_secs :: u64
  rc_reconciliation_tolerance_usd :: decimal
  rc_circuit_breaker :: circuit_breaker_config
  rc_kelly_fraction :: decimal
  rc_bankroll_usd :: decimal
  rc_min_trade_usd :: decimal
  rc_kelly :: kelly_config
  rc_drawdown :: drawdown_config
  rc_api_error_rate_threshold :: decimal
  rc_heartbeat_max_failures :: u32
  rc_potential_loss_escalation_secs :: u64
  rc_max_concurrent_directional :: usize
  rc_daily_directional_budget :: u32

definition default_circuit_breaker_config :: circuit_breaker_config where
  "default_circuit_breaker_config = \<lparr>cc_l1_cooldown_secs = 60, cc_l2_cooldown_secs = 900,
     cc_l3_cooldown_secs = 3600, cc_l4_cooldown_secs = 7200, cc_half_open_probes = 2,
     cc_recovery_observation_secs = 300, cc_max_cooldown_secs = 14400\<rparr>"

definition default_kelly_config :: kelly_config where
  "default_kelly_config = \<lparr>kc_max_kelly = 1 / 4, kc_min_edge_bps = 200,
     kc_min_probability_confidence = 3 / 10, kc_min_calibration_samples = 10,
     kc_max_probability_staleness_secs = 7200\<rparr>"

definition default_drawdown_config :: drawdown_config where
  "default_drawdown_config = \<lparr>dc_max_drawdown_pct = 10, dc_drawdown_reduction_factor = 1 / 2\<rparr>"

definition default_risk_config :: risk_config where
  "default_risk_config = \<lparr>rc_min_depth_usd = 200, rc_max_depth_usage_pct = 30,
     rc_max_consecutive_misses = 3, rc_max_hourly_loss_usd = 30,
     rc_max_hourly_fee_spend_usd = 10, rc_base_cooldown_secs = 900,
     rc_cooldown_multiplier = 2, rc_max_cooldown_secs = 7200,
     rc_max_daily_loss_usd = 75, rc_max_daily_fee_spend_usd = 25,
     rc_max_single_loss_usd = 30, rc_max_weekly_loss_usd = 120,
     rc_daily_budget_usd = 50, rc_ws_disconnect_threshold_secs = 30,
     rc_min_balance_usd = 50, rc_market_miss_blacklist_count = 3,
     rc_market_miss_blacklist_duration_secs = 3600,
     rc_permanent_blacklist_markets = [], rc_permanent_blacklist_tokens = [],
     rc_max_total_exposure_usd = 5000, rc_reserve_balance_usd = 100,
     rc_max_open_positions = 3, rc_max_single_market_exposure_usd = 500,
     rc_max_single_bet_usd = 25, rc_reservation_ttl_secs = 300,
     rc_reservation_gc_interval_secs = 30, rc_max_total_exposure_pct = 80,
     rc_metrics_refresh_interval_secs = 5, rc_max_metrics_staleness_secs = 5 * 3,
     rc_reconciliation_interval_secs = 300, rc_reconciliation_tolerance_usd = 1,
     rc_circuit_breaker = default_circuit_breaker_config,
     rc_kelly_fraction = 1 / 4, rc_bankroll_usd = 1000, rc_min_trade_usd = 1,
     rc_kelly = default_kelly_config, rc_drawdown = default_drawdown_config,
     rc_api_error_rate_threshold = 1 / 10, rc_heartbeat_max_failures = 3,
     rc_potential_loss_escalation_secs = 3600, rc_max_concurrent_directional = 3,
     rc_daily_directional_budget = 10\<rparr>"

lemmas config_defaults = default_risk_config_def default_circuit_breaker_config_def
  default_kelly_config_def default_drawdown_config_def

section \<open>Domain inputs\<close>

record probability_input =
  pi_calibrated_win_prob :: decimal
  pi_fill_prob :: decimal
  pi_calibration_confidence :: decimal
  pi_sample_size :: u32
  pi_model_staleness_secs :: u64
  pi_expected_slippage_pct :: decimal
  pi_expected_failure_cost_pct :: decimal

datatype payout_model =
  DirectionalSettlement (projected_payout_if_correct: usd) (expected_payout: usd)
    (predicted_side: side)

definition compute_pnl :: "('z) decimal_ops_scheme \<Rightarrow> payout_model \<Rightarrow> usd \<Rightarrow> usd \<Rightarrow> usd" where
  "compute_pnl D m total_cost total_fees =
     dec_sub D (dec_sub D (expected_payout m) total_cost) total_fees"

record bucket_key =
  bk_category :: market_category
  bk_price_zone :: price_zone
  bk_duration_bucket :: duration_bucket

record calibration_snapshot =
  cs_bucket_key :: bucket_key
  cs_posterior_mean :: decimal
  cs_sample_size :: u32
  cs_alpha_prior :: decimal
  cs_beta_prior :: decimal
  cs_fallback_tier :: "8 word"
  cs_fused_probability :: decimal

record endgame_meta =
  em_predicted_yes :: bool
  em_confidence :: decimal
  em_convergence_duration_secs :: u64
  em_price_zone :: price_zone
  em_duration_bucket :: duration_bucket
  em_settlement_deadline :: "instant option"

record opportunity =
  opp_opportunity_id :: ident
  opp_market_id :: ident
  opp_event_id :: ident
  opp_token_id :: ident
  opp_side :: side
  opp_payout_model :: payout_model
  opp_shares :: decimal
  opp_entry_price :: decimal
  opp_total_cost :: usd
  opp_total_fees :: usd
  opp_net_profit :: usd
  opp_expected_net_profit :: usd
  opp_edge_bps :: decimal
  opp_resolution_adjust :: decimal
  opp_depth_used_pct :: decimal
  opp_staleness :: staleness_level
  opp_category :: market_category
  opp_meta :: endgame_meta
  opp_calibration :: calibration_snapshot
  opp_detected_at :: instant

record post_trade_input =
  pt_trade_id :: ident
  pt_market_id :: ident
  pt_token_id :: ident
  pt_side :: side
  pt_outcome :: trade_business_outcome
  pt_cost_usd :: usd
  pt_fee_usd :: usd
  pt_net_profit_usd :: "usd option"
  pt_shares :: decimal
  pt_entry_price :: decimal

definition is_success :: "post_trade_input \<Rightarrow> bool" where
  "is_success t \<longleftrightarrow> pt_outcome t = Success"

definition is_miss :: "post_trade_input \<Rightarrow> bool" where
  "is_miss t \<longleftrightarrow> pt_outcome t = Miss"

record trade_integrity_snapshot =
  ti_blocking_count :: u32
  ti_needs_reconcile_count :: u32
  ti_intent_orphan_count :: u32
  ti_oldest_blocking_age_secs :: u64
  ti_active_reservation_count :: u32
  ti_reserved_usd :: usd
  ti_checked_at :: instant

fun blocks_admission :: "trade_integrity_snapshot \<Rightarrow> execution_mode \<Rightarrow> bool" where
  "blocks_admission s DryRun = False"
| "blocks_admission s Paper = (ti_blocking_count s > 0)"
| "blocks_admission s Live = (ti_blocking_count s > 0)"

section \<open>Persisted engine state\<close>

record risk_engine_state =
  es_breaker_state :: breaker_state_name
  es_breaker_level :: "circuit_breaker_level option"
  es_is_halted :: bool
  es_halt_reason :: "message option"
  es_cooldown_until :: "instant option"
  es_total_exposure :: usd
  es_hourly_loss_usd :: usd
  es_hourly_fee_usd :: usd
  es_hourly_trade_count :: int
  es_hourly_success_count :: int
  es_hourly_miss_count :: int
  es_hourly_window_start :: instant
  es_daily_pnl :: usd
  es_daily_loss_usd :: usd
  es_daily_fee_usd :: usd
  es_daily_budget_spent :: usd
  es_daily_trade_count :: int
  es_daily_success_count :: int
  es_daily_miss_count :: int
  es_daily_window_start :: date
  es_weekly_loss_usd :: usd
  es_weekly_trade_count :: int
  es_weekly_window_start :: date
  es_consecutive_misses :: int
  es_cooldown_multiplier :: int
  es_hwm_equity :: usd
  es_total_realized_pnl :: usd
  es_last_emergency_at :: "instant option"
  es_last_emergency_reason :: "message option"
  es_snapshot_at :: instant

section \<open>Control-factor decisions\<close>

datatype control_factor_type =
    BucketRisk | ExecutionQuality | PortfolioRisk | ReconciliationHealth | MarketAnomaly

record applied_control_factor =
  af_factor_id :: ident
  af_factor_type :: control_factor_type
  af_publication_id :: ident
  af_input_value :: decimal
  af_output_value :: decimal
  af_reason :: string

record reconciliation_health_decision =
  rh_force_maintenance_mode :: bool
  rh_size_multiplier :: decimal
  rh_require_manual_ack :: bool
  rh_source :: "applied_control_factor option"

record market_anomaly_decision =
  ma_block_market :: bool
  ma_block_event :: bool
  ma_manual_ack_required :: bool
  ma_reason_code :: "string option"
  ma_source :: "applied_control_factor option"

definition is_blocking :: "market_anomaly_decision \<Rightarrow> bool" where
  "is_blocking d \<longleftrightarrow> ma_block_market d \<or> ma_block_event d"

record portfolio_risk_decision =
  pr_global_size_multiplier :: decimal
  pr_category_size_multiplier :: "decimal option"
  pr_daily_budget_multiplier :: decimal
  pr_kelly_fraction_multiplier :: decimal
  pr_max_open_positions :: "u32 option"
  pr_category :: "market_category option"
  pr_source :: "applied_control_factor option"

record factor_decision_context =
  fc_publication_id :: "ident option"
  fc_snapshot_expired :: bool
  fc_fail_closed :: bool
  fc_reconciliation_health :: reconciliation_health_decision
  fc_market_anomaly :: market_anomaly_decision
  fc_portfolio_risk :: portfolio_risk_decision
  fc_bucket_size_multiplier :: decimal
  fc_applied_factors :: "applied_control_factor list"

definition neutral_factor_context :: factor_decision_context where
  "neutral_factor_context = \<lparr>fc_publication_id = None, fc_snapshot_expired = False,
     fc_fail_closed = False,
     fc_reconciliation_health = \<lparr>rh_force_maintenance_mode = False, rh_size_multiplier = 1,
       rh_require_manual_ack = False, rh_source = None\<rparr>,
     fc_market_anomaly = \<lparr>ma_block_market = False, ma_block_event = False,
       ma_manual_ack_required = False, ma_reason_code = None, ma_source = None\<rparr>,
     fc_portfolio_risk = \<lparr>pr_global_size_multiplier = 1, pr_category_size_multiplier = None,
       pr_daily_budget_multiplier = 1, pr_kelly_fraction_multiplier = 1,
       pr_max_open_positions = None, pr_category = None, pr_source = None\<rparr>,
     fc_bucket_size_multiplier = 1, fc_applied_factors = []\<rparr>"

definition is_hard_rejected :: "factor_decision_context \<Rightarrow> bool" where
  "is_hard_rejected c \<longleftrightarrow>
     rh_force_maintenance_mode (fc_reconciliation_health c) \<or> is_blocking (fc_market_anomaly c)"

definition is_snapshot_stale_fail_closed :: "factor_decision_context \<Rightarrow> bool" where
  "is_snapshot_stale_fail_closed c \<longleftrightarrow> fc_snapshot_expired c \<and> fc_fail_closed c"

section \<open>Redeem routing\<close>

datatype standard_redeem_route = SStandardCtf | SCtfCollateralAdapter
datatype neg_risk_redeem_route = NNegRiskLegacyAdapter | NNegRiskCollateralAdapter

datatype resolved_redeem_route =
    StandardCtf | CtfCollateralAdapter | NegRiskLegacyAdapter | NegRiskCollateralAdapter

datatype redeem_resolution_source = Override | ClassStandard | ClassNegRisk

record standard_redeem_policy =
  sr_route :: standard_redeem_route
  sr_holder_address :: "string option"

record neg_risk_redeem_policy =
  nr_route :: neg_risk_redeem_route
  nr_holder_address :: "string option"

datatype redeem_class_policy =
    StandardPolicy standard_redeem_policy
  | NegRiskPolicy neg_risk_redeem_policy

record redeem_routing_policy =
  rp_standard :: "standard_redeem_policy option"
  rp_neg_risk :: "neg_risk_redeem_policy option"
  rp_overrides :: "ident \<rightharpoonup> redeem_class_policy"
  rp_gas_limit :: u64
  rp_matic_usd_price :: decimal

record resolved_redeem_plan =
  rd_route :: resolved_redeem_route
  rd_holder_address :: "string option"
  rd_neg_risk :: bool
  rd_gas_limit :: u64
  rd_resolution :: redeem_resolution_source

fun route_of_standard :: "standard_redeem_route \<Rightarrow> resolved_redeem_route" where
  "route_of_standard SStandardCtf = StandardCtf"
| "route_of_standard SCtfCollateralAdapter = CtfCollateralAdapter"

fun route_of_neg_risk :: "neg_risk_redeem_route \<Rightarrow> resolved_redeem_route" where
  "route_of_neg_risk NNegRiskLegacyAdapter = NegRiskLegacyAdapter"
| "route_of_neg_risk NNegRiskCollateralAdapter = NegRiskCollateralAdapter"

fun expects_neg_risk :: "redeem_class_policy \<Rightarrow> bool" where
  "expects_neg_risk (StandardPolicy p) = False"
| "expects_neg_risk (NegRiskPolicy p) = True"

fun class_policy_holder :: "redeem_class_policy \<Rightarrow> string option" where
  "class_policy_holder (StandardPolicy p) = sr_holder_address p"
| "class_policy_holder (NegRiskPolicy p) = nr_holder_address p"

fun class_policy_route :: "redeem_class_policy \<Rightarrow> resolved_redeem_route" where
  "class_policy_route (StandardPolicy p) = route_of_standard (sr_route p)"
| "class_policy_route (NegRiskPolicy p) = route_of_neg_risk (nr_route p)"

definition plan_from_standard :: "standard_redeem_policy \<Rightarrow> u64 \<Rightarrow> resolved_redeem_plan" where
  "plan_from_standard p gas = \<lparr>rd_route = route_of_standard (sr_route p),
     rd_holder_address = sr_holder_address p, rd_neg_risk = False, rd_gas_limit = gas,
     rd_resolution = ClassStandard\<rparr>"

definition plan_from_neg_risk :: "neg_risk_redeem_policy \<Rightarrow> u64 \<Rightarrow> resolved_redeem_plan" where
  "plan_from_neg_risk p gas = \<lparr>rd_route = route_of_neg_risk (nr_route p),
     rd_holder_address = nr_holder_address p, rd_neg_risk = True, rd_gas_limit = gas,
     rd_resolution = ClassNegRisk\<rparr>"

definition plan_from_policy ::
  "redeem_class_policy \<Rightarrow> bool \<Rightarrow> redeem_resolution_source \<Rightarrow> u64 \<Rightarrow> resolved_redeem_plan" where
  "plan_from_policy p neg_risk res gas = \<lparr>rd_route = class_policy_route p,
     rd_holder_address = class_policy_holder p, rd_neg_risk = neg_risk, rd_gas_limit = gas,
     rd_resolution = res\<rparr>"

definition resolve_redeem ::
  "redeem_routing_policy \<Rightarrow> ident \<Rightarrow> bool \<Rightarrow> resolved_redeem_plan option" where
  "resolve_redeem p market_id neg_risk =
     (case rp_overrides p market_id of
        Some op \<Rightarrow>
          (if expects_neg_risk op \<noteq> neg_risk then None
           else Some (plan_from_policy op neg_risk Override (rp_gas_limit p)))
      | None \<Rightarrow>
          (if neg_risk then map_option (\<lambda>c. plan_from_neg_risk c (rp_gas_limit p)) (rp_neg_risk p)
           else map_option (\<lambda>c. plan_from_standard c (rp_gas_limit p)) (rp_standard p)))"

definition route_is_neg_risk :: "resolved_redeem_route \<Rightarrow> bool" where
  "route_is_neg_risk r \<longleftrightarrow> r = NegRiskLegacyAdapter \<or> r = NegRiskCollateralAdapter"

text \<open>A resolved plan is always of the market's own class: the contract family of its route
  and its \<open>neg_risk\<close> flag agree with the flag asked for, whether it came from an override or
  from a class policy.\<close>

lemma resolve_redeem_class:
  assumes "resolve_redeem p m neg_risk = Some plan"
  shows "rd_neg_risk plan = neg_risk \<and> route_is_neg_risk (rd_route plan) = neg_risk
    \<and> rd_gas_limit plan = rp_gas_limit p"
proof -
  have std: "\<not> route_is_neg_risk (route_of_standard r)" for r
    by (cases r) (simp_all add: route_is_neg_risk_def)
  have neg: "route_is_neg_risk (route_of_neg_risk r)" for r
    by (cases r) (simp_all add: route_is_neg_risk_def)
  have cls: "route_is_neg_risk (class_policy_route c) = expects_neg_risk c" for c
    using std neg by (cases c) simp_all
  from assms show ?thesis
    by (auto simp: resolve_redeem_def plan_from_policy_def plan_from_neg_risk_def
        plan_from_standard_def std neg cls split: option.splits if_splits)
qed

end
