(* ===== verification/Circuit_Breaker.thy ===== *)
theory Circuit_Breaker
  imports Risk_Types
begin

text \<open>
  \<open>oxide-arb-risk/src/circuit_breaker.rs\<close> and the state type of \<open>types.rs\<close>: the five-state
  breaker with four severity levels. The clock of the struct is the instant argument \<open>now\<close>
  of each operation. The step relation \<open>breaker_step\<close> has one rule per public operation;
  the lemmas show which steps can leave a state, that a halt is left by an operator only,
  the exact way back to \<open>Closed\<close>, the back-off formula, and the snapshot round trip.
\<close>

section \<open>State\<close>

datatype breaker_state =
    Closed
  | Open circuit_breaker_level message instant instant
  | HalfOpen circuit_breaker_level instant u32 u32
  | Recovered instant instant
  | Halted circuit_breaker_level message instant

fun to_name :: "breaker_state \<Rightarrow> breaker_state_name" where
  "to_name Closed = NClosed"
| "to_name (Open _ _ _ _) = NOpen"
| "to_name (HalfOpen _ _ _ _) = NHalfOpen"
| "to_name (Recovered _ _) = NRecovered"
| "to_name (Halted _ _ _) = NHalted"

fun allows_trading :: "breaker_state \<Rightarrow> bool" where
  "allows_trading Closed = True"
| "allows_trading (HalfOpen _ _ _ _) = True"
| "allows_trading _ = False"

fun is_probe_mode :: "breaker_state \<Rightarrow> bool" where
  "is_probe_mode (HalfOpen _ _ _ _) = True"
| "is_probe_mode _ = False"

fun is_halted :: "breaker_state \<Rightarrow> bool" where
  "is_halted (Halted _ _ _) = True"
| "is_halted _ = False"

record circuit_breaker =
  cb_config :: circuit_breaker_config
  cb_state :: breaker_state
  cb_l2_trip_count :: u32
  cb_heartbeat_failures :: u32
  cb_last_transition_at :: instant

section \<open>Operations\<close>

definition new_breaker :: "circuit_breaker_config \<Rightarrow> instant \<Rightarrow> circuit_breaker" where
  "new_breaker config now = \<lparr>cb_config = config, cb_state = Closed, cb_l2_trip_count = 0,
     cb_heartbeat_failures = 0, cb_last_transition_at = now\<rparr>"

definition set_config :: "circuit_breaker_config \<Rightarrow> circuit_breaker \<Rightarrow> circuit_breaker" where
  "set_config config cb = cb\<lparr>cb_config := config\<rparr>"

text \<open>\<open>snapshot_at + chrono::Duration::seconds(to_i64(secs).unwrap_or(i64::MAX))\<close>.\<close>

definition after_secs :: "'z libs_scheme \<Rightarrow> instant \<Rightarrow> u64 \<Rightarrow> instant" where
  "after_secs L t secs = add_secs L t (to_i64_or_max secs)"

definition corrupt :: "string \<Rightarrow> string \<Rightarrow> oxide_error" where
  "corrupt st field =
     Internal [Lit (''corrupt breaker snapshot: '' @ st @ '' state missing '' @ field)]"

definition snapshot_state ::
  "'z libs_scheme \<Rightarrow> circuit_breaker_config \<Rightarrow> risk_engine_state \<Rightarrow> oxide_error + breaker_state" where
  "snapshot_state L config s =
     (case es_breaker_state s of
        NClosed \<Rightarrow> Inr Closed
      | NOpen \<Rightarrow>
          (case es_breaker_level s of None \<Rightarrow> Inl (corrupt ''Open'' ''breaker_level'')
           | Some level \<Rightarrow>
          (case es_halt_reason s of None \<Rightarrow> Inl (corrupt ''Open'' ''halt_reason'')
           | Some reason \<Rightarrow>
          (case es_cooldown_until s of None \<Rightarrow> Inl (corrupt ''Open'' ''cooldown_until'')
           | Some cooldown_until \<Rightarrow> Inr (Open level reason (es_snapshot_at s) cooldown_until))))
      | NHalfOpen \<Rightarrow>
          (case es_breaker_level s of None \<Rightarrow> Inl (corrupt ''HalfOpen'' ''breaker_level'')
           | Some level \<Rightarrow> Inr (HalfOpen level (es_snapshot_at s) 0 (cc_half_open_probes config)))
      | NRecovered \<Rightarrow>
          Inr (Recovered (es_snapshot_at s)
                 (after_secs L (es_snapshot_at s) (cc_recovery_observation_secs config)))
      | NHalted \<Rightarrow>
          (case es_breaker_level s of None \<Rightarrow> Inl (corrupt ''Halted'' ''breaker_level'')
           | Some level \<Rightarrow>
          (case es_halt_reason s of None \<Rightarrow> Inl (corrupt ''Halted'' ''halt_reason'')
           | Some reason \<Rightarrow> Inr (Halted level reason (es_snapshot_at s)))))"

definition from_snapshot ::
  "'z libs_scheme \<Rightarrow> circuit_breaker_config \<Rightarrow> risk_engine_state \<Rightarrow> oxide_error + circuit_breaker" where
  "from_snapshot L config s =
     (case snapshot_state L config s of
        Inl e \<Rightarrow> Inl e
      | Inr st \<Rightarrow> Inr \<lparr>cb_config = config, cb_state = st,
                        cb_l2_trip_count = to_u32_or_zero (es_cooldown_multiplier s),
                        cb_heartbeat_failures = 0, cb_last_transition_at = es_snapshot_at s\<rparr>)"

definition cooldown_for_level :: "circuit_breaker \<Rightarrow> circuit_breaker_level \<Rightarrow> u64" where
  "cooldown_for_level cb level =
     (case level of
        Trade \<Rightarrow> cc_l1_cooldown_secs (cb_config cb)
      | Session \<Rightarrow>
          (let base = cc_l2_cooldown_secs (cb_config cb);
               exponent = saturating_sub_u32 (cb_l2_trip_count cb) 1;
               multiplied = saturating_mul_u64 base (saturating_pow2_u64 exponent)
           in min multiplied (cc_max_cooldown_secs (cb_config cb)))
      | Daily \<Rightarrow> cc_l3_cooldown_secs (cb_config cb)
      | System \<Rightarrow> cc_l4_cooldown_secs (cb_config cb))"

fun should_trip :: "circuit_breaker_level \<Rightarrow> breaker_state \<Rightarrow> bool" where
  "should_trip level (Halted _ _ _) = False"
| "should_trip level (Open current _ _ _) = (level \<ge> current)"
| "should_trip level _ = True"

definition trip ::
  "'z libs_scheme \<Rightarrow> instant \<Rightarrow> circuit_breaker_level \<Rightarrow> message \<Rightarrow> circuit_breaker \<Rightarrow> circuit_breaker" where
  "trip L now level reason cb =
     (let cooldown_until = after_secs L now (cooldown_for_level cb level);
          cb1 = (if level = Session then cb\<lparr>cb_l2_trip_count := cb_l2_trip_count cb + 1\<rparr> else cb)
      in if should_trip level (cb_state cb1)
         then cb1\<lparr>cb_state := Open level reason now cooldown_until, cb_last_transition_at := now\<rparr>
         else cb1)"

fun should_halt :: "circuit_breaker_level \<Rightarrow> breaker_state \<Rightarrow> bool" where
  "should_halt level (Halted current _ _) = (level > current)"
| "should_halt level _ = True"

definition halt ::
  "instant \<Rightarrow> circuit_breaker_level \<Rightarrow> message \<Rightarrow> circuit_breaker \<Rightarrow> circuit_breaker" where
  "halt now level reason cb =
     (if should_halt level (cb_state cb)
      then cb\<lparr>cb_state := Halted level reason now, cb_last_transition_at := now\<rparr>
      else cb)"

definition acknowledge_and_resume :: "instant \<Rightarrow> circuit_breaker \<Rightarrow> circuit_breaker \<times> bool" where
  "acknowledge_and_resume now cb =
     (if is_halted (cb_state cb)
      then (cb\<lparr>cb_state := Closed, cb_l2_trip_count := 0, cb_last_transition_at := now\<rparr>, True)
      else (cb, False))"

definition tick :: "instant \<Rightarrow> circuit_breaker \<Rightarrow> circuit_breaker \<times> bool" where
  "tick now cb =
     (case cb_state cb of
        Open level _ _ cooldown_until \<Rightarrow>
          (if now \<ge> cooldown_until
           then (cb\<lparr>cb_state := HalfOpen level now 0 (cc_half_open_probes (cb_config cb)),
                    cb_last_transition_at := now\<rparr>, True)
           else (cb, False))
      | Recovered _ observation_until \<Rightarrow>
          (if now \<ge> observation_until
           then (cb\<lparr>cb_state := Closed, cb_l2_trip_count := 0, cb_last_transition_at := now\<rparr>, True)
           else (cb, False))
      | _ \<Rightarrow> (cb, False))"

definition on_trade_result ::
  "'z libs_scheme \<Rightarrow> instant \<Rightarrow> bool \<Rightarrow> circuit_breaker \<Rightarrow> circuit_breaker" where
  "on_trade_result L now success cb =
     (case cb_state cb of
        HalfOpen level entered_at successful_probes required_probes \<Rightarrow>
          (if success then
             let successful_probes = successful_probes + 1 in
             if successful_probes \<ge> required_probes
             then cb\<lparr>cb_state := Recovered now
                       (after_secs L now (cc_recovery_observation_secs (cb_config cb))),
                     cb_last_transition_at := now\<rparr>
             else cb\<lparr>cb_state := HalfOpen level entered_at successful_probes required_probes\<rparr>
           else
             let cooldown_secs = cooldown_for_level cb level * 2;
                 cooldown_secs = min cooldown_secs (cc_max_cooldown_secs (cb_config cb))
             in cb\<lparr>cb_state := Open level [Lit ''probe trade failed in HalfOpen''] now
                      (after_secs L now cooldown_secs),
                   cb_last_transition_at := now\<rparr>)
      | _ \<Rightarrow> cb)"

definition reset_breaker :: "instant \<Rightarrow> circuit_breaker \<Rightarrow> circuit_breaker" where
  "reset_breaker now cb =
     cb\<lparr>cb_state := Closed, cb_l2_trip_count := 0, cb_last_transition_at := now\<rparr>"

definition on_heartbeat_failure :: "instant \<Rightarrow> u32 \<Rightarrow> circuit_breaker \<Rightarrow> circuit_breaker \<times> bool" where
  "on_heartbeat_failure now max_failures cb =
     (let cb1 = cb\<lparr>cb_heartbeat_failures := saturating_add_u32 (cb_heartbeat_failures cb) 1\<rparr>
      in if cb_heartbeat_failures cb1 \<ge> max_failures
         then (halt now System [PInt (uint (cb_heartbeat_failures cb1)),
                 Lit '' consecutive heartbeat failures''] cb1, True)
         else (cb1, False))"

definition on_heartbeat_success :: "circuit_breaker \<Rightarrow> circuit_breaker" where
  "on_heartbeat_success cb = cb\<lparr>cb_heartbeat_failures := 0\<rparr>"

lemmas breaker_op_defs [breaker_defs] = set_config_def trip_def halt_def acknowledge_and_resume_def
  tick_def on_trade_result_def reset_breaker_def on_heartbeat_failure_def on_heartbeat_success_def

section \<open>The operations as steps\<close>

datatype breaker_event =
    EvSetConfig circuit_breaker_config
  | EvTrip circuit_breaker_level message
  | EvHalt circuit_breaker_level message
  | EvAcknowledge
  | EvTick
  | EvTradeResult bool
  | EvReset
  | EvHeartbeatFailure u32
  | EvHeartbeatSuccess

fun by_operator :: "breaker_event \<Rightarrow> bool" where
  "by_operator EvAcknowledge = True"
| "by_operator EvReset = True"
| "by_operator _ = False"

inductive breaker_step ::
  "'z libs_scheme \<Rightarrow> circuit_breaker \<Rightarrow> instant \<times> breaker_event \<Rightarrow> circuit_breaker \<Rightarrow> bool"
  for L :: "'z libs_scheme" where
  step_set_config: "breaker_step L cb (now, EvSetConfig c) (set_config c cb)"
| step_trip: "breaker_step L cb (now, EvTrip l r) (trip L now l r cb)"
| step_halt: "breaker_step L cb (now, EvHalt l r) (halt now l r cb)"
| step_ack: "breaker_step L cb (now, EvAcknowledge) (fst (acknowledge_and_resume now cb))"
| step_tick: "breaker_step L cb (now, EvTick) (fst (tick now cb))"
| step_result: "breaker_step L cb (now, EvTradeResult ok) (on_trade_result L now ok cb)"
| step_reset: "breaker_step L cb (now, EvReset) (reset_breaker now cb)"
| step_hb_failure: "breaker_step L cb (now, EvHeartbeatFailure m) (fst (on_heartbeat_failure now m cb))"
| step_hb_success: "breaker_step L cb (now, EvHeartbeatSuccess) (on_heartbeat_success cb)"

inductive breaker_run ::
  "'z libs_scheme \<Rightarrow> circuit_breaker \<Rightarrow> (instant \<times> breaker_event) list \<Rightarrow> circuit_breaker \<Rightarrow> bool"
  for L :: "'z libs_scheme" where
  run_nil: "breaker_run L cb [] cb"
| run_cons: "breaker_step L cb e cb1 \<Longrightarrow> breaker_run L cb1 es cb2 \<Longrightarrow> breaker_run L cb (e # es) cb2"

inductive_cases breaker_stepE: "breaker_step L cb e cb'"
inductive_simps breaker_run_nil [simp]: "breaker_run L cb [] cb'"
inductive_simps breaker_run_cons: "breaker_run L cb (e # es) cb'"

section \<open>Halts\<close>

text \<open>The level a halted breaker is held at.\<close>

fun halt_level :: "breaker_state \<Rightarrow> circuit_breaker_level option" where
  "halt_level (Halted l _ _) = Some l"
| "halt_level _ = None"

lemma halted_no_trading: "halt_level s = Some l \<Longrightarrow> \<not> allows_trading s"
  by (cases s) simp_all

lemma is_halted_level: "is_halted s \<longleftrightarrow> (\<exists>l. halt_level s = Some l)"
  by (cases s) simp_all

lemma halt_halts: "\<exists>l'. halt_level (cb_state (halt now l r cb)) = Some l' \<and> l \<le> l'"
  by (cases "cb_state cb") (auto simp: halt_def)

lemma step_halt_level:
  assumes "breaker_step L cb (now, ev) cb'" "halt_level (cb_state cb) = Some l" "\<not> by_operator ev"
  shows "\<exists>l'. halt_level (cb_state cb') = Some l' \<and> l \<le> l'"
proof -
  obtain r t where "cb_state cb = Halted l r t"
    using assms(2) by (cases "cb_state cb") auto
  then show ?thesis using assms(1,3)
    by (cases rule: breaker_stepE) (auto simp: breaker_defs Let_def)
qed

lemma run_halt_level:
  assumes "breaker_run L cb es cb'" "halt_level (cb_state cb) = Some l"
    "\<forall>(now, ev) \<in> set es. \<not> by_operator ev"
  shows "\<exists>l'. halt_level (cb_state cb') = Some l' \<and> l \<le> l'"
  using assms
proof (induction arbitrary: l rule: breaker_run.induct)
  case (run_cons cb e cb1 es cb2)
  obtain l1 where "halt_level (cb_state cb1) = Some l1" "l \<le> l1"
    using step_halt_level [of L cb "fst e" "snd e" cb1 l] run_cons by (cases e) auto
  with run_cons show ?case by (fastforce intro: order_trans)
qed simp

text \<open>C10: A halt is sticky. Whatever sequence of trips, further halts, ticks, trade results,
  heartbeats and configuration reloads a halted breaker goes through, as long as no operator
  acknowledges or resets it, it stays halted, does not allow trading, and the halt level never
  goes down.\<close>

theorem halt_is_sticky:
  assumes "breaker_run L cb es cb'" "halt_level (cb_state cb) = Some l"
    "\<forall>(now, ev) \<in> set es. \<not> by_operator ev"
  shows "\<exists>l'. halt_level (cb_state cb') = Some l' \<and> l \<le> l' \<and> \<not> allows_trading (cb_state cb')"
  using run_halt_level [OF assms] halted_no_trading by blast

text \<open>An L3 halt, an acknowledged-by-nobody trip, three failed heartbeats and a tick.\<close>

definition demo_config :: circuit_breaker_config where
  "demo_config = default_circuit_breaker_config"

definition demo_halted :: circuit_breaker where
  "demo_halted = halt 0 Daily [Lit ''daily loss''] (new_breaker demo_config 0)"

definition demo_halted_after :: circuit_breaker where
  "demo_halted_after = fst (tick 9 (fst (on_heartbeat_failure 8 1 (trip utc_libs 7 Session [] demo_halted))))"

lemma demo_halted_run:
  "breaker_run utc_libs demo_halted
     [(7, EvTrip Session []), (8, EvHeartbeatFailure 1), (9, EvTick)] demo_halted_after"
  unfolding demo_halted_after_def
  by (rule run_cons [OF step_trip run_cons [OF step_hb_failure run_cons [OF step_tick run_nil]]])

theorem halt_is_sticky_witness:
  "(\<exists>l'. halt_level (cb_state demo_halted_after) = Some l' \<and> Daily \<le> l'
      \<and> \<not> allows_trading (cb_state demo_halted_after))
   \<and> halt_level (cb_state demo_halted) = Some Daily"
proof -
  have lvl: "halt_level (cb_state demo_halted) = Some Daily"
    by (simp add: demo_halted_def halt_def new_breaker_def)
  show ?thesis
    using halt_is_sticky [OF demo_halted_run lvl] lvl by simp
qed

section \<open>How trading resumes\<close>

lemma step_resumes:
  assumes "breaker_step L cb (now, ev) cb'" "\<not> allows_trading (cb_state cb)"
    "allows_trading (cb_state cb')" "\<not> by_operator ev"
  shows "(\<exists>l r t c. cb_state cb = Open l r t c \<and> c \<le> now \<and> ev = EvTick \<and>
            cb_state cb' = HalfOpen l now 0 (cc_half_open_probes (cb_config cb)))
       \<or> (\<exists>t u. cb_state cb = Recovered t u \<and> u \<le> now \<and> ev = EvTick \<and>
            cb_state cb' = Closed \<and> cb_l2_trip_count cb' = 0)"
  using assms
  by (cases rule: breaker_stepE; cases "cb_state cb")
     (auto simp: breaker_defs Let_def split: if_splits)

text \<open>C11: Trading resumes only where it may. A step that takes the breaker from a state that
  blocks trading to one that allows it is an operator's acknowledgement of a halt, an
  operator's reset, or a tick: a tick at or after the cooldown deadline of an open breaker
  (which then waits for the configured probes, none counted yet), or a tick at or after the end of
  the observation period of a recovered one.\<close>

theorem trading_resumes_only:
  assumes "breaker_step L cb (now, ev) cb'" "\<not> allows_trading (cb_state cb)"
    "allows_trading (cb_state cb')"
  shows "ev = EvReset \<or> (ev = EvAcknowledge \<and> is_halted (cb_state cb))
     \<or> (ev = EvTick \<and>
         ((\<exists>l r t c. cb_state cb = Open l r t c \<and> c \<le> now \<and>
            cb_state cb' = HalfOpen l now 0 (cc_half_open_probes (cb_config cb)))
        \<or> (\<exists>t u. cb_state cb = Recovered t u \<and> u \<le> now \<and>
            cb_state cb' = Closed \<and> cb_l2_trip_count cb' = 0)))"
proof (cases "by_operator ev")
  case False
  then show ?thesis using step_resumes [OF assms False] by blast
next
  case True
  have "is_halted (cb_state cb)" if "ev = EvAcknowledge"
    using assms that by (cases rule: breaker_stepE) (auto simp: acknowledge_and_resume_def split: if_splits)
  with True show ?thesis by (cases ev) auto
qed

definition demo_open :: circuit_breaker where
  "demo_open = trip utc_libs 0 Session [Lit ''misses''] (new_breaker demo_config 0)"

lemma demo_open_state:
  "cb_state demo_open = Open Session [Lit ''misses''] 0 900000000000"
  by (simp add: demo_open_def trip_def new_breaker_def demo_config_def cooldown_for_level_def
      after_secs_def to_i64_or_max_def saturating_sub_u32_def saturating_pow2_u64_def
      saturating_mul_u64_def config_defaults utc_libs_simps)

theorem trading_resumes_only_witness:
  "allows_trading (cb_state (fst (tick 900000000000 demo_open)))
   \<and> (\<exists>l r t c. cb_state demo_open = Open l r t c \<and> c \<le> 900000000000)"
proof -
  have on: "allows_trading (cb_state (fst (tick 900000000000 demo_open)))"
    by (simp add: tick_def demo_open_state)
  show ?thesis
    using trading_resumes_only [OF step_tick [of utc_libs demo_open 900000000000]] on
    by (auto simp: demo_open_state)
qed

section \<open>Well-formedness and recovery\<close>

text \<open>The probe counter of a half-open breaker never reaches the number required: the state
  is left at that moment, so the \<open>u32\<close> counter cannot wrap.\<close>

fun breaker_wf :: "breaker_state \<Rightarrow> bool" where
  "breaker_wf (HalfOpen _ _ successful required) = (successful = 0 \<or> successful < required)"
| "breaker_wf _ = True"

lemma step_wf:
  assumes "breaker_step L cb e cb'" "breaker_wf (cb_state cb)"
  shows "breaker_wf (cb_state cb')"
  using assms
  by (cases rule: breaker_stepE; cases "cb_state cb")
     (auto simp: breaker_defs Let_def not_le split: if_splits)

lemma run_wf:
  "breaker_run L cb es cb' \<Longrightarrow> breaker_wf (cb_state cb) \<Longrightarrow> breaker_wf (cb_state cb')"
  by (induction rule: breaker_run.induct) (auto dest: step_wf)

lemma from_snapshot_wf: "from_snapshot L config s = Inr cb \<Longrightarrow> breaker_wf (cb_state cb)"
  by (auto simp: from_snapshot_def snapshot_state_def
      split: sum.splits breaker_state_name.splits option.splits)

text \<open>Successful probes in a row, at the instants of a list.\<close>

definition probes :: "'z libs_scheme \<Rightarrow> instant list \<Rightarrow> circuit_breaker \<Rightarrow> circuit_breaker" where
  "probes L ts cb = fold (\<lambda>t. on_trade_result L t True) ts cb"

lemma unat_Suc_lt: "unat (s :: u32) + Suc n < unat (r :: u32) \<Longrightarrow> unat (s + 1) = Suc (unat s)"
  using unat_u32_less [of r] by (simp add: unat_word_ariths)

lemma probes_pending:
  assumes "cb_state cb = HalfOpen l t s r" "unat s + length ts < unat r"
  shows "\<exists>s'. unat s' = unat s + length ts \<and> probes L ts cb = cb\<lparr>cb_state := HalfOpen l t s' r\<rparr>"
  using assms
proof (induction ts arbitrary: cb s)
  case Nil
  then show ?case by (intro exI [of _ s]) (cases cb, simp add: probes_def)
next
  case (Cons u ts)
  have u: "unat (s + 1) = Suc (unat s)" using unat_Suc_lt [of s "length ts" r] Cons.prems by simp
  then have "\<not> s + 1 \<ge> r" using Cons.prems by (simp add: word_le_nat_alt)
  then have "on_trade_result L u True cb = cb\<lparr>cb_state := HalfOpen l t (s + 1) r\<rparr>"
    using Cons.prems by (simp add: on_trade_result_def Let_def)
  then show ?case
    using Cons.IH [of "cb\<lparr>cb_state := HalfOpen l t (s + 1) r\<rparr>" "s + 1"] Cons.prems u
    by (simp add: probes_def)
qed

lemma probes_complete:
  assumes "cb_state cb = HalfOpen l t 0 r" "length ts = max 1 (unat r)"
  shows "probes L ts cb = cb\<lparr>cb_state := Recovered (last ts)
           (after_secs L (last ts) (cc_recovery_observation_secs (cb_config cb))),
         cb_last_transition_at := last ts\<rparr>"
proof -
  obtain us u where ts: "ts = us @ [u]" using assms(2) by (cases ts rule: rev_cases) auto
  have "\<exists>s'. unat s' = length us \<and> probes L us cb = cb\<lparr>cb_state := HalfOpen l t s' r\<rparr>"
  proof (cases "unat r = 0")
    case True
    then have "us = []" using assms(2) ts by simp
    then show ?thesis using assms(1) by (intro exI [of _ 0]) (cases cb, simp add: probes_def)
  next
    case False
    then show ?thesis using probes_pending [of cb l t 0 r us L] assms ts by simp
  qed
  then obtain s' where s': "unat s' = length us" "probes L us cb = cb\<lparr>cb_state := HalfOpen l t s' r\<rparr>"
    by blast
  have "s' + 1 \<ge> r"
  proof (cases "unat r = 0")
    case False
    then have "Suc (unat s') = unat r" using assms(2) ts s' by simp
    then have "unat (s' + 1) = unat r" using unat_u32_less [of r] by (simp add: unat_word_ariths)
    then show ?thesis by (simp add: word_le_nat_alt)
  qed (simp add: word_le_nat_alt)
  then show ?thesis using s'(2) by (simp add: probes_def ts on_trade_result_def Let_def)
qed



section \<open>Session back-off\<close>

lemma unat_min_word: "unat (min a b) = min (unat a) (unat b)"
  by (simp add: min_def word_le_nat_alt)

lemma min_mul_cap:
  fixes b e m M :: nat
  assumes "m \<le> M"
  shows "min (min (b * min e M) M) m = min (b * e) m"
proof (cases "b = 0 \<or> e \<le> M")
  case True
  then show ?thesis using assms by auto
next
  case False
  then have b: "1 \<le> b" and e: "M \<le> e" by simp_all
  have "M \<le> b * M" using mult_le_mono1 [OF b, of M] by simp
  moreover have "M \<le> b * e" using mult_le_mono [OF b e] by simp
  ultimately show ?thesis using e assms by (simp add: min.absorb2)
qed

lemma unat_cooldown_session:
  "unat (cooldown_for_level cb Session) =
     min (unat (cc_l2_cooldown_secs (cb_config cb)) * 2 ^ (unat (cb_l2_trip_count cb) - 1))
         (unat (cc_max_cooldown_secs (cb_config cb)))"
  using min_mul_cap [of "unat (cc_max_cooldown_secs (cb_config cb))" "2 ^ 64 - 1"]
    unat_u64_less [of "cc_max_cooldown_secs (cb_config cb)"]
  by (simp add: cooldown_for_level_def Let_def unat_min_word unat_saturating_mul_u64
      unat_saturating_pow2_u64 unat_saturating_sub_u32)

definition trips :: "'z libs_scheme \<Rightarrow> (instant \<times> message) list \<Rightarrow> circuit_breaker \<Rightarrow> circuit_breaker" where
  "trips L evs cb = fold (\<lambda>(t, r). trip L t Session r) evs cb"

fun session_trippable :: "breaker_state \<Rightarrow> bool" where
  "session_trippable (Halted _ _ _) = False"
| "session_trippable (Open l _ _ _) = (l \<le> Session)"
| "session_trippable _ = True"

lemma trip_session:
  assumes "session_trippable (cb_state cb)"
  shows "trip L t Session r cb =
    cb\<lparr>cb_l2_trip_count := cb_l2_trip_count cb + 1,
       cb_state := Open Session r t (after_secs L t (cooldown_for_level cb Session)),
       cb_last_transition_at := t\<rparr>"
  using assms by (cases "cb_state cb") (simp_all add: trip_def Let_def)

lemma trips_count:
  assumes "session_trippable (cb_state cb)" "unat (cb_l2_trip_count cb) + length evs < 2 ^ 32"
  shows "unat (cb_l2_trip_count (trips L evs cb)) = unat (cb_l2_trip_count cb) + length evs
    \<and> cb_config (trips L evs cb) = cb_config cb \<and> session_trippable (cb_state (trips L evs cb))"
  using assms
proof (induction evs arbitrary: cb)
  case (Cons e evs)
  obtain t r where e: "e = (t, r)" by (cases e)
  have "unat (cb_l2_trip_count cb + 1) = unat (cb_l2_trip_count cb) + 1"
    using Cons.prems by (simp add: unat_word_ariths)
  then show ?case
    using Cons.IH [of "trip L t Session r cb"] Cons.prems e trip_session [of cb L t r]
    by (simp add: trips_def)
qed (simp add: trips_def)



section \<open>Restart\<close>

text \<open>C14: Restoring the breaker is fail-closed. It fails exactly when the snapshot lacks a field its
  state needs; otherwise the restored breaker is in the persisted state with the persisted level,
  reason and cooldown deadline, so an open, recovered or halted breaker never
  comes back in a state that allows trading.\<close>

theorem from_snapshot_fail_closed:
  "case from_snapshot L config s of
     Inl e \<Rightarrow> (\<exists>m. e = Internal m) \<and>
       (es_breaker_state s \<in> {NOpen, NHalfOpen, NHalted} \<and> es_breaker_level s = None
        \<or> es_breaker_state s \<in> {NOpen, NHalted} \<and> es_halt_reason s = None
        \<or> es_breaker_state s = NOpen \<and> es_cooldown_until s = None)
   | Inr cb \<Rightarrow> to_name (cb_state cb) = es_breaker_state s \<and> breaker_wf (cb_state cb)
       \<and> (case es_breaker_state s of
            NClosed \<Rightarrow> cb_state cb = Closed
          | NOpen \<Rightarrow> (\<exists>l r c. es_breaker_level s = Some l \<and> es_halt_reason s = Some r
              \<and> es_cooldown_until s = Some c \<and> cb_state cb = Open l r (es_snapshot_at s) c)
          | NHalfOpen \<Rightarrow> (\<exists>l. es_breaker_level s = Some l
              \<and> cb_state cb = HalfOpen l (es_snapshot_at s) 0 (cc_half_open_probes config))
          | NRecovered \<Rightarrow> cb_state cb = Recovered (es_snapshot_at s)
              (after_secs L (es_snapshot_at s) (cc_recovery_observation_secs config))
          | NHalted \<Rightarrow> (\<exists>l r. es_breaker_level s = Some l \<and> es_halt_reason s = Some r
              \<and> cb_state cb = Halted l r (es_snapshot_at s)))
       \<and> (allows_trading (cb_state cb) \<longleftrightarrow> es_breaker_state s \<in> {NClosed, NHalfOpen})"
  by (cases "es_breaker_state s"; cases "es_breaker_level s"; cases "es_halt_reason s";
      cases "es_cooldown_until s")
     (simp_all add: from_snapshot_def snapshot_state_def corrupt_def)

section \<open>Heartbeats\<close>

lemma heartbeat_halts:
  assumes "cb_heartbeat_failures cb = saturating_sub_u32 m 1"
  shows "snd (on_heartbeat_failure now m cb) \<and>
    halt_level (cb_state (fst (on_heartbeat_failure now m cb))) = Some System"
proof -
  have "m \<le> saturating_add_u32 (saturating_sub_u32 m 1) 1"
    using unat_u32_less [of m]
    by (simp add: word_le_nat_alt unat_saturating_add_u32 unat_saturating_sub_u32)
  then show ?thesis
    using assms halt_halts [of now System]
    by (auto simp: on_heartbeat_failure_def Let_def)
qed

end
