(* ===== verification/Accounting.thy ===== *)
theory Accounting
  imports Risk_Types "HOL-Library.Product_Lexorder"
begin

text \<open>
  \<open>oxide-arb-risk/src/accounting\<close>: the daily, weekly and hourly accounting windows with
  their rollover. The clock of the structs is the instant argument \<open>now\<close> (\<open>today\<close> is its UTC date).
  The locale \<open>window\<close> is the contract the three share: a trade is added to the
  statistics of the current period, and a trade of a later period starts from empty ones. Its client
  lemma says that the statistics after any history are those of the trades
  of the last period alone.
\<close>

record period_stats =
  ps_loss :: usd
  ps_fees :: usd
  ps_pnl :: usd
  ps_trade_count :: u32
  ps_success_count :: u32
  ps_miss_count :: u32
  ps_max_single_loss :: usd
  ps_max_single_profit :: usd

definition default_stats :: period_stats where
  "default_stats = \<lparr>ps_loss = 0, ps_fees = 0, ps_pnl = 0, ps_trade_count = 0, ps_success_count = 0,
     ps_miss_count = 0, ps_max_single_loss = 0, ps_max_single_profit = 0\<rparr>"

text \<open>The part of \<open>record_trade\<close> common to the three windows: the counters and sums.\<close>

definition count_trade ::
  "'z decimal_ops_scheme \<Rightarrow> usd \<Rightarrow> usd \<Rightarrow> trade_business_outcome \<Rightarrow> period_stats \<Rightarrow> period_stats" where
  "count_trade D net_profit fees outcome s =
     (let s1 = s\<lparr>ps_trade_count := ps_trade_count s + 1,
                 ps_pnl := dec_add D (ps_pnl s) net_profit,
                 ps_fees := dec_add D (ps_fees s) fees\<rparr>
      in case outcome of
           Success \<Rightarrow> s1\<lparr>ps_success_count := ps_success_count s1 + 1\<rparr>
         | Miss \<Rightarrow> s1\<lparr>ps_miss_count := ps_miss_count s1 + 1\<rparr>
         | Failed \<Rightarrow> s1)"

definition count_extremes :: "'z decimal_ops_scheme \<Rightarrow> usd \<Rightarrow> period_stats \<Rightarrow> period_stats" where
  "count_extremes D net_profit s =
     (if net_profit < 0
      then let abs_loss = \<bar>net_profit\<bar> in
           s\<lparr>ps_loss := dec_add D (ps_loss s) abs_loss,
             ps_max_single_loss := max (ps_max_single_loss s) abs_loss\<rparr>
      else s\<lparr>ps_max_single_profit := max (ps_max_single_profit s) net_profit\<rparr>)"

section \<open>Daily\<close>

record daily_accounting =
  da_window_start :: date
  da_stats :: period_stats
  da_budget_remaining :: usd
  da_initial_budget :: usd

definition new_daily :: "'z libs_scheme \<Rightarrow> instant \<Rightarrow> usd \<Rightarrow> daily_accounting" where
  "new_daily L now budget = \<lparr>da_window_start = date_naive L now, da_stats = default_stats,
     da_budget_remaining = budget, da_initial_budget = budget\<rparr>"

definition daily_from_snapshot ::
  "'z libs_scheme \<Rightarrow> date \<Rightarrow> period_stats \<Rightarrow> usd \<Rightarrow> usd \<Rightarrow> daily_accounting" where
  "daily_from_snapshot L window_start stats budget spent =
     \<lparr>da_window_start = window_start, da_stats = stats,
      da_budget_remaining = dec_sub L budget spent, da_initial_budget = budget\<rparr>"

definition budget_spent :: "'z libs_scheme \<Rightarrow> daily_accounting \<Rightarrow> usd" where
  "budget_spent L d = dec_sub L (da_initial_budget d) (da_budget_remaining d)"

definition set_budget :: "'z libs_scheme \<Rightarrow> usd \<Rightarrow> daily_accounting \<Rightarrow> daily_accounting" where
  "set_budget L budget d =
     (let spent = budget_spent L d in
      d\<lparr>da_initial_budget := budget, da_budget_remaining := max (dec_sub L budget spent) 0\<rparr>)"

definition daily_maybe_rollover ::
  "'z libs_scheme \<Rightarrow> instant \<Rightarrow> daily_accounting \<Rightarrow> daily_accounting \<times> bool" where
  "daily_maybe_rollover L now d =
     (let today = date_naive L now in
      if today > da_window_start d
      then (d\<lparr>da_window_start := today, da_stats := default_stats,
              da_budget_remaining := da_initial_budget d\<rparr>, True)
      else (d, False))"

definition daily_record_trade ::
  "'z libs_scheme \<Rightarrow> instant \<Rightarrow> usd \<Rightarrow> usd \<Rightarrow> usd \<Rightarrow> trade_business_outcome \<Rightarrow>
   daily_accounting \<Rightarrow> daily_accounting \<times> bool" where
  "daily_record_trade L now net_profit fees cost outcome d =
     (let (d1, rolled) = daily_maybe_rollover L now d;
          s = count_extremes L net_profit (count_trade L net_profit fees outcome (da_stats d1))
      in (d1\<lparr>da_stats := s, da_budget_remaining := dec_sub L (da_budget_remaining d1) cost\<rparr>, rolled))"

definition is_budget_exhausted :: "daily_accounting \<Rightarrow> bool" where
  "is_budget_exhausted d \<longleftrightarrow> da_budget_remaining d \<le> 0"

section \<open>Hourly\<close>

record hourly_accounting =
  ha_window_start_hour :: u32
  ha_window_start_date :: date
  ha_stats :: period_stats

definition new_hourly :: "'z libs_scheme \<Rightarrow> instant \<Rightarrow> hourly_accounting" where
  "new_hourly L now = \<lparr>ha_window_start_hour = hour L now,
     ha_window_start_date = date_naive L now, ha_stats = default_stats\<rparr>"

definition hourly_from_snapshot :: "u32 \<Rightarrow> date \<Rightarrow> period_stats \<Rightarrow> hourly_accounting" where
  "hourly_from_snapshot h date stats =
     \<lparr>ha_window_start_hour = h, ha_window_start_date = date, ha_stats = stats\<rparr>"

definition should_rollover :: "'z libs_scheme \<Rightarrow> instant \<Rightarrow> hourly_accounting \<Rightarrow> bool" where
  "should_rollover L now h \<longleftrightarrow>
     date_naive L now \<noteq> ha_window_start_date h \<or> hour L now \<noteq> ha_window_start_hour h"

definition hourly_maybe_rollover ::
  "'z libs_scheme \<Rightarrow> instant \<Rightarrow> hourly_accounting \<Rightarrow> hourly_accounting \<times> bool" where
  "hourly_maybe_rollover L now h =
     (if should_rollover L now h
      then (h\<lparr>ha_window_start_hour := hour L now, ha_window_start_date := date_naive L now,
              ha_stats := default_stats\<rparr>, True)
      else (h, False))"

definition hourly_record_trade ::
  "'z libs_scheme \<Rightarrow> instant \<Rightarrow> usd \<Rightarrow> usd \<Rightarrow> trade_business_outcome \<Rightarrow>
   hourly_accounting \<Rightarrow> hourly_accounting \<times> bool" where
  "hourly_record_trade L now net_profit fees outcome h =
     (let (h1, rolled) = hourly_maybe_rollover L now h
      in (h1\<lparr>ha_stats := count_extremes L net_profit
                (count_trade L net_profit fees outcome (ha_stats h1))\<rparr>, rolled))"

definition hourly_window_start :: "'z libs_scheme \<Rightarrow> hourly_accounting \<Rightarrow> instant" where
  "hourly_window_start L h = and_hms_utc L (ha_window_start_date h) (ha_window_start_hour h)"

section \<open>Weekly\<close>

record weekly_accounting =
  wa_week_start :: date
  wa_stats :: period_stats

definition current_monday :: "'z libs_scheme \<Rightarrow> instant \<Rightarrow> date" where
  "current_monday L now =
     (let today = date_naive L now
      in sub_days L today (uint (num_days_from_monday L today)))"

definition new_weekly :: "'z libs_scheme \<Rightarrow> instant \<Rightarrow> weekly_accounting" where
  "new_weekly L now = \<lparr>wa_week_start = current_monday L now, wa_stats = default_stats\<rparr>"

definition weekly_from_snapshot :: "date \<Rightarrow> period_stats \<Rightarrow> weekly_accounting" where
  "weekly_from_snapshot week_start stats = \<lparr>wa_week_start = week_start, wa_stats = stats\<rparr>"

definition weekly_maybe_rollover ::
  "'z libs_scheme \<Rightarrow> instant \<Rightarrow> weekly_accounting \<Rightarrow> weekly_accounting \<times> bool" where
  "weekly_maybe_rollover L now w =
     (let monday = current_monday L now in
      if monday > wa_week_start w
      then (w\<lparr>wa_week_start := monday, wa_stats := default_stats\<rparr>, True)
      else (w, False))"

definition weekly_record_trade ::
  "'z libs_scheme \<Rightarrow> instant \<Rightarrow> usd \<Rightarrow> usd \<Rightarrow> trade_business_outcome \<Rightarrow>
   weekly_accounting \<Rightarrow> weekly_accounting \<times> bool" where
  "weekly_record_trade L now net_profit fees outcome w =
     (let (w1, rolled) = weekly_maybe_rollover L now w;
          s = count_trade L net_profit fees outcome (wa_stats w1)
      in (w1\<lparr>wa_stats := (if net_profit < 0
               then s\<lparr>ps_loss := dec_add L (ps_loss s) \<bar>net_profit\<bar>\<rparr> else s)\<rparr>, rolled))"

section \<open>The contract of a window\<close>

text \<open>A recorded trade, and the sums and counters it adds to. The extremes are not part of the
  contract: the weekly window does not keep them.\<close>

record trade_entry =
  te_at :: instant
  te_profit :: usd
  te_fees :: usd
  te_cost :: usd
  te_outcome :: trade_business_outcome

definition core :: "period_stats \<Rightarrow> period_stats" where
  "core s = s\<lparr>ps_max_single_loss := 0, ps_max_single_profit := 0\<rparr>"

definition core_add :: "'z decimal_ops_scheme \<Rightarrow> trade_entry \<Rightarrow> period_stats \<Rightarrow> period_stats" where
  "core_add D e s =
     (let s1 = count_trade D (te_profit e) (te_fees e) (te_outcome e) s
      in if te_profit e < 0 then s1\<lparr>ps_loss := dec_add D (ps_loss s1) \<bar>te_profit e\<bar>\<rparr> else s1)"

lemma core_default [simp]: "core default_stats = default_stats"
  by (simp add: core_def default_stats_def)

lemma core_count [simp]:
  "core (count_extremes D (te_profit e) (count_trade D (te_profit e) (te_fees e) (te_outcome e) s))
     = core_add D e (core s)"
  by (simp add: core_def core_add_def count_extremes_def count_trade_def Let_def
      split: trade_business_outcome.splits)

lemma core_weekly [simp]:
  "core (let s1 = count_trade D (te_profit e) (te_fees e) (te_outcome e) s
         in if te_profit e < 0 then s1\<lparr>ps_loss := dec_add D (ps_loss s1) \<bar>te_profit e\<bar>\<rparr> else s1)
     = core_add D e (core s)"
  by (simp add: core_def core_add_def count_trade_def Let_def
      split: trade_business_outcome.splits)

text \<open>The window after a list of trades.\<close>

definition run_trades :: "(trade_entry \<Rightarrow> 'w \<Rightarrow> 'w \<times> bool) \<Rightarrow> trade_entry list \<Rightarrow> 'w \<Rightarrow> 'w" where
  "run_trades rec_trade es w = fold (\<lambda>e w. fst (rec_trade e w)) es w"

locale window =
  fixes D :: "'z decimal_ops_scheme"
    and key :: "instant \<Rightarrow> 'k :: linorder"
    and wkey :: "'w \<Rightarrow> 'k"
    and stats :: "'w \<Rightarrow> period_stats"
    and rec_trade :: "trade_entry \<Rightarrow> 'w \<Rightarrow> 'w \<times> bool"
  assumes rec_same: "key (te_at e) = wkey w \<Longrightarrow> \<not> snd (rec_trade e w)
      \<and> core (stats (fst (rec_trade e w))) = core_add D e (core (stats w))
      \<and> wkey (fst (rec_trade e w)) = wkey w"
    and rec_next: "wkey w < key (te_at e) \<Longrightarrow> snd (rec_trade e w)
      \<and> core (stats (fst (rec_trade e w))) = core_add D e default_stats
      \<and> wkey (fst (rec_trade e w)) = key (te_at e)"
begin

lemma rec_key: "wkey w \<le> key (te_at e) \<Longrightarrow> wkey (fst (rec_trade e w)) = key (te_at e)"
  using rec_same [of e w] rec_next [of w e] by (auto simp: order.order_iff_strict)

lemma run_snoc: "run_trades rec_trade (es @ [e]) w = fst (rec_trade e (run_trades rec_trade es w))"
  by (simp add: run_trades_def)

lemma run_key:
  assumes "sorted (map (\<lambda>e. key (te_at e)) es)" "\<forall>e \<in> set es. wkey w \<le> key (te_at e)"
  shows "wkey (run_trades rec_trade es w) = (if es = [] then wkey w else key (te_at (last es)))"
  using assms
proof (induction es rule: rev_induct)
  case (snoc e es)
  then have "wkey (run_trades rec_trade es w) \<le> key (te_at e)"
    by (auto simp: sorted_append split: if_splits)
  then show ?case by (simp add: run_snoc rec_key)
qed (simp add: run_trades_def)

lemma run_stats:
  assumes "sorted (map (\<lambda>e. key (te_at e)) es)" "\<forall>e \<in> set es. wkey w \<le> key (te_at e)"
  shows "core (stats (run_trades rec_trade es w)) =
    fold (core_add D) (filter (\<lambda>e. key (te_at e) = wkey (run_trades rec_trade es w)) es)
      (if wkey (run_trades rec_trade es w) = wkey w then core (stats w) else default_stats)"
  using assms
proof (induction es rule: rev_induct)
  case Nil
  then show ?case by (simp add: run_trades_def)
next
  case (snoc e es)
  define v where "v = run_trades rec_trade es w"
  have k: "wkey v = (if es = [] then wkey w else key (te_at (last es)))"
    using run_key [of es w] snoc.prems by (simp add: v_def sorted_append)
  have le: "\<forall>x \<in> set es. key (te_at x) \<le> wkey v"
    using snoc.prems k by (cases es rule: rev_cases) (auto simp: sorted_append)
  have ge: "wkey w \<le> wkey v" using snoc.prems k by (auto split: if_splits)
  have ve: "wkey v \<le> key (te_at e)"
    using snoc.prems k by (auto simp: sorted_append split: if_splits)
  have IH: "core (stats v) = fold (core_add D) (filter (\<lambda>e. key (te_at e) = wkey v) es)
      (if wkey v = wkey w then core (stats w) else default_stats)"
    using snoc by (simp add: v_def sorted_append)
  have new: "wkey (run_trades rec_trade (es @ [e]) w) = key (te_at e)" "run_trades rec_trade (es @ [e]) w = fst (rec_trade e v)"
    using rec_key [OF ve] by (simp_all add: run_snoc v_def)
  show ?case
  proof (cases "wkey v = key (te_at e)")
    case True
    then show ?thesis using rec_same [of e v] IH new by simp
  next
    case False
    with ve have lt: "wkey v < key (te_at e)" by simp
    have "filter (\<lambda>x. key (te_at x) = key (te_at e)) es = []"
      using le lt by (fastforce simp: filter_empty_conv)
    moreover have "key (te_at e) \<noteq> wkey w" using ge lt by auto
    ultimately show ?thesis using rec_next [OF lt] new by simp
  qed
qed

end

text \<open>The three windows are instances, whatever the calendar library does.\<close>

definition daily_rec :: "'z libs_scheme \<Rightarrow> trade_entry \<Rightarrow> daily_accounting \<Rightarrow> daily_accounting \<times> bool" where
  "daily_rec L e = daily_record_trade L (te_at e) (te_profit e) (te_fees e) (te_cost e) (te_outcome e)"

definition hourly_rec :: "'z libs_scheme \<Rightarrow> trade_entry \<Rightarrow> hourly_accounting \<Rightarrow> hourly_accounting \<times> bool" where
  "hourly_rec L e = hourly_record_trade L (te_at e) (te_profit e) (te_fees e) (te_outcome e)"

definition weekly_rec :: "'z libs_scheme \<Rightarrow> trade_entry \<Rightarrow> weekly_accounting \<Rightarrow> weekly_accounting \<times> bool" where
  "weekly_rec L e = weekly_record_trade L (te_at e) (te_profit e) (te_fees e) (te_outcome e)"

definition hourly_key :: "'z libs_scheme \<Rightarrow> instant \<Rightarrow> date \<times> u32" where
  "hourly_key L t = (date_naive L t, hour L t)"

definition hourly_wkey :: "hourly_accounting \<Rightarrow> date \<times> u32" where
  "hourly_wkey h = (ha_window_start_date h, ha_window_start_hour h)"

interpretation daily: window L "date_naive L" da_window_start da_stats "daily_rec L" for L
  by unfold_locales
     (auto simp: daily_rec_def daily_record_trade_def daily_maybe_rollover_def Let_def)

interpretation hourly: window L "hourly_key L" hourly_wkey ha_stats "hourly_rec L" for L
  by unfold_locales
     (auto simp: hourly_rec_def hourly_record_trade_def hourly_maybe_rollover_def should_rollover_def
       hourly_key_def hourly_wkey_def)

interpretation weekly: window L "current_monday L" wa_week_start wa_stats "weekly_rec L" for L
  by unfold_locales
     (auto simp: weekly_rec_def weekly_record_trade_def weekly_maybe_rollover_def
       core_weekly [unfolded Let_def] Let_def)

section \<open>Exact sums\<close>

text \<open>Trades whose amounts have at most eight decimals and whose absolute values add up to
  less than \<open>10^20\<close>.\<close>

definition exact_trades :: "trade_entry list \<Rightarrow> bool" where
  "exact_trades es \<longleftrightarrow>
     (\<forall>e \<in> set es. fixed8 (te_profit e) \<and> fixed8 (te_fees e) \<and> fixed8 (te_cost e))
     \<and> (\<Sum>e\<leftarrow>es. \<bar>te_profit e\<bar>) < 10 ^ 20 \<and> (\<Sum>e\<leftarrow>es. \<bar>te_fees e\<bar>) < 10 ^ 20
     \<and> (\<Sum>e\<leftarrow>es. \<bar>te_cost e\<bar>) < 10 ^ 20"

definition ref_loss :: "trade_entry list \<Rightarrow> usd" where
  "ref_loss es = (\<Sum>e\<leftarrow>es. max 0 (- te_profit e))"

text \<open>What the statistics of a list of trades should be.\<close>

definition ref_stats :: "trade_entry list \<Rightarrow> period_stats" where
  "ref_stats es = \<lparr>ps_loss = ref_loss es, ps_fees = (\<Sum>e\<leftarrow>es. te_fees e),
     ps_pnl = (\<Sum>e\<leftarrow>es. te_profit e), ps_trade_count = of_nat (length es),
     ps_success_count = of_nat (length (filter (\<lambda>e. te_outcome e = Success) es)),
     ps_miss_count = of_nat (length (filter (\<lambda>e. te_outcome e = Miss) es)),
     ps_max_single_loss = 0, ps_max_single_profit = 0\<rparr>"

lemma abs_sum_list_le: "\<bar>\<Sum>x\<leftarrow>xs. f x\<bar> \<le> (\<Sum>x\<leftarrow>xs. \<bar>f x :: rat\<bar>)"
  by (induction xs) auto

lemma ref_loss_bounds: "0 \<le> ref_loss es" "ref_loss es \<le> (\<Sum>e\<leftarrow>es. \<bar>te_profit e\<bar>)"
  unfolding ref_loss_def by (induction es) auto

lemma exact_trades_snoc: "exact_trades (es @ [e]) \<Longrightarrow> exact_trades es"
  unfolding exact_trades_def by (auto intro: le_less_trans [rotated])

lemma abs_sum_filter_le: "(\<Sum>x\<leftarrow>filter P xs. \<bar>f x\<bar>) \<le> (\<Sum>x\<leftarrow>xs. \<bar>f x :: rat\<bar>)"
proof (induction xs)
  case (Cons a xs)
  then show ?case using abs_ge_zero [of "f a"] by (simp add: add_increasing)
qed simp

lemma exact_trades_filter: "exact_trades es \<Longrightarrow> exact_trades (filter P es)"
  using abs_sum_filter_le [of te_profit P es] abs_sum_filter_le [of te_fees P es]
    abs_sum_filter_le [of te_cost P es]
  unfolding exact_trades_def by simp

context decimal
begin

lemma fold_core_exact:
  assumes "exact_trades es"
  shows "fold (core_add D) es default_stats = ref_stats es"
  using assms
proof (induction es rule: rev_induct)
  case Nil
  then show ?case by (simp add: ref_stats_def default_stats_def ref_loss_def)
next
  case (snoc e es)
  have IH: "fold (core_add D) es default_stats = ref_stats es"
    using snoc exact_trades_snoc by blast
  have f: "fixed8 (te_profit e)" "fixed8 (te_fees e)" "\<forall>x \<in> set es. fixed8 (te_profit x)"
    "\<forall>x \<in> set es. fixed8 (te_fees x)"
    and b: "(\<Sum>e\<leftarrow>es. \<bar>te_profit e\<bar>) + \<bar>te_profit e\<bar> < 10 ^ 20"
      "(\<Sum>e\<leftarrow>es. \<bar>te_fees e\<bar>) + \<bar>te_fees e\<bar> < 10 ^ 20"
    using snoc.prems by (auto simp: exact_trades_def)
  have pnl: "dec_add D (\<Sum>e\<leftarrow>es. te_profit e) (te_profit e) = (\<Sum>e\<leftarrow>es. te_profit e) + te_profit e"
    using f b(1) abs_sum_list_le [of te_profit es]
    by (intro add_fixed8 fixed8_sum_list) (auto intro: order_le_less_trans)
  have fees: "dec_add D (\<Sum>e\<leftarrow>es. te_fees e) (te_fees e) = (\<Sum>e\<leftarrow>es. te_fees e) + te_fees e"
    using f b(2) abs_sum_list_le [of te_fees es]
    by (intro add_fixed8 fixed8_sum_list) (auto intro: order_le_less_trans)
  have "dec_add D (ref_loss es) \<bar>te_profit e\<bar> = ref_loss es + \<bar>te_profit e\<bar>"
    using f b(1) ref_loss_bounds [of es] unfolding ref_loss_def
    by (intro add_fixed8 fixed8_sum_list) auto
  with pnl fees have "core_add D e (ref_stats es) = ref_stats (es @ [e])"
    by (auto simp: core_add_def count_trade_def ref_stats_def ref_loss_def Let_def
        split: trade_business_outcome.splits)
  with IH show ?case by simp
qed

end

section \<open>Losses per period\<close>

text \<open>The period of a trade is monotone in time.\<close>

context chrono
begin

lemma monday_le: "current_monday L t \<le> date_naive L t"
  by (simp add: current_monday_def sub_days_eq Let_def)

lemma monday_mono:
  assumes "t \<le> t'"
  shows "current_monday L t \<le> current_monday L t'"
proof (rule ccontr)
  define d d' m m' where "d = date_naive L t" "d' = date_naive L t'"
    "m = current_monday L t" "m' = current_monday L t'"
  note defs = this
  have m: "m = d - uint (num_days_from_monday L d)" "m' = d' - uint (num_days_from_monday L d')"
    by (simp_all add: defs current_monday_def sub_days_eq Let_def)
  have mon: "num_days_from_monday L m = 0" "num_days_from_monday L m' = 0"
    using monday_weekday [of d] monday_weekday [of d'] m by simp_all
  assume "\<not> current_monday L t \<le> current_monday L t'"
  then have lt: "m' < m" by (simp add: defs)
  have "m \<le> d" "d \<le> d'" "d' \<le> m' + 6"
    using date_mono [OF assms] weekday_le [of d'] by (simp_all add: m defs)
  then have "m - m' \<le> 6" by simp
  then have "uint (num_days_from_monday L (m' + (m - m'))) = m - m'"
    using lt by (intro weekday_in_week [OF mon(2)]) simp_all
  then show False using mon(1) lt by simp
qed

lemma hourly_key_mono: "t \<le> t' \<Longrightarrow> hourly_key L t \<le> hourly_key L t'"
  using date_mono [of t t'] hour_mono [of t t'] by (auto simp: hourly_key_def less_eq_prod_def order.order_iff_strict)

end

text \<open>The history of trades a window is fed, at increasing instants.\<close>

definition history :: "instant \<Rightarrow> trade_entry list \<Rightarrow> bool" where
  "history t0 es \<longleftrightarrow> sorted (t0 # map te_at es)"

lemma history_keys:
  assumes "history t0 es" "\<And>t t'. t \<le> t' \<Longrightarrow> key t \<le> key t'"
  shows "sorted (map (\<lambda>e. key (te_at e)) es)" "\<forall>e \<in> set es. key t0 \<le> key (te_at e)"
proof -
  have "sorted_wrt (\<lambda>x y. te_at x \<le> te_at y) es" "\<forall>e \<in> set es. t0 \<le> te_at e"
    using assms(1) by (simp_all add: history_def sorted_map)
  then show "sorted (map (\<lambda>e. key (te_at e)) es)" "\<forall>e \<in> set es. key t0 \<le> key (te_at e)"
    using assms(2) sorted_wrt_mono_rel [of es "\<lambda>x y. te_at x \<le> te_at y" "\<lambda>x y. key (te_at x) \<le> key (te_at y)"]
    by (simp_all add: sorted_map)
qed

definition same_period :: "(instant \<Rightarrow> 'k) \<Rightarrow> instant \<Rightarrow> trade_entry list \<Rightarrow> trade_entry list" where
  "same_period key t0 es = filter (\<lambda>e. key (te_at e) = key (last (t0 # map te_at es))) es"

context window
begin

lemma run_exact:
  assumes mono: "\<And>t t'. t \<le> t' \<Longrightarrow> key t \<le> key t'"
    and D: "decimal_laws D" and h: "history t0 es" "exact_trades es"
    and w: "wkey w = key t0" "core (stats w) = default_stats"
  shows "core (stats (run_trades rec_trade es w)) = ref_stats (same_period key t0 es)"
proof -
  note hist = history_keys [where key = key, OF h(1) mono]
  have le: "\<forall>e \<in> set es. wkey w \<le> key (te_at e)" using hist(2) w(1) by simp
  have k: "wkey (run_trades rec_trade es w) = key (last (t0 # map te_at es))"
    using run_key [OF hist(1) le] w(1) by (simp add: last_map)
  have "core (stats (run_trades rec_trade es w)) = fold (core_add D) (same_period key t0 es) default_stats"
    using run_stats [OF hist(1) le] w(2) unfolding k same_period_def by simp
  also have "\<dots> = ref_stats (same_period key t0 es)"
    using D exact_trades_filter [OF h(2)] unfolding same_period_def
    by (intro decimal.fold_core_exact) (simp_all add: decimal.intro)
  finally show ?thesis .
qed

end

text \<open>C29: The loss windows are exact. Feed a trade history at increasing
  instants, with amounts of at most eight decimals that add up to less than \<open>10^20\<close>, to freshly
  created daily, hourly and weekly windows. Then the loss, fees, profit and counters each window reports
  are the plain sums over exactly the trades that fall in the
  same UTC day, UTC hour or Monday-based week as the last one: nothing of an earlier period
  is carried over, and nothing of the current one is lost to rounding or rollover.\<close>

theorem windows_exact:
  assumes "chrono_laws L" "decimal_laws L" "history t0 es" "exact_trades es"
  shows "core (da_stats (run_trades (daily_rec L) es (new_daily L t0 b))) = ref_stats (same_period (date_naive L) t0 es)
    \<and> core (ha_stats (run_trades (hourly_rec L) es (new_hourly L t0))) = ref_stats (same_period (hourly_key L) t0 es)
    \<and> core (wa_stats (run_trades (weekly_rec L) es (new_weekly L t0))) = ref_stats (same_period (current_monday L) t0 es)"
proof (intro conjI)
  note c = chrono.intro [OF assms(1)]
  show "core (da_stats (run_trades (daily_rec L) es (new_daily L t0 b))) = ref_stats (same_period (date_naive L) t0 es)"
    by (rule daily.run_exact) (simp_all add: assms chrono.date_mono [OF c] new_daily_def)
  show "core (ha_stats (run_trades (hourly_rec L) es (new_hourly L t0))) = ref_stats (same_period (hourly_key L) t0 es)"
    by (rule hourly.run_exact)
       (simp_all add: assms chrono.hourly_key_mono [OF c] new_hourly_def, simp add: hourly_wkey_def hourly_key_def)
  show "core (wa_stats (run_trades (weekly_rec L) es (new_weekly L t0))) = ref_stats (same_period (current_monday L) t0 es)"
    by (rule weekly.run_exact) (simp_all add: assms chrono.monday_mono [OF c] new_weekly_def)
qed

definition demo_trades :: "trade_entry list" where
  "demo_trades =
     [\<lparr>te_at = 10, te_profit = - 3, te_fees = 1, te_cost = 20, te_outcome = Failed\<rparr>,
      \<lparr>te_at = 86400000000001, te_profit = - 2, te_fees = 1, te_cost = 10, te_outcome = Miss\<rparr>,
      \<lparr>te_at = 86400000000002, te_profit = 5, te_fees = 1, te_cost = 10, te_outcome = Success\<rparr>]"

lemma fixed8_numeral [simp]: "fixed8 (numeral n)" "fixed8 1" "fixed8 (- numeral n)" "fixed8 (- 1)"
  using fixed8_of_int [of "numeral n"] fixed8_of_int [of 1]
    fixed8_of_int [of "- numeral n"] fixed8_of_int [of "- 1"] by simp_all

lemma demo_trades_ok: "history 0 demo_trades" "exact_trades demo_trades"
  by (simp_all add: history_def exact_trades_def demo_trades_def)

theorem windows_exact_witness:
  "ps_loss (da_stats (run_trades (daily_rec utc_libs) demo_trades (new_daily utc_libs 0 50))) = 2
   \<and> ps_loss (wa_stats (run_trades (weekly_rec utc_libs) demo_trades (new_weekly utc_libs 0))) = 5"
proof -
  have l: "ps_loss (core s) = ps_loss s" for s by (simp add: core_def)
  have "core (da_stats (run_trades (daily_rec utc_libs) demo_trades (new_daily utc_libs 0 50)))
      = ref_stats (same_period (date_naive utc_libs) 0 demo_trades)"
    "core (wa_stats (run_trades (weekly_rec utc_libs) demo_trades (new_weekly utc_libs 0)))
      = ref_stats (same_period (current_monday utc_libs) 0 demo_trades)"
    using windows_exact [OF utc_libs_chrono utc_libs_decimal demo_trades_ok, of 50] by blast+
  moreover have "ps_loss (ref_stats (same_period (date_naive utc_libs) 0 demo_trades)) = 2"
    "ps_loss (ref_stats (same_period (current_monday utc_libs) 0 demo_trades)) = 5"
    by (simp_all add: ref_stats_def ref_loss_def same_period_def demo_trades_def utc_libs_simps
        current_monday_def)
  ultimately show ?thesis by (metis l)
qed

section \<open>The daily budget\<close>

lemma same_period_snoc_same:
  "key (te_at e) = key (last (t0 # map te_at es)) \<Longrightarrow>
   same_period key t0 (es @ [e]) = same_period key t0 es @ [e]"
  by (simp add: same_period_def)

lemma same_period_snoc_next:
  assumes "history t0 (es @ [e])" "\<And>t t'. t \<le> t' \<Longrightarrow> key t \<le> key t'"
    "key (last (t0 # map te_at es)) < (key (te_at e) :: 'k :: linorder)"
  shows "same_period key t0 (es @ [e]) = [e]"
proof -
  have "key (te_at x) \<le> key (last (t0 # map te_at es))" if "x \<in> set es" for x
    using that assms(1,2)
    by (cases es rule: rev_cases) (auto simp: history_def sorted_append)
  then have "filter (\<lambda>x. key (te_at x) = key (te_at e)) es = []"
    using assms(3) by (fastforce simp: filter_empty_conv)
  then show ?thesis by (simp add: same_period_def)
qed

lemma daily_budget:
  assumes "chrono_laws L" "decimal_laws L" "history t0 es" "exact_trades es"
    "fixed8 b" "\<bar>b\<bar> + (\<Sum>e\<leftarrow>es. \<bar>te_cost e\<bar>) < 10 ^ 20"
  shows "da_budget_remaining (run_trades (daily_rec L) es (new_daily L t0 b))
           = b - (\<Sum>e\<leftarrow>same_period (date_naive L) t0 es. te_cost e)
       \<and> da_initial_budget (run_trades (daily_rec L) es (new_daily L t0 b)) = b
       \<and> da_window_start (run_trades (daily_rec L) es (new_daily L t0 b))
           = date_naive L (last (t0 # map te_at es))"
  using assms
proof (induction es rule: rev_induct)
  case Nil
  then show ?case by (simp add: run_trades_def new_daily_def same_period_def)
next
  case (snoc e es)
  note mono = chrono.date_mono [OF chrono.intro [OF snoc.prems(1)]]
  define v where "v = run_trades (daily_rec L) es (new_daily L t0 b)"
  define k where "k = date_naive L (last (t0 # map te_at es))"
  define cs where "cs = (\<Sum>e\<leftarrow>same_period (date_naive L) t0 es. te_cost e)"
  have hist: "history t0 es" using snoc.prems(3) by (simp add: history_def sorted_append)
  have ex: "exact_trades es" using exact_trades_snoc snoc.prems(4) by blast
  have IH: "da_budget_remaining v = b - cs" "da_initial_budget v = b" "da_window_start v = k"
    using snoc.IH [OF snoc.prems(1,2) hist ex snoc.prems(5)] snoc.prems(6)
    by (simp_all add: v_def k_def cs_def)
  have fx: "fixed8 (te_cost e)" "fixed8 cs"
    using snoc.prems(4) unfolding cs_def
    by (auto simp: exact_trades_def same_period_def intro!: fixed8_sum_list)
  have "\<bar>cs\<bar> \<le> (\<Sum>e\<leftarrow>same_period (date_naive L) t0 es. \<bar>te_cost e\<bar>)"
    unfolding cs_def by (rule abs_sum_list_le)
  also have "\<dots> \<le> (\<Sum>e\<leftarrow>es. \<bar>te_cost e\<bar>)"
    unfolding same_period_def by (rule abs_sum_filter_le)
  finally have cs: "\<bar>cs\<bar> \<le> (\<Sum>e\<leftarrow>es. \<bar>te_cost e\<bar>)" .
  have pos: "0 \<le> (\<Sum>e\<leftarrow>es. \<bar>te_cost e\<bar>)" by (induction es) auto
  have bnd: "\<bar>b\<bar> + (\<Sum>e\<leftarrow>es. \<bar>te_cost e\<bar>) + \<bar>te_cost e\<bar> < 10 ^ 20" using snoc.prems(6) by simp
  have sub: "dec_sub L (b - cs) (te_cost e) = b - cs - te_cost e" "dec_sub L b (te_cost e) = b - te_cost e"
    using fx snoc.prems(5) cs bnd pos
    by (auto intro!: decimal.sub_fixed8 [OF decimal.intro [OF snoc.prems(2)]])
  have step: "run_trades (daily_rec L) (es @ [e]) (new_daily L t0 b) = fst (daily_rec L e v)"
    by (simp add: run_trades_def v_def)
  have le: "k \<le> date_naive L (te_at e)"
    using snoc.prems(3) mono unfolding k_def
    by (cases es rule: rev_cases) (auto simp: history_def sorted_append)
  show ?case
  proof (cases "date_naive L (te_at e) = k")
    case True
    have sp: "same_period (date_naive L) t0 (es @ [e]) = same_period (date_naive L) t0 es @ [e]"
      by (rule same_period_snoc_same) (use True in \<open>simp add: k_def\<close>)
    show ?thesis unfolding step sp using True IH sub
      by (simp add: daily_rec_def daily_record_trade_def daily_maybe_rollover_def cs_def)
  next
    case False
    have sp: "same_period (date_naive L) t0 (es @ [e]) = [e]"
      by (rule same_period_snoc_next [OF snoc.prems(3)]) (use mono le False in \<open>auto simp: k_def\<close>)
    show ?thesis unfolding step sp using False le IH sub
      by (simp add: daily_rec_def daily_record_trade_def daily_maybe_rollover_def)
  qed
qed

text \<open>Lowering the budget below what was spent today and raising it again hands the
  spent amount out a second time: the remainder is floored at zero, and the spent amount is only
  ever recomputed from the remainder.\<close>

lemma set_budget_forgets_spent:
  "da_budget_remaining (set_budget utc_libs 50 (set_budget utc_libs 10
     (fst (daily_record_trade utc_libs 0 0 0 40 Success (new_daily utc_libs 0 50))))) = 40
   \<and> da_budget_remaining (fst (daily_record_trade utc_libs 0 0 0 40 Success (new_daily utc_libs 0 50))) = 10"
  by (simp add: set_budget_def budget_spent_def daily_record_trade_def daily_maybe_rollover_def
      new_daily_def utc_libs_simps)

end
