(* ===== verification/Potential_Loss.thy ===== *)
theory Potential_Loss
  imports Risk_Types "HOL-Library.AList"
begin

text \<open>
  \<open>oxide-arb-risk/src/position.rs\<close>: the ledger of worst-case losses of unsettled positions with
  its running total. The hash map is an association list with distinct keys (iteration order is
  not observable). The ledger refines an abstract map from ledger ids to the amount
  still at risk: the running total is the sum over that map, whatever the sequence of operations.
\<close>

record potential_loss_info =
  pl_ledger_id :: ident
  pl_market_id :: ident
  pl_token_id :: ident
  pl_shares :: decimal
  pl_entry_price :: decimal
  pl_max_loss_usd :: usd
  pl_status :: ledger_status
  pl_created_at :: instant
  pl_resolved_at :: "instant option"

definition pl_is_active :: "potential_loss_info \<Rightarrow> bool" where
  "pl_is_active e \<longleftrightarrow> pl_status e = Active"

record potential_loss_ledger =
  le_entries :: "(ident \<times> potential_loss_info) list"
  le_running_total :: usd

definition new_ledger :: potential_loss_ledger where
  "new_ledger = \<lparr>le_entries = [], le_running_total = 0\<rparr>"

definition from_entries :: "'z decimal_ops_scheme \<Rightarrow> potential_loss_info list \<Rightarrow> potential_loss_ledger" where
  "from_entries D entries =
     \<lparr>le_entries = fold (\<lambda>e m. AList.update (pl_ledger_id e) e m) entries [],
      le_running_total =
        fold (\<lambda>x acc. dec_add D acc x) (map pl_max_loss_usd (filter pl_is_active entries)) 0\<rparr>"

definition record_entry ::
  "'z decimal_ops_scheme \<Rightarrow> potential_loss_info \<Rightarrow> potential_loss_ledger \<Rightarrow> potential_loss_ledger" where
  "record_entry D entry l =
     (if map_of (le_entries l) (pl_ledger_id entry) \<noteq> None then l
      else
        let l1 = (if pl_is_active entry
                  then l\<lparr>le_running_total := dec_add D (le_running_total l) (pl_max_loss_usd entry)\<rparr>
                  else l)
        in l1\<lparr>le_entries := AList.update (pl_ledger_id entry) entry (le_entries l1)\<rparr>)"

definition resolve_entry ::
  "'z decimal_ops_scheme \<Rightarrow> instant \<Rightarrow> ident \<Rightarrow> potential_loss_ledger \<Rightarrow> potential_loss_ledger" where
  "resolve_entry D now ledger_id l =
     (case map_of (le_entries l) ledger_id of
        None \<Rightarrow> l
      | Some entry \<Rightarrow>
          let l1 = (if pl_is_active entry
                    then l\<lparr>le_running_total :=
                            max (dec_sub D (le_running_total l) (pl_max_loss_usd entry)) 0\<rparr>
                    else l)
          in l1\<lparr>le_entries := AList.update ledger_id
                  (entry\<lparr>pl_status := Resolved, pl_resolved_at := Some now\<rparr>) (le_entries l1)\<rparr>)"

definition active_entries :: "potential_loss_ledger \<Rightarrow> potential_loss_info list" where
  "active_entries l = filter pl_is_active (map snd (le_entries l))"

definition active_count :: "potential_loss_ledger \<Rightarrow> nat" where
  "active_count l = length (active_entries l)"

section \<open>The abstract ledger\<close>

text \<open>Per known ledger id, the amount still at risk: \<open>None\<close> once it is settled.\<close>

type_synonym risk_map = "ident \<rightharpoonup> usd option"

definition at_risk :: "usd option option \<Rightarrow> usd" where
  "at_risk v = (case v of Some (Some a) \<Rightarrow> a | _ \<Rightarrow> 0)"

definition total_at_risk :: "risk_map \<Rightarrow> usd" where
  "total_at_risk A = (\<Sum>k \<in> dom A. at_risk (A k))"

definition abs_entry :: "potential_loss_info \<Rightarrow> usd option" where
  "abs_entry e = (if pl_is_active e then Some (pl_max_loss_usd e) else None)"

definition abs_record :: "potential_loss_info \<Rightarrow> risk_map \<Rightarrow> risk_map" where
  "abs_record e A = (if A (pl_ledger_id e) \<noteq> None then A else A(pl_ledger_id e \<mapsto> abs_entry e))"

definition abs_resolve :: "ident \<Rightarrow> risk_map \<Rightarrow> risk_map" where
  "abs_resolve k A = (if A k = None then A else A(k \<mapsto> None))"

lemma at_risk_simps [simp]: "at_risk None = 0" "at_risk (Some None) = 0" "at_risk (Some (Some a)) = a"
  by (simp_all add: at_risk_def)

lemma at_risk_entry: "at_risk (Some (abs_entry e)) = (if pl_is_active e then pl_max_loss_usd e else 0)"
  by (simp add: abs_entry_def)

lemma total_upd:
  assumes "finite (dom A)"
  shows "total_at_risk (A(k \<mapsto> v)) = total_at_risk A - at_risk (A k) + at_risk (Some v)"
proof -
  have "total_at_risk (A(k \<mapsto> v)) = at_risk (Some v) + (\<Sum>j \<in> dom A - {k}. at_risk (A j))"
    unfolding total_at_risk_def using assms
    by (auto simp: sum.insert_remove intro!: sum.cong)
  moreover have "total_at_risk A = at_risk (A k) + (\<Sum>j \<in> dom A - {k}. at_risk (A j))"
  proof (cases "k \<in> dom A")
    case True
    then show ?thesis unfolding total_at_risk_def using assms by (rule sum.remove [rotated])
  next
    case False
    then have "A k = None" "dom A - {k} = dom A" by auto
    then show ?thesis by (simp add: total_at_risk_def)
  qed
  ultimately show ?thesis by simp
qed

text \<open>The contract of a ledger, on any representation: the two operations act on the abstract map, the
  invariant is kept as long as the amounts stay in the exact range, and the total is the abstract one.\<close>

locale loss_ledger =
  fixes abs :: "'l \<Rightarrow> risk_map"
    and total :: "'l \<Rightarrow> usd"
    and rec_entry :: "potential_loss_info \<Rightarrow> 'l \<Rightarrow> 'l"
    and res_entry :: "instant \<Rightarrow> ident \<Rightarrow> 'l \<Rightarrow> 'l"
    and inv :: "'l \<Rightarrow> bool"
    and ok :: "potential_loss_info \<Rightarrow> 'l \<Rightarrow> bool"
  assumes abs_rec: "inv l \<Longrightarrow> ok e l \<Longrightarrow> abs (rec_entry e l) = abs_record e (abs l)"
    and abs_res: "inv l \<Longrightarrow> abs (res_entry t k l) = abs_resolve k (abs l)"
    and inv_rec: "inv l \<Longrightarrow> ok e l \<Longrightarrow> inv (rec_entry e l)"
    and inv_res: "inv l \<Longrightarrow> inv (res_entry t k l)"
    and total: "inv l \<Longrightarrow> total l = total_at_risk (abs l)"
    and fin: "inv l \<Longrightarrow> finite (dom (abs l))"
begin

lemma rec_total:
  assumes "inv l" "ok e l"
  shows "total (rec_entry e l) =
    total l + (if abs l (pl_ledger_id e) = None \<and> pl_is_active e then pl_max_loss_usd e else 0)"
  using assms total [OF inv_rec [OF assms]] total [OF assms(1)] total_upd [OF fin [OF assms(1)]]
  by (auto simp: abs_rec abs_record_def at_risk_entry)

lemma res_total:
  assumes "inv l"
  shows "total (res_entry t k l) = total l - at_risk (abs l k)"
  using assms total [OF inv_res [OF assms]] total [OF assms] total_upd [OF fin [OF assms]]
  by (auto simp: abs_res abs_resolve_def)

lemma rec_twice:
  "inv l \<Longrightarrow> ok e l \<Longrightarrow> ok e' (rec_entry e l) \<Longrightarrow> pl_ledger_id e' = pl_ledger_id e \<Longrightarrow>
   total (rec_entry e' (rec_entry e l)) = total (rec_entry e l)"
  by (auto simp: rec_total [of "rec_entry e l"] inv_rec abs_rec abs_record_def)

lemma res_twice: "inv l \<Longrightarrow> total (res_entry t' k (res_entry t k l)) = total (res_entry t k l)"
  by (simp add: res_total [of "res_entry t k l"] inv_res abs_res abs_resolve_def)

end

section \<open>The ledger implements it\<close>

definition ledger_abs :: "potential_loss_ledger \<Rightarrow> risk_map" where
  "ledger_abs l = (\<lambda>k. map_option abs_entry (map_of (le_entries l) k))"

definition exact_entry :: "potential_loss_info \<Rightarrow> bool" where
  "exact_entry e \<longleftrightarrow> fixed8 (pl_max_loss_usd e) \<and> 0 \<le> pl_max_loss_usd e"

definition ledger_inv :: "potential_loss_ledger \<Rightarrow> bool" where
  "ledger_inv l \<longleftrightarrow> distinct (map fst (le_entries l))
     \<and> (\<forall>e \<in> snd ` set (le_entries l). exact_entry e)
     \<and> le_running_total l = total_at_risk (ledger_abs l)
     \<and> le_running_total l < 10 ^ 20"

text \<open>The amount fits on top of the total.\<close>

definition entry_fits :: "potential_loss_info \<Rightarrow> potential_loss_ledger \<Rightarrow> bool" where
  "entry_fits e l \<longleftrightarrow> exact_entry e \<and> le_running_total l + pl_max_loss_usd e < 10 ^ 20"

lemma dom_ledger_abs: "dom (ledger_abs l) = fst ` set (le_entries l)"
  by (simp add: ledger_abs_def dom_map_option dom_map_of_conv_image_fst)

lemma finite_ledger_abs [simp]: "finite (dom (ledger_abs l))"
  by (simp add: dom_ledger_abs)

lemma ledger_abs_update:
  "ledger_abs (l\<lparr>le_entries := AList.update k e (le_entries l)\<rparr>) = (ledger_abs l)(k \<mapsto> abs_entry e)"
  by (simp add: ledger_abs_def update_conv fun_eq_iff)

lemma ledger_abs_total [simp]: "ledger_abs (l\<lparr>le_running_total := t\<rparr>) = ledger_abs l"
  by (simp add: ledger_abs_def)

lemma exact_at_risk:
  assumes "\<forall>e \<in> snd ` set (le_entries l). exact_entry e"
  shows "fixed8 (at_risk (ledger_abs l k))" "0 \<le> at_risk (ledger_abs l k)"
proof -
  have "at_risk (ledger_abs l k) = 0 \<or> (\<exists>e. map_of (le_entries l) k = Some e
      \<and> at_risk (ledger_abs l k) = pl_max_loss_usd e)"
    by (cases "map_of (le_entries l) k") (auto simp: ledger_abs_def at_risk_entry)
  then show "fixed8 (at_risk (ledger_abs l k))" "0 \<le> at_risk (ledger_abs l k)"
    using assms by (auto simp: exact_entry_def dest!: map_of_SomeD)
qed

lemma fixed8_sum: "finite K \<Longrightarrow> (\<And>k. k \<in> K \<Longrightarrow> fixed8 (f k)) \<Longrightarrow> fixed8 (\<Sum>k \<in> K. f k)"
  by (induction rule: finite_induct) simp_all

lemma ledger_total_exact:
  assumes "\<forall>e \<in> snd ` set (le_entries l). exact_entry e"
  shows "fixed8 (total_at_risk (ledger_abs l))" "at_risk (ledger_abs l k) \<le> total_at_risk (ledger_abs l)"
proof -
  show "fixed8 (total_at_risk (ledger_abs l))"
    unfolding total_at_risk_def using exact_at_risk [OF assms] by (intro fixed8_sum) simp_all
  show "at_risk (ledger_abs l k) \<le> total_at_risk (ledger_abs l)"
  proof (cases "k \<in> dom (ledger_abs l)")
    case True
    then show ?thesis unfolding total_at_risk_def
      using exact_at_risk [OF assms] by (intro member_le_sum) simp_all
  next
    case False
    then have "ledger_abs l k = None" by auto
    then show ?thesis
      unfolding total_at_risk_def using exact_at_risk [OF assms] by (simp add: sum_nonneg)
  qed
qed

lemma all_update:
  "\<forall>e \<in> snd ` set al. P e \<Longrightarrow> P v \<Longrightarrow> \<forall>e \<in> snd ` set (AList.update k v al). P e"
  by (induction al) auto

lemma abs_entry_resolved [simp]:
  "abs_entry (e\<lparr>pl_status := Resolved, pl_resolved_at := t\<rparr>) = None"
  by (simp add: abs_entry_def pl_is_active_def)

lemma new_ledger_inv: "ledger_inv new_ledger"
  by (simp add: ledger_inv_def new_ledger_def ledger_abs_def total_at_risk_def)

context decimal
begin

lemma record_entry_abs: "ledger_abs (record_entry D e l) = abs_record e (ledger_abs l)"
  by (auto simp: record_entry_def abs_record_def ledger_abs_update Let_def ledger_abs_def update_conv
      fun_eq_iff)

lemma resolve_entry_abs: "ledger_abs (resolve_entry D now k l) = abs_resolve k (ledger_abs l)"
  by (auto simp: resolve_entry_def abs_resolve_def Let_def ledger_abs_def update_conv fun_eq_iff
      split: option.splits)

lemma record_entry_inv:
  assumes "ledger_inv l" "entry_fits e l"
  shows "ledger_inv (record_entry D e l)"
proof (cases "map_of (le_entries l) (pl_ledger_id e) = None")
  case False
  then show ?thesis using assms by (simp add: record_entry_def)
next
  case True
  have ex: "\<forall>e \<in> snd ` set (le_entries l). exact_entry e" and tot: "le_running_total l = total_at_risk (ledger_abs l)"
    using assms(1) by (simp_all add: ledger_inv_def)
  have pos: "0 \<le> le_running_total l" using ledger_total_exact(2) [OF ex, of k] exact_at_risk(2) [OF ex, of k] tot
    by (simp add: order_trans)
  have add: "dec_add D (le_running_total l) (pl_max_loss_usd e) = le_running_total l + pl_max_loss_usd e"
    using ledger_total_exact(1) [OF ex] assms(2) pos tot
    by (intro add_fixed8) (auto simp: entry_fits_def exact_entry_def)
  have none: "ledger_abs l (pl_ledger_id e) = None" using True by (simp add: ledger_abs_def)
  let ?l = "record_entry D e l"
  have es: "le_entries ?l = AList.update (pl_ledger_id e) e (le_entries l)"
    and rt: "le_running_total ?l = le_running_total l + (if pl_is_active e then pl_max_loss_usd e else 0)"
    using True add by (simp_all add: record_entry_def Let_def)
  have "total_at_risk (ledger_abs ?l) = le_running_total ?l"
    using total_upd [of "ledger_abs l" "pl_ledger_id e" "abs_entry e"] none tot rt
    by (simp add: record_entry_abs abs_record_def at_risk_entry)
  moreover have "le_running_total ?l < 10 ^ 20"
    using rt assms by (auto simp: ledger_inv_def entry_fits_def)
  ultimately show ?thesis
    using assms es all_update [OF ex, of e "pl_ledger_id e"]
    by (simp add: ledger_inv_def distinct_update entry_fits_def)
qed

lemma resolve_entry_inv:
  assumes "ledger_inv l"
  shows "ledger_inv (resolve_entry D now k l)"
proof (cases "map_of (le_entries l) k")
  case None
  then show ?thesis using assms by (simp add: resolve_entry_def)
next
  case (Some e)
  have ex: "\<forall>e \<in> snd ` set (le_entries l). exact_entry e" and tot: "le_running_total l = total_at_risk (ledger_abs l)"
    using assms(1) by (simp_all add: ledger_inv_def)
  have ee: "exact_entry e" using ex Some by (force dest: map_of_SomeD)
  have known: "ledger_abs l k \<noteq> None" using Some by (simp add: ledger_abs_def)
  have risk: "at_risk (ledger_abs l k) = (if pl_is_active e then pl_max_loss_usd e else 0)"
    using Some by (simp add: ledger_abs_def at_risk_entry)
  have le: "at_risk (ledger_abs l k) \<le> le_running_total l"
    using ledger_total_exact(2) [OF ex, of k] tot by simp
  have sub: "dec_sub D (le_running_total l) (pl_max_loss_usd e) = le_running_total l - pl_max_loss_usd e"
    if "pl_is_active e"
    using ledger_total_exact(1) [OF ex] assms ee tot le risk that
    by (intro sub_fixed8) (auto simp: ledger_inv_def exact_entry_def)
  let ?l = "resolve_entry D now k l"
  have es: "le_entries ?l = AList.update k (e\<lparr>pl_status := Resolved, pl_resolved_at := Some now\<rparr>) (le_entries l)"
    and rt: "le_running_total ?l = le_running_total l - at_risk (ledger_abs l k)"
    using Some sub le risk by (auto simp: resolve_entry_def Let_def max_def)
  have "total_at_risk (ledger_abs ?l) = le_running_total ?l"
    using total_upd [of "ledger_abs l" k None] known tot rt
    by (simp add: resolve_entry_abs abs_resolve_def)
  moreover have "le_running_total ?l < 10 ^ 20"
    using rt assms exact_at_risk(2) [OF ex, of k] by (simp add: ledger_inv_def)
  moreover have "exact_entry (e\<lparr>pl_status := Resolved, pl_resolved_at := Some now\<rparr>)"
    using ee by (simp add: exact_entry_def)
  ultimately show ?thesis
    using assms es all_update [OF ex, of "e\<lparr>pl_status := Resolved, pl_resolved_at := Some now\<rparr>" k]
    by (simp add: ledger_inv_def distinct_update)
qed

end

sublocale decimal \<subseteq> ledger: loss_ledger ledger_abs le_running_total "record_entry D" "resolve_entry D"
    ledger_inv entry_fits
proof
  show "ledger_inv l \<Longrightarrow> le_running_total l = total_at_risk (ledger_abs l)" for l
    by (simp add: ledger_inv_def)
qed (simp_all add: record_entry_abs resolve_entry_abs record_entry_inv resolve_entry_inv)

section \<open>Histories\<close>

datatype ledger_op = RecordOp potential_loss_info | ResolveOp instant ident

fun ledger_step :: "'z decimal_ops_scheme \<Rightarrow> ledger_op \<Rightarrow> potential_loss_ledger \<Rightarrow> potential_loss_ledger" where
  "ledger_step D (RecordOp e) l = record_entry D e l"
| "ledger_step D (ResolveOp t k) l = resolve_entry D t k l"

fun abs_step :: "ledger_op \<Rightarrow> risk_map \<Rightarrow> risk_map" where
  "abs_step (RecordOp e) A = abs_record e A"
| "abs_step (ResolveOp t k) A = abs_resolve k A"

fun op_amount :: "ledger_op \<Rightarrow> usd" where
  "op_amount (RecordOp e) = pl_max_loss_usd e"
| "op_amount (ResolveOp t k) = 0"

fun op_exact :: "ledger_op \<Rightarrow> bool" where
  "op_exact (RecordOp e) = exact_entry e"
| "op_exact (ResolveOp t k) = True"

context decimal
begin

lemma at_risk_nonneg: "ledger_inv l \<Longrightarrow> 0 \<le> at_risk (ledger_abs l k)"
  using exact_at_risk(2) by (simp add: ledger_inv_def)

lemma run_ledger:
  assumes "ledger_inv l" "\<forall>p \<in> set ps. op_exact p"
    "le_running_total l + (\<Sum>p\<leftarrow>ps. op_amount p) < 10 ^ 20"
  shows "ledger_inv (fold (ledger_step D) ps l)
    \<and> ledger_abs (fold (ledger_step D) ps l) = fold abs_step ps (ledger_abs l)"
  using assms
proof (induction ps arbitrary: l)
  case (Cons p ps)
  have pos: "0 \<le> (\<Sum>p\<leftarrow>qs. op_amount p)" if "\<forall>p \<in> set qs. op_exact p" for qs
    using that
  proof (induction qs)
    case (Cons q qs)
    then show ?case by (cases q) (auto simp: exact_entry_def)
  qed simp
  show ?case
  proof (cases p)
    case (RecordOp e)
    have fits: "entry_fits e l" using Cons.prems RecordOp pos [of ps] by (simp add: entry_fits_def)
    have "le_running_total (record_entry D e l) + (\<Sum>p\<leftarrow>ps. op_amount p) < 10 ^ 20"
      using Cons.prems RecordOp ledger.rec_total [OF Cons.prems(1) fits]
      by (auto simp: exact_entry_def split: if_splits)
    then show ?thesis
      using Cons.IH [of "record_entry D e l"] Cons.prems RecordOp record_entry_inv [OF Cons.prems(1) fits]
      by (simp add: record_entry_abs)
  next
    case (ResolveOp t k)
    have "le_running_total (resolve_entry D t k l) + (\<Sum>p\<leftarrow>ps. op_amount p) < 10 ^ 20"
      using Cons.prems ResolveOp ledger.res_total [OF Cons.prems(1), of t k] at_risk_nonneg [OF Cons.prems(1), of k]
      by simp
    then show ?thesis
      using Cons.IH [of "resolve_entry D t k l"] Cons.prems ResolveOp resolve_entry_inv [OF Cons.prems(1)]
      by (simp add: resolve_entry_abs)
  qed
qed simp

lemma from_entries_record:
  assumes "distinct (map pl_ledger_id es)"
  shows "from_entries D es = fold (record_entry D) es new_ledger"
proof -
  define T where "T = (\<lambda>es :: potential_loss_info list. fold (\<lambda>x acc. dec_add D acc x) (map pl_max_loss_usd (filter pl_is_active es)) (0::usd))"
  define M where "M = (\<lambda>es :: potential_loss_info list. fold (\<lambda>e m. AList.update (pl_ledger_id e) e m) es [])"
  have keys: "map_of (M es) k \<noteq> None \<longleftrightarrow> k \<in> pl_ledger_id ` set es" for es k
    unfolding M_def by (induction es rule: rev_induct) (auto simp: update_conv)
  have "fold (record_entry D) es new_ledger = \<lparr>le_entries = M es, le_running_total = T es\<rparr>"
    if "distinct (map pl_ledger_id es)" for es
    using that
  proof (induction es rule: rev_induct)
    case (snoc e es)
    then have "map_of (M es) (pl_ledger_id e) = None" using keys [of es "pl_ledger_id e"] by auto
    with snoc show ?case by (simp add: record_entry_def M_def T_def)
  qed (simp add: M_def T_def new_ledger_def)
  then show ?thesis using assms by (simp add: from_entries_def M_def T_def)
qed

end

text \<open>C30: The ledger's running total is the money at risk. For every history of recorded and
  resolved entries, in any order, with repetitions, unknown ids and late or duplicate
  notifications, starting from the empty ledger, the running total kept in constant time is exactly the sum of the worst-case losses
  of the entries recorded and not yet resolved: each id counts once, a second
  record or resolve changes nothing, and the total never goes below zero. Amounts are
  non-negative with at most eight decimals and sum to less than \<open>10^20\<close>.\<close>

theorem ledger_total_refines:
  assumes "decimal_laws D" "\<forall>p \<in> set ps. op_exact p" "(\<Sum>p\<leftarrow>ps. op_amount p) < 10 ^ 20"
  shows "le_running_total (fold (ledger_step D) ps new_ledger)
           = total_at_risk (fold abs_step ps (\<lambda>_. None))
       \<and> 0 \<le> le_running_total (fold (ledger_step D) ps new_ledger)"
proof -
  have e: "ledger_abs new_ledger = (\<lambda>_. None)" by (simp add: ledger_abs_def new_ledger_def)
  note d = decimal.intro [OF assms(1)]
  let ?l = "fold (ledger_step D) ps new_ledger"
  have inv: "ledger_inv ?l" and abs: "ledger_abs ?l = fold abs_step ps (\<lambda>_. None)"
    using decimal.run_ledger [OF d new_ledger_inv assms(2)] assms(3) e by (simp_all add: new_ledger_def)
  have "0 \<le> total_at_risk (ledger_abs ?l)"
    unfolding total_at_risk_def using decimal.at_risk_nonneg [OF d inv] by (simp add: sum_nonneg)
  then show ?thesis using inv abs by (simp add: ledger_inv_def)
qed

definition demo_entry :: "ident \<Rightarrow> usd \<Rightarrow> potential_loss_info" where
  "demo_entry k a = \<lparr>pl_ledger_id = k, pl_market_id = ''m'', pl_token_id = ''t'', pl_shares = 1,
     pl_entry_price = 1, pl_max_loss_usd = a, pl_status = Active, pl_created_at = 0, pl_resolved_at = None\<rparr>"

theorem ledger_total_refines_witness:
  "le_running_total (fold (ledger_step dec28_ops)
     [RecordOp (demo_entry ''a'' 20), RecordOp (demo_entry ''b'' 5), ResolveOp 1 ''a'',
      ResolveOp 2 ''a'', RecordOp (demo_entry ''a'' 20)] new_ledger) = 5"
proof -
  let ?ps = "[RecordOp (demo_entry ''a'' 20), RecordOp (demo_entry ''b'' 5), ResolveOp 1 ''a'',
      ResolveOp 2 ''a'', RecordOp (demo_entry ''a'' 20)]"
  have f: "fixed8 20" "fixed8 5" using fixed8_of_int [of 20] fixed8_of_int [of 5] by simp_all
  have "fold abs_step ?ps (\<lambda>_. None) = [''a'' \<mapsto> None, ''b'' \<mapsto> Some 5]"
    by (simp add: abs_record_def abs_resolve_def abs_entry_def pl_is_active_def demo_entry_def fun_eq_iff)
  then have "total_at_risk (fold abs_step ?ps (\<lambda>_. None)) = 5"
    using total_upd [of "[''a'' \<mapsto> None]" "''b''" "Some 5"] by (simp add: total_at_risk_def)
  then show ?thesis
    using ledger_total_refines [OF dec28_ops_laws, of ?ps] f by (simp add: exact_entry_def demo_entry_def)
qed

text \<open>Rows with the same id are all counted when the ledger is rebuilt, although only one is kept.\<close>

lemma from_entries_double_counts:
  "le_running_total (from_entries exact_ops [demo_entry ''a'' 20, demo_entry ''a'' 20]) = 40
   \<and> active_count (from_entries exact_ops [demo_entry ''a'' 20, demo_entry ''a'' 20]) = 1"
  by (simp add: from_entries_def demo_entry_def pl_is_active_def exact_ops_def active_count_def
      active_entries_def)

end
