(* ===== verification/Blacklist.thy ===== *)
theory Blacklist
  imports Risk_Types "HOL-Library.AList"
begin

unbundle bit_operations_syntax

text \<open>
  \<open>oxide-arb-risk/src/blacklist.rs\<close> and the Bloom filter and blacklist view of \<open>snapshot.rs\<close>. The concurrent
  map is an association list with distinct keys; an operation of the manager is one
  definition, the thresholds in atomics are fields. The locale \<open>membership_filter\<close> is the contract of the
  Bloom filter (no false negatives); with it the published view answers exactly as the
  live map. The operations other than the operator's removal never weaken a block.
\<close>

section \<open>Bloom filter\<close>

type_synonym bloom_filter = "u64 list"

definition bloom_empty :: bloom_filter where
  "bloom_empty = replicate 8 0"

definition bloom_hash :: "string \<Rightarrow> u32 \<Rightarrow> u32" where
  "bloom_hash key seed =
     fold (\<lambda>b h. (h XOR of_char b) * 0x01000193) key (0x811c9dc5 XOR (seed * 0x01000193))"

definition set_bit_at :: "u32 \<Rightarrow> bloom_filter \<Rightarrow> bloom_filter" where
  "set_bit_at i bits =
     (let word = unat (i div 64); offset = unat (i mod 64)
      in bits[word := (bits ! word) OR push_bit offset 1])"

definition test_bit_at :: "u32 \<Rightarrow> bloom_filter \<Rightarrow> bool" where
  "test_bit_at i bits \<longleftrightarrow>
     (let word = unat (i div 64); offset = unat (i mod 64)
      in ((bits ! word) AND push_bit offset 1) \<noteq> 0)"

definition bloom_insert :: "string \<Rightarrow> bloom_filter \<Rightarrow> bloom_filter" where
  "bloom_insert key bits = fold (\<lambda>i. set_bit_at (bloom_hash key i mod 512)) [0, 1, 2] bits"

definition may_contain :: "bloom_filter \<Rightarrow> string \<Rightarrow> bool" where
  "may_contain bits key \<longleftrightarrow> list_all (\<lambda>i. test_bit_at (bloom_hash key i mod 512) bits) [0, 1, 2]"

text \<open>A set approximated from above.\<close>

locale membership_filter =
  fixes empty :: 'f and ins :: "'k \<Rightarrow> 'f \<Rightarrow> 'f" and mem :: "'f \<Rightarrow> 'k \<Rightarrow> bool" and wf :: "'f \<Rightarrow> bool"
  assumes wf_empty: "wf empty"
    and wf_ins: "wf f \<Longrightarrow> wf (ins k f)"
    and mem_self: "wf f \<Longrightarrow> mem (ins k f) k"
    and mem_keep: "wf f \<Longrightarrow> mem f k \<Longrightarrow> mem (ins k' f) k"
begin

lemma wf_fold: "wf f \<Longrightarrow> wf (fold ins ks f)"
  by (induction ks arbitrary: f) (simp_all add: wf_ins)

lemma mem_fold_keep: "wf f \<Longrightarrow> mem f k \<Longrightarrow> mem (fold ins ks f) k"
  by (induction ks arbitrary: f) (simp_all add: wf_ins mem_keep)

lemma no_false_negative: "wf f \<Longrightarrow> k \<in> set ks \<Longrightarrow> mem (fold ins ks f) k"
proof (induction ks arbitrary: f)
  case (Cons a ks)
  then show ?case
    by (cases "k = a") (simp_all add: wf_ins mem_self mem_fold_keep)
qed simp

lemma prefilter_exact: "(mem (fold ins ks empty) k \<and> k \<in> set ks) \<longleftrightarrow> k \<in> set ks"
  using no_false_negative [OF wf_empty] by blast

end

lemma word_index: "unat ((i mod 512 :: u32) div 64) < 8"
proof -
  have "unat (i mod 512) < 512" by (simp add: unat_mod)
  then show ?thesis by (simp add: unat_div less_mult_imp_div_less)
qed

lemma bit_offset: "unat (i mod 64 :: u32) < 64"
  by (simp add: unat_mod)

lemma single_bit_nonzero: "n < 64 \<Longrightarrow> push_bit n (1 :: u64) \<noteq> 0"
  using unat_pow2_u64 [of n] by auto

lemma test_set_self: "length bits = 8 \<Longrightarrow> test_bit_at (i mod 512) (set_bit_at (i mod 512) bits)"
  using word_index [of i] single_bit_nonzero [OF bit_offset, of "i mod 512"]
  by (simp add: test_bit_at_def set_bit_at_def Let_def bit.conj_disj_distrib2)

lemma test_set_keep: "length bits = 8 \<Longrightarrow> test_bit_at (i mod 512) bits \<Longrightarrow>
  test_bit_at (i mod 512) (set_bit_at (j mod 512) bits)"
  using word_index [of j] by (auto simp: test_bit_at_def set_bit_at_def Let_def nth_list_update
      bit.conj_disj_distrib2 or_eq_0_iff)


lemma length_set_bit [simp]: "length (set_bit_at i bits) = length bits"
  by (simp add: set_bit_at_def Let_def)

lemma length_bloom_insert [simp]: "length (bloom_insert key bits) = length bits"
  by (simp add: bloom_insert_def)

interpretation bloom: membership_filter bloom_empty bloom_insert may_contain "\<lambda>f. length f = 8"
  by unfold_locales
     (simp_all add: bloom_empty_def bloom_insert_def may_contain_def test_set_self test_set_keep)

section \<open>Manager\<close>

datatype blacklist_key = MarketKey ident | TokenKey ident

record blacklist_info =
  bi_market_id :: ident
  bi_token_id :: "ident option"
  bi_scope :: blacklist_scope
  bi_reason :: blacklist_reason
  bi_expires_at :: "instant option"
  bi_miss_count :: int
  bi_created_at :: instant
  bi_updated_at :: instant

definition is_expired :: "blacklist_info \<Rightarrow> instant \<Rightarrow> bool" where
  "is_expired i now \<longleftrightarrow> (case bi_expires_at i of None \<Rightarrow> False | Some e \<Rightarrow> now \<ge> e)"

definition is_permanent :: "blacklist_info \<Rightarrow> bool" where
  "is_permanent i \<longleftrightarrow> bi_expires_at i = None"

datatype blacklist_check_result =
    Clear
  | Blocked blacklist_reason blacklist_scope "instant option"

record blacklist_manager =
  bm_entries :: "(blacklist_key \<times> blacklist_info) list"
  bm_market_miss_blacklist_count :: u32
  bm_market_miss_blacklist_duration_secs :: u64

definition permanent_market_info :: "instant \<Rightarrow> ident \<Rightarrow> blacklist_info" where
  "permanent_market_info now market = \<lparr>bi_market_id = market, bi_token_id = None, bi_scope = Full,
     bi_reason = Manual, bi_expires_at = None, bi_miss_count = 0, bi_created_at = now, bi_updated_at = now\<rparr>"

definition permanent_token_info :: "instant \<Rightarrow> ident \<Rightarrow> blacklist_info" where
  "permanent_token_info now token = \<lparr>bi_market_id = ''_token_blacklist_'', bi_token_id = Some token,
     bi_scope = Full, bi_reason = Manual, bi_expires_at = None, bi_miss_count = 0,
     bi_created_at = now, bi_updated_at = now\<rparr>"

text \<open>\<open>entries.entry(key).or_insert_with(..)\<close>.\<close>

definition or_insert_with :: "'k \<Rightarrow> 'v \<Rightarrow> ('k \<times> 'v) list \<Rightarrow> ('k \<times> 'v) list" where
  "or_insert_with k v al = (if map_of al k = None then AList.update k v al else al)"

definition merge_permanent_entries :: "instant \<Rightarrow> risk_config \<Rightarrow> blacklist_manager \<Rightarrow> blacklist_manager" where
  "merge_permanent_entries now config m =
     m\<lparr>bm_entries :=
        fold (\<lambda>t. or_insert_with (TokenKey t) (permanent_token_info now t)) (rc_permanent_blacklist_tokens config)
          (fold (\<lambda>s. or_insert_with (MarketKey s) (permanent_market_info now s))
             (rc_permanent_blacklist_markets config) (bm_entries m))\<rparr>"

definition new_blacklist :: "instant \<Rightarrow> risk_config \<Rightarrow> blacklist_manager" where
  "new_blacklist now config = merge_permanent_entries now config
     \<lparr>bm_entries = [], bm_market_miss_blacklist_count = rc_market_miss_blacklist_count config,
      bm_market_miss_blacklist_duration_secs = rc_market_miss_blacklist_duration_secs config\<rparr>"

definition reload_blacklist :: "instant \<Rightarrow> risk_config \<Rightarrow> blacklist_manager \<Rightarrow> blacklist_manager" where
  "reload_blacklist now config m = merge_permanent_entries now config
     (m\<lparr>bm_market_miss_blacklist_count := rc_market_miss_blacklist_count config,
        bm_market_miss_blacklist_duration_secs := rc_market_miss_blacklist_duration_secs config\<rparr>)"

definition key_of :: "ident \<Rightarrow> ident option \<Rightarrow> blacklist_key" where
  "key_of market token = (case token of None \<Rightarrow> MarketKey market | Some t \<Rightarrow> TokenKey t)"

definition load_entries :: "instant \<Rightarrow> blacklist_info list \<Rightarrow> blacklist_manager \<Rightarrow> blacklist_manager" where
  "load_entries now entries m =
     m\<lparr>bm_entries := fold (\<lambda>e al. if is_expired e now then al
          else AList.update (key_of (bi_market_id e) (bi_token_id e)) e al) entries (bm_entries m)\<rparr>"

definition check_blacklist ::
  "instant \<Rightarrow> ident \<Rightarrow> blacklist_scope \<Rightarrow> blacklist_manager \<Rightarrow> blacklist_check_result \<times> blacklist_manager" where
  "check_blacklist now market_id required_scope m =
     (let key = MarketKey market_id in
      case map_of (bm_entries m) key of
        None \<Rightarrow> (Clear, m)
      | Some entry \<Rightarrow>
          if is_expired entry now
          then (Clear, m\<lparr>bm_entries := AList.delete key (bm_entries m)\<rparr>)
          else if bi_scope entry \<ge> required_scope
          then (Blocked (bi_reason entry) (bi_scope entry) (bi_expires_at entry), m)
          else (Clear, m))"

text \<open>The only caller passes a duration of whole seconds.\<close>

definition add_temporary ::
  "'z libs_scheme \<Rightarrow> instant \<Rightarrow> ident \<Rightarrow> ident option \<Rightarrow> blacklist_scope \<Rightarrow> blacklist_reason \<Rightarrow>
   u64 \<Rightarrow> u32 \<Rightarrow> blacklist_manager \<Rightarrow> blacklist_info \<times> blacklist_manager" where
  "add_temporary L now market_id token_id scope reason duration miss_count m =
     (let expires_at = add_secs L now (case from_std_secs L duration of Some s \<Rightarrow> s | None \<Rightarrow> 3600);
          key = key_of market_id token_id
      in case map_of (bm_entries m) key of
           Some existing \<Rightarrow>
             if is_permanent existing then (existing, m)
             else
               let e1 = (if scope > bi_scope existing then existing\<lparr>bi_scope := scope\<rparr> else existing);
                   e2 = (case bi_expires_at e1 of
                           None \<Rightarrow> e1\<lparr>bi_expires_at := Some expires_at\<rparr>
                         | Some old \<Rightarrow> if expires_at > old then e1\<lparr>bi_expires_at := Some expires_at\<rparr> else e1);
                   e3 = e2\<lparr>bi_miss_count := to_i32_or_max miss_count\<rparr>
               in (e3, m\<lparr>bm_entries := AList.update key e3 (bm_entries m)\<rparr>)
         | None \<Rightarrow>
             let new_entry = \<lparr>bi_market_id = market_id, bi_token_id = token_id, bi_scope = scope,
                   bi_reason = reason, bi_expires_at = Some expires_at,
                   bi_miss_count = to_i32_or_max miss_count, bi_created_at = now, bi_updated_at = now\<rparr>
             in (new_entry, m\<lparr>bm_entries := AList.update key new_entry (bm_entries m)\<rparr>))"

definition add_permanent ::
  "instant \<Rightarrow> ident \<Rightarrow> blacklist_reason \<Rightarrow> blacklist_manager \<Rightarrow> blacklist_info \<times> blacklist_manager" where
  "add_permanent now market_id reason m =
     (let entry = \<lparr>bi_market_id = market_id, bi_token_id = None, bi_scope = Full, bi_reason = reason,
            bi_expires_at = None, bi_miss_count = 0, bi_created_at = now, bi_updated_at = now\<rparr>
      in (entry, m\<lparr>bm_entries := AList.update (MarketKey market_id) entry (bm_entries m)\<rparr>))"

definition remove_market :: "ident \<Rightarrow> blacklist_manager \<Rightarrow> bool \<times> blacklist_manager" where
  "remove_market market_id m =
     (map_of (bm_entries m) (MarketKey market_id) \<noteq> None,
      m\<lparr>bm_entries := AList.delete (MarketKey market_id) (bm_entries m)\<rparr>)"

definition gc_blacklist :: "instant \<Rightarrow> blacklist_manager \<Rightarrow> nat \<times> blacklist_manager" where
  "gc_blacklist now m =
     (let kept = filter (\<lambda>(k, e). is_permanent e \<or> \<not> is_expired e now) (bm_entries m)
      in (length (bm_entries m) - length kept, m\<lparr>bm_entries := kept\<rparr>))"

definition maybe_auto_blacklist ::
  "'z libs_scheme \<Rightarrow> instant \<Rightarrow> ident \<Rightarrow> u32 \<Rightarrow> blacklist_manager \<Rightarrow>
   blacklist_info option \<times> blacklist_manager" where
  "maybe_auto_blacklist L now market_id consecutive_misses m =
     (if consecutive_misses < bm_market_miss_blacklist_count m then (None, m)
      else if map_of (bm_entries m) (MarketKey market_id) \<noteq> None then (None, m)
      else
        let (entry, m1) = add_temporary L now market_id None TradingPath ConsecutiveFokFailures
              (bm_market_miss_blacklist_duration_secs m) consecutive_misses m
        in (Some entry, m1))"

definition manager_is_token_blacklisted :: "instant \<Rightarrow> ident \<Rightarrow> blacklist_manager \<Rightarrow> bool \<times> blacklist_manager" where
  "manager_is_token_blacklisted now token_id m =
     (let key = TokenKey token_id in
      case map_of (bm_entries m) key of
        None \<Rightarrow> (False, m)
      | Some entry \<Rightarrow>
          if is_expired entry now then (False, m\<lparr>bm_entries := AList.delete key (bm_entries m)\<rparr>)
          else (True, m))"

definition blacklist_active_entries :: "instant \<Rightarrow> blacklist_manager \<Rightarrow> blacklist_info list" where
  "blacklist_active_entries now m = filter (\<lambda>e. \<not> is_expired e now) (map snd (bm_entries m))"

section \<open>Published view\<close>

record trading_path_block =
  tb_market_id :: ident
  tb_reason :: blacklist_reason
  tb_scope :: blacklist_scope

record blacklist_snapshot =
  bs_market_bloom :: bloom_filter
  bs_token_bloom :: bloom_filter
  bs_trading_path_blocks :: "trading_path_block list"
  bs_blacklisted_tokens :: "ident list"

definition empty_blacklist_snapshot :: blacklist_snapshot where
  "empty_blacklist_snapshot = \<lparr>bs_market_bloom = bloom_empty, bs_token_bloom = bloom_empty,
     bs_trading_path_blocks = [], bs_blacklisted_tokens = []\<rparr>"

definition snapshot_entry ::
  "instant \<Rightarrow> blacklist_key \<times> blacklist_info \<Rightarrow> blacklist_snapshot \<Rightarrow> blacklist_snapshot" where
  "snapshot_entry now entry s =
     (let (key, info) = entry in
      if is_expired info now then s
      else case key of
        MarketKey market_id \<Rightarrow>
          let s1 = s\<lparr>bs_market_bloom := bloom_insert market_id (bs_market_bloom s)\<rparr>
          in if bi_scope info \<ge> TradingPath
             then s1\<lparr>bs_trading_path_blocks := bs_trading_path_blocks s1 @
                      [\<lparr>tb_market_id = market_id, tb_reason = bi_reason info, tb_scope = bi_scope info\<rparr>]\<rparr>
             else s1
      | TokenKey token_id \<Rightarrow>
          s\<lparr>bs_token_bloom := bloom_insert token_id (bs_token_bloom s),
            bs_blacklisted_tokens := bs_blacklisted_tokens s @ [token_id]\<rparr>)"

definition build_bloom_snapshot :: "instant \<Rightarrow> blacklist_manager \<Rightarrow> blacklist_snapshot" where
  "build_bloom_snapshot now m = fold (snapshot_entry now) (bm_entries m) empty_blacklist_snapshot"

definition trading_path_block_detail :: "blacklist_snapshot \<Rightarrow> ident \<Rightarrow> message option" where
  "trading_path_block_detail s market_id =
     (if \<not> may_contain (bs_market_bloom s) market_id then None
      else map_option (\<lambda>b. [Lit (blacklist_reason_str (tb_reason b)), Lit '' (scope: '',
                            Lit (scope_str (tb_scope b)), Lit '')''])
             (find (\<lambda>b. tb_market_id b = market_id) (bs_trading_path_blocks s)))"

definition is_token_blacklisted :: "blacklist_snapshot \<Rightarrow> ident \<Rightarrow> bool" where
  "is_token_blacklisted s token_id \<longleftrightarrow>
     (if \<not> may_contain (bs_token_bloom s) token_id then False
      else token_id \<in> set (bs_blacklisted_tokens s))"

section \<open>The view answers as the live map\<close>

definition blocked_at :: "blacklist_manager \<Rightarrow> blacklist_key \<Rightarrow> blacklist_scope \<Rightarrow> instant \<Rightarrow> bool" where
  "blocked_at m k s t \<longleftrightarrow>
     (case map_of (bm_entries m) k of None \<Rightarrow> False | Some e \<Rightarrow> \<not> is_expired e t \<and> s \<le> bi_scope e)"

definition live_keys :: "instant \<Rightarrow> (blacklist_key \<times> blacklist_info) list \<Rightarrow> blacklist_key list" where
  "live_keys now al = map fst (filter (\<lambda>(k, e). \<not> is_expired e now) al)"

definition markets_of :: "blacklist_key list \<Rightarrow> ident list" where
  "markets_of ks = concat (map (\<lambda>k. case k of MarketKey m \<Rightarrow> [m] | TokenKey t \<Rightarrow> []) ks)"

definition tokens_of :: "blacklist_key list \<Rightarrow> ident list" where
  "tokens_of ks = concat (map (\<lambda>k. case k of MarketKey m \<Rightarrow> [] | TokenKey t \<Rightarrow> [t]) ks)"

definition blocks_of :: "instant \<Rightarrow> (blacklist_key \<times> blacklist_info) list \<Rightarrow> trading_path_block list" where
  "blocks_of now al = concat (map (\<lambda>(k, e).
     if is_expired e now then [] else
     case k of MarketKey m \<Rightarrow>
         if bi_scope e \<ge> TradingPath
         then [\<lparr>tb_market_id = m, tb_reason = bi_reason e, tb_scope = bi_scope e\<rparr>] else []
     | TokenKey t \<Rightarrow> []) al)"

lemma snapshot_parts:
  "fold (snapshot_entry now) al s =
     \<lparr>bs_market_bloom = fold bloom_insert (markets_of (live_keys now al)) (bs_market_bloom s),
      bs_token_bloom = fold bloom_insert (tokens_of (live_keys now al)) (bs_token_bloom s),
      bs_trading_path_blocks = bs_trading_path_blocks s @ blocks_of now al,
      bs_blacklisted_tokens = bs_blacklisted_tokens s @ tokens_of (live_keys now al)\<rparr>"
  by (induction al arbitrary: s)
     (auto simp: live_keys_def markets_of_def tokens_of_def blocks_of_def snapshot_entry_def Let_def
       split: blacklist_key.splits)

lemma set_markets_of: "m \<in> set (markets_of ks) \<longleftrightarrow> MarketKey m \<in> set ks"
  by (auto simp: markets_of_def split: blacklist_key.splits)

lemma set_tokens_of: "t \<in> set (tokens_of ks) \<longleftrightarrow> TokenKey t \<in> set ks"
  by (auto simp: tokens_of_def split: blacklist_key.splits)

lemma set_live_keys:
  assumes "distinct (map fst al)"
  shows "k \<in> set (live_keys now al) \<longleftrightarrow> (\<exists>e. map_of al k = Some e \<and> \<not> is_expired e now)"
  using assms by (force simp: live_keys_def map_of_eq_Some_iff image_iff)

lemma find_blocks_of:
  assumes "distinct (map fst al)"
  shows "find (\<lambda>b. tb_market_id b = m) (blocks_of now al) =
    (case map_of al (MarketKey m) of
       Some e \<Rightarrow> if \<not> is_expired e now \<and> bi_scope e \<ge> TradingPath
                 then Some \<lparr>tb_market_id = m, tb_reason = bi_reason e, tb_scope = bi_scope e\<rparr> else None
     | None \<Rightarrow> None)"
  using assms
proof (induction al)
  case (Cons a al)
  obtain k e where a: "a = (k, e)" by (cases a)
  have none: "find (\<lambda>b. tb_market_id b = m) (blocks_of now al) = None" if "k = MarketKey m"
    using Cons that a by (auto simp: map_of_eq_None_iff [THEN iffD2])
  have step: "blocks_of now (a # al) = blocks_of now [a] @ blocks_of now al"
    by (simp add: blocks_of_def)
  show ?case
  proof (cases "k = MarketKey m")
    case True
    then show ?thesis using a none [OF True] by (simp add: blocks_of_def)
  next
    case False
    then have "find (\<lambda>b. tb_market_id b = m) (blocks_of now (a # al)) = find (\<lambda>b. tb_market_id b = m) (blocks_of now al)"
      using a by (simp add: blocks_of_def split: blacklist_key.splits)
    then show ?thesis using Cons a False by simp
  qed
qed (simp add: blocks_of_def)

text \<open>C31: The lock-free blacklist view is exact. For every manager and instant, the published
  view (two 512-bit Bloom filters with three FNV hashes, plus the confirmation tables) reports a market as
  blocked on the trading path precisely when the live map checked at that instant does, and a token as blacklisted
  precisely when the live map does; the filters give no false negative and their false positives are
  always corrected.\<close>

theorem blacklist_view_exact:
  assumes "distinct (map fst (bm_entries m))"
  shows "(trading_path_block_detail (build_bloom_snapshot now m) market \<noteq> None
           \<longleftrightarrow> fst (check_blacklist now market TradingPath m) \<noteq> Clear)
       \<and> (is_token_blacklisted (build_bloom_snapshot now m) token
           \<longleftrightarrow> fst (manager_is_token_blacklisted now token m))"
proof -
  let ?al = "bm_entries m"
  have snap: "build_bloom_snapshot now m =
     \<lparr>bs_market_bloom = fold bloom_insert (markets_of (live_keys now ?al)) bloom_empty,
      bs_token_bloom = fold bloom_insert (tokens_of (live_keys now ?al)) bloom_empty,
      bs_trading_path_blocks = blocks_of now ?al, bs_blacklisted_tokens = tokens_of (live_keys now ?al)\<rparr>"
    by (simp add: build_bloom_snapshot_def snapshot_parts empty_blacklist_snapshot_def)
  have bloom: "may_contain (fold bloom_insert ks bloom_empty) k" if "k \<in> set ks" for ks k
    using bloom.no_false_negative [OF bloom.wf_empty that] .
  have mk: "may_contain (fold bloom_insert (markets_of (live_keys now ?al)) bloom_empty) market"
    if "map_of ?al (MarketKey market) = Some e" "\<not> is_expired e now" for e
    using that by (intro bloom) (auto simp: set_markets_of set_live_keys [OF assms])
  have "trading_path_block_detail (build_bloom_snapshot now m) market \<noteq> None
           \<longleftrightarrow> fst (check_blacklist now market TradingPath m) \<noteq> Clear"
    using mk by (auto simp: trading_path_block_detail_def snap find_blocks_of [OF assms]
        check_blacklist_def Let_def split: option.splits if_splits)
  moreover have "is_token_blacklisted (build_bloom_snapshot now m) token
           \<longleftrightarrow> fst (manager_is_token_blacklisted now token m)"
    using bloom [of token "tokens_of (live_keys now ?al)"]
    by (auto simp: is_token_blacklisted_def snap set_tokens_of set_live_keys [OF assms]
        manager_is_token_blacklisted_def Let_def split: option.splits if_splits)
  ultimately show ?thesis ..
qed

definition demo_blacklist :: blacklist_manager where
  "demo_blacklist = new_blacklist 0
     (default_risk_config\<lparr>rc_permanent_blacklist_markets := [''m1''], rc_permanent_blacklist_tokens := [''t1'']\<rparr>)"

lemma demo_blacklist_entries:
  "bm_entries demo_blacklist =
     [(MarketKey ''m1'', permanent_market_info 0 ''m1''), (TokenKey ''t1'', permanent_token_info 0 ''t1'')]"
  by (simp add: demo_blacklist_def new_blacklist_def merge_permanent_entries_def or_insert_with_def)

theorem blacklist_view_exact_witness:
  "trading_path_block_detail (build_bloom_snapshot 5 demo_blacklist) ''m1'' \<noteq> None
   \<and> is_token_blacklisted (build_bloom_snapshot 5 demo_blacklist) ''t1''"
  using blacklist_view_exact [of demo_blacklist 5 "''m1''" "''t1''"]
  by (simp add: demo_blacklist_entries check_blacklist_def manager_is_token_blacklisted_def
      permanent_market_info_def permanent_token_info_def is_expired_def)

section \<open>Blocks are never weakened\<close>

datatype blacklist_op =
    OpReload risk_config
  | OpCheck ident blacklist_scope
  | OpCheckToken ident
  | OpAddTemporary ident "ident option" blacklist_scope blacklist_reason u64 u32
  | OpAddPermanent ident blacklist_reason
  | OpAuto ident u32
  | OpGc

fun blacklist_step :: "'z libs_scheme \<Rightarrow> instant \<Rightarrow> blacklist_op \<Rightarrow> blacklist_manager \<Rightarrow> blacklist_manager" where
  "blacklist_step L now (OpReload c) m = reload_blacklist now c m"
| "blacklist_step L now (OpCheck i s) m = snd (check_blacklist now i s m)"
| "blacklist_step L now (OpCheckToken i) m = snd (manager_is_token_blacklisted now i m)"
| "blacklist_step L now (OpAddTemporary i t s r d c) m = snd (add_temporary L now i t s r d c m)"
| "blacklist_step L now (OpAddPermanent i r) m = snd (add_permanent now i r m)"
| "blacklist_step L now (OpAuto i c) m = snd (maybe_auto_blacklist L now i c m)"
| "blacklist_step L now OpGc m = snd (gc_blacklist now m)"

lemma expired_mono: "is_expired e t \<Longrightarrow> t \<le> t' \<Longrightarrow> is_expired e t'"
  by (auto simp: is_expired_def split: option.splits)

lemma map_of_delete: "map_of (AList.delete k al) k' = (if k = k' then None else map_of al k')"
  by (simp add: delete_conv)

lemma or_insert_keep: "map_of al k = Some e \<Longrightarrow> map_of (or_insert_with k' v al) k = Some e"
  by (auto simp: or_insert_with_def update_conv')

lemma map_of_fold_or_insert:
  "map_of al k = Some e \<Longrightarrow> map_of (fold (\<lambda>x. or_insert_with (f x) (g x)) xs al) k = Some e"
  by (induction xs arbitrary: al) (simp_all add: or_insert_keep)

lemma distinct_fold_or_insert:
  "distinct (map fst al) \<Longrightarrow> distinct (map fst (fold (\<lambda>x. or_insert_with (f x) (g x)) xs al))"
  by (induction xs arbitrary: al) (simp_all add: or_insert_with_def distinct_update)

lemma map_of_filter_snd:
  assumes "distinct (map fst al)"
  shows "map_of (filter (\<lambda>(k, e). P e) al) k =
    (case map_of al k of Some e \<Rightarrow> if P e then Some e else None | None \<Rightarrow> None)"
  using assms
proof (induction al)
  case (Cons a al)
  have "fst ` set (filter (\<lambda>(k, e). P e) al) \<subseteq> fst ` set al" by auto
  with Cons.prems have "map_of (filter (\<lambda>(k, e). P e) al) (fst a) = None"
    by (auto simp: map_of_eq_None_iff)
  with Cons show ?case by (cases a) auto
qed simp

lemma blacklist_step_distinct:
  "distinct (map fst (bm_entries m)) \<Longrightarrow> distinct (map fst (bm_entries (blacklist_step L now p m)))"
  by (cases p)
     (auto simp: reload_blacklist_def merge_permanent_entries_def distinct_fold_or_insert check_blacklist_def
       manager_is_token_blacklisted_def add_temporary_def add_permanent_def maybe_auto_blacklist_def
       gc_blacklist_def Let_def distinct_update distinct_delete distinct_map_filter
       split: option.splits prod.splits)

lemma add_temporary_keeps:
  assumes "map_of (bm_entries m) k = Some e" "\<not> is_expired e t"
  shows "\<exists>e'. map_of (bm_entries (snd (add_temporary L now i tk s r d c m))) k = Some e'
    \<and> bi_scope e \<le> bi_scope e' \<and> \<not> is_expired e' t"
  using assms
  by (auto simp: add_temporary_def Let_def update_conv is_permanent_def is_expired_def
      split: option.splits if_splits)

lemma gc_keeps:
  assumes "distinct (map fst (bm_entries m))" "map_of (bm_entries m) k = Some e" "\<not> is_expired e now"
  shows "map_of (bm_entries (snd (gc_blacklist now m))) k = Some e"
  using assms map_of_filter_snd [OF assms(1), of "\<lambda>e. is_permanent e \<or> \<not> is_expired e now" k]
  by (simp add: gc_blacklist_def Let_def)

lemma check_keeps:
  assumes "map_of (bm_entries m) k = Some e" "\<not> is_expired e now"
  shows "map_of (bm_entries (snd (check_blacklist now i s m))) k = Some e"
    and "map_of (bm_entries (snd (manager_is_token_blacklisted now i m))) k = Some e"
  using assms unfolding check_blacklist_def manager_is_token_blacklisted_def Let_def
  by (cases "map_of (bm_entries m) (MarketKey i)", auto simp: map_of_delete)
     (cases "map_of (bm_entries m) (TokenKey i)", auto simp: map_of_delete)

lemma step_keeps:
  assumes "distinct (map fst (bm_entries m))" "map_of (bm_entries m) k = Some e" "\<not> is_expired e t" "now \<le> t"
  shows "\<exists>e'. map_of (bm_entries (blacklist_step L now p m)) k = Some e'
    \<and> bi_scope e \<le> bi_scope e' \<and> \<not> is_expired e' t"
proof -
  have live: "\<not> is_expired e now" using assms(3,4) expired_mono by blast
  show ?thesis
  proof (cases p)
    case (OpReload c)
    then show ?thesis using assms(2,3)
      by (simp add: reload_blacklist_def merge_permanent_entries_def map_of_fold_or_insert)
  next
    case (OpCheck i s)
    then show ?thesis using check_keeps(1) [OF assms(2) live] assms(3) by simp
  next
    case (OpCheckToken i)
    then show ?thesis using check_keeps(2) [OF assms(2) live] assms(3) by simp
  next
    case (OpAddTemporary i tk s r d c)
    then show ?thesis using add_temporary_keeps [OF assms(2,3)] by simp
  next
    case (OpAddPermanent i r)
    then show ?thesis using assms(2,3)
      by (auto simp: add_permanent_def Let_def update_conv is_expired_def)
  next
    case (OpAuto i c)
    then show ?thesis using assms(2,3) add_temporary_keeps [OF assms(2,3),
        of L now i None TradingPath ConsecutiveFokFailures "bm_market_miss_blacklist_duration_secs m" c]
      by (simp add: maybe_auto_blacklist_def case_prod_unfold Let_def)
  next
    case OpGc
    then show ?thesis using gc_keeps [OF assms(1,2) live] assms(3) by simp
  qed
qed

definition blacklist_run ::
  "'z libs_scheme \<Rightarrow> (instant \<times> blacklist_op) list \<Rightarrow> blacklist_manager \<Rightarrow> blacklist_manager" where
  "blacklist_run L ps m = fold (\<lambda>(now, p). blacklist_step L now p) ps m"



text \<open>The automatic block: at the configured number of consecutive misses a market without an
  entry is blocked on the trading path, from now until the configured duration has passed.\<close>

lemma auto_blacklist_blocks:
  assumes "chrono_laws L" "bm_market_miss_blacklist_count m \<le> misses"
    "map_of (bm_entries m) (MarketKey i) = None"
    "uint (bm_market_miss_blacklist_duration_secs m) \<le> (2 ^ 63 - 1) div 1000"
    "t < add_secs L now (uint (bm_market_miss_blacklist_duration_secs m))"
  shows "blocked_at (snd (maybe_auto_blacklist L now i misses m)) (MarketKey i) TradingPath t"
proof -
  have "from_std_secs L (bm_market_miss_blacklist_duration_secs m)
      = Some (uint (bm_market_miss_blacklist_duration_secs m))"
    using chrono.from_std_secs_eq [OF chrono.intro [OF assms(1)], of "bm_market_miss_blacklist_duration_secs m"] assms(4)
    by simp
  then show ?thesis using assms(2,3,5)
    by (simp add: maybe_auto_blacklist_def add_temporary_def key_of_def Let_def not_less
        blocked_at_def update_conv is_expired_def)
qed

text \<open>A permanent entry of the configuration does not survive the recovery of a persisted temporary
  entry for the same market, and is not added over a temporary one either: in both
  cases the market is tradable again once the temporary entry expires.\<close>

definition demo_temporary :: blacklist_info where
  "demo_temporary = (permanent_market_info 0 ''m1'')\<lparr>bi_scope := TradingPath, bi_expires_at := Some 10\<rparr>"

lemma load_entries_unblocks_permanent:
  "fst (check_blacklist 10 ''m1'' TradingPath (load_entries 0 [demo_temporary] demo_blacklist)) = Clear
   \<and> fst (check_blacklist 10 ''m1'' TradingPath
        (reload_blacklist 0 (default_risk_config\<lparr>rc_permanent_blacklist_markets := [''m1'']\<rparr>)
          (load_entries 0 [demo_temporary] (new_blacklist 0 default_risk_config)))) = Clear"
  by (simp add: check_blacklist_def load_entries_def demo_temporary_def demo_blacklist_entries
      permanent_market_info_def is_expired_def key_of_def reload_blacklist_def new_blacklist_def
      merge_permanent_entries_def or_insert_with_def config_defaults)

text \<open>An expired entry that was not collected yet keeps a market from being blacklisted
  automatically again.\<close>

lemma auto_blacklist_skips_expired:
  "fst (maybe_auto_blacklist utc_libs 10 ''m1'' 3 (load_entries 0 [demo_temporary] (new_blacklist 0 default_risk_config)))
     = None
   \<and> \<not> blocked_at (load_entries 0 [demo_temporary] (new_blacklist 0 default_risk_config)) (MarketKey ''m1'') DataPath 10"
  by (simp add: maybe_auto_blacklist_def load_entries_def demo_temporary_def permanent_market_info_def
      is_expired_def key_of_def new_blacklist_def merge_permanent_entries_def config_defaults blocked_at_def)

end
