(* ===== verification/Drawdown.thy ===== *)
theory Drawdown
  imports Risk_Types
begin

text \<open>
  The drawdown guard of \<open>oxide-arb-risk/src/sizing.rs\<close> and its frozen form in \<open>snapshot.rs\<close>:
  the high-water mark of the equity, the drawdown against it, and the factor that
  scales position sizes.
\<close>

datatype drawdown_action = Normal | Reduce | Halt

record drawdown_guard =
  dg_hwm :: usd
  dg_max_drawdown_pct :: decimal
  dg_reduction_factor :: decimal

definition new_drawdown :: "usd \<Rightarrow> decimal \<Rightarrow> decimal \<Rightarrow> drawdown_guard" where
  "new_drawdown initial_equity max_drawdown_pct reduction_factor =
     \<lparr>dg_hwm = initial_equity, dg_max_drawdown_pct = max_drawdown_pct,
      dg_reduction_factor = reduction_factor\<rparr>"

definition drawdown_from_snapshot :: "usd \<Rightarrow> decimal \<Rightarrow> decimal \<Rightarrow> drawdown_guard" where
  "drawdown_from_snapshot hwm max_drawdown_pct reduction_factor =
     \<lparr>dg_hwm = hwm, dg_max_drawdown_pct = max_drawdown_pct, dg_reduction_factor = reduction_factor\<rparr>"

definition update_equity :: "usd \<Rightarrow> drawdown_guard \<Rightarrow> drawdown_guard" where
  "update_equity current_equity g = (if current_equity > dg_hwm g then g\<lparr>dg_hwm := current_equity\<rparr> else g)"

definition set_params :: "decimal \<Rightarrow> decimal \<Rightarrow> drawdown_guard \<Rightarrow> drawdown_guard" where
  "set_params max_drawdown_pct reduction_factor g =
     g\<lparr>dg_max_drawdown_pct := max_drawdown_pct, dg_reduction_factor := reduction_factor\<rparr>"

definition evaluate_drawdown ::
  "'z decimal_ops_scheme \<Rightarrow> drawdown_guard \<Rightarrow> usd \<Rightarrow> decimal \<times> drawdown_action" where
  "evaluate_drawdown D g current_equity =
     (if dg_hwm g \<le> 0 then (0, Normal)
      else
        let drawdown = dec_sub D (dg_hwm g) current_equity;
            drawdown_pct = (if drawdown > 0 then dec_div D (dec_mul D drawdown 100) (dg_hwm g) else 0)
        in if drawdown_pct \<ge> dg_max_drawdown_pct g then (drawdown_pct, Halt)
           else if drawdown_pct > 0 then (drawdown_pct, Reduce)
           else (drawdown_pct, Normal))"

text \<open>The division by \<open>max_drawdown_pct\<close> is reached with a positive divisor only: the action is
  \<open>Reduce\<close> when the percentage is positive and below it.\<close>

definition sizing_factor :: "'z decimal_ops_scheme \<Rightarrow> drawdown_guard \<Rightarrow> usd \<Rightarrow> decimal" where
  "sizing_factor D g current_equity =
     (let (drawdown_pct, action) = evaluate_drawdown D g current_equity
      in case action of
           Normal \<Rightarrow> 1
         | Reduce \<Rightarrow>
             let ratio = dec_div D drawdown_pct (dg_max_drawdown_pct g)
             in dec_sub D 1 (dec_mul D ratio (dec_sub D 1 (dg_reduction_factor g)))
         | Halt \<Rightarrow> 0)"

record drawdown_snapshot =
  ds_hwm :: usd
  ds_max_drawdown_pct :: decimal
  ds_reduction_factor :: decimal

definition snapshot_guard :: "drawdown_snapshot \<Rightarrow> drawdown_guard" where
  "snapshot_guard s = drawdown_from_snapshot (ds_hwm s) (ds_max_drawdown_pct s) (ds_reduction_factor s)"

definition snapshot_evaluate ::
  "'z decimal_ops_scheme \<Rightarrow> drawdown_snapshot \<Rightarrow> usd \<Rightarrow> decimal \<times> drawdown_action" where
  "snapshot_evaluate D s current_equity = evaluate_drawdown D (snapshot_guard s) current_equity"

definition snapshot_sizing_factor :: "'z decimal_ops_scheme \<Rightarrow> drawdown_snapshot \<Rightarrow> usd \<Rightarrow> decimal" where
  "snapshot_sizing_factor D s current_equity = sizing_factor D (snapshot_guard s) current_equity"

section \<open>High-water mark\<close>

lemma hwm_is_max: "dg_hwm (fold update_equity es g) = Max (insert (dg_hwm g) (set es))"
proof (induction es arbitrary: g)
  case (Cons e es)
  have "dg_hwm (update_equity e g) = max e (dg_hwm g)"
    by (simp add: update_equity_def)
  then show ?case using Cons [of "update_equity e g"]
    by (cases "es = []") (auto simp: Max_insert max.left_commute max.commute)
qed simp

section \<open>The scaling factor\<close>

context decimal
begin

lemma reduce_pct: "evaluate_drawdown D g e = (p, Reduce) \<Longrightarrow> 0 < p \<and> p < dg_max_drawdown_pct g"
  by (auto simp: evaluate_drawdown_def Let_def split: if_splits)

lemma sizing_factor_bounds:
  assumes "representable (dg_reduction_factor g)" "0 \<le> dg_reduction_factor g" "dg_reduction_factor g \<le> 1"
  shows "(case snd (evaluate_drawdown D g e) of
      Normal \<Rightarrow> sizing_factor D g e = 1
    | Reduce \<Rightarrow> dg_reduction_factor g \<le> sizing_factor D g e \<and> sizing_factor D g e \<le> 1
    | Halt \<Rightarrow> sizing_factor D g e = 0)"
proof -
  obtain p a where ev: "evaluate_drawdown D g e = (p, a)" by (cases "evaluate_drawdown D g e")
  show ?thesis
  proof (cases a)
    case Reduce
    let ?m = "dg_max_drawdown_pct g" and ?r = "dg_reduction_factor g"
    have p: "0 < p" "p < ?m" using reduce_pct ev Reduce by auto
    have rep: "representable (1 - ?r)" using representable_one_minus assms by simp
    have sub: "dec_sub D 1 ?r = 1 - ?r" using rep by (rule sub_exact)
    define x where "x = dec_mul D (dec_div D p ?m) (1 - ?r)"
    have "0 \<le> x" unfolding x_def using p assms by (intro mul_nonneg div_nonneg) simp_all
    moreover have "x \<le> 1 - ?r" unfolding x_def
      using p assms rep by (intro mul_le_right div_le_one) simp_all
    ultimately have "?r \<le> dec_sub D 1 x" "dec_sub D 1 x \<le> 1"
      using sub_faithful [of 1 x, THEN faithful_ge, of ?r] sub_faithful [of 1 x, THEN faithful_le, of 1] assms(1)
      by simp_all
    then show ?thesis using ev Reduce by (simp add: sizing_factor_def sub x_def)
  qed (simp_all add: ev sizing_factor_def)
qed

end



end
