(* ===== verification/Context.thy ===== *)
theory Context
  imports Blacklist Drawdown
begin

text \<open>
  The inputs of one pre-trade decision: the published \<open>RiskSnapshot\<close> (\<open>snapshot.rs\<close>), the metrics
  read in one batch (\<open>traits.rs\<close>) and the \<open>PreTradeContext\<close> with its accessors (\<open>context.rs\<close>).
\<close>

section \<open>Risk snapshot\<close>

record circuit_breaker_gate =
  cg_allows_trading :: bool
  cg_is_probe :: bool

datatype manual_halt_gate = HaltClear | HaltHalted message

fun manual_allows_trading :: "manual_halt_gate \<Rightarrow> bool" where
  "manual_allows_trading HaltClear = True"
| "manual_allows_trading (HaltHalted _) = False"

fun denial_detail :: "manual_halt_gate \<Rightarrow> message option" where
  "denial_detail HaltClear = None"
| "denial_detail (HaltHalted reason) = Some reason"

record circuit_breaker_snapshot =
  cbs_circuit_breaker :: circuit_breaker_gate
  cbs_manual_halt :: manual_halt_gate

record daily_accounting_snapshot =
  das_daily_loss :: usd
  das_daily_fee :: usd
  das_daily_pnl :: usd
  das_daily_budget_remaining :: usd

record weekly_accounting_snapshot =
  was_weekly_loss :: usd

record hourly_accounting_snapshot =
  has_hourly_loss :: usd
  has_hourly_fee :: usd

record risk_snapshot =
  rs_circuit_breaker :: circuit_breaker_snapshot
  rs_daily :: daily_accounting_snapshot
  rs_weekly :: weekly_accounting_snapshot
  rs_hourly :: hourly_accounting_snapshot
  rs_drawdown :: drawdown_snapshot
  rs_total_potential_loss :: usd
  rs_blacklist :: blacklist_snapshot

definition zeroed_risk_snapshot :: risk_snapshot where
  "zeroed_risk_snapshot =
     \<lparr>rs_circuit_breaker = \<lparr>cbs_circuit_breaker = \<lparr>cg_allows_trading = True, cg_is_probe = False\<rparr>,
        cbs_manual_halt = HaltClear\<rparr>,
      rs_daily = \<lparr>das_daily_loss = 0, das_daily_fee = 0, das_daily_pnl = 0, das_daily_budget_remaining = 0\<rparr>,
      rs_weekly = \<lparr>was_weekly_loss = 0\<rparr>,
      rs_hourly = \<lparr>has_hourly_loss = 0, has_hourly_fee = 0\<rparr>,
      rs_drawdown = \<lparr>ds_hwm = 0, ds_max_drawdown_pct = 0, ds_reduction_factor = 1\<rparr>,
      rs_total_potential_loss = 0, rs_blacklist = empty_blacklist_snapshot\<rparr>"

section \<open>Metrics\<close>

record risk_metrics_snapshot =
  ms_version :: u64
  ms_cash_balance :: usd
  ms_position_mark_value :: usd
  ms_equity :: usd
  ms_total_exposure :: usd
  ms_market_exposure :: usd
  ms_open_position_count :: usize
  ms_active_reservation_count :: usize
  ms_reserved_usd :: usd
  ms_open_directional_count_buy :: usize
  ms_open_directional_count_sell :: usize
  ms_daily_directional_trades_buy :: u32
  ms_daily_directional_trades_sell :: u32
  ms_consecutive_market_misses :: u32
  ms_market_ws_disconnect_secs :: u64
  ms_ws_disconnect_secs :: u64
  ms_api_error_count :: u64
  ms_api_request_count :: u64
  ms_is_stale :: bool
  ms_metrics_age_secs :: u64
  ms_is_authoritative :: bool

definition zeroed_metrics :: risk_metrics_snapshot where
  "zeroed_metrics = \<lparr>ms_version = 0, ms_cash_balance = 0, ms_position_mark_value = 0, ms_equity = 0,
     ms_total_exposure = 0, ms_market_exposure = 0, ms_open_position_count = 0,
     ms_active_reservation_count = 0, ms_reserved_usd = 0, ms_open_directional_count_buy = 0,
     ms_open_directional_count_sell = 0, ms_daily_directional_trades_buy = 0,
     ms_daily_directional_trades_sell = 0, ms_consecutive_market_misses = 0,
     ms_market_ws_disconnect_secs = 0, ms_ws_disconnect_secs = 0, ms_api_error_count = 0,
     ms_api_request_count = 0, ms_is_stale = True, ms_metrics_age_secs = u64_max,
     ms_is_authoritative = False\<rparr>"

fun open_directional_count :: "risk_metrics_snapshot \<Rightarrow> side \<Rightarrow> usize" where
  "open_directional_count m Buy = ms_open_directional_count_buy m"
| "open_directional_count m Sell = ms_open_directional_count_sell m"

fun daily_directional_trades :: "risk_metrics_snapshot \<Rightarrow> side \<Rightarrow> u32" where
  "daily_directional_trades m Buy = ms_daily_directional_trades_buy m"
| "daily_directional_trades m Sell = ms_daily_directional_trades_sell m"

text \<open>The trait \<open>RiskMetrics\<close>: what its accessors return at the time of a call. Of the open positions only the market
  ids are read. The default \<open>snapshot_for\<close> reads all accessors in one batch.\<close>

record risk_metrics =
  mt_total_exposure :: usd
  mt_market_exposure :: "ident \<Rightarrow> usd"
  mt_open_position_count :: usize
  mt_open_positions :: "ident list"
  mt_cash_balance :: usd
  mt_position_mark_value :: usd
  mt_equity :: usd
  mt_active_reservation_count :: usize
  mt_reserved_usd :: usd
  mt_open_directional_count :: "side \<Rightarrow> usize"
  mt_daily_directional_trades :: "side \<Rightarrow> u32"
  mt_consecutive_market_misses :: "ident \<Rightarrow> u32"
  mt_ws_disconnect_secs :: u64
  mt_api_error_count :: u64
  mt_api_request_count :: u64
  mt_metrics_age_secs :: u64
  mt_is_stale :: bool
  mt_is_authoritative :: bool

definition snapshot_for :: "risk_metrics \<Rightarrow> ident \<Rightarrow> risk_metrics_snapshot" where
  "snapshot_for m market_id = \<lparr>ms_version = 0, ms_cash_balance = mt_cash_balance m,
     ms_position_mark_value = mt_position_mark_value m, ms_equity = mt_equity m,
     ms_total_exposure = mt_total_exposure m, ms_market_exposure = mt_market_exposure m market_id,
     ms_open_position_count = mt_open_position_count m,
     ms_active_reservation_count = mt_active_reservation_count m, ms_reserved_usd = mt_reserved_usd m,
     ms_open_directional_count_buy = mt_open_directional_count m Buy,
     ms_open_directional_count_sell = mt_open_directional_count m Sell,
     ms_daily_directional_trades_buy = mt_daily_directional_trades m Buy,
     ms_daily_directional_trades_sell = mt_daily_directional_trades m Sell,
     ms_consecutive_market_misses = mt_consecutive_market_misses m market_id,
     ms_market_ws_disconnect_secs = mt_ws_disconnect_secs m, ms_ws_disconnect_secs = mt_ws_disconnect_secs m,
     ms_api_error_count = mt_api_error_count m, ms_api_request_count = mt_api_request_count m,
     ms_is_stale = mt_is_stale m, ms_metrics_age_secs = mt_metrics_age_secs m,
     ms_is_authoritative = mt_is_authoritative m\<rparr>"

section \<open>Decision context\<close>

record sized_intent =
  si_bet_usd :: usd
  si_fee_usd :: usd

record settlement_gate_input =
  sg_mode :: execution_mode
  sg_market_neg_risk :: "bool option"
  sg_redeem_policy :: "redeem_routing_policy option"

record admission_gate_input =
  ag_settlement :: settlement_gate_input
  ag_integrity :: trade_integrity_snapshot

record pre_trade_context =
  pc_opportunity :: opportunity
  pc_probability :: probability_input
  pc_snap :: risk_snapshot
  pc_metrics :: risk_metrics_snapshot
  pc_factor_context :: "factor_decision_context option"
  pc_settlement_gate :: settlement_gate_input
  pc_integrity :: trade_integrity_snapshot
  pc_now :: instant
  pc_sized_intent :: "sized_intent option"

definition ctx_manual_halt :: "pre_trade_context \<Rightarrow> manual_halt_gate" where
  "ctx_manual_halt ctx = cbs_manual_halt (rs_circuit_breaker (pc_snap ctx))"

definition ctx_circuit_breaker :: "pre_trade_context \<Rightarrow> circuit_breaker_gate" where
  "ctx_circuit_breaker ctx = cbs_circuit_breaker (rs_circuit_breaker (pc_snap ctx))"

definition intended_cost_usd :: "pre_trade_context \<Rightarrow> usd" where
  "intended_cost_usd ctx =
     (case pc_sized_intent ctx of None \<Rightarrow> opp_total_cost (pc_opportunity ctx) | Some i \<Rightarrow> si_bet_usd i)"

definition intended_fee_usd :: "pre_trade_context \<Rightarrow> usd" where
  "intended_fee_usd ctx =
     (case pc_sized_intent ctx of None \<Rightarrow> opp_total_fees (pc_opportunity ctx) | Some i \<Rightarrow> si_fee_usd i)"

definition ctx_ws_disconnect_secs :: "pre_trade_context \<Rightarrow> u64" where
  "ctx_ws_disconnect_secs ctx =
     (if ms_market_ws_disconnect_secs (pc_metrics ctx) > ms_ws_disconnect_secs (pc_metrics ctx)
      then ms_market_ws_disconnect_secs (pc_metrics ctx)
      else ms_ws_disconnect_secs (pc_metrics ctx))"

definition open_directional_count_same_side :: "pre_trade_context \<Rightarrow> usize" where
  "open_directional_count_same_side ctx =
     open_directional_count (pc_metrics ctx) (opp_side (pc_opportunity ctx))"

definition daily_directional_trades_same_side :: "pre_trade_context \<Rightarrow> u32" where
  "daily_directional_trades_same_side ctx =
     daily_directional_trades (pc_metrics ctx) (opp_side (pc_opportunity ctx))"

definition ctx_total_potential_loss :: "pre_trade_context \<Rightarrow> usd" where
  "ctx_total_potential_loss ctx = rs_total_potential_loss (pc_snap ctx)"

definition ctx_daily_budget_remaining :: "pre_trade_context \<Rightarrow> usd" where
  "ctx_daily_budget_remaining ctx = das_daily_budget_remaining (rs_daily (pc_snap ctx))"

definition ctx_weekly_loss :: "pre_trade_context \<Rightarrow> usd" where
  "ctx_weekly_loss ctx = was_weekly_loss (rs_weekly (pc_snap ctx))"

definition ctx_drawdown_factor :: "'z decimal_ops_scheme \<Rightarrow> pre_trade_context \<Rightarrow> decimal" where
  "ctx_drawdown_factor D ctx = snapshot_sizing_factor D (rs_drawdown (pc_snap ctx)) (ms_equity (pc_metrics ctx))"

definition ctx_drawdown_action :: "'z decimal_ops_scheme \<Rightarrow> pre_trade_context \<Rightarrow> drawdown_action" where
  "ctx_drawdown_action D ctx =
     snd (snapshot_evaluate D (rs_drawdown (pc_snap ctx)) (ms_equity (pc_metrics ctx)))"

definition is_market_blacklisted_trading_path :: "pre_trade_context \<Rightarrow> message option" where
  "is_market_blacklisted_trading_path ctx =
     trading_path_block_detail (rs_blacklist (pc_snap ctx)) (opp_market_id (pc_opportunity ctx))"

definition ctx_is_token_blacklisted :: "pre_trade_context \<Rightarrow> bool" where
  "ctx_is_token_blacklisted ctx =
     is_token_blacklisted (rs_blacklist (pc_snap ctx)) (opp_token_id (pc_opportunity ctx))"

end
