(* ===== verification/Sizing.thy ===== *)
theory Sizing
  imports Context
begin

text \<open>
  \<open>oxide-arb-risk/src/sizing.rs\<close>: the fractional Kelly calculator and the sizer that clips its bet by
  every limit. \<open>None\<close> is the panic of the one division the code does not guard
  (a maximum model age of zero); all other divisors are positive where they are reached.
\<close>

section \<open>Quarter Kelly\<close>

record kelly_calculator =
  kk_kelly_fraction :: decimal
  kk_min_edge_bps :: decimal
  kk_max_kelly_fraction :: decimal
  kk_min_probability_confidence :: decimal
  kk_min_calibration_samples :: u32
  kk_max_probability_staleness_secs :: u64

definition new_kelly :: "risk_config \<Rightarrow> kelly_calculator" where
  "new_kelly config = \<lparr>kk_kelly_fraction = rc_kelly_fraction config,
     kk_min_edge_bps = kc_min_edge_bps (rc_kelly config),
     kk_max_kelly_fraction = kc_max_kelly (rc_kelly config),
     kk_min_probability_confidence = kc_min_probability_confidence (rc_kelly config),
     kk_min_calibration_samples = kc_min_calibration_samples (rc_kelly config),
     kk_max_probability_staleness_secs = kc_max_probability_staleness_secs (rc_kelly config)\<rparr>"

record kelly_result =
  kr_bet_usd :: usd
  kr_kelly_raw :: decimal
  kr_kelly_fractional :: decimal
  kr_edge_bps :: decimal
  kr_effective_win_prob :: decimal
  kr_net_odds :: decimal
  kr_binding_reason :: string

definition zero_kelly :: "string \<Rightarrow> kelly_result" where
  "zero_kelly reason = \<lparr>kr_bet_usd = 0, kr_kelly_raw = 0, kr_kelly_fractional = 0, kr_edge_bps = 0,
     kr_effective_win_prob = 0, kr_net_odds = 0, kr_binding_reason = reason\<rparr>"

text \<open>The win probability after the haircuts, the odds after costs, the edge and the raw Kelly fraction.\<close>

definition effective_win_prob :: "'z decimal_ops_scheme \<Rightarrow> kelly_calculator \<Rightarrow> probability_input \<Rightarrow> decimal" where
  "effective_win_prob D k prob =
     (let confidence_haircut = pi_calibration_confidence prob;
          staleness_ratio = dec_div D (of_nat (unat (pi_model_staleness_secs prob)))
            (of_nat (unat (kk_max_probability_staleness_secs k)));
          staleness_haircut = max (dec_sub D 1 staleness_ratio) 0
      in dec_mul D (dec_mul D (dec_mul D (pi_calibrated_win_prob prob) (pi_fill_prob prob))
           confidence_haircut) staleness_haircut)"

definition net_odds :: "'z decimal_ops_scheme \<Rightarrow> probability_input \<Rightarrow> decimal \<Rightarrow> decimal" where
  "net_odds D prob entry_price =
     (let gross_odds = dec_div D (dec_sub D 1 entry_price) entry_price
      in dec_sub D (dec_sub D gross_odds (pi_expected_slippage_pct prob)) (pi_expected_failure_cost_pct prob))"

definition edge_bps :: "'z decimal_ops_scheme \<Rightarrow> decimal \<Rightarrow> decimal \<Rightarrow> decimal" where
  "edge_bps D effective_p entry_price =
     (if entry_price > 0
      then dec_mul D (dec_div D (dec_sub D effective_p entry_price) entry_price) 10000 else 0)"

definition kelly_raw :: "'z decimal_ops_scheme \<Rightarrow> decimal \<Rightarrow> decimal \<Rightarrow> decimal" where
  "kelly_raw D effective_p odds =
     (let q = dec_sub D 1 effective_p
      in max (dec_div D (dec_sub D (dec_mul D effective_p odds) q) odds) 0)"

definition kelly_core ::
  "'z decimal_ops_scheme \<Rightarrow> kelly_calculator \<Rightarrow> decimal \<Rightarrow> decimal \<Rightarrow> decimal \<Rightarrow> usd \<Rightarrow> kelly_result" where
  "kelly_core D k effective_p odds entry_price bankroll =
     (if odds \<le> 0
      then (zero_kelly ''negative_odds_after_costs'')
             \<lparr>kr_effective_win_prob := effective_p, kr_net_odds := odds\<rparr>
      else
        let edge = edge_bps D effective_p entry_price in
        if edge < kk_min_edge_bps k
        then (zero_kelly ''below_min_edge'')
               \<lparr>kr_edge_bps := edge, kr_effective_win_prob := effective_p, kr_net_odds := odds\<rparr>
        else
          let raw = kelly_raw D effective_p odds;
              fractional = min (dec_mul D raw (kk_kelly_fraction k)) (kk_max_kelly_fraction k);
              bet = dec_round_dp D 2 (dec_mul D bankroll fractional)
          in \<lparr>kr_bet_usd = bet, kr_kelly_raw = raw, kr_kelly_fractional = fractional, kr_edge_bps = edge,
              kr_effective_win_prob = effective_p, kr_net_odds = odds, kr_binding_reason = ''kelly''\<rparr>)"

definition calculate ::
  "'z decimal_ops_scheme \<Rightarrow> kelly_calculator \<Rightarrow> probability_input \<Rightarrow> decimal \<Rightarrow> usd \<Rightarrow> kelly_result option" where
  "calculate D k prob entry_price bankroll =
     (if entry_price \<le> 0 \<or> entry_price \<ge> 1 \<or> bankroll \<le> 0 then Some (zero_kelly ''invalid_input'')
      else if pi_calibration_confidence prob < kk_min_probability_confidence k
      then Some (zero_kelly ''low_confidence'')
      else if pi_sample_size prob < kk_min_calibration_samples k
      then Some (zero_kelly ''insufficient_samples'')
      else if pi_model_staleness_secs prob > kk_max_probability_staleness_secs k
      then Some (zero_kelly ''stale_model'')
      else if kk_max_probability_staleness_secs k = 0 then None
      else Some (kelly_core D k (effective_win_prob D k prob) (net_odds D prob entry_price) entry_price bankroll))"

section \<open>Multi-constraint sizer\<close>

record sizer =
  sz_kelly :: kelly_calculator
  sz_max_single_bet_usd :: decimal
  sz_max_single_loss_usd :: decimal
  sz_max_single_market_exposure_usd :: decimal
  sz_max_total_exposure_usd :: decimal
  sz_max_weekly_loss_usd :: decimal
  sz_reserve_balance_usd :: decimal
  sz_min_trade_usd :: decimal

definition new_sizer :: "risk_config \<Rightarrow> sizer" where
  "new_sizer config = \<lparr>sz_kelly = new_kelly config,
     sz_max_single_bet_usd = rc_max_single_bet_usd config,
     sz_max_single_loss_usd = rc_max_single_loss_usd config,
     sz_max_single_market_exposure_usd = rc_max_single_market_exposure_usd config,
     sz_max_total_exposure_usd = rc_max_total_exposure_usd config,
     sz_max_weekly_loss_usd = rc_max_weekly_loss_usd config,
     sz_reserve_balance_usd = rc_reserve_balance_usd config,
     sz_min_trade_usd = rc_min_trade_usd config\<rparr>"

record size_constraint =
  sc_name :: string
  sc_max_usd :: usd

record size_result =
  sr_bet_usd :: usd
  sr_kelly_result :: kelly_result
  sr_binding_constraint :: string
  sr_breakdown :: "size_constraint list"

definition constraint :: "string \<Rightarrow> usd \<Rightarrow> size_constraint" where
  "constraint name v = \<lparr>sc_name = name, sc_max_usd = v\<rparr>"

definition base_constraints ::
  "'z decimal_ops_scheme \<Rightarrow> sizer \<Rightarrow> pre_trade_context \<Rightarrow> usd \<Rightarrow> decimal \<Rightarrow> kelly_result \<Rightarrow> size_constraint list" where
  "base_constraints D sz ctx bankroll drawdown_factor kelly =
     [constraint ''kelly_upper_bound'' (kr_bet_usd kelly),
      constraint ''max_single_bet'' (sz_max_single_bet_usd sz),
      constraint ''max_single_loss'' (sz_max_single_loss_usd sz),
      constraint ''market_exposure_headroom''
        (max (dec_sub D (sz_max_single_market_exposure_usd sz) (ms_market_exposure (pc_metrics ctx))) 0),
      constraint ''portfolio_exposure_headroom''
        (max (dec_sub D (sz_max_total_exposure_usd sz) (ms_total_exposure (pc_metrics ctx))) 0),
      constraint ''daily_budget_remaining'' (max (ctx_daily_budget_remaining ctx) 0),
      constraint ''weekly_loss_headroom'' (max (dec_sub D (sz_max_weekly_loss_usd sz) (ctx_weekly_loss ctx)) 0),
      constraint ''available_balance''
        (max (dec_sub D (dec_sub D (dec_sub D (ms_equity (pc_metrics ctx)) (sz_reserve_balance_usd sz))
                (ms_reserved_usd (pc_metrics ctx))) (ctx_total_potential_loss ctx)) 0),
      constraint ''drawdown_scaled''
        (if drawdown_factor \<le> 0 then 0 else dec_mul D bankroll drawdown_factor)]"

definition scale_cap :: "'z decimal_ops_scheme \<Rightarrow> usd \<Rightarrow> decimal \<Rightarrow> usd" where
  "scale_cap D base multiplier = max (dec_mul D base (min (max multiplier 0) 1)) 0"

definition push_factor_constraints ::
  "'z decimal_ops_scheme \<Rightarrow> pre_trade_context \<Rightarrow> size_constraint list \<Rightarrow> size_constraint list" where
  "push_factor_constraints D ctx constraints =
     (case pc_factor_context ctx of
        None \<Rightarrow> constraints
      | Some fc \<Rightarrow>
          let base = (case min_by (\<lambda>u. u) (map sc_max_usd constraints) of Some u \<Rightarrow> u | None \<Rightarrow> 0);
              bucket_multiplier = fc_bucket_size_multiplier fc;
              c1 = (if bucket_multiplier < 1
                    then constraints @ [constraint ''factor_bucket_size_cap'' (scale_cap D base bucket_multiplier)]
                    else constraints);
              portfolio = fc_portfolio_risk fc;
              portfolio_multiplier = dec_mul D (pr_global_size_multiplier portfolio)
                (case pr_category_size_multiplier portfolio of Some m \<Rightarrow> m | None \<Rightarrow> 1);
              c2 = (if portfolio_multiplier < 1
                    then c1 @ [constraint ''factor_portfolio_size_cap'' (scale_cap D base portfolio_multiplier)]
                    else c1);
              reconciliation_multiplier = rh_size_multiplier (fc_reconciliation_health fc)
          in if reconciliation_multiplier < 1
             then c2 @ [constraint ''factor_reconciliation_size_cap'' (scale_cap D base reconciliation_multiplier)]
             else c2)"

definition clip :: "decimal \<Rightarrow> usd \<Rightarrow> usd" where
  "clip min_trade binding_max =
     (let final_usd = max binding_max 0 in if final_usd < min_trade then 0 else final_usd)"

text \<open>The list of constraints is never empty, so \<open>expect\<close> does not panic: the \<open>None\<close> branch of the minimum is not
  reached.\<close>

definition size_bet ::
  "'z decimal_ops_scheme \<Rightarrow> sizer \<Rightarrow> pre_trade_context \<Rightarrow> usd \<Rightarrow> decimal \<Rightarrow> size_result option" where
  "size_bet D sz ctx bankroll drawdown_factor =
     (case calculate D (sz_kelly sz) (pc_probability ctx) (opp_entry_price (pc_opportunity ctx)) bankroll of
        None \<Rightarrow> None
      | Some kelly \<Rightarrow>
          let constraints = push_factor_constraints D ctx (base_constraints D sz ctx bankroll drawdown_factor kelly)
          in case min_by sc_max_usd constraints of
               None \<Rightarrow> None
             | Some binding \<Rightarrow>
                 Some \<lparr>sr_bet_usd = dec_round_dp D 2 (clip (sz_min_trade_usd sz) (sc_max_usd binding)),
                       sr_kelly_result = kelly, sr_binding_constraint = sc_name binding,
                       sr_breakdown = constraints\<rparr>)"

section \<open>Kelly\<close>

definition kelly_admissible :: "kelly_calculator \<Rightarrow> probability_input \<Rightarrow> decimal \<Rightarrow> usd \<Rightarrow> bool" where
  "kelly_admissible k prob entry_price bankroll \<longleftrightarrow>
     0 < entry_price \<and> entry_price < 1 \<and> 0 < bankroll
     \<and> kk_min_probability_confidence k \<le> pi_calibration_confidence prob
     \<and> kk_min_calibration_samples k \<le> pi_sample_size prob
     \<and> pi_model_staleness_secs prob \<le> kk_max_probability_staleness_secs k"

lemma kelly_core_bet:
  "kr_bet_usd (kelly_core D k p odds price b) \<noteq> 0 \<Longrightarrow>
   0 < odds \<and> kk_min_edge_bps k \<le> edge_bps D p price
   \<and> kelly_core D k p odds price b =
      (let raw = kelly_raw D p odds;
           fractional = min (dec_mul D raw (kk_kelly_fraction k)) (kk_max_kelly_fraction k)
       in \<lparr>kr_bet_usd = dec_round_dp D 2 (dec_mul D b fractional), kr_kelly_raw = raw,
           kr_kelly_fractional = fractional, kr_edge_bps = edge_bps D p price,
           kr_effective_win_prob = p, kr_net_odds = odds, kr_binding_reason = ''kelly''\<rparr>)"
  by (auto simp: kelly_core_def zero_kelly_def Let_def split: if_splits)

lemma calculate_Some:
  assumes "calculate D k prob p b = Some r" "kr_bet_usd r \<noteq> 0"
  shows "kelly_admissible k prob p b \<and> 0 < kk_max_probability_staleness_secs k
    \<and> r = kelly_core D k (effective_win_prob D k prob) (net_odds D prob p) p b"
  using assms
  by (auto simp: calculate_def kelly_admissible_def zero_kelly_def not_le not_less word_gt_0 split: if_splits)

lemma kelly_raw_nonneg: "0 \<le> kelly_raw D p odds"
  by (simp add: kelly_raw_def)

lemma calculate_cases:
  assumes "calculate D k prob p b = Some r" "kr_bet_usd r \<noteq> 0"
  shows "kelly_admissible k prob p b \<and> kr_binding_reason r = ''kelly'' \<and> 0 < kr_net_odds r
    \<and> kk_min_edge_bps k \<le> kr_edge_bps r \<and> 0 \<le> kr_kelly_raw r
    \<and> kr_kelly_fractional r = min (dec_mul D (kr_kelly_raw r) (kk_kelly_fraction k)) (kk_max_kelly_fraction k)
    \<and> kr_bet_usd r = dec_round_dp D 2 (dec_mul D b (kr_kelly_fractional r))"
proof -
  note s = calculate_Some [OF assms]
  have "kr_bet_usd (kelly_core D k (effective_win_prob D k prob) (net_odds D prob p) p b) \<noteq> 0"
    using s assms(2) by simp
  from kelly_core_bet [OF this] show ?thesis using s by (simp add: Let_def kelly_raw_nonneg)
qed

lemma calculate_None:
  "calculate D k prob p b = None \<longleftrightarrow>
     kelly_admissible k prob p b \<and> kk_max_probability_staleness_secs k = 0"
  by (auto simp: calculate_def kelly_admissible_def Let_def not_le not_less)

lemma calculate_admissible:
  "kelly_admissible k prob p b \<Longrightarrow> 0 < kk_max_probability_staleness_secs k \<Longrightarrow>
   calculate D k prob p b = Some (kelly_core D k (effective_win_prob D k prob) (net_odds D prob p) p b)"
  by (auto simp: calculate_def kelly_admissible_def)

lemma calculate_bet_bounds:
  assumes "decimal_laws D" "calculate D k prob p b = Some r" "representable b"
    "0 \<le> kk_kelly_fraction k" "0 \<le> kk_max_kelly_fraction k" "kk_max_kelly_fraction k \<le> 1"
  shows "0 \<le> kr_bet_usd r \<and> (kr_bet_usd r \<noteq> 0 \<longrightarrow> kr_bet_usd r \<le> b + 1 / 200)"
proof (cases "kr_bet_usd r = 0")
  case False
  note d = decimal.intro [OF assms(1)]
  note c = calculate_cases [OF assms(2) False]
  have b: "0 < b" using c by (simp add: kelly_admissible_def)
  have f: "0 \<le> kr_kelly_fractional r" "kr_kelly_fractional r \<le> 1"
    using c assms(4-6) decimal.mul_nonneg [OF d, of "kr_kelly_raw r" "kk_kelly_fraction k"] by (auto simp: min_def)
  have "0 \<le> dec_mul D b (kr_kelly_fractional r)" using decimal.mul_nonneg [OF d] b f by simp
  moreover have "dec_mul D b (kr_kelly_fractional r) \<le> b"
    using decimal.mul_le_left [OF d assms(3)] b f by simp
  ultimately show ?thesis
    using c decimal.round_nonneg [OF d, of "dec_mul D b (kr_kelly_fractional r)" 2]
      decimal.round_le [OF d, of 2 "dec_mul D b (kr_kelly_fractional r)"]
    by simp
qed simp

text \<open>C28: Kelly never bets without an edge. A non-zero bet is only returned for a price strictly
  between 0 and 1, a positive bankroll, a calibration that is confident, sampled and fresh enough, positive odds
  after costs and an edge of at least the configured minimum; the bet is non-negative and
  (for fractions of at most one) exceeds the bankroll by no more than half a cent of rounding. With a
  positive maximum model age the calculation always returns.\<close>

theorem kelly_bets_only_with_edge:
  assumes "decimal_laws D" "representable b" "0 < kk_max_probability_staleness_secs k"
    "0 \<le> kk_kelly_fraction k" "0 \<le> kk_max_kelly_fraction k" "kk_max_kelly_fraction k \<le> 1"
  shows "\<exists>r. calculate D k prob p b = Some r \<and> 0 \<le> kr_bet_usd r
    \<and> (kr_bet_usd r = 0 \<or>
        (kelly_admissible k prob p b \<and> 0 < net_odds D prob p
         \<and> kk_min_edge_bps k \<le> edge_bps D (effective_win_prob D k prob) p
         \<and> kr_bet_usd r \<le> b + 1 / 200))"
proof -
  obtain r where r: "calculate D k prob p b = Some r"
    using calculate_None [of D k prob p b] assms(3) by (cases "calculate D k prob p b") auto
  have bd: "0 \<le> kr_bet_usd r" "kr_bet_usd r \<noteq> 0 \<longrightarrow> kr_bet_usd r \<le> b + 1 / 200"
    using calculate_bet_bounds [OF assms(1) r assms(2,4-6)] by auto
  show ?thesis
  proof (cases "kr_bet_usd r = 0")
    case True
    then show ?thesis using r by auto
  next
    case False
    note s = calculate_Some [OF r False]
    have "kr_bet_usd (kelly_core D k (effective_win_prob D k prob) (net_odds D prob p) p b) \<noteq> 0"
      using s False by simp
    from kelly_core_bet [OF this] show ?thesis using r s bd False by auto
  qed
qed

definition demo_prob :: probability_input where
  "demo_prob = \<lparr>pi_calibrated_win_prob = 99 / 100, pi_fill_prob = 1, pi_calibration_confidence = 1,
     pi_sample_size = 50, pi_model_staleness_secs = 0, pi_expected_slippage_pct = 0,
     pi_expected_failure_cost_pct = 0\<rparr>"

theorem kelly_bets_only_with_edge_witness:
  "\<exists>r. calculate exact_ops (new_kelly default_risk_config) demo_prob (95 / 100) 1000 = Some r
     \<and> 0 \<le> kr_bet_usd r \<and> kr_bet_usd r \<noteq> 0"
proof -
  have "calculate exact_ops (new_kelly default_risk_config) demo_prob (95 / 100) 1000 =
      Some (kelly_core exact_ops (new_kelly default_risk_config) (99 / 100) (5 / 95) (95 / 100) 1000)"
    by (simp add: calculate_def new_kelly_def config_defaults demo_prob_def effective_win_prob_def
        net_odds_def exact_ops_def)
  moreover have "kr_bet_usd (kelly_core exact_ops (new_kelly default_risk_config) (99 / 100) (5 / 95) (95 / 100) 1000) \<noteq> 0"
    by (simp add: kelly_core_def new_kelly_def config_defaults edge_bps_def kelly_raw_def exact_ops_def
        round_half_even_def half_even_def Let_def)
  moreover have "representable 1000" using representable_of_int [of 1000] by simp
  moreover have "0 < kk_max_probability_staleness_secs (new_kelly default_risk_config)"
    "0 \<le> kk_kelly_fraction (new_kelly default_risk_config)"
    "0 \<le> kk_max_kelly_fraction (new_kelly default_risk_config)"
    "kk_max_kelly_fraction (new_kelly default_risk_config) \<le> 1"
    by (simp_all add: new_kelly_def config_defaults)
  ultimately show ?thesis
    using kelly_bets_only_with_edge [of exact_ops 1000 "new_kelly default_risk_config" demo_prob "95 / 100"]
    by auto
qed

text \<open>Where the arithmetic is exact the fraction is the textbook one: \<open>f = p - (1 - p) / b\<close>, floored at zero, scaled
  and capped.\<close>

lemma kelly_formula:
  assumes "kelly_admissible k prob price b" "0 < kk_max_probability_staleness_secs k"
    "win = pi_calibrated_win_prob prob * pi_fill_prob prob * pi_calibration_confidence prob *
       (1 - of_nat (unat (pi_model_staleness_secs prob)) / of_nat (unat (kk_max_probability_staleness_secs k)))"
    "odds = (1 - price) / price - pi_expected_slippage_pct prob - pi_expected_failure_cost_pct prob"
    "0 < odds" "kk_min_edge_bps k \<le> (win - price) / price * 10000"
  shows "map_option kr_kelly_fractional (calculate exact_ops k prob price b) =
    Some (min (max (win - (1 - win) / odds) 0 * kk_kelly_fraction k) (kk_max_kelly_fraction k))"
proof -
  have pos: "0 < unat (kk_max_probability_staleness_secs k)" using assms(2) by (simp add: word_less_nat_alt)
  have "unat (pi_model_staleness_secs prob) \<le> unat (kk_max_probability_staleness_secs k)"
    using assms(1) by (simp add: kelly_admissible_def word_le_nat_alt)
  then have "of_nat (unat (pi_model_staleness_secs prob)) \<le> (of_nat (unat (kk_max_probability_staleness_secs k)) :: rat)"
    unfolding of_nat_le_iff .
  moreover have "0 < (of_nat (unat (kk_max_probability_staleness_secs k)) :: rat)"
    using pos unfolding of_nat_0_less_iff .
  ultimately have "effective_win_prob exact_ops k prob = win"
    using assms(3) by (simp add: effective_win_prob_def exact_ops_def max_def)
  moreover have "net_odds exact_ops prob price = odds"
    using assms(4) by (simp add: net_odds_def exact_ops_def Let_def)
  moreover have "(win * odds - (1 - win)) / odds = win - (1 - win) / odds"
    using assms(5) by (simp add: field_simps)
  ultimately show ?thesis
    using assms(1,5,6) calculate_admissible [OF assms(1,2), of exact_ops]
    by (simp add: kelly_admissible_def kelly_core_def edge_bps_def kelly_raw_def exact_ops_def Let_def)
qed

section \<open>The sized bet\<close>

lemma push_factor_superset: "set cs \<subseteq> set (push_factor_constraints D ctx cs)"
  by (auto simp: push_factor_constraints_def Let_def split: option.splits)

lemma size_bet_Some:
  assumes "size_bet D sz ctx bankroll f = Some r"
  obtains kelly c where
    "calculate D (sz_kelly sz) (pc_probability ctx) (opp_entry_price (pc_opportunity ctx)) bankroll = Some kelly"
    "sr_kelly_result r = kelly"
    "sr_breakdown r = push_factor_constraints D ctx (base_constraints D sz ctx bankroll f kelly)"
    "c \<in> set (sr_breakdown r)" "sr_binding_constraint r = sc_name c"
    "\<forall>c' \<in> set (sr_breakdown r). sc_max_usd c \<le> sc_max_usd c'"
    "sr_bet_usd r = dec_round_dp D 2 (clip (sz_min_trade_usd sz) (sc_max_usd c))"
proof -
  obtain kelly where k:
    "calculate D (sz_kelly sz) (pc_probability ctx) (opp_entry_price (pc_opportunity ctx)) bankroll = Some kelly"
    using assms by (auto simp: size_bet_def split: option.splits)
  let ?cs = "push_factor_constraints D ctx (base_constraints D sz ctx bankroll f kelly)"
  obtain c where c: "min_by sc_max_usd ?cs = Some c"
    using assms k by (auto simp: size_bet_def Let_def split: option.splits)
  have "r = \<lparr>sr_bet_usd = dec_round_dp D 2 (clip (sz_min_trade_usd sz) (sc_max_usd c)),
      sr_kelly_result = kelly, sr_binding_constraint = sc_name c, sr_breakdown = ?cs\<rparr>"
    using assms k c by (simp add: size_bet_def)
  then show thesis using that [of kelly c] k min_by_mem [OF c] min_by_le [OF c] by simp
qed

lemma clip_le: "clip mn v \<le> max v 0" "0 \<le> clip mn v"
  by (auto simp: clip_def Let_def)

lemma clip_min: "clip mn v = 0 \<or> mn \<le> clip mn v"
  by (auto simp: clip_def Let_def not_less)

context decimal
begin

lemma size_bet_bounds:
  assumes "size_bet D sz ctx bankroll f = Some r"
  shows "0 \<le> sr_bet_usd r"
    and "c \<in> set (sr_breakdown r) \<Longrightarrow> sr_bet_usd r \<le> max (sc_max_usd c) 0 + 1 / 200"
    and "sr_bet_usd r = 0 \<or> sz_min_trade_usd sz - 1 / 200 \<le> sr_bet_usd r"
proof -
  obtain b :: size_constraint where b: "\<forall>c' \<in> set (sr_breakdown r). sc_max_usd b \<le> sc_max_usd c'"
    "sr_bet_usd r = dec_round_dp D 2 (clip (sz_min_trade_usd sz) (sc_max_usd b))"
    using assms by (rule size_bet_Some)
  let ?v = "clip (sz_min_trade_usd sz) (sc_max_usd b)"
  show "0 \<le> sr_bet_usd r" using b(2) round_nonneg clip_le(2) by simp
  show "sr_bet_usd r \<le> max (sc_max_usd c) 0 + 1 / 200" if "c \<in> set (sr_breakdown r)"
  proof -
    have "?v \<le> max (sc_max_usd c) 0" using b(1) that clip_le(1) [of "sz_min_trade_usd sz" "sc_max_usd b"] by fastforce
    then show ?thesis using b(2) round_le [of 2 ?v] by simp
  qed
  show "sr_bet_usd r = 0 \<or> sz_min_trade_usd sz - 1 / 200 \<le> sr_bet_usd r"
    using clip_min [of "sz_min_trade_usd sz" "sc_max_usd b"] b(2) round_ge [of ?v 2]
      round_on_grid [of 0 2 0] by auto
qed

lemma size_bet_limits:
  assumes "size_bet D (new_sizer config) ctx bankroll f = Some r"
  shows "0 \<le> sr_bet_usd r
    \<and> (sr_bet_usd r = 0 \<or> rc_min_trade_usd config - 1 / 200 \<le> sr_bet_usd r)
    \<and> (\<forall>limit \<in> {kr_bet_usd (sr_kelly_result r), rc_max_single_bet_usd config, rc_max_single_loss_usd config,
          dec_sub D (rc_max_single_market_exposure_usd config) (ms_market_exposure (pc_metrics ctx)),
          dec_sub D (rc_max_total_exposure_usd config) (ms_total_exposure (pc_metrics ctx)),
          ctx_daily_budget_remaining ctx,
          dec_sub D (rc_max_weekly_loss_usd config) (ctx_weekly_loss ctx),
          dec_sub D (dec_sub D (dec_sub D (ms_equity (pc_metrics ctx)) (rc_reserve_balance_usd config))
            (ms_reserved_usd (pc_metrics ctx))) (ctx_total_potential_loss ctx),
          if f \<le> 0 then 0 else dec_mul D bankroll f} \<union> sc_max_usd ` set (sr_breakdown r).
        sr_bet_usd r \<le> max limit 0 + 1 / 200)"
proof -
  note b = size_bet_bounds [OF assms]
  obtain kelly where k: "sr_kelly_result r = kelly"
    "sr_breakdown r = push_factor_constraints D ctx (base_constraints D (new_sizer config) ctx bankroll f kelly)"
    using assms by (rule size_bet_Some)
  have base: "sr_bet_usd r \<le> max (sc_max_usd c) 0 + 1 / 200"
    if "c \<in> set (base_constraints D (new_sizer config) ctx bankroll f kelly)" for c
    using b(2) [of c] that push_factor_superset k(2) by auto
  have named: "sr_bet_usd r \<le> max v 0 + 1 / 200"
    if "constraint n v \<in> set (base_constraints D (new_sizer config) ctx bankroll f kelly)" for n v
    using base [OF that] by (simp add: constraint_def)
  have floored: "sr_bet_usd r \<le> max v 0 + 1 / 200"
    if "constraint n (max v 0) \<in> set (base_constraints D (new_sizer config) ctx bankroll f kelly)" for n v
    using named [OF that] by (simp add: max.assoc)
  note in_base = base_constraints_def new_sizer_def
  have n1: "sr_bet_usd r \<le> max (kr_bet_usd kelly) 0 + 1 / 200"
    by (rule named [of "''kelly_upper_bound''"]) (simp add: in_base)
  have n2: "sr_bet_usd r \<le> max (rc_max_single_bet_usd config) 0 + 1 / 200"
    by (rule named [of "''max_single_bet''"]) (simp add: in_base)
  have n3: "sr_bet_usd r \<le> max (rc_max_single_loss_usd config) 0 + 1 / 200"
    by (rule named [of "''max_single_loss''"]) (simp add: in_base)
  have n4: "sr_bet_usd r \<le> max (dec_sub D (rc_max_single_market_exposure_usd config) (ms_market_exposure (pc_metrics ctx))) 0 + 1 / 200"
    by (rule floored [of "''market_exposure_headroom''"]) (simp add: in_base)
  have n5: "sr_bet_usd r \<le> max (dec_sub D (rc_max_total_exposure_usd config) (ms_total_exposure (pc_metrics ctx))) 0 + 1 / 200"
    by (rule floored [of "''portfolio_exposure_headroom''"]) (simp add: in_base)
  have n6: "sr_bet_usd r \<le> max (ctx_daily_budget_remaining ctx) 0 + 1 / 200"
    by (rule floored [of "''daily_budget_remaining''"]) (simp add: in_base)
  have n7: "sr_bet_usd r \<le> max (dec_sub D (rc_max_weekly_loss_usd config) (ctx_weekly_loss ctx)) 0 + 1 / 200"
    by (rule floored [of "''weekly_loss_headroom''"]) (simp add: in_base)
  have n8: "sr_bet_usd r \<le> max (dec_sub D (dec_sub D (dec_sub D (ms_equity (pc_metrics ctx)) (rc_reserve_balance_usd config)) (ms_reserved_usd (pc_metrics ctx))) (ctx_total_potential_loss ctx)) 0 + 1 / 200"
    by (rule floored [of "''available_balance''"]) (simp add: in_base)
  have n9: "sr_bet_usd r \<le> max (if f \<le> 0 then 0 else dec_mul D bankroll f) 0 + 1 / 200"
    by (rule named [of "''drawdown_scaled''"]) (simp add: in_base)
  show ?thesis
    unfolding k(1) ball_Un ball_simps using b n1 n2 n3 n4 n5 n6 n7 n8 n9 by (simp add: new_sizer_def)
qed

end

text \<open>C27: The sized bet respects every limit. Whenever sizing returns, the bet is non-negative and, up to half a
  cent of rounding, at most the Kelly bet, the single-bet and single-loss limits, the head-room left
  below the market and the total exposure limits, the rest of the daily budget, the
  head-room below the weekly loss limit, the balance left after the
  reserve, the reservations and the potential losses, the bankroll scaled by the drawdown factor, and every cap a control
  factor adds; and it is zero or, again up to half a cent, at least the minimum trade.\<close>

theorem sized_bet_respects_limits:
  assumes "decimal_laws D" "size_bet D (new_sizer config) ctx bankroll f = Some r"
  shows "0 \<le> sr_bet_usd r
    \<and> (sr_bet_usd r = 0 \<or> rc_min_trade_usd config - 1 / 200 \<le> sr_bet_usd r)
    \<and> (\<forall>limit \<in> {kr_bet_usd (sr_kelly_result r), rc_max_single_bet_usd config, rc_max_single_loss_usd config,
          dec_sub D (rc_max_single_market_exposure_usd config) (ms_market_exposure (pc_metrics ctx)),
          dec_sub D (rc_max_total_exposure_usd config) (ms_total_exposure (pc_metrics ctx)),
          ctx_daily_budget_remaining ctx,
          dec_sub D (rc_max_weekly_loss_usd config) (ctx_weekly_loss ctx),
          dec_sub D (dec_sub D (dec_sub D (ms_equity (pc_metrics ctx)) (rc_reserve_balance_usd config))
            (ms_reserved_usd (pc_metrics ctx))) (ctx_total_potential_loss ctx),
          if f \<le> 0 then 0 else dec_mul D bankroll f} \<union> sc_max_usd ` set (sr_breakdown r).
        sr_bet_usd r \<le> max limit 0 + 1 / 200)"
  using decimal.size_bet_limits [OF decimal.intro] assms by blast

section \<open>A concrete decision\<close>

definition demo_opp :: opportunity where
  "demo_opp = \<lparr>opp_opportunity_id = ''o1'', opp_market_id = ''m1'', opp_event_id = ''e1'', opp_token_id = ''t1'',
     opp_side = Buy, opp_payout_model = DirectionalSettlement 20 (99 / 5) Buy, opp_shares = 20,
     opp_entry_price = 95 / 100, opp_total_cost = 19, opp_total_fees = 1 / 10, opp_net_profit = 9 / 10,
     opp_expected_net_profit = 7 / 10, opp_edge_bps = 400, opp_resolution_adjust = 1, opp_depth_used_pct = 5,
     opp_staleness = Fresh, opp_category = Crypto,
     opp_meta = \<lparr>em_predicted_yes = True, em_confidence = 1, em_convergence_duration_secs = 600,
       em_price_zone = Z95, em_duration_bucket = Short, em_settlement_deadline = None\<rparr>,
     opp_calibration = \<lparr>cs_bucket_key = \<lparr>bk_category = Crypto, bk_price_zone = Z95, bk_duration_bucket = Short\<rparr>,
       cs_posterior_mean = 99 / 100, cs_sample_size = 50, cs_alpha_prior = 1, cs_beta_prior = 1,
       cs_fallback_tier = 0, cs_fused_probability = 99 / 100\<rparr>,
     opp_detected_at = 0\<rparr>"

definition demo_metrics :: risk_metrics_snapshot where
  "demo_metrics = zeroed_metrics\<lparr>ms_cash_balance := 1000, ms_equity := 1000, ms_is_stale := False,
     ms_metrics_age_secs := 1, ms_is_authoritative := True\<rparr>"

definition demo_snapshot :: risk_snapshot where
  "demo_snapshot = zeroed_risk_snapshot\<lparr>
     rs_daily := \<lparr>das_daily_loss = 0, das_daily_fee = 0, das_daily_pnl = 0, das_daily_budget_remaining = 50\<rparr>,
     rs_drawdown := \<lparr>ds_hwm = 1000, ds_max_drawdown_pct = 10, ds_reduction_factor = 1 / 2\<rparr>\<rparr>"

definition demo_admission :: admission_gate_input where
  "demo_admission = \<lparr>ag_settlement = \<lparr>sg_mode = Paper, sg_market_neg_risk = None, sg_redeem_policy = None\<rparr>,
     ag_integrity = \<lparr>ti_blocking_count = 0, ti_needs_reconcile_count = 0, ti_intent_orphan_count = 0,
       ti_oldest_blocking_age_secs = 0, ti_active_reservation_count = 0, ti_reserved_usd = 0, ti_checked_at = 0\<rparr>\<rparr>"

definition demo_ctx :: pre_trade_context where
  "demo_ctx = \<lparr>pc_opportunity = demo_opp, pc_probability = demo_prob, pc_snap = demo_snapshot,
     pc_metrics = demo_metrics, pc_factor_context = None, pc_settlement_gate = ag_settlement demo_admission,
     pc_integrity = ag_integrity demo_admission, pc_now = 0, pc_sized_intent = None\<rparr>"

lemmas demo_defs = demo_ctx_def demo_opp_def demo_prob_def demo_snapshot_def demo_metrics_def demo_admission_def
  zeroed_metrics_def zeroed_risk_snapshot_def

lemma demo_calculate:
  "calculate exact_ops (new_kelly default_risk_config) demo_prob (95 / 100) 900 =
   Some \<lparr>kr_bet_usd = 180, kr_kelly_raw = 4 / 5, kr_kelly_fractional = 1 / 5, kr_edge_bps = 8000 / 19,
     kr_effective_win_prob = 99 / 100, kr_net_odds = 5 / 95, kr_binding_reason = ''kelly''\<rparr>"
  by (simp add: calculate_def new_kelly_def config_defaults demo_prob_def effective_win_prob_def net_odds_def
      exact_ops_def kelly_core_def edge_bps_def kelly_raw_def round_half_even_def half_even_def Let_def)

lemma demo_size:
  "\<exists>r. size_bet exact_ops (new_sizer default_risk_config) demo_ctx 900 1 = Some r \<and> sr_bet_usd r = 25
     \<and> sr_binding_constraint r = ''max_single_bet''"
proof -
  have p: "pc_probability demo_ctx = demo_prob" "opp_entry_price (pc_opportunity demo_ctx) = 95 / 100"
    "sz_kelly (new_sizer default_risk_config) = new_kelly default_risk_config"
    by (simp_all add: demo_ctx_def demo_opp_def new_sizer_def)
  show ?thesis
    unfolding size_bet_def p demo_calculate
    by (simp add: base_constraints_def push_factor_constraints_def constraint_def new_sizer_def config_defaults
        demo_defs exact_ops_def ctx_daily_budget_remaining_def ctx_weekly_loss_def ctx_total_potential_loss_def
        clip_def round_half_even_def half_even_def Let_def)
qed

theorem sized_bet_respects_limits_witness:
  "\<exists>r. size_bet exact_ops (new_sizer default_risk_config) demo_ctx 900 1 = Some r \<and> sr_bet_usd r = 25
     \<and> sr_bet_usd r \<le> max (rc_max_single_loss_usd default_risk_config) 0 + 1 / 200"
  using demo_size sized_bet_respects_limits [OF exact_ops_laws, of default_risk_config demo_ctx 900 1] by blast

text \<open>The half cent is reached: \<open>round_dp\<close> rounds to the nearest cent, so a limit of 10.016 dollars is exceeded by a bet
  of 10.02.\<close>

lemma rounding_exceeds_limit:
  "\<exists>r. size_bet exact_ops (new_sizer (default_risk_config\<lparr>rc_max_single_bet_usd := 10016 / 1000\<rparr>)) demo_ctx 900 1 = Some r
     \<and> sr_bet_usd r = 1002 / 100 \<and> sr_bet_usd r > 10016 / 1000"
proof -
  let ?c = "default_risk_config\<lparr>rc_max_single_bet_usd := 10016 / 1000\<rparr>"
  have p: "pc_probability demo_ctx = demo_prob" "opp_entry_price (pc_opportunity demo_ctx) = 95 / 100"
    "sz_kelly (new_sizer ?c) = new_kelly default_risk_config"
    by (simp_all add: demo_ctx_def demo_opp_def new_sizer_def new_kelly_def)
  have "\<lfloor>5008 / 5 :: rat\<rfloor> = 1001" by (simp add: floor_eq_iff)
  then show ?thesis
    unfolding size_bet_def p demo_calculate
    by (simp add: base_constraints_def push_factor_constraints_def constraint_def new_sizer_def config_defaults
        demo_defs exact_ops_def ctx_daily_budget_remaining_def ctx_weekly_loss_def ctx_total_potential_loss_def
        clip_def round_half_even_def half_even_def Let_def)
qed

end
