(* ===== verification/Checks.thy ===== *)
theory Checks
  imports Context
begin

text \<open>
  The 32 pre-trade gates of \<open>oxide-arb-risk/src/pipeline/checks.rs\<close>, in the order of the file. A check
  struct holds copies of configuration fields; here the configuration is an argument. The
  messages are lists of pieces, since the text of a decimal is the crate's.
\<close>

datatype risk_check_id =
    ManualHalt | CircuitBreaker | BlacklistTradingPath | TokenBlacklist | MarketAnomalyBlock
  | ReconciliationMaintenance | ControlFactorManualAckRequired | ControlFactorSnapshotExpired
  | BlockingTrades | RedeemRouteResolvable | MetricsFreshness | MinDepth | MaxDepthUsage
  | Staleness | DailyBudget | DailyLossCap | WeeklyLossCap | HourlyLossCap | FeeSpend
  | MaxSingleBet | MarketExposure | TotalExposure | ExposurePct | PotentialLossCap | MaxPositions
  | WsConnectivity | MinBalance | DirectionalConcentration | DailyDirectionalBudget
  | DuplicateMarket | DrawdownGuard | ApiErrorRate

text \<open>The declaration order of the enum.\<close>

definition risk_check_ids :: "risk_check_id list" where
  "risk_check_ids =
     [ManualHalt, CircuitBreaker, BlacklistTradingPath, TokenBlacklist, MarketAnomalyBlock,
      ReconciliationMaintenance, ControlFactorManualAckRequired, ControlFactorSnapshotExpired,
      BlockingTrades, RedeemRouteResolvable, MetricsFreshness, MinDepth, MaxDepthUsage,
      Staleness, DailyBudget, DailyLossCap, WeeklyLossCap, HourlyLossCap, FeeSpend,
      MaxSingleBet, MarketExposure, TotalExposure, ExposurePct, PotentialLossCap, MaxPositions,
      WsConnectivity, MinBalance, DirectionalConcentration, DailyDirectionalBudget,
      DuplicateMarket, DrawdownGuard, ApiErrorRate]"

record risk_check_result =
  cr_check_id :: risk_check_id
  cr_passed :: bool
  cr_detail :: "message option"
  cr_threshold :: "message option"
  cr_actual :: "message option"
  cr_elapsed_us :: u64

definition passed :: "risk_check_id \<Rightarrow> risk_check_result" where
  "passed check_id = \<lparr>cr_check_id = check_id, cr_passed = True, cr_detail = None, cr_threshold = None,
     cr_actual = None, cr_elapsed_us = 0\<rparr>"

definition failed :: "risk_check_id \<Rightarrow> message \<Rightarrow> message \<Rightarrow> message \<Rightarrow> risk_check_result" where
  "failed check_id detail threshold actual = \<lparr>cr_check_id = check_id, cr_passed = False,
     cr_detail = Some detail, cr_threshold = Some threshold, cr_actual = Some actual, cr_elapsed_us = 0\<rparr>"

lemma passed_simps [simp]: "cr_check_id (passed i)= i" "cr_passed (passed i)"
  "cr_check_id (failed i d t a) = i" "\<not> cr_passed (failed i d t a)"
  by (simp_all add: passed_def failed_def)

section \<open>Gates that need no metrics\<close>

definition manual_halt_check :: "pre_trade_context \<Rightarrow> risk_check_result" where
  "manual_halt_check ctx =
     (if manual_allows_trading (ctx_manual_halt ctx) then passed ManualHalt
      else failed ManualHalt
        (case denial_detail (ctx_manual_halt ctx) of Some d \<Rightarrow> d | None \<Rightarrow> [Lit ''engine manually halted''])
        [Lit ''not halted''] [Lit ''halted''])"

definition circuit_breaker_check :: "pre_trade_context \<Rightarrow> risk_check_result" where
  "circuit_breaker_check ctx =
     (if cg_allows_trading (ctx_circuit_breaker ctx) then passed CircuitBreaker
      else failed CircuitBreaker [Lit ''circuit breaker is open''] [Lit ''closed or half-open''] [Lit ''open''])"

definition blacklist_check :: "pre_trade_context \<Rightarrow> risk_check_result" where
  "blacklist_check ctx =
     (case is_market_blacklisted_trading_path ctx of
        Some detail \<Rightarrow> failed BlacklistTradingPath detail [Lit ''not blacklisted''] [Lit ''blacklisted'']
      | None \<Rightarrow> passed BlacklistTradingPath)"

definition token_blacklist_check :: "pre_trade_context \<Rightarrow> risk_check_result" where
  "token_blacklist_check ctx =
     (if \<not> ctx_is_token_blacklisted ctx then passed TokenBlacklist
      else failed TokenBlacklist [Lit ''token is blacklisted''] [Lit ''not blacklisted''] [Lit ''blacklisted''])"

definition market_anomaly_block_check :: "pre_trade_context \<Rightarrow> risk_check_result" where
  "market_anomaly_block_check ctx =
     (case pc_factor_context ctx of
        None \<Rightarrow> passed MarketAnomalyBlock
      | Some fc \<Rightarrow>
          let anomaly = fc_market_anomaly fc in
          if is_blocking anomaly
          then failed MarketAnomalyBlock
                 [Lit (case ma_reason_code anomaly of Some c \<Rightarrow> c | None \<Rightarrow> ''market anomaly block'')]
                 [Lit ''no active anomaly block''] [Lit ''blocked'']
          else passed MarketAnomalyBlock)"

definition reconciliation_maintenance_check :: "pre_trade_context \<Rightarrow> risk_check_result" where
  "reconciliation_maintenance_check ctx =
     (case pc_factor_context ctx of
        None \<Rightarrow> passed ReconciliationMaintenance
      | Some fc \<Rightarrow>
          if rh_force_maintenance_mode (fc_reconciliation_health fc)
          then failed ReconciliationMaintenance [Lit ''reconciliation health forced maintenance mode'']
                 [Lit ''trading healthy''] [Lit ''maintenance'']
          else passed ReconciliationMaintenance)"

definition control_factor_manual_ack_required_check :: "pre_trade_context \<Rightarrow> risk_check_result" where
  "control_factor_manual_ack_required_check ctx =
     (case pc_factor_context ctx of
        None \<Rightarrow> passed ControlFactorManualAckRequired
      | Some fc \<Rightarrow>
          if rh_require_manual_ack (fc_reconciliation_health fc)
          then failed ControlFactorManualAckRequired
                 [Lit ''reconciliation health requires manual acknowledgement'']
                 [Lit ''acknowledged''] [Lit ''pending'']
          else if ma_manual_ack_required (fc_market_anomaly fc)
          then failed ControlFactorManualAckRequired
                 (case ma_reason_code (fc_market_anomaly fc) of
                    None \<Rightarrow> [Lit ''market anomaly requires manual acknowledgement'']
                  | Some code \<Rightarrow> [Lit ''market anomaly '', Lit code, Lit '' requires manual acknowledgement''])
                 [Lit ''acknowledged''] [Lit ''pending'']
          else passed ControlFactorManualAckRequired)"

definition control_factor_snapshot_expired_check :: "pre_trade_context \<Rightarrow> risk_check_result" where
  "control_factor_snapshot_expired_check ctx =
     (case pc_factor_context ctx of
        None \<Rightarrow> passed ControlFactorSnapshotExpired
      | Some fc \<Rightarrow>
          if is_snapshot_stale_fail_closed fc
          then failed ControlFactorSnapshotExpired [Lit ''control-factor publication TTL expired'']
                 [Lit ''publication active''] [Lit ''expired'']
          else passed ControlFactorSnapshotExpired)"

definition blocking_trades_check :: "pre_trade_context \<Rightarrow> risk_check_result" where
  "blocking_trades_check ctx =
     (let mode = sg_mode (pc_settlement_gate ctx) in
      if \<not> blocks_admission (pc_integrity ctx) mode then passed BlockingTrades
      else failed BlockingTrades
        [PInt (uint (ti_blocking_count (pc_integrity ctx))), Lit '' durable trade(s) block new entries '',
         Lit em_dash, Lit '' reconcile via GET /api/trades/reconciliation'']
        [Lit ''0 blocking''] [PInt (uint (ti_blocking_count (pc_integrity ctx)))])"

definition redeem_route_resolvable_check :: "pre_trade_context \<Rightarrow> risk_check_result" where
  "redeem_route_resolvable_check ctx =
     (let gate = pc_settlement_gate ctx; market = opp_market_id (pc_opportunity ctx) in
      if sg_mode gate \<noteq> Live then passed RedeemRouteResolvable
      else case sg_market_neg_risk gate of
        None \<Rightarrow> failed RedeemRouteResolvable [Lit ''market '', Lit market, Lit '' not in registry'']
                  [Lit ''registry neg_risk''] [Lit ''missing'']
      | Some neg_risk \<Rightarrow>
          (case sg_redeem_policy gate of
             None \<Rightarrow> failed RedeemRouteResolvable [Lit ''settlement.redeem policy unavailable'']
                       [Lit ''policy present''] [Lit ''missing'']
           | Some policy \<Rightarrow>
               if resolve_redeem policy market neg_risk \<noteq> None then passed RedeemRouteResolvable
               else failed RedeemRouteResolvable
                      [Lit ''settlement.redeem: no route for market '', Lit market, Lit '' (neg_risk='',
                       PBool neg_risk, Lit '')'']
                      [Lit ''resolvable route''] [Lit ''none'']))"

section \<open>Gates on metrics and on the snapshot\<close>

definition metrics_freshness_check :: "risk_config \<Rightarrow> pre_trade_context \<Rightarrow> risk_check_result" where
  "metrics_freshness_check config ctx =
     (if \<not> ms_is_authoritative (pc_metrics ctx)
      then failed MetricsFreshness [Lit ''risk metrics source is not authoritative'']
             [Lit ''authoritative''] [Lit ''non-authoritative'']
      else if ms_is_stale (pc_metrics ctx)
      then failed MetricsFreshness [Lit ''risk metrics snapshot has been marked stale'']
             [Lit ''not stale''] [Lit ''stale'']
      else
        let actual = ms_metrics_age_secs (pc_metrics ctx) in
        if actual \<le> rc_max_metrics_staleness_secs config then passed MetricsFreshness
        else failed MetricsFreshness [Lit ''risk metrics snapshot is stale: '', PInt (uint actual), Lit ''s'']
               [Lit sym_le, Lit '' '', PInt (uint (rc_max_metrics_staleness_secs config)), Lit ''s'']
               [PInt (uint actual), Lit ''s''])"

definition min_depth_check :: "'z decimal_ops_scheme \<Rightarrow> risk_config \<Rightarrow> pre_trade_context \<Rightarrow> risk_check_result" where
  "min_depth_check D config ctx =
     (let depth_pct = opp_depth_used_pct (pc_opportunity ctx) in
      if depth_pct = 0
      then failed MinDepth
             [Lit ''depth_used_pct is zero '', Lit em_dash, Lit '' cannot infer available depth'']
             [Lit sym_ge, Lit '' $'', PDec (rc_min_depth_usd config)] [Lit ''unknown'']
      else
        let available_depth = dec_div D (dec_mul D (opp_total_cost (pc_opportunity ctx)) 100) depth_pct in
        if available_depth \<ge> rc_min_depth_usd config then passed MinDepth
        else failed MinDepth
               [Lit ''available depth $'', PDecP 2 available_depth, Lit '' below min $'', PDec (rc_min_depth_usd config)]
               [Lit sym_ge, Lit '' $'', PDec (rc_min_depth_usd config)] [Lit ''$'', PDecP 2 available_depth])"

definition max_depth_usage_check :: "risk_config \<Rightarrow> pre_trade_context \<Rightarrow> risk_check_result" where
  "max_depth_usage_check config ctx =
     (let actual = opp_depth_used_pct (pc_opportunity ctx) in
      if actual \<le> rc_max_depth_usage_pct config then passed MaxDepthUsage
      else failed MaxDepthUsage
             [Lit ''depth usage '', PDec actual, Lit ''% exceeds max '', PDec (rc_max_depth_usage_pct config), Lit ''%'']
             [Lit sym_le, Lit '' '', PDec (rc_max_depth_usage_pct config), Lit ''%''] [PDec actual, Lit ''%''])"

definition staleness_check :: "pre_trade_context \<Rightarrow> risk_check_result" where
  "staleness_check ctx =
     (let s = opp_staleness (pc_opportunity ctx) in
      if s < Stale then passed Staleness
      else failed Staleness 
             [Lit ''data staleness '', Lit [CHR 0x27], Lit (staleness_str s), Lit [CHR 0x27], Lit '' is unacceptable'']
             [Lit ''< stale''] [Lit (staleness_str s)])"

definition daily_budget_check :: "pre_trade_context \<Rightarrow> risk_check_result" where
  "daily_budget_check ctx =
     (if ctx_daily_budget_remaining ctx \<ge> intended_cost_usd ctx then passed DailyBudget
      else failed DailyBudget
             [Lit ''budget exhausted (remaining: '', PDec (ctx_daily_budget_remaining ctx), Lit '')'']
             [Lit ''> $0''] [Lit ''$'', PDec (ctx_daily_budget_remaining ctx)])"

text \<open>\<open>actual < cap\<close> with the message of the loss caps.\<close>

definition loss_cap_check :: "risk_check_id \<Rightarrow> string \<Rightarrow> usd \<Rightarrow> decimal \<Rightarrow> risk_check_result" where
  "loss_cap_check check_id name loss cap =
     (if loss < cap then passed check_id
      else failed check_id
             [Lit name, Lit '' $'', PDec loss, Lit '' '', Lit sym_ge, Lit '' cap $'', PDec cap]
             [Lit ''< $'', PDec cap] [Lit ''$'', PDec loss])"

definition daily_loss_cap_check :: "risk_config \<Rightarrow> pre_trade_context \<Rightarrow> risk_check_result" where
  "daily_loss_cap_check config ctx =
     loss_cap_check DailyLossCap ''daily loss'' (das_daily_loss (rs_daily (pc_snap ctx))) (rc_max_daily_loss_usd config)"

definition weekly_loss_cap_check :: "risk_config \<Rightarrow> pre_trade_context \<Rightarrow> risk_check_result" where
  "weekly_loss_cap_check config ctx =
     loss_cap_check WeeklyLossCap ''weekly loss'' (ctx_weekly_loss ctx) (rc_max_weekly_loss_usd config)"

definition hourly_loss_cap_check :: "risk_config \<Rightarrow> pre_trade_context \<Rightarrow> risk_check_result" where
  "hourly_loss_cap_check config ctx =
     loss_cap_check HourlyLossCap ''hourly loss'' (has_hourly_loss (rs_hourly (pc_snap ctx))) (rc_max_hourly_loss_usd config)"

definition fee_spend_check :: "risk_config \<Rightarrow> pre_trade_context \<Rightarrow> risk_check_result" where
  "fee_spend_check config ctx =
     (let daily_fee = das_daily_fee (rs_daily (pc_snap ctx)); hourly_fee = has_hourly_fee (rs_hourly (pc_snap ctx)) in
      if daily_fee \<ge> rc_max_daily_fee_spend_usd config
      then failed FeeSpend
             [Lit ''daily fees $'', PDec daily_fee, Lit '' '', Lit sym_ge, Lit '' cap $'', PDec (rc_max_daily_fee_spend_usd config)]
             [Lit ''< $'', PDec (rc_max_daily_fee_spend_usd config)] [Lit ''$'', PDec daily_fee]
      else if hourly_fee \<ge> rc_max_hourly_fee_spend_usd config
      then failed FeeSpend
             [Lit ''hourly fees $'', PDec hourly_fee, Lit '' '', Lit sym_ge, Lit '' cap $'', PDec (rc_max_hourly_fee_spend_usd config)]
             [Lit ''< $'', PDec (rc_max_hourly_fee_spend_usd config)] [Lit ''$'', PDec hourly_fee]
      else passed FeeSpend)"

definition max_single_bet_check :: "risk_config \<Rightarrow> pre_trade_context \<Rightarrow> risk_check_result" where
  "max_single_bet_check config ctx =
     (let actual = intended_cost_usd ctx in
      if actual \<le> rc_max_single_bet_usd config then passed MaxSingleBet
      else failed MaxSingleBet
             [Lit ''bet $'', PDec actual, Lit '' exceeds max $'', PDec (rc_max_single_bet_usd config)]
             [Lit sym_le, Lit '' $'', PDec (rc_max_single_bet_usd config)] [Lit ''$'', PDec actual])"

definition market_exposure_check ::
  "'z decimal_ops_scheme \<Rightarrow> risk_config \<Rightarrow> pre_trade_context \<Rightarrow> risk_check_result" where
  "market_exposure_check D config ctx =
     (let post_trade = dec_add D (ms_market_exposure (pc_metrics ctx)) (intended_cost_usd ctx) in
      if post_trade \<le> rc_max_single_market_exposure_usd config then passed MarketExposure
      else failed MarketExposure
             [Lit ''post-trade market exposure $'', PDec post_trade, Lit '' exceeds max $'',
              PDec (rc_max_single_market_exposure_usd config)]
             [Lit sym_le, Lit '' $'', PDec (rc_max_single_market_exposure_usd config)]
             [Lit ''$'', PDec post_trade])"

definition total_exposure_check ::
  "'z decimal_ops_scheme \<Rightarrow> risk_config \<Rightarrow> pre_trade_context \<Rightarrow> risk_check_result" where
  "total_exposure_check D config ctx =
     (let post_trade = dec_add D (ms_total_exposure (pc_metrics ctx)) (intended_cost_usd ctx) in
      if post_trade \<le> rc_max_total_exposure_usd config then passed TotalExposure
      else failed TotalExposure
             [Lit ''post-trade total exposure $'', PDec post_trade, Lit '' exceeds max $'',
              PDec (rc_max_total_exposure_usd config)]
             [Lit sym_le, Lit '' $'', PDec (rc_max_total_exposure_usd config)]
             [Lit ''$'', PDec post_trade])"

definition exposure_pct_check ::
  "'z decimal_ops_scheme \<Rightarrow> risk_config \<Rightarrow> pre_trade_context \<Rightarrow> risk_check_result" where
  "exposure_pct_check D config ctx =
     (if ms_cash_balance (pc_metrics ctx) \<le> 0
      then failed ExposurePct
             [Lit ''cash balance is zero or negative '', Lit em_dash, Lit '' cannot compute exposure %'']
             [Lit sym_le, Lit '' '', PDec (rc_max_total_exposure_pct config), Lit ''%''] [Lit ''N/A'']
      else
        let post_trade = dec_add D (ms_total_exposure (pc_metrics ctx)) (intended_cost_usd ctx);
            pct = dec_mul D (dec_div D post_trade (ms_cash_balance (pc_metrics ctx))) 100
        in if pct \<le> rc_max_total_exposure_pct config then passed ExposurePct
           else failed ExposurePct
                  [Lit ''exposure '', PDecP 1 pct, Lit ''% exceeds max '', PDec (rc_max_total_exposure_pct config), Lit ''%'']
                  [Lit sym_le, Lit '' '', PDec (rc_max_total_exposure_pct config), Lit ''%'']
                  [PDecP 1 pct, Lit ''%''])"

definition potential_loss_cap_check :: "'z decimal_ops_scheme \<Rightarrow> pre_trade_context \<Rightarrow> risk_check_result" where
  "potential_loss_cap_check D ctx =
     (let post_trade_potential =
            dec_add D (dec_add D (ctx_total_potential_loss ctx) (intended_cost_usd ctx)) (intended_fee_usd ctx)
      in if post_trade_potential \<le> ms_cash_balance (pc_metrics ctx) then passed PotentialLossCap
         else failed PotentialLossCap
                [Lit ''potential loss $'', PDec post_trade_potential, Lit '' exceeds balance $'',
                 PDec (ms_cash_balance (pc_metrics ctx))]
                [Lit sym_le, Lit '' $'', PDec (ms_cash_balance (pc_metrics ctx))]
                [Lit ''$'', PDec post_trade_potential])"

definition max_positions_check :: "risk_config \<Rightarrow> pre_trade_context \<Rightarrow> risk_check_result" where
  "max_positions_check config ctx =
     (let actual = ms_open_position_count (pc_metrics ctx) in
      if actual < rc_max_open_positions config then passed MaxPositions
      else failed MaxPositions
             [Lit ''open positions '', PInt (uint actual), Lit '' '', Lit sym_ge, Lit '' max '',
              PInt (uint (rc_max_open_positions config))]
             [Lit ''< '', PInt (uint (rc_max_open_positions config))] [PInt (uint actual)])"

definition ws_connectivity_check :: "risk_config \<Rightarrow> pre_trade_context \<Rightarrow> risk_check_result" where
  "ws_connectivity_check config ctx =
     (let actual = ctx_ws_disconnect_secs ctx in
      if actual < rc_ws_disconnect_threshold_secs config then passed WsConnectivity
      else failed WsConnectivity [Lit ''WS disconnected for '', PInt (uint actual), Lit ''s'']
             [Lit ''< '', PInt (uint (rc_ws_disconnect_threshold_secs config)), Lit ''s'']
             [PInt (uint actual), Lit ''s''])"

definition min_balance_check :: "risk_config \<Rightarrow> pre_trade_context \<Rightarrow> risk_check_result" where
  "min_balance_check config ctx =
     (let balance = ms_cash_balance (pc_metrics ctx) in
      if balance \<ge> rc_min_balance_usd config then passed MinBalance
      else failed MinBalance [Lit ''balance $'', PDec balance, Lit '' below min $'', PDec (rc_min_balance_usd config)]
             [Lit sym_ge, Lit '' $'', PDec (rc_min_balance_usd config)] [Lit ''$'', PDec balance])"

definition directional_concentration_check :: "risk_config \<Rightarrow> pre_trade_context \<Rightarrow> risk_check_result" where
  "directional_concentration_check config ctx =
     (let actual = open_directional_count_same_side ctx in
      if actual < rc_max_concurrent_directional config then passed DirectionalConcentration
      else failed DirectionalConcentration
             [Lit ''directional concentration '', PInt (uint actual), Lit '' '', Lit sym_ge, Lit '' max '',
              PInt (uint (rc_max_concurrent_directional config))]
             [Lit ''< '', PInt (uint (rc_max_concurrent_directional config))] [PInt (uint actual)])"

definition daily_directional_budget_check :: "risk_config \<Rightarrow> pre_trade_context \<Rightarrow> risk_check_result" where
  "daily_directional_budget_check config ctx =
     (let actual = daily_directional_trades_same_side ctx in
      if actual < rc_daily_directional_budget config then passed DailyDirectionalBudget
      else failed DailyDirectionalBudget
             [Lit ''daily directional trades '', PInt (uint actual), Lit '' '', Lit sym_ge, Lit '' budget '',
              PInt (uint (rc_daily_directional_budget config))]
             [Lit ''< '', PInt (uint (rc_daily_directional_budget config))] [PInt (uint actual)])"

definition duplicate_market_check :: "pre_trade_context \<Rightarrow> risk_check_result" where
  "duplicate_market_check ctx =
     (let exposure = ms_market_exposure (pc_metrics ctx) in
      if exposure \<le> 0 then passed DuplicateMarket
      else failed DuplicateMarket [Lit ''market already has exposure $'', PDec exposure]
             [Lit ''$0''] [Lit ''$'', PDec exposure])"

fun drawdown_action_str :: "drawdown_action \<Rightarrow> string" where
  "drawdown_action_str Normal = ''Normal''"
| "drawdown_action_str Reduce = ''Reduce''"
| "drawdown_action_str Halt = ''Halt''"

definition drawdown_guard_check :: "'z decimal_ops_scheme \<Rightarrow> pre_trade_context \<Rightarrow> risk_check_result" where
  "drawdown_guard_check D ctx =
     (if ctx_drawdown_action D ctx = Halt
      then failed DrawdownGuard
             [Lit ''drawdown halt (factor: '', PDec (ctx_drawdown_factor D ctx), Lit '')'']
             [Lit ''!= Halt''] [Lit (drawdown_action_str (ctx_drawdown_action D ctx))]
      else passed DrawdownGuard)"

definition api_error_rate_check ::
  "'z decimal_ops_scheme \<Rightarrow> risk_config \<Rightarrow> pre_trade_context \<Rightarrow> risk_check_result" where
  "api_error_rate_check D config ctx =
     (if ms_api_request_count (pc_metrics ctx) = 0 then passed ApiErrorRate
      else
        let error_rate = dec_div D (of_nat (unat (ms_api_error_count (pc_metrics ctx))))
                           (of_nat (unat (ms_api_request_count (pc_metrics ctx)))) in
        if error_rate < rc_api_error_rate_threshold config then passed ApiErrorRate
        else failed ApiErrorRate
               [Lit ''API error rate '', PDecP 2 error_rate, Lit '' >= threshold '', PDec (rc_api_error_rate_threshold config)]
               [Lit ''< '', PDec (rc_api_error_rate_threshold config)] [PDecP 2 error_rate])"

lemmas check_defs [gate_defs] = manual_halt_check_def circuit_breaker_check_def blacklist_check_def
  token_blacklist_check_def market_anomaly_block_check_def reconciliation_maintenance_check_def
  control_factor_manual_ack_required_check_def control_factor_snapshot_expired_check_def
  blocking_trades_check_def redeem_route_resolvable_check_def metrics_freshness_check_def
  min_depth_check_def max_depth_usage_check_def staleness_check_def daily_budget_check_def
  loss_cap_check_def daily_loss_cap_check_def weekly_loss_cap_check_def hourly_loss_cap_check_def
  fee_spend_check_def max_single_bet_check_def market_exposure_check_def total_exposure_check_def
  exposure_pct_check_def potential_loss_cap_check_def max_positions_check_def ws_connectivity_check_def
  min_balance_check_def directional_concentration_check_def daily_directional_budget_check_def
  duplicate_market_check_def drawdown_guard_check_def api_error_rate_check_def

section \<open>What the gates decide\<close>

text \<open>The condition under which each gate passes.\<close>

lemma gate_passed [simp]:
  "cr_passed (manual_halt_check ctx) \<longleftrightarrow> manual_allows_trading (ctx_manual_halt ctx)"
  "cr_passed (circuit_breaker_check ctx) \<longleftrightarrow> cg_allows_trading (ctx_circuit_breaker ctx)"
  "cr_passed (blacklist_check ctx) \<longleftrightarrow> is_market_blacklisted_trading_path ctx = None"
  "cr_passed (token_blacklist_check ctx) \<longleftrightarrow> \<not> ctx_is_token_blacklisted ctx"
  "cr_passed (blocking_trades_check ctx) \<longleftrightarrow> \<not> blocks_admission (pc_integrity ctx) (sg_mode (pc_settlement_gate ctx))"
  "cr_passed (metrics_freshness_check config ctx) \<longleftrightarrow> ms_is_authoritative (pc_metrics ctx)
     \<and> \<not> ms_is_stale (pc_metrics ctx) \<and> ms_metrics_age_secs (pc_metrics ctx) \<le> rc_max_metrics_staleness_secs config"
  "cr_passed (staleness_check ctx) \<longleftrightarrow> opp_staleness (pc_opportunity ctx) < Stale"
  "cr_passed (daily_budget_check ctx) \<longleftrightarrow> intended_cost_usd ctx \<le> ctx_daily_budget_remaining ctx"
  "cr_passed (daily_loss_cap_check config ctx) \<longleftrightarrow> das_daily_loss (rs_daily (pc_snap ctx)) < rc_max_daily_loss_usd config"
  "cr_passed (weekly_loss_cap_check config ctx) \<longleftrightarrow> ctx_weekly_loss ctx < rc_max_weekly_loss_usd config"
  "cr_passed (hourly_loss_cap_check config ctx) \<longleftrightarrow> has_hourly_loss (rs_hourly (pc_snap ctx)) < rc_max_hourly_loss_usd config"
  "cr_passed (fee_spend_check config ctx) \<longleftrightarrow> das_daily_fee (rs_daily (pc_snap ctx)) < rc_max_daily_fee_spend_usd config
     \<and> has_hourly_fee (rs_hourly (pc_snap ctx)) < rc_max_hourly_fee_spend_usd config"
  "cr_passed (max_single_bet_check config ctx) \<longleftrightarrow> intended_cost_usd ctx \<le> rc_max_single_bet_usd config"
  "cr_passed (market_exposure_check D config ctx) \<longleftrightarrow>
     dec_add D (ms_market_exposure (pc_metrics ctx)) (intended_cost_usd ctx) \<le> rc_max_single_market_exposure_usd config"
  "cr_passed (total_exposure_check D config ctx) \<longleftrightarrow>
     dec_add D (ms_total_exposure (pc_metrics ctx)) (intended_cost_usd ctx) \<le> rc_max_total_exposure_usd config"
  "cr_passed (potential_loss_cap_check D ctx) \<longleftrightarrow>
     dec_add D (dec_add D (ctx_total_potential_loss ctx) (intended_cost_usd ctx)) (intended_fee_usd ctx)
       \<le> ms_cash_balance (pc_metrics ctx)"
  "cr_passed (max_positions_check config ctx) \<longleftrightarrow> ms_open_position_count (pc_metrics ctx) < rc_max_open_positions config"
  "cr_passed (ws_connectivity_check config ctx) \<longleftrightarrow> ctx_ws_disconnect_secs ctx < rc_ws_disconnect_threshold_secs config"
  "cr_passed (min_balance_check config ctx) \<longleftrightarrow> rc_min_balance_usd config \<le> ms_cash_balance (pc_metrics ctx)"
  "cr_passed (duplicate_market_check ctx) \<longleftrightarrow> ms_market_exposure (pc_metrics ctx) \<le> 0"
  "cr_passed (drawdown_guard_check D ctx) \<longleftrightarrow> ctx_drawdown_action D ctx \<noteq> Halt"
  by (auto simp: gate_defs Let_def not_le split: option.splits)

end
