(* ===== verification/Pipeline.thy ===== *)
theory Pipeline
  imports Checks
begin

text \<open>
  \<open>oxide-arb-risk/src/pipeline/mod.rs\<close>: the statically registered gates, the evaluation loop with
  its two report modes, the range evaluation that splits a decision in two phases, and the
  gates re-run after sizing. The stopwatch readings are the argument \<open>tm\<close> (per check) and a total. The locale
  \<open>phased_gates\<close> states what the split relies on: the gates before it do not read the
  metrics.
\<close>

datatype risk_check_kind = Gate | SizingConstraint

datatype report_mode = ShortCircuit | FullReport

record risk_check =
  ck_id :: risk_check_id
  ck_requires_metrics :: bool
  ck_evaluate :: "pre_trade_context \<Rightarrow> risk_check_result"

record pipeline_report =
  pr_results :: "risk_check_result list"
  pr_has_failed_hard_gate :: bool
  pr_first_failure :: "risk_check_id option"
  pr_total_elapsed_us :: u64

definition merge_report :: "pipeline_report \<Rightarrow> pipeline_report \<Rightarrow> pipeline_report" where
  "merge_report self other = \<lparr>pr_results = pr_results self @ pr_results other,
     pr_has_failed_hard_gate = (pr_has_failed_hard_gate self \<or> pr_has_failed_hard_gate other),
     pr_first_failure = (if pr_first_failure self = None then pr_first_failure other else pr_first_failure self),
     pr_total_elapsed_us = saturating_add_u64 (pr_total_elapsed_us self) (pr_total_elapsed_us other)\<rparr>"

section \<open>The registered gates\<close>

definition gate :: "risk_check_id \<Rightarrow> bool \<Rightarrow> (pre_trade_context \<Rightarrow> risk_check_result) \<Rightarrow> risk_check" where
  "gate i m f = \<lparr>ck_id = i, ck_requires_metrics = m, ck_evaluate = f\<rparr>"

definition check_refs_in_order :: "'z decimal_ops_scheme \<Rightarrow> risk_config \<Rightarrow> risk_check list" where
  "check_refs_in_order D config =
     [gate ManualHalt False manual_halt_check,
      gate CircuitBreaker False circuit_breaker_check,
      gate BlacklistTradingPath False blacklist_check,
      gate TokenBlacklist False token_blacklist_check,
      gate MarketAnomalyBlock False market_anomaly_block_check,
      gate ReconciliationMaintenance False reconciliation_maintenance_check,
      gate ControlFactorManualAckRequired False control_factor_manual_ack_required_check,
      gate ControlFactorSnapshotExpired False control_factor_snapshot_expired_check,
      gate BlockingTrades False blocking_trades_check,
      gate RedeemRouteResolvable False redeem_route_resolvable_check,
      gate MetricsFreshness True (metrics_freshness_check config),
      gate MinDepth True (min_depth_check D config),
      gate MaxDepthUsage True (max_depth_usage_check config),
      gate Staleness True staleness_check,
      gate DailyBudget True daily_budget_check,
      gate DailyLossCap True (daily_loss_cap_check config),
      gate WeeklyLossCap True (weekly_loss_cap_check config),
      gate HourlyLossCap True (hourly_loss_cap_check config),
      gate FeeSpend False (fee_spend_check config),
      gate MaxSingleBet True (max_single_bet_check config),
      gate MarketExposure True (market_exposure_check D config),
      gate TotalExposure True (total_exposure_check D config),
      gate ExposurePct True (exposure_pct_check D config),
      gate PotentialLossCap True (potential_loss_cap_check D),
      gate MaxPositions True (max_positions_check config),
      gate WsConnectivity True (ws_connectivity_check config),
      gate ApiErrorRate True (api_error_rate_check D config),
      gate MinBalance True (min_balance_check config),
      gate DirectionalConcentration True (directional_concentration_check config),
      gate DailyDirectionalBudget True (daily_directional_budget_check config),
      gate DuplicateMarket True duplicate_market_check,
      gate DrawdownGuard True (drawdown_guard_check D)]"

definition sized_gate_refs :: "'z decimal_ops_scheme \<Rightarrow> risk_config \<Rightarrow> risk_check list" where
  "sized_gate_refs D config =
     [gate DailyBudget True daily_budget_check,
      gate MaxSingleBet True (max_single_bet_check config),
      gate MarketExposure True (market_exposure_check D config),
      gate TotalExposure True (total_exposure_check D config),
      gate ExposurePct True (exposure_pct_check D config),
      gate PotentialLossCap True (potential_loss_cap_check D)]"

text \<open>\<open>position(requires_metrics).unwrap_or(len)\<close>.\<close>

fun compute_metrics_split :: "risk_check list \<Rightarrow> nat" where
  "compute_metrics_split [] = 0"
| "compute_metrics_split (c # cs) = (if ck_requires_metrics c then 0 else Suc (compute_metrics_split cs))"

definition check_order :: "'z decimal_ops_scheme \<Rightarrow> risk_config \<Rightarrow> risk_check_id list" where
  "check_order D config = map ck_id (check_refs_in_order D config)"

section \<open>Evaluation\<close>

text \<open>The accumulator of the loop: results, whether a hard gate failed, and the first failure.\<close>

type_synonym loop_state = "risk_check_result list \<times> bool \<times> risk_check_id option"

definition run_check ::
  "(risk_check_id \<Rightarrow> u64) \<Rightarrow> risk_check \<Rightarrow> risk_check_kind \<Rightarrow> pre_trade_context \<Rightarrow> report_mode \<Rightarrow>
   loop_state \<Rightarrow> loop_state \<times> bool" where
  "run_check tm check kind ctx mode st =
     (let (results, has_failed, first_failure) = st;
          result = (ck_evaluate check ctx)\<lparr>cr_elapsed_us := tm (ck_id check)\<rparr>;
          failed_gate = (\<not> cr_passed result \<and> kind = Gate);
          has_failed = (has_failed \<or> failed_gate);
          first_failure = (if failed_gate \<and> first_failure = None then Some (ck_id check) else first_failure)
      in ((results @ [result], has_failed, first_failure), \<not> (has_failed \<and> mode = ShortCircuit)))"

fun eval_loop ::
  "(risk_check_id \<Rightarrow> u64) \<Rightarrow> pre_trade_context \<Rightarrow> report_mode \<Rightarrow> nat \<Rightarrow> nat \<Rightarrow> nat \<Rightarrow>
   risk_check list \<Rightarrow> loop_state \<Rightarrow> loop_state" where
  "eval_loop tm ctx mode start stop idx [] st = st"
| "eval_loop tm ctx mode start stop idx (check # checks) st =
     (if idx \<ge> stop then st
      else if idx \<ge> start then
        let (st1, continue) = run_check tm check Gate ctx mode st
        in if \<not> continue then st1 else eval_loop tm ctx mode start stop (Suc idx) checks st1
      else eval_loop tm ctx mode start stop (Suc idx) checks st)"

definition report_of :: "loop_state \<Rightarrow> u64 \<Rightarrow> pipeline_report" where
  "report_of st elapsed = (case st of (results, has_failed, first_failure) \<Rightarrow>
     \<lparr>pr_results = results, pr_has_failed_hard_gate = has_failed, pr_first_failure = first_failure,
      pr_total_elapsed_us = elapsed\<rparr>)"

definition evaluate_range ::
  "(risk_check_id \<Rightarrow> u64) \<Rightarrow> u64 \<Rightarrow> risk_check list \<Rightarrow> pre_trade_context \<Rightarrow> report_mode \<Rightarrow> nat \<Rightarrow> nat \<Rightarrow>
   pipeline_report" where
  "evaluate_range tm elapsed checks ctx mode start stop =
     report_of (eval_loop tm ctx mode start stop 0 checks ([], False, None)) elapsed"

definition evaluate_pipeline ::
  "(risk_check_id \<Rightarrow> u64) \<Rightarrow> u64 \<Rightarrow> risk_check list \<Rightarrow> pre_trade_context \<Rightarrow> report_mode \<Rightarrow> pipeline_report" where
  "evaluate_pipeline tm elapsed checks ctx mode = evaluate_range tm elapsed checks ctx mode 0 (length checks)"

definition evaluate_sized_gates ::
  "(risk_check_id \<Rightarrow> u64) \<Rightarrow> u64 \<Rightarrow> 'z decimal_ops_scheme \<Rightarrow> risk_config \<Rightarrow> pre_trade_context \<Rightarrow> report_mode \<Rightarrow>
   pipeline_report" where
  "evaluate_sized_gates tm elapsed D config ctx mode =
     report_of (eval_loop tm ctx mode 0 6 0 (sized_gate_refs D config) ([], False, None)) elapsed"

section \<open>What the loop computes\<close>

definition result_of :: "(risk_check_id \<Rightarrow> u64) \<Rightarrow> pre_trade_context \<Rightarrow> risk_check \<Rightarrow> risk_check_result" where
  "result_of tm ctx c = (ck_evaluate c ctx)\<lparr>cr_elapsed_us := tm (ck_id c)\<rparr>"

definition passes :: "pre_trade_context \<Rightarrow> risk_check \<Rightarrow> bool" where
  "passes ctx c \<longleftrightarrow> cr_passed (ck_evaluate c ctx)"

text \<open>The gates a mode runs: all, or up to the first failing one.\<close>

fun executed :: "report_mode \<Rightarrow> pre_trade_context \<Rightarrow> risk_check list \<Rightarrow> risk_check list" where
  "executed FullReport ctx cs = cs"
| "executed ShortCircuit ctx [] = []"
| "executed ShortCircuit ctx (c # cs) = c # (if passes ctx c then executed ShortCircuit ctx cs else [])"

definition first_fail :: "pre_trade_context \<Rightarrow> risk_check list \<Rightarrow> risk_check_id option" where
  "first_fail ctx cs = map_option ck_id (find (\<lambda>c. \<not> passes ctx c) cs)"

lemma passed_result_of [simp]: "cr_passed (result_of tm ctx c) = passes ctx c"
  by (simp add: result_of_def passes_def)

lemma run_check_eq:
  "run_check tm c Gate ctx mode (rs, hf, ff) =
     ((rs @ [result_of tm ctx c], hf \<or> \<not> passes ctx c,
       if \<not> passes ctx c \<and> ff = None then Some (ck_id c) else ff),
      \<not> ((hf \<or> \<not> passes ctx c) \<and> mode = ShortCircuit))"
  by (auto simp: run_check_def result_of_def passes_def Let_def)

lemma first_fail_executed: "first_fail ctx (executed mode ctx cs) = first_fail ctx cs"
  by (induction mode ctx cs rule: executed.induct) (auto simp: first_fail_def)

lemma executed_all: "(\<forall>c \<in> set (executed mode ctx cs). passes ctx c) \<longleftrightarrow> (\<forall>c \<in> set cs. passes ctx c)"
  by (induction mode ctx cs rule: executed.induct) auto

lemma executed_pass: "\<forall>c \<in> set cs. passes ctx c \<Longrightarrow> executed mode ctx cs = cs"
  by (induction mode ctx cs rule: executed.induct) auto

lemma executed_append:
  "executed ShortCircuit ctx (xs @ ys) =
     (if \<forall>c \<in> set xs. passes ctx c then xs @ executed ShortCircuit ctx ys else executed ShortCircuit ctx xs)"
  by (induction xs) auto

lemma eval_loop_skip:
  "start \<le> stop \<Longrightarrow> idx \<le> start \<Longrightarrow>
   eval_loop tm ctx mode start stop idx cs st =
   eval_loop tm ctx mode start stop start (drop (start - idx) cs) st"
proof (induction cs arbitrary: idx)
  case (Cons c cs)
  show ?case
  proof (cases "idx = start")
    case False
    then have "idx < start" using Cons.prems by simp
    then have "drop (start - idx) (c # cs) = drop (start - Suc idx) cs"
      by (simp add: drop_Cons' Suc_diff_Suc [symmetric])
    then show ?thesis using Cons.IH [of "Suc idx"] Cons.prems \<open>idx < start\<close> by simp
  qed simp
qed simp

lemma eval_loop_run:
  assumes "start \<le> idx" "\<not> (hf \<and> mode = ShortCircuit)" "hf \<longleftrightarrow> ff \<noteq> None"
  shows "eval_loop tm ctx mode start stop idx cs (rs, hf, ff) =
    (let es = executed mode ctx (take (stop - idx) cs)
     in (rs @ map (result_of tm ctx) es, hf \<or> (\<exists>c \<in> set es. \<not> passes ctx c),
         if ff = None then first_fail ctx es else ff))"
  using assms
proof (induction cs arbitrary: idx rs hf ff)
  case Nil
  then show ?case by (cases mode) (auto simp: first_fail_def)
next
  case (Cons c cs)
  show ?case
  proof (cases "idx < stop")
    case False
    then show ?thesis using Cons.prems by (cases mode) (auto simp: first_fail_def)
  next
    case True
    then have tk: "take (stop - idx) (c # cs) = c # take (stop - Suc idx) cs"
      by (simp add: take_Cons' Suc_diff_Suc [symmetric])
    show ?thesis
    proof (cases mode)
      case FullReport
      then show ?thesis
        using Cons.prems True tk
          Cons.IH [of "Suc idx" "hf \<or> \<not> passes ctx c" "if \<not> passes ctx c \<and> ff = None then Some (ck_id c) else ff"
            "rs @ [result_of tm ctx c]"]
        by (auto simp: run_check_eq Let_def first_fail_def)
    next
      case ShortCircuit
      then have hf: "\<not> hf" "ff = None" using Cons.prems by auto
      show ?thesis
      proof (cases "passes ctx c")
        case pass: True
        then show ?thesis
          using Cons.prems True tk ShortCircuit hf
            Cons.IH [of "Suc idx" False None "rs @ [result_of tm ctx c]"]
          by (simp add: run_check_eq Let_def first_fail_def)
      next
        case fail: False
        then show ?thesis using Cons.prems True tk ShortCircuit hf
          by (simp add: run_check_eq Let_def first_fail_def)
      qed
    qed
  qed
qed

text \<open>The report of a range of gates, without the loop.\<close>

definition ref_report ::
  "(risk_check_id \<Rightarrow> u64) \<Rightarrow> u64 \<Rightarrow> report_mode \<Rightarrow> pre_trade_context \<Rightarrow> risk_check list \<Rightarrow> pipeline_report" where
  "ref_report tm elapsed mode ctx cs =
     \<lparr>pr_results = map (result_of tm ctx) (executed mode ctx cs),
      pr_has_failed_hard_gate = (\<exists>c \<in> set cs. \<not> passes ctx c),
      pr_first_failure = first_fail ctx cs, pr_total_elapsed_us = elapsed\<rparr>"

lemma evaluate_range_eq:
  assumes "start \<le> stop"
  shows "evaluate_range tm elapsed cs ctx mode start stop =
    ref_report tm elapsed mode ctx (take (stop - start) (drop start cs))"
proof -
  have "(\<exists>c \<in> set (executed mode ctx cs'). \<not> passes ctx c) \<longleftrightarrow> (\<exists>c \<in> set cs'. \<not> passes ctx c)" for cs'
    using executed_all [of mode ctx cs'] by blast
  then show ?thesis
    using assms eval_loop_skip [of start stop 0 tm ctx mode cs]
    by (simp add: evaluate_range_def report_of_def ref_report_def eval_loop_run first_fail_executed Let_def)
qed

lemma evaluate_pipeline_eq: "evaluate_pipeline tm elapsed cs ctx mode = ref_report tm elapsed mode ctx cs"
  by (simp add: evaluate_pipeline_def evaluate_range_eq)

lemma evaluate_sized_eq:
  "evaluate_sized_gates tm elapsed D config ctx mode = ref_report tm elapsed mode ctx (sized_gate_refs D config)"
proof -
  have "evaluate_sized_gates tm elapsed D config ctx mode =
      evaluate_range tm elapsed (sized_gate_refs D config) ctx mode 0 6"
    by (simp add: evaluate_sized_gates_def evaluate_range_def)
  then show ?thesis by (simp add: evaluate_range_eq sized_gate_refs_def)
qed

lemma executed_prefix: "\<exists>rest. cs = executed mode ctx cs @ rest"
  by (induction mode ctx cs rule: executed.induct) auto

text \<open>C34: The two report modes agree. For every list of gates and every context, the fast mode that stops at the
  first failing gate and the diagnostic mode that runs them all return the same verdict and
  name the same first failing gate, and the fast mode's results are an initial part of the full
  report that ends with that gate.\<close>

theorem report_modes_agree:
  "pr_has_failed_hard_gate (evaluate_pipeline tm e cs ctx ShortCircuit)
     = pr_has_failed_hard_gate (evaluate_pipeline tm e' cs ctx FullReport)
   \<and> pr_first_failure (evaluate_pipeline tm e cs ctx ShortCircuit)
     = pr_first_failure (evaluate_pipeline tm e' cs ctx FullReport)
   \<and> (\<exists>rest. pr_results (evaluate_pipeline tm e' cs ctx FullReport)
        = pr_results (evaluate_pipeline tm e cs ctx ShortCircuit) @ rest)
   \<and> (pr_has_failed_hard_gate (evaluate_pipeline tm e cs ctx ShortCircuit)
      \<longleftrightarrow> (\<exists>r rs. pr_results (evaluate_pipeline tm e cs ctx ShortCircuit) = rs @ [r]
            \<and> \<not> cr_passed r \<and> list_all cr_passed rs))"
proof -
  obtain rest where "cs = executed ShortCircuit ctx cs @ rest" using executed_prefix by blast
  then have "map (result_of tm ctx) cs = map (result_of tm ctx) (executed ShortCircuit ctx cs) @ map (result_of tm ctx) rest"
    by (metis map_append)
  moreover have "(\<exists>c \<in> set cs. \<not> passes ctx c) \<longleftrightarrow>
    (\<exists>r rs. map (result_of tm ctx) (executed ShortCircuit ctx cs) = rs @ [r] \<and> \<not> cr_passed r \<and> list_all cr_passed rs)"
  proof
    assume "\<exists>c \<in> set cs. \<not> passes ctx c"
    then show "\<exists>r rs. map (result_of tm ctx) (executed ShortCircuit ctx cs) = rs @ [r] \<and> \<not> cr_passed r \<and> list_all cr_passed rs"
    proof (induction cs)
      case (Cons c cs)
      show ?case
      proof (cases "passes ctx c")
        case True
        then obtain r rs where "map (result_of tm ctx) (executed ShortCircuit ctx cs) = rs @ [r]"
          "\<not> cr_passed r" "list_all cr_passed rs" using Cons by auto
        then show ?thesis using True by (intro exI [of _ r] exI [of _ "result_of tm ctx c # rs"]) simp
      next
        case False
        then show ?thesis by (intro exI [of _ "result_of tm ctx c"] exI [of _ "[]"]) simp
      qed
    qed simp
  next
    assume "\<exists>r rs. map (result_of tm ctx) (executed ShortCircuit ctx cs) = rs @ [r] \<and> \<not> cr_passed r \<and> list_all cr_passed rs"
    then obtain r where "r \<in> set (map (result_of tm ctx) (executed ShortCircuit ctx cs))" "\<not> cr_passed r"
      by (metis in_set_conv_decomp)
    then show "\<exists>c \<in> set cs. \<not> passes ctx c" using executed_all [of ShortCircuit ctx cs] by auto
  qed
  ultimately show ?thesis by (auto simp: evaluate_pipeline_eq ref_report_def)
qed

section \<open>Two phases\<close>

definition two_phase ::
  "risk_check list \<Rightarrow> risk_check list \<Rightarrow> (risk_check_id \<Rightarrow> u64) \<Rightarrow> u64 \<Rightarrow> u64 \<Rightarrow> report_mode \<Rightarrow>
   pre_trade_context \<Rightarrow> risk_metrics_snapshot \<Rightarrow> pipeline_report" where
  "two_phase gs1 gs2 tm e1 e2 mode ctx m =
     (let r1 = ref_report tm e1 mode (ctx\<lparr>pc_metrics := m\<rparr>) gs1
      in if pr_has_failed_hard_gate r1 \<and> mode = ShortCircuit then r1
         else merge_report r1 (ref_report tm e2 mode ctx gs2))"

locale phased_gates =
  fixes gs1 gs2 :: "risk_check list"
  assumes no_metrics: "c \<in> set gs1 \<Longrightarrow> ck_evaluate c (ctx\<lparr>pc_metrics := m\<rparr>) = ck_evaluate c ctx"
begin

lemma passes_metrics: "c \<in> set gs1 \<Longrightarrow> passes (ctx\<lparr>pc_metrics := m\<rparr>) c = passes ctx c"
  by (simp add: passes_def no_metrics)

lemma result_metrics: "c \<in> set gs1 \<Longrightarrow> result_of tm (ctx\<lparr>pc_metrics := m\<rparr>) c = result_of tm ctx c"
  by (simp add: result_of_def no_metrics)

lemma executed_metrics:
  "set cs \<subseteq> set gs1 \<Longrightarrow> executed mode (ctx\<lparr>pc_metrics := m\<rparr>) cs = executed mode ctx cs"
  by (cases mode, simp, induction cs) (simp_all add: passes_metrics)

lemma phase1: "ref_report tm e mode (ctx\<lparr>pc_metrics := m\<rparr>) gs1 = ref_report tm e mode ctx gs1"
proof -
  have "find (\<lambda>c. \<not> passes (ctx\<lparr>pc_metrics := m\<rparr>) c) gs1 = find (\<lambda>c. \<not> passes ctx c) gs1"
    by (rule find_cong) (simp_all add: passes_metrics)
  moreover have "set (executed mode ctx gs1) \<subseteq> set gs1"
    using executed_prefix [of gs1 mode ctx] by (metis Un_iff set_append subsetI)
  then have "map (result_of tm (ctx\<lparr>pc_metrics := m\<rparr>)) (executed mode ctx gs1)
      = map (result_of tm ctx) (executed mode ctx gs1)"
    by (intro map_cong refl result_metrics) auto
  ultimately show ?thesis
    by (simp add: ref_report_def first_fail_def executed_metrics passes_metrics)
qed

lemma two_phase_eq:
  "pr_results (two_phase gs1 gs2 tm e1 e2 mode ctx m) = map (result_of tm ctx) (executed mode ctx (gs1 @ gs2))
   \<and> pr_has_failed_hard_gate (two_phase gs1 gs2 tm e1 e2 mode ctx m) = (\<exists>c \<in> set (gs1 @ gs2). \<not> passes ctx c)
   \<and> pr_first_failure (two_phase gs1 gs2 tm e1 e2 mode ctx m) = first_fail ctx (gs1 @ gs2)"
proof -
  have ff: "first_fail ctx (gs1 @ gs2) = (if first_fail ctx gs1 = None then first_fail ctx gs2 else first_fail ctx gs1)"
    by (induction gs1) (auto simp: first_fail_def)
  have none: "first_fail ctx gs1 = None \<longleftrightarrow> (\<forall>c \<in> set gs1. passes ctx c)"
    by (auto simp: first_fail_def find_None_iff)
  show ?thesis
    unfolding two_phase_def phase1 using ff none executed_pass [of gs1 ctx mode]
    by (cases mode)
       (auto simp: ref_report_def merge_report_def Let_def executed_append Bex_def)
qed

end

text \<open>The registered gates: the ten before the split read only the published state.\<close>

lemma default_split: "compute_metrics_split (check_refs_in_order D config) = 10"
  by (simp add: check_refs_in_order_def gate_def)

lemma length_default [simp]: "length (check_refs_in_order D config) = 32"
  by (simp add: check_refs_in_order_def)

lemma phase1_gates:
  "take 10 (check_refs_in_order D config) =
     [gate ManualHalt False manual_halt_check, gate CircuitBreaker False circuit_breaker_check,
      gate BlacklistTradingPath False blacklist_check, gate TokenBlacklist False token_blacklist_check,
      gate MarketAnomalyBlock False market_anomaly_block_check,
      gate ReconciliationMaintenance False reconciliation_maintenance_check,
      gate ControlFactorManualAckRequired False control_factor_manual_ack_required_check,
      gate ControlFactorSnapshotExpired False control_factor_snapshot_expired_check,
      gate BlockingTrades False blocking_trades_check,
      gate RedeemRouteResolvable False redeem_route_resolvable_check]"
  by (simp add: check_refs_in_order_def)

lemma ctx_metrics_frame [frame_simps]:
  "ctx_manual_halt (ctx\<lparr>pc_metrics := m\<rparr>) = ctx_manual_halt ctx"
  "ctx_circuit_breaker (ctx\<lparr>pc_metrics := m\<rparr>) = ctx_circuit_breaker ctx"
  "is_market_blacklisted_trading_path (ctx\<lparr>pc_metrics := m\<rparr>) = is_market_blacklisted_trading_path ctx"
  "ctx_is_token_blacklisted (ctx\<lparr>pc_metrics := m\<rparr>) = ctx_is_token_blacklisted ctx"
  by (simp_all add: ctx_manual_halt_def ctx_circuit_breaker_def is_market_blacklisted_trading_path_def
      ctx_is_token_blacklisted_def)

interpretation default_gates: phased_gates
  "take 10 (check_refs_in_order D config)" "drop 10 (check_refs_in_order D config)" for D config
proof
  fix c ctx m
  assume "c \<in> set (take 10 (check_refs_in_order D config))"
  then show "ck_evaluate c (ctx\<lparr>pc_metrics := m\<rparr>) = ck_evaluate c ctx"
    unfolding phase1_gates
    by (auto simp: gate_def manual_halt_check_def circuit_breaker_check_def blacklist_check_def
        token_blacklist_check_def market_anomaly_block_check_def reconciliation_maintenance_check_def
        control_factor_manual_ack_required_check_def control_factor_snapshot_expired_check_def
        blocking_trades_check_def redeem_route_resolvable_check_def frame_simps)
qed

text \<open>The phases of a decision: the gates before the split on zeroed metrics; then, unless one failed in the fast
  mode, the others on the live metrics.\<close>

definition phased_report ::
  "(risk_check_id \<Rightarrow> u64) \<Rightarrow> u64 \<Rightarrow> u64 \<Rightarrow> risk_check list \<Rightarrow> pre_trade_context \<Rightarrow> risk_metrics_snapshot \<Rightarrow>
   report_mode \<Rightarrow> pipeline_report \<times> pre_trade_context" where
  "phased_report tm e1 e2 checks phase1_ctx metrics_snap mode =
     (let metrics_split = compute_metrics_split checks;
          gate_report = evaluate_range tm e1 checks phase1_ctx mode 0 metrics_split
      in if pr_has_failed_hard_gate gate_report \<and> mode = ShortCircuit then (gate_report, phase1_ctx)
         else
           let full_ctx = phase1_ctx\<lparr>pc_metrics := metrics_snap\<rparr>;
               phase2 = evaluate_range tm e2 checks full_ctx mode metrics_split (length checks)
           in (merge_report gate_report phase2, full_ctx))"

lemma phased_report_parts:
  fixes ctx :: pre_trade_context
  assumes "ctx = phase1_ctx\<lparr>pc_metrics := metrics\<rparr>"
    "r = fst (phased_report tm e1 e2 (check_refs_in_order D config) phase1_ctx metrics mode)"
  shows "pr_results r = map (result_of tm ctx) (executed mode ctx (check_refs_in_order D config))
    \<and> pr_has_failed_hard_gate r = (\<exists>c \<in> set (check_refs_in_order D config). \<not> passes ctx c)
    \<and> pr_first_failure r = first_fail ctx (check_refs_in_order D config)"
proof -
  have ctx1: "phase1_ctx = ctx\<lparr>pc_metrics := pc_metrics phase1_ctx\<rparr>" using assms(1) by simp
  have "r = two_phase (take 10 (check_refs_in_order D config)) (drop 10 (check_refs_in_order D config)) tm e1 e2 mode ctx (pc_metrics phase1_ctx)"
    unfolding assms(2) two_phase_def phased_report_def default_split
    using assms(1) ctx1 [symmetric]
    by (cases mode) (simp_all add: evaluate_range_eq Let_def)
  then show ?thesis using default_gates.two_phase_eq [of D config] by simp
qed

text \<open>C35: Splitting a decision in two phases changes nothing. The engine runs the first ten gates on zeroed metrics and
  loads the live metrics only afterwards; in both modes the results, the verdict and the first failing
  gate are those of evaluating all 32 gates once on the live metrics.\<close>

theorem two_phase_equals_single:
  "let r = fst (phased_report tm e1 e2 (check_refs_in_order D config) (ctx\<lparr>pc_metrics := zeroed_metrics\<rparr>)
                 (pc_metrics ctx) mode);
       s = evaluate_pipeline tm e (check_refs_in_order D config) ctx mode
   in pr_results r = pr_results s \<and> pr_has_failed_hard_gate r = pr_has_failed_hard_gate s
      \<and> pr_first_failure r = pr_first_failure s"
  using phased_report_parts [where ctx = ctx and phase1_ctx = "ctx\<lparr>pc_metrics := zeroed_metrics\<rparr>"
      and metrics = "pc_metrics ctx", OF _ refl]
  by (simp add: evaluate_pipeline_eq ref_report_def Let_def)

text \<open>Every check is registered exactly once, and the evaluation order is not the
  declaration order of the ids.\<close>

lemma check_order_complete: "x \<in> set (check_order D config)"
  by (cases x) (simp_all add: check_order_def check_refs_in_order_def gate_def)

lemma check_order_distinct: "distinct (check_order D config)"
  by (simp add: check_order_def check_refs_in_order_def gate_def)

lemma check_order_not_declaration_order: "check_order D config \<noteq> risk_check_ids"
  by (simp add: check_order_def check_refs_in_order_def gate_def risk_check_ids_def)

end
