(* ===== verification/Reconciliation.thy ===== *)
theory Reconciliation
  imports Context
begin

text \<open>
  \<open>oxide-arb-risk/src/reconciliation.rs\<close>: the comparison of the internal balance and exposures with the venue's.
  The result is compared with a reference that has one drift per market.
\<close>

section \<open>Reconciler\<close>

datatype reconciliation_mismatch =
    BalanceDrift usd usd usd
  | PositionDrift ident usd usd usd
  | OrphanedReservation ident usd

fun drift_abs :: "reconciliation_mismatch \<Rightarrow> usd" where
  "drift_abs (BalanceDrift _ _ drift) = \<bar>drift\<bar>"
| "drift_abs (PositionDrift _ _ _ drift) = \<bar>drift\<bar>"
| "drift_abs (OrphanedReservation _ amount) = amount"

record reconciliation_report =
  rr_status :: reconciliation_status
  rr_mismatches :: "reconciliation_mismatch list"
  rr_internal_balance :: usd
  rr_external_balance :: usd
  rr_internal_exposure :: usd
  rr_external_exposure :: usd
  rr_reserved :: usd
  rr_tolerance :: usd
  rr_checked_at :: instant
  rr_duration_ms :: u64

record ledger_reconciler =
  lr_tolerance :: usd

definition new_reconciler :: "decimal \<Rightarrow> ledger_reconciler" where
  "new_reconciler tolerance_usd = \<lparr>lr_tolerance = tolerance_usd\<rparr>"

definition classify :: "reconciliation_mismatch list \<Rightarrow> decimal \<Rightarrow> reconciliation_status" where
  "classify mismatches critical_threshold =
     (if mismatches = [] then RecOk
      else if list_ex (\<lambda>m. drift_abs m \<ge> critical_threshold) mismatches then Critical else Warning)"

text \<open>The loop over the venue's positions: the running exposure and the drifts found.\<close>

fun external_loop ::
  "'z decimal_ops_scheme \<Rightarrow> usd \<Rightarrow> risk_metrics \<Rightarrow> (ident \<times> usd) list \<Rightarrow> usd \<Rightarrow> reconciliation_mismatch list \<Rightarrow>
   usd \<times> reconciliation_mismatch list" where
  "external_loop D tolerance metrics [] external_exposure mismatches = (external_exposure, mismatches)"
| "external_loop D tolerance metrics ((ext_market_id, ext_value) # rest) external_exposure mismatches =
     (let internal_value = mt_market_exposure metrics ext_market_id;
          drift = dec_sub D internal_value ext_value
      in external_loop D tolerance metrics rest (dec_add D external_exposure ext_value)
           (if \<bar>drift\<bar> > tolerance
            then mismatches @ [PositionDrift ext_market_id internal_value ext_value drift] else mismatches))"

text \<open>The loop over the own open positions that the venue does not list.\<close>

fun internal_loop ::
  "usd \<Rightarrow> risk_metrics \<Rightarrow> ident set \<Rightarrow> ident list \<Rightarrow> reconciliation_mismatch list \<Rightarrow> reconciliation_mismatch list" where
  "internal_loop tolerance metrics ext_market_set [] mismatches = mismatches"
| "internal_loop tolerance metrics ext_market_set (market_id # rest) mismatches =
     (let internal_value = mt_market_exposure metrics market_id
      in internal_loop tolerance metrics ext_market_set rest
           (if market_id \<notin> ext_market_set \<and> \<bar>internal_value\<bar> > tolerance
            then mismatches @ [PositionDrift market_id internal_value 0 internal_value] else mismatches))"

definition reconcile_fetched ::
  "'z decimal_ops_scheme \<Rightarrow> instant \<Rightarrow> u64 \<Rightarrow> ledger_reconciler \<Rightarrow> risk_metrics \<Rightarrow> usd \<Rightarrow> usd \<Rightarrow> usd \<Rightarrow>
   (ident \<times> usd) list option \<Rightarrow> reconciliation_report" where
  "reconcile_fetched D now duration_ms rec metrics internal_balance ext_available ext_locked ext_positions =
     (let external_balance = dec_add D ext_available ext_locked;
          balance_drift = dec_sub D internal_balance external_balance;
          m1 = (if \<bar>balance_drift\<bar> > lr_tolerance rec
                then [BalanceDrift internal_balance external_balance balance_drift] else []);
          (external_exposure, mismatches) =
            (case ext_positions of
               None \<Rightarrow> (0, m1)
             | Some ext \<Rightarrow>
                 let (exposure, m2) = external_loop D (lr_tolerance rec) metrics ext 0 m1
                 in (exposure, internal_loop (lr_tolerance rec) metrics (set (map fst ext))
                       (mt_open_positions metrics) m2));
          critical_threshold = dec_mul D (lr_tolerance rec) 10
      in \<lparr>rr_status = classify mismatches critical_threshold, rr_mismatches = mismatches,
          rr_internal_balance = internal_balance, rr_external_balance = external_balance,
          rr_internal_exposure = mt_total_exposure metrics, rr_external_exposure = external_exposure,
          rr_reserved = mt_reserved_usd metrics, rr_tolerance = lr_tolerance rec,
          rr_checked_at = now, rr_duration_ms = duration_ms\<rparr>)"

section \<open>One drift per market\<close>

text \<open>The drift of a market: the own exposure against the venue's value, or alone when the venue lists none.\<close>

definition market_drift :: "'z decimal_ops_scheme \<Rightarrow> risk_metrics \<Rightarrow> (ident \<times> usd) list \<Rightarrow> ident \<Rightarrow> usd" where
  "market_drift D metrics ext m =
     (case map_of ext m of Some v \<Rightarrow> dec_sub D (mt_market_exposure metrics m) v
      | None \<Rightarrow> mt_market_exposure metrics m)"

definition ref_drifts ::
  "'z decimal_ops_scheme \<Rightarrow> risk_metrics \<Rightarrow> usd \<Rightarrow> usd \<Rightarrow> usd \<Rightarrow> (ident \<times> usd) list option \<Rightarrow> usd set" where
  "ref_drifts D metrics internal avail locked ext_positions =
     insert (dec_sub D internal (dec_add D avail locked))
       (case ext_positions of None \<Rightarrow> {}
        | Some ext \<Rightarrow> market_drift D metrics ext ` (fst ` set ext \<union> set (mt_open_positions metrics)))"

lemma external_loop_eq:
  "external_loop D tol metrics ext e ms =
     (foldl (\<lambda>a p. dec_add D a (snd p)) e ext,
      ms @ map (\<lambda>(m, v). PositionDrift m (mt_market_exposure metrics m) v
                  (dec_sub D (mt_market_exposure metrics m) v))
           (filter (\<lambda>(m, v). \<bar>dec_sub D (mt_market_exposure metrics m) v\<bar> > tol) ext))"
  by (induction D tol metrics ext e ms rule: external_loop.induct) (auto simp: Let_def)

lemma internal_loop_eq:
  "internal_loop tol metrics S ps ms =
     ms @ map (\<lambda>m. PositionDrift m (mt_market_exposure metrics m) 0 (mt_market_exposure metrics m))
           (filter (\<lambda>m. m \<notin> S \<and> \<bar>mt_market_exposure metrics m\<bar> > tol) ps)"
  by (induction tol metrics S ps ms rule: internal_loop.induct) (auto simp: Let_def)

lemma mismatch_drifts:
  assumes "\<And>ext. ext_positions = Some ext \<Longrightarrow> distinct (map fst ext)"
  shows "drift_abs ` set (rr_mismatches (reconcile_fetched D now ms rec metrics internal avail locked ext_positions))
    = {\<bar>d\<bar> | d. d \<in> ref_drifts D metrics internal avail locked ext_positions \<and> \<bar>d\<bar> > lr_tolerance rec}"
proof (cases ext_positions)
  case None
  then show ?thesis by (auto simp: reconcile_fetched_def ref_drifts_def Let_def)
next
  case (Some ext)
  have look: "map_of ext m = Some v \<longleftrightarrow> (m, v) \<in> set ext" for m v
    using assms [OF Some] by simp
  have ext_drift: "market_drift D metrics ext m = dec_sub D (mt_market_exposure metrics m) v" if "(m, v) \<in> set ext" for m v
    using that look [THEN iffD2, of m v] by (simp add: market_drift_def)
  have own_drift: "market_drift D metrics ext m = mt_market_exposure metrics m" if "m \<notin> fst ` set ext" for m
    using that by (simp add: market_drift_def map_of_eq_None_iff [THEN iffD2])
  have split_own: "fst ` set ext \<union> set (mt_open_positions metrics)
      = fst ` set ext \<union> {m \<in> set (mt_open_positions metrics). m \<notin> fst ` set ext}" by auto
  let ?b = "dec_sub D internal (dec_add D avail locked)" and ?tol = "lr_tolerance rec"
  have "rr_mismatches (reconcile_fetched D now ms rec metrics internal avail locked ext_positions) =
      (if \<bar>?b\<bar> > ?tol then [BalanceDrift internal (dec_add D avail locked) ?b] else [])
      @ map (\<lambda>(m, v). PositionDrift m (mt_market_exposure metrics m) v (dec_sub D (mt_market_exposure metrics m) v))
          (filter (\<lambda>(m, v). \<bar>dec_sub D (mt_market_exposure metrics m) v\<bar> > ?tol) ext)
      @ map (\<lambda>m. PositionDrift m (mt_market_exposure metrics m) 0 (mt_market_exposure metrics m))
          (filter (\<lambda>m. m \<notin> fst ` set ext \<and> \<bar>mt_market_exposure metrics m\<bar> > ?tol) (mt_open_positions metrics))"
    by (simp add: Some reconcile_fetched_def Let_def external_loop_eq internal_loop_eq)
  then have "drift_abs ` set (rr_mismatches (reconcile_fetched D now ms rec metrics internal avail locked ext_positions)) =
      (if \<bar>?b\<bar> > ?tol then {\<bar>?b\<bar>} else {})
      \<union> (\<lambda>(m, v). \<bar>dec_sub D (mt_market_exposure metrics m) v\<bar>) `
          {(m, v) \<in> set ext. \<bar>dec_sub D (mt_market_exposure metrics m) v\<bar> > ?tol}
      \<union> (\<lambda>m. \<bar>mt_market_exposure metrics m\<bar>) `
          {m \<in> set (mt_open_positions metrics). m \<notin> fst ` set ext \<and> \<bar>mt_market_exposure metrics m\<bar> > ?tol}"
    by (simp only: set_append set_map image_Un image_image set_filter)
       (simp add: case_prod_unfold Un_assoc)
  also have "(\<lambda>(m, v). \<bar>dec_sub D (mt_market_exposure metrics m) v\<bar>) `
          {(m, v) \<in> set ext. \<bar>dec_sub D (mt_market_exposure metrics m) v\<bar> > ?tol}
      = {\<bar>d\<bar> | d. d \<in> market_drift D metrics ext ` fst ` set ext \<and> \<bar>d\<bar> > ?tol}" (is "?L = ?R")
  proof
    show "?L \<subseteq> ?R" using ext_drift by force
    show "?R \<subseteq> ?L"
    proof
      fix a assume "a \<in> ?R"
      then obtain m v where "(m, v) \<in> set ext" "a = \<bar>market_drift D metrics ext m\<bar>" "a > ?tol" by auto
      then show "a \<in> ?L" using ext_drift [of m v] by (intro image_eqI [of _ _ "(m, v)"]) auto
    qed
  qed
  also have "(\<lambda>m. \<bar>mt_market_exposure metrics m\<bar>) `
          {m \<in> set (mt_open_positions metrics). m \<notin> fst ` set ext \<and> \<bar>mt_market_exposure metrics m\<bar> > ?tol}
      = {\<bar>d\<bar> | d. d \<in> market_drift D metrics ext ` {m \<in> set (mt_open_positions metrics). m \<notin> fst ` set ext} \<and> \<bar>d\<bar> > ?tol}"
    using own_drift by force
  also have "(if \<bar>?b\<bar> > ?tol then {\<bar>?b\<bar>} else {}) \<union> {\<bar>d\<bar> | d. d \<in> A \<and> \<bar>d\<bar> > ?tol} \<union> {\<bar>d\<bar> | d. d \<in> B \<and> \<bar>d\<bar> > ?tol}
      = {\<bar>d\<bar> | d. d \<in> insert ?b (A \<union> B) \<and> \<bar>d\<bar> > ?tol}" for A B
    by auto
  finally show ?thesis unfolding ref_drifts_def Some option.case unfolding split_own unfolding image_Un .
qed

text \<open>C36: Reconciliation detects every drift and grades it. When the venue lists each market once, the report is
  clean exactly if the balance and every market the venue or the portfolio knows are within the tolerance, and it
  is critical exactly if one of these drifts exceeds the tolerance and reaches ten times the tolerance; without a position snapshot only the
  balance counts.\<close>

theorem reconciliation_grades_drift:
  assumes "case ext_positions of None \<Rightarrow> True | Some ext \<Rightarrow> distinct (map fst ext)"
  shows "let r = reconcile_fetched D now ms rec metrics internal avail locked ext_positions;
             drifts = ref_drifts D metrics internal avail locked ext_positions
         in (rr_status r = RecOk \<longleftrightarrow> (\<forall>d \<in> drifts. \<bar>d\<bar> \<le> lr_tolerance rec))
          \<and> (rr_status r = Critical \<longleftrightarrow>
               (\<exists>d \<in> drifts. \<bar>d\<bar> > lr_tolerance rec \<and> \<bar>d\<bar> \<ge> dec_mul D (lr_tolerance rec) 10))"
proof -
  let ?r = "reconcile_fetched D now ms rec metrics internal avail locked ext_positions"
  have st: "rr_status ?r = classify (rr_mismatches ?r) (dec_mul D (lr_tolerance rec) 10)"
    by (simp add: reconcile_fetched_def Let_def split: prod.split)
  have m: "drift_abs ` set (rr_mismatches ?r)
      = {\<bar>d\<bar> | d. d \<in> ref_drifts D metrics internal avail locked ext_positions \<and> \<bar>d\<bar> > lr_tolerance rec}"
    using assms by (intro mismatch_drifts) simp
  have "rr_mismatches ?r = [] \<longleftrightarrow> drift_abs ` set (rr_mismatches ?r) = {}" by simp
  moreover have "list_ex (\<lambda>x. drift_abs x \<ge> c) (rr_mismatches ?r) \<longleftrightarrow> (\<exists>a \<in> drift_abs ` set (rr_mismatches ?r). a \<ge> c)" for c
    by (auto simp: list_ex_iff)
  ultimately show ?thesis unfolding Let_def st classify_def m by (auto simp: not_less [symmetric])
qed

definition demo_venue :: "(ident \<times> usd) list" where
  "demo_venue = [(''m1'', 15), (''m2'', 7)]"

definition demo_live_metrics :: risk_metrics where
  "demo_live_metrics = \<lparr>mt_total_exposure = 45, mt_market_exposure = (\<lambda>m. if m = ''m1'' then 15 else if m = ''m3'' then 30 else 0),
     mt_open_position_count = 2, mt_open_positions = [''m1'', ''m3''], mt_cash_balance = 1000,
     mt_position_mark_value = 45, mt_equity = 1045, mt_active_reservation_count = 0, mt_reserved_usd = 0,
     mt_open_directional_count = (\<lambda>s. 0), mt_daily_directional_trades = (\<lambda>s. 0),
     mt_consecutive_market_misses = (\<lambda>m. 0), mt_ws_disconnect_secs = 0, mt_api_error_count = 0,
     mt_api_request_count = 0, mt_metrics_age_secs = 1, mt_is_stale = False, mt_is_authoritative = True\<rparr>"

theorem reconciliation_grades_drift_witness:
  "distinct (map fst demo_venue)
   \<and> rr_status (reconcile_fetched exact_ops 0 5 (new_reconciler 1) demo_live_metrics 1000 1000 0 (Some demo_venue)) = Critical"
  using reconciliation_grades_drift [of "Some demo_venue" exact_ops 0 5 "new_reconciler 1" demo_live_metrics 1000 1000 0]
  by (simp add: demo_venue_def demo_live_metrics_def new_reconciler_def ref_drifts_def market_drift_def exact_ops_def Let_def)

end
