(* ===== verification/Engine_State.thy ===== *)
theory Engine_State
  imports Circuit_Breaker Accounting Potential_Loss Sizing Pipeline Reconciliation
begin

text \<open>
  The state of \<open>RiskEngine\<close> (\<open>oxide-arb-risk/src/engine.rs\<close>) and what it exchanges with the outside: decisions and
  audit events (\<open>types.rs\<close>, \<open>audit.rs\<close>), the persisted row (\<open>oxide-arb-models/src/domain/risk/engine.rs\<close>) and the traits for
  persistence, potential-loss store, event bus and audit sink (\<open>traits.rs\<close>). The implementations of the traits are
  the record \<open>risk_env\<close> of functions on a state \<open>'p\<close> of the outside; an operation of the engine threads
  the engine and that state. One operation runs as one step.
\<close>

section \<open>Decisions and audit events\<close>

record risk_decision_trace =
  td_check_results :: "risk_check_result list"
  td_sizing_breakdown :: "size_constraint list option"
  td_state_version :: u64
  td_total_elapsed_us :: u64
  td_evaluated_at :: instant

record risk_decision =
  dn_allowed :: bool
  dn_denial_reason :: "message option"
  dn_recommended_size :: "size_result option"
  dn_drawdown_factor :: decimal
  dn_evaluated_at :: instant
  dn_state_version :: u64
  dn_trace :: risk_decision_trace

datatype risk_audit_event =
    TradeAllowed risk_decision_trace ident ident
  | TradeAllowedSummary ident ident u64 nat u64 instant
  | TradeDenied risk_decision_trace ident ident
  | BreakerTripped circuit_breaker_level message breaker_state_name
  | BreakerRecovered breaker_state_name
  | BreakerReset message
  | BlacklistAdded blacklist_info message
  | BlacklistRemoved ident message
  | AccountingRollover window_type date date period_stats
  | ReconciliationCompleted reconciliation_status nat
  | EngineHalted message
  | EngineResumed
  | PostTradeUpdate ident trade_business_outcome trade_accounting_phase usd usd usd
      "circuit_breaker_level option" "ident option" bool bool bool

datatype risk_audit_event_type =
    TTradeAllowed | TTradeDenied | TBreakerTripped | TBreakerRecovered | TBreakerReset | TBlacklistAdded
  | TBlacklistRemoved | TAccountingRollover | TReconciliationCompleted | TEngineHalted | TEngineResumed
  | TPostTradeUpdate

text \<open>The \<open>Debug\<close> name that \<open>Display\<close> prints for a check id.\<close>

fun check_id_str :: "risk_check_id \<Rightarrow> string" where
  "check_id_str ManualHalt = ''ManualHalt''"
| "check_id_str CircuitBreaker = ''CircuitBreaker''"
| "check_id_str BlacklistTradingPath = ''BlacklistTradingPath''"
| "check_id_str TokenBlacklist = ''TokenBlacklist''"
| "check_id_str MarketAnomalyBlock = ''MarketAnomalyBlock''"
| "check_id_str ReconciliationMaintenance = ''ReconciliationMaintenance''"
| "check_id_str ControlFactorManualAckRequired = ''ControlFactorManualAckRequired''"
| "check_id_str ControlFactorSnapshotExpired = ''ControlFactorSnapshotExpired''"
| "check_id_str BlockingTrades = ''BlockingTrades''"
| "check_id_str RedeemRouteResolvable = ''RedeemRouteResolvable''"
| "check_id_str MetricsFreshness = ''MetricsFreshness''"
| "check_id_str MinDepth = ''MinDepth''"
| "check_id_str MaxDepthUsage = ''MaxDepthUsage''"
| "check_id_str Staleness = ''Staleness''"
| "check_id_str DailyBudget = ''DailyBudget''"
| "check_id_str DailyLossCap = ''DailyLossCap''"
| "check_id_str WeeklyLossCap = ''WeeklyLossCap''"
| "check_id_str HourlyLossCap = ''HourlyLossCap''"
| "check_id_str FeeSpend = ''FeeSpend''"
| "check_id_str MaxSingleBet = ''MaxSingleBet''"
| "check_id_str MarketExposure = ''MarketExposure''"
| "check_id_str TotalExposure = ''TotalExposure''"
| "check_id_str ExposurePct = ''ExposurePct''"
| "check_id_str PotentialLossCap = ''PotentialLossCap''"
| "check_id_str MaxPositions = ''MaxPositions''"
| "check_id_str WsConnectivity = ''WsConnectivity''"
| "check_id_str MinBalance = ''MinBalance''"
| "check_id_str DirectionalConcentration = ''DirectionalConcentration''"
| "check_id_str DailyDirectionalBudget = ''DailyDirectionalBudget''"
| "check_id_str DuplicateMarket = ''DuplicateMarket''"
| "check_id_str DrawdownGuard = ''DrawdownGuard''"
| "check_id_str ApiErrorRate = ''ApiErrorRate''"

text \<open>\<open>parts.join("; ")\<close> on messages.\<close>

fun join_messages :: "message list \<Rightarrow> message" where
  "join_messages [] = []"
| "join_messages [m] = m"
| "join_messages (m # ms) = m @ Lit ''; '' # join_messages ms"

definition denial_reason :: "risk_decision_trace \<Rightarrow> message option" where
  "denial_reason trace =
     (let parts = map (\<lambda>check. case cr_detail check of
                         None \<Rightarrow> [Lit (check_id_str (cr_check_id check))]
                       | Some detail \<Rightarrow> Lit (check_id_str (cr_check_id check)) # Lit '': '' # detail)
                   (filter (\<lambda>check. \<not> cr_passed check) (td_check_results trace))
      in if parts = [] then None else Some (join_messages parts))"

record audit_event_columns =
  ac_event_type :: risk_audit_event_type
  ac_market_id :: "ident option"
  ac_opportunity_id :: "ident option"
  ac_trade_id :: "ident option"
  ac_rejection_reason :: "message option"

definition bare :: "risk_audit_event_type \<Rightarrow> audit_event_columns" where
  "bare t = \<lparr>ac_event_type = t, ac_market_id = None, ac_opportunity_id = None, ac_trade_id = None,
     ac_rejection_reason = None\<rparr>"

fun columns_of_event :: "risk_audit_event \<Rightarrow> audit_event_columns" where
  "columns_of_event (TradeAllowed _ opportunity_id market_id) =
     (bare TTradeAllowed)\<lparr>ac_market_id := Some market_id, ac_opportunity_id := Some opportunity_id\<rparr>"
| "columns_of_event (TradeAllowedSummary opportunity_id market_id _ _ _ _) =
     (bare TTradeAllowed)\<lparr>ac_market_id := Some market_id, ac_opportunity_id := Some opportunity_id\<rparr>"
| "columns_of_event (TradeDenied trace opportunity_id market_id) =
     (bare TTradeDenied)\<lparr>ac_market_id := Some market_id, ac_opportunity_id := Some opportunity_id,
        ac_rejection_reason := denial_reason trace\<rparr>"
| "columns_of_event (BreakerTripped _ reason _) = (bare TBreakerTripped)\<lparr>ac_rejection_reason := Some reason\<rparr>"
| "columns_of_event (BreakerRecovered _) = bare TBreakerRecovered"
| "columns_of_event (BreakerReset _) = bare TBreakerReset"
| "columns_of_event (BlacklistAdded entry operator_reason) =
     (bare TBlacklistAdded)\<lparr>ac_market_id := Some (bi_market_id entry), ac_rejection_reason := Some operator_reason\<rparr>"
| "columns_of_event (BlacklistRemoved market_id _) = (bare TBlacklistRemoved)\<lparr>ac_market_id := Some market_id\<rparr>"
| "columns_of_event (AccountingRollover _ _ _ _) = bare TAccountingRollover"
| "columns_of_event (ReconciliationCompleted _ _) = bare TReconciliationCompleted"
| "columns_of_event (EngineHalted reason) = (bare TEngineHalted)\<lparr>ac_rejection_reason := Some reason\<rparr>"
| "columns_of_event EngineResumed = bare TEngineResumed"
| "columns_of_event (PostTradeUpdate trade_id _ _ _ _ _ _ _ _ _ _) =
     (bare TPostTradeUpdate)\<lparr>ac_trade_id := Some trade_id\<rparr>"

text \<open>\<open>NewRiskAuditEvent\<close>: the columns, and the event itself for its JSON payload.\<close>

record new_risk_audit_event = audit_event_columns +
  na_payload :: risk_audit_event

definition new_audit :: "risk_audit_event \<Rightarrow> new_risk_audit_event" where
  "new_audit e = audit_event_columns.extend (columns_of_event e) \<lparr>na_payload = e\<rparr>"

section \<open>The persisted row\<close>

record upsert_risk_engine_state =
  up_id :: int
  up_breaker_state :: breaker_state_name
  up_breaker_level :: "circuit_breaker_level option"
  up_is_halted :: bool
  up_halt_reason :: "message option"
  up_consecutive_misses :: int
  up_cooldown_until :: "instant option"
  up_cooldown_multiplier :: int
  up_total_exposure :: usd
  up_hourly_loss_usd :: usd
  up_hourly_fee_usd :: usd
  up_hourly_trade_count :: int
  up_hourly_success_count :: int
  up_hourly_miss_count :: int
  up_hourly_window_start :: instant
  up_daily_loss_usd :: usd
  up_daily_fee_usd :: usd
  up_daily_pnl :: usd
  up_daily_budget_spent :: usd
  up_daily_trade_count :: int
  up_daily_success_count :: int
  up_daily_miss_count :: int
  up_daily_window_start :: date
  up_weekly_loss_usd :: usd
  up_weekly_trade_count :: int
  up_weekly_window_start :: date
  up_hwm_equity :: usd
  up_total_realized_pnl :: usd
  up_last_emergency_at :: "instant option"
  up_last_emergency_reason :: "message option"

text \<open>The row read back also has the time the database stamped on the last write.\<close>

record risk_state_info = upsert_risk_engine_state +
  ri_updated_at :: instant

definition upsert_of :: "risk_engine_state \<Rightarrow> upsert_risk_engine_state" where
  "upsert_of s = \<lparr>up_id = 1, up_breaker_state = es_breaker_state s, up_breaker_level = es_breaker_level s,
     up_is_halted = es_is_halted s, up_halt_reason = es_halt_reason s,
     up_consecutive_misses = es_consecutive_misses s, up_cooldown_until = es_cooldown_until s,
     up_cooldown_multiplier = es_cooldown_multiplier s, up_total_exposure = es_total_exposure s,
     up_hourly_loss_usd = es_hourly_loss_usd s, up_hourly_fee_usd = es_hourly_fee_usd s,
     up_hourly_trade_count = es_hourly_trade_count s, up_hourly_success_count = es_hourly_success_count s,
     up_hourly_miss_count = es_hourly_miss_count s, up_hourly_window_start = es_hourly_window_start s,
     up_daily_loss_usd = es_daily_loss_usd s, up_daily_fee_usd = es_daily_fee_usd s,
     up_daily_pnl = es_daily_pnl s, up_daily_budget_spent = es_daily_budget_spent s,
     up_daily_trade_count = es_daily_trade_count s, up_daily_success_count = es_daily_success_count s,
     up_daily_miss_count = es_daily_miss_count s, up_daily_window_start = es_daily_window_start s,
     up_weekly_loss_usd = es_weekly_loss_usd s, up_weekly_trade_count = es_weekly_trade_count s,
     up_weekly_window_start = es_weekly_window_start s, up_hwm_equity = es_hwm_equity s,
     up_total_realized_pnl = es_total_realized_pnl s, up_last_emergency_at = es_last_emergency_at s,
     up_last_emergency_reason = es_last_emergency_reason s\<rparr>"

definition state_of_info :: "risk_state_info \<Rightarrow> risk_engine_state" where
  "state_of_info i = \<lparr>es_breaker_state = up_breaker_state i, es_breaker_level = up_breaker_level i,
     es_is_halted = up_is_halted i, es_halt_reason = up_halt_reason i, es_cooldown_until = up_cooldown_until i,
     es_total_exposure = up_total_exposure i, es_hourly_loss_usd = up_hourly_loss_usd i,
     es_hourly_fee_usd = up_hourly_fee_usd i, es_hourly_trade_count = up_hourly_trade_count i,
     es_hourly_success_count = up_hourly_success_count i, es_hourly_miss_count = up_hourly_miss_count i,
     es_hourly_window_start = up_hourly_window_start i, es_daily_pnl = up_daily_pnl i,
     es_daily_loss_usd = up_daily_loss_usd i, es_daily_fee_usd = up_daily_fee_usd i,
     es_daily_budget_spent = up_daily_budget_spent i, es_daily_trade_count = up_daily_trade_count i,
     es_daily_success_count = up_daily_success_count i, es_daily_miss_count = up_daily_miss_count i,
     es_daily_window_start = up_daily_window_start i, es_weekly_loss_usd = up_weekly_loss_usd i,
     es_weekly_trade_count = up_weekly_trade_count i, es_weekly_window_start = up_weekly_window_start i,
     es_consecutive_misses = up_consecutive_misses i, es_cooldown_multiplier = up_cooldown_multiplier i,
     es_hwm_equity = up_hwm_equity i, es_total_realized_pnl = up_total_realized_pnl i,
     es_last_emergency_at = up_last_emergency_at i, es_last_emergency_reason = up_last_emergency_reason i,
     es_snapshot_at = ri_updated_at i\<rparr>"

text \<open>The row the database holds after an upsert that it stamps with \<open>t\<close>.\<close>

definition stored_row :: "instant \<Rightarrow> upsert_risk_engine_state \<Rightarrow> risk_state_info" where
  "stored_row t u = upsert_risk_engine_state.extend u \<lparr>ri_updated_at = t\<rparr>"

lemma row_round_trip: "state_of_info (stored_row t (upsert_of s)) = s\<lparr>es_snapshot_at := t\<rparr>"
  by (simp add: state_of_info_def stored_row_def upsert_of_def upsert_risk_engine_state.defs)

section \<open>The outside\<close>

record upsert_blacklist_entry =
  ub_market_id :: ident
  ub_token_id :: "ident option"
  ub_scope :: blacklist_scope
  ub_reason :: blacklist_reason
  ub_expires_at :: "instant option"
  ub_miss_count :: int

definition upsert_of_entry :: "blacklist_info \<Rightarrow> upsert_blacklist_entry" where
  "upsert_of_entry entry = \<lparr>ub_market_id = bi_market_id entry, ub_token_id = bi_token_id entry,
     ub_scope = bi_scope entry, ub_reason = bi_reason entry, ub_expires_at = bi_expires_at entry,
     ub_miss_count = bi_miss_count entry\<rparr>"

record new_potential_loss =
  np_ledger_id :: ident
  np_market_id :: ident
  np_token_id :: ident
  np_shares :: decimal
  np_entry_price :: decimal
  np_max_loss_usd :: usd

record fill_commit =
  fm_trade_id :: ident
  fm_potential_loss :: "new_potential_loss option"
  fm_state :: upsert_risk_engine_state
  fm_audit :: new_risk_audit_event

record new_emergency_snapshot =
  ne_trigger_level :: circuit_breaker_level
  ne_reason :: message
  ne_risk_state :: risk_engine_state
  ne_open_positions_count :: int
  ne_open_reservations_count :: int
  ne_triggered_at :: instant

record new_reconciliation_report =
  nc_report :: reconciliation_report
  nc_duration_ms :: int

datatype fill_claim = Claimed | AlreadyApplied

text \<open>The events the engine puts on the bus; the dashboard's view is a projection of the state.\<close>

datatype core_event =
    CircuitBreakerChanged risk_engine_state
  | PnlUpdate usd usd

type_synonym 'p action = "'p \<Rightarrow> (oxide_error + unit) \<times> 'p"

text \<open>A claimed fill is committed by \<open>ev_commit_fill\<close>. \<open>ev_publish\<close> and \<open>ev_try_enqueue\<close> never fail: a dropped event is only
  logged.\<close>

record 'p risk_env =
  ev_upsert_state :: "upsert_risk_engine_state \<Rightarrow> 'p action"
  ev_begin_fill :: "ident \<Rightarrow> instant \<Rightarrow> 'p \<Rightarrow> (oxide_error + fill_claim) \<times> 'p"
  ev_commit_fill :: "fill_commit \<Rightarrow> 'p action"
  ev_upsert_blacklist :: "upsert_blacklist_entry \<Rightarrow> 'p action"
  ev_remove_blacklist :: "ident \<Rightarrow> 'p action"
  ev_create_emergency :: "new_emergency_snapshot \<Rightarrow> 'p action"
  ev_create_reconciliation :: "new_reconciliation_report \<Rightarrow> 'p action"
  ev_create_audit :: "new_risk_audit_event \<Rightarrow> 'p action"
  ev_resolve_loss :: "ident \<Rightarrow> 'p action"
  ev_find_stale :: "u64 \<Rightarrow> 'p \<Rightarrow> (oxide_error + potential_loss_info list) \<times> 'p"
  ev_record_trade_outcome :: "side \<Rightarrow> ident \<Rightarrow> bool \<Rightarrow> risk_metrics \<Rightarrow> risk_metrics"
  ev_publish :: "core_event \<Rightarrow> 'p \<Rightarrow> 'p"
  ev_try_enqueue :: "risk_audit_event \<Rightarrow> 'p \<Rightarrow> 'p"

text \<open>\<open>NoopPersistence\<close> and \<open>NoopPotentialLossStore\<close> of \<open>builder.rs\<close>, with a bus that drops everything.\<close>

definition noop_env :: "'p risk_env" where
  "noop_env = \<lparr>ev_upsert_state = (\<lambda>_ p. (Inr (), p)), ev_begin_fill = (\<lambda>_ _ p. (Inr Claimed, p)),
     ev_commit_fill = (\<lambda>_ p. (Inr (), p)), ev_upsert_blacklist = (\<lambda>_ p. (Inr (), p)),
     ev_remove_blacklist = (\<lambda>_ p. (Inr (), p)), ev_create_emergency = (\<lambda>_ p. (Inr (), p)),
     ev_create_reconciliation = (\<lambda>_ p. (Inr (), p)), ev_create_audit = (\<lambda>_ p. (Inr (), p)),
     ev_resolve_loss = (\<lambda>_ p. (Inr (), p)), ev_find_stale = (\<lambda>_ p. (Inr [], p)),
     ev_record_trade_outcome = (\<lambda>_ _ _ m. m), ev_publish = (\<lambda>_ p. p), ev_try_enqueue = (\<lambda>_ p. p)\<rparr>"

text \<open>The \<open>Display\<close> of an error in a message.\<close>

fun display_error :: "oxide_error \<Rightarrow> message" where
  "display_error (Internal m) = Lit ''Internal error: '' # m"
| "display_error (Storage s) = [Lit s]"

section \<open>The engine\<close>

text \<open>The checks of the pipeline hold copies of configuration fields: \<open>ep_pipeline\<close> is the configuration they were built
  from.\<close>

record engine_params =
  ep_config :: risk_config
  ep_pipeline :: risk_config
  ep_sizer :: sizer
  ep_reconciler :: ledger_reconciler

definition from_config :: "risk_config \<Rightarrow> engine_params" where
  "from_config config = \<lparr>ep_config = config, ep_pipeline = config, ep_sizer = new_sizer config,
     ep_reconciler = new_reconciler (rc_reconciliation_tolerance_usd config)\<rparr>"

record risk_engine =
  en_circuit_breaker :: circuit_breaker
  en_daily :: daily_accounting
  en_weekly :: weekly_accounting
  en_hourly :: hourly_accounting
  en_potential_loss :: potential_loss_ledger
  en_lifetime_realized :: usd
  en_params :: engine_params
  en_risk_snapshot :: risk_snapshot
  en_blacklist :: blacklist_manager
  en_drawdown :: drawdown_guard
  en_has_audit_sink :: bool
  en_has_publisher :: bool
  en_state_version :: u64
  en_last_emergency :: "(instant \<times> message) option"

definition compile_manual_halt :: "breaker_state \<Rightarrow> manual_halt_gate" where
  "compile_manual_halt st =
     (if is_halted st
      then HaltHalted (case st of Halted _ reason _ \<Rightarrow> reason | _ \<Rightarrow> [Lit ''halted''])
      else HaltClear)"

definition compile_risk_snapshot :: "instant \<Rightarrow> risk_engine \<Rightarrow> risk_snapshot" where
  "compile_risk_snapshot now en =
     (let config = ep_config (en_params en); cb = en_circuit_breaker en; daily = da_stats (en_daily en);
          weekly = wa_stats (en_weekly en); hourly = ha_stats (en_hourly en)
      in \<lparr>rs_circuit_breaker =
            \<lparr>cbs_circuit_breaker = \<lparr>cg_allows_trading = allows_trading (cb_state cb),
                                     cg_is_probe = is_probe_mode (cb_state cb)\<rparr>,
             cbs_manual_halt = compile_manual_halt (cb_state cb)\<rparr>,
          rs_daily = \<lparr>das_daily_loss = ps_loss daily, das_daily_fee = ps_fees daily,
                      das_daily_pnl = ps_pnl daily,
                      das_daily_budget_remaining = da_budget_remaining (en_daily en)\<rparr>,
          rs_weekly = \<lparr>was_weekly_loss = ps_loss weekly\<rparr>,
          rs_hourly = \<lparr>has_hourly_loss = ps_loss hourly, has_hourly_fee = ps_fees hourly\<rparr>,
          rs_drawdown = \<lparr>ds_hwm = dg_hwm (en_drawdown en),
                         ds_max_drawdown_pct = dc_max_drawdown_pct (rc_drawdown config),
                         ds_reduction_factor = dc_drawdown_reduction_factor (rc_drawdown config)\<rparr>,
          rs_total_potential_loss = le_running_total (en_potential_loss en),
          rs_blacklist = build_bloom_snapshot now (en_blacklist en)\<rparr>)"

definition publish_risk_snapshot :: "instant \<Rightarrow> risk_engine \<Rightarrow> risk_engine" where
  "publish_risk_snapshot now en = en\<lparr>en_risk_snapshot := compile_risk_snapshot now en\<rparr>"

definition increment_version :: "risk_engine \<Rightarrow> risk_engine" where
  "increment_version en = en\<lparr>en_state_version := en_state_version en + 1\<rparr>"

definition breaker_level_of :: "breaker_state \<Rightarrow> circuit_breaker_level option" where
  "breaker_level_of st = (case st of Open level _ _ _ \<Rightarrow> Some level | HalfOpen level _ _ _ \<Rightarrow> Some level
     | Halted level _ _ \<Rightarrow> Some level | _ \<Rightarrow> None)"

definition halt_reason_of :: "breaker_state \<Rightarrow> message option" where
  "halt_reason_of st = (case st of Open _ reason _ _ \<Rightarrow> Some reason | Halted _ reason _ \<Rightarrow> Some reason | _ \<Rightarrow> None)"

definition cooldown_until_of :: "breaker_state \<Rightarrow> instant option" where
  "cooldown_until_of st = (case st of Open _ _ _ cooldown_until \<Rightarrow> Some cooldown_until | _ \<Rightarrow> None)"

text \<open>\<open>RiskEngine::snapshot\<close>: the state as it is persisted.\<close>

definition engine_snapshot :: "'z libs_scheme \<Rightarrow> instant \<Rightarrow> risk_metrics \<Rightarrow> risk_engine \<Rightarrow> risk_engine_state" where
  "engine_snapshot L now metrics en =
     (let st = cb_state (en_circuit_breaker en); daily = da_stats (en_daily en);
          weekly = wa_stats (en_weekly en); hourly = ha_stats (en_hourly en);
          misses = uint (mt_consecutive_market_misses metrics ''_global_'')
      in \<lparr>es_breaker_state = to_name st, es_breaker_level = breaker_level_of st, es_is_halted = is_halted st,
          es_halt_reason = halt_reason_of st, es_cooldown_until = cooldown_until_of st,
          es_total_exposure = mt_total_exposure metrics,
          es_hourly_loss_usd = ps_loss hourly, es_hourly_fee_usd = ps_fees hourly,
          es_hourly_trade_count = to_i32_or_max (ps_trade_count hourly),
          es_hourly_success_count = to_i32_or_max (ps_success_count hourly),
          es_hourly_miss_count = to_i32_or_max (ps_miss_count hourly),
          es_hourly_window_start = hourly_window_start L (en_hourly en),
          es_daily_pnl = ps_pnl daily, es_daily_loss_usd = ps_loss daily, es_daily_fee_usd = ps_fees daily,
          es_daily_budget_spent = budget_spent L (en_daily en),
          es_daily_trade_count = to_i32_or_max (ps_trade_count daily),
          es_daily_success_count = to_i32_or_max (ps_success_count daily),
          es_daily_miss_count = to_i32_or_max (ps_miss_count daily),
          es_daily_window_start = da_window_start (en_daily en),
          es_weekly_loss_usd = ps_loss weekly, es_weekly_trade_count = to_i32_or_max (ps_trade_count weekly),
          es_weekly_window_start = wa_week_start (en_weekly en),
          es_consecutive_misses = (if misses < 2 ^ 31 then misses else 0),
          es_cooldown_multiplier = to_i32_or_max (cb_l2_trip_count (en_circuit_breaker en)),
          es_hwm_equity = dg_hwm (en_drawdown en), es_total_realized_pnl = en_lifetime_realized en,
          es_last_emergency_at = map_option fst (en_last_emergency en),
          es_last_emergency_reason = map_option snd (en_last_emergency en),
          es_snapshot_at = now\<rparr>)"

definition engine_allows_trading :: "risk_engine \<Rightarrow> bool" where
  "engine_allows_trading en \<longleftrightarrow>
     cg_allows_trading (cbs_circuit_breaker (rs_circuit_breaker (en_risk_snapshot en)))
     \<and> manual_allows_trading (cbs_manual_halt (rs_circuit_breaker (en_risk_snapshot en)))"

definition engine_is_halted :: "risk_engine \<Rightarrow> bool" where
  "engine_is_halted en \<longleftrightarrow> is_halted (cb_state (en_circuit_breaker en))"

end
