(* ===== verification/Engine.thy ===== *)
theory Engine
  imports Engine_State
begin

text \<open>
  The mutating operations of \<open>RiskEngine\<close> (\<open>oxide-arb-risk/src/engine.rs\<close>): post-trade accounting, tick, reconciliation, operator commands,
  blacklist, execution events and reload. Each operation takes the engine and the outside state and returns both, with an
  error of type \<open>oxide_error\<close> where the code returns one; a failed write ends in a halt and a
  republished snapshot, as in the code.
\<close>

section \<open>Private helpers\<close>

definition halt_internal :: "instant \<Rightarrow> message \<Rightarrow> risk_engine \<Rightarrow> risk_engine" where
  "halt_internal now reason en =
     publish_risk_snapshot now (en\<lparr>en_circuit_breaker := halt now System reason (en_circuit_breaker en)\<rparr>)"

definition publish_breaker_state ::
  "'z libs_scheme \<Rightarrow> 'p risk_env \<Rightarrow> instant \<Rightarrow> risk_metrics \<Rightarrow> risk_engine \<Rightarrow> 'p \<Rightarrow> 'p" where
  "publish_breaker_state L env now metrics en p =
     (if en_has_publisher en then ev_publish env (CircuitBreakerChanged (engine_snapshot L now metrics en)) p else p)"

definition count_i32 :: "usize \<Rightarrow> int" where
  "count_i32 n = (if uint n < 2 ^ 31 then uint n else 2 ^ 31 - 1)"

definition record_emergency ::
  "'z libs_scheme \<Rightarrow> 'p risk_env \<Rightarrow> instant \<Rightarrow> circuit_breaker_level \<Rightarrow> message \<Rightarrow> risk_metrics \<Rightarrow> risk_engine \<Rightarrow> 'p \<Rightarrow>
   (oxide_error + unit) \<times> risk_engine \<times> 'p" where
  "record_emergency L env now level reason metrics en p =
     (let en1 = en\<lparr>en_last_emergency := Some (now, reason)\<rparr>;
          (res, p1) = ev_create_emergency env
            \<lparr>ne_trigger_level = level, ne_reason = reason, ne_risk_state = engine_snapshot L now metrics en1,
             ne_open_positions_count = count_i32 (mt_open_position_count metrics),
             ne_open_reservations_count = count_i32 (mt_active_reservation_count metrics),
             ne_triggered_at = now\<rparr> p
      in (res, en1, p1))"

definition persist_and_audit ::
  "'p risk_env \<Rightarrow> instant \<Rightarrow> risk_engine_state \<Rightarrow> new_risk_audit_event \<Rightarrow> risk_engine \<Rightarrow> 'p \<Rightarrow>
   (oxide_error + unit) \<times> risk_engine \<times> 'p" where
  "persist_and_audit env now snapshot audit en p =
     (case ev_upsert_state env (upsert_of snapshot) p of
        (Inl e, p1) \<Rightarrow> (Inl e, halt_internal now (Lit ''persist failed: '' # display_error e) en, p1)
      | (Inr _, p1) \<Rightarrow>
          (case ev_create_audit env audit p1 of
             (Inl e, p2) \<Rightarrow> (Inl e, halt_internal now (Lit ''audit failed: '' # display_error e) en, p2)
           | (Inr _, p2) \<Rightarrow> (Inr (), en, p2)))"

definition persist_audit_event ::
  "'p risk_env \<Rightarrow> instant \<Rightarrow> new_risk_audit_event \<Rightarrow> risk_engine \<Rightarrow> 'p \<Rightarrow> (oxide_error + unit) \<times> risk_engine \<times> 'p" where
  "persist_audit_event env now audit en p =
     (case ev_create_audit env audit p of
        (Inl e, p1) \<Rightarrow> (Inl e, halt_internal now (Lit ''audit persist failed: '' # display_error e) en, p1)
      | (Inr _, p1) \<Rightarrow> (Inr (), en, p1))"

text \<open>\<open>MutableRiskState\<close>: what a failed fill commit restores.\<close>

record mutable_risk_state =
  mu_circuit_breaker :: circuit_breaker
  mu_daily :: daily_accounting
  mu_weekly :: weekly_accounting
  mu_hourly :: hourly_accounting
  mu_potential_loss :: potential_loss_ledger
  mu_drawdown :: drawdown_guard
  mu_state_version :: u64

definition capture_mutable_state :: "risk_engine \<Rightarrow> mutable_risk_state" where
  "capture_mutable_state en = \<lparr>mu_circuit_breaker = en_circuit_breaker en, mu_daily = en_daily en,
     mu_weekly = en_weekly en, mu_hourly = en_hourly en, mu_potential_loss = en_potential_loss en,
     mu_drawdown = en_drawdown en, mu_state_version = en_state_version en\<rparr>"

definition restore_mutable_state :: "instant \<Rightarrow> mutable_risk_state \<Rightarrow> risk_engine \<Rightarrow> risk_engine" where
  "restore_mutable_state now st en =
     publish_risk_snapshot now (en\<lparr>en_circuit_breaker := mu_circuit_breaker st, en_daily := mu_daily st,
       en_weekly := mu_weekly st, en_hourly := mu_hourly st, en_potential_loss := mu_potential_loss st,
       en_drawdown := mu_drawdown st, en_state_version := mu_state_version st\<rparr>)"

section \<open>Post-trade accounting\<close>

record post_trade_report =
  pp_snapshot :: risk_engine_state
  pp_daily_rolled :: bool
  pp_weekly_rolled :: bool
  pp_hourly_rolled :: bool
  pp_breaker_tripped :: "circuit_breaker_level option"
  pp_auto_blacklisted :: "ident option"

definition escalate :: "circuit_breaker_level option \<Rightarrow> circuit_breaker_level \<Rightarrow> circuit_breaker_level option" where
  "escalate current new = Some (case current of None \<Rightarrow> new | Some existing \<Rightarrow> max existing new)"

text \<open>The ledger id of a fill is the uuid of its trade.\<close>

definition fill_potential_loss_entry :: "'z libs_scheme \<Rightarrow> post_trade_input \<Rightarrow> new_potential_loss option" where
  "fill_potential_loss_entry L trade =
     (if \<not> is_success trade then None
      else Some \<lparr>np_ledger_id = pt_trade_id trade, np_market_id = pt_market_id trade, np_token_id = pt_token_id trade,
        np_shares = pt_shares trade, np_entry_price = pt_entry_price trade,
        np_max_loss_usd = dec_add L (pt_cost_usd trade) (pt_fee_usd trade)\<rparr>)"

definition apply_fill ::
  "'z libs_scheme \<Rightarrow> instant \<Rightarrow> post_trade_input \<Rightarrow> risk_engine \<Rightarrow> (bool \<times> bool \<times> bool) \<times> risk_engine" where
  "apply_fill L now trade en =
     (let (d, dr) = daily_record_trade L now 0 (pt_fee_usd trade) (pt_cost_usd trade) (pt_outcome trade) (en_daily en);
          (w, wr) = weekly_record_trade L now 0 (pt_fee_usd trade) (pt_outcome trade) (en_weekly en);
          (h, hr) = hourly_record_trade L now 0 (pt_fee_usd trade) (pt_outcome trade) (en_hourly en);
          en1 = en\<lparr>en_daily := d, en_weekly := w, en_hourly := h\<rparr>;
          en2 = (if is_success trade
                 then en1\<lparr>en_potential_loss := record_entry L
                   \<lparr>pl_ledger_id = pt_trade_id trade, pl_market_id = pt_market_id trade, pl_token_id = pt_token_id trade,
                    pl_shares = pt_shares trade, pl_entry_price = pt_entry_price trade,
                    pl_max_loss_usd = dec_add L (pt_cost_usd trade) (pt_fee_usd trade), pl_status = Active,
                    pl_created_at = now, pl_resolved_at = None\<rparr> (en_potential_loss en1)\<rparr>
                 else en1)
      in ((dr, wr, hr), en2))"

definition apply_settlement ::
  "'z libs_scheme \<Rightarrow> instant \<Rightarrow> post_trade_input \<Rightarrow> risk_engine \<Rightarrow> (bool \<times> bool \<times> bool) \<times> risk_engine" where
  "apply_settlement L now trade en =
     (let net_profit = (case pt_net_profit_usd trade of None \<Rightarrow> 0 | Some v \<Rightarrow> v);
          (d, dr) = daily_record_trade L now net_profit 0 0 (pt_outcome trade) (en_daily en);
          (w, wr) = weekly_record_trade L now net_profit 0 (pt_outcome trade) (en_weekly en);
          (h, hr) = hourly_record_trade L now net_profit 0 (pt_outcome trade) (en_hourly en)
      in ((dr, wr, hr),
          en\<lparr>en_lifetime_realized := dec_add L (en_lifetime_realized en) net_profit,
             en_daily := d, en_weekly := w, en_hourly := h,
             en_potential_loss := resolve_entry L now (pt_trade_id trade) (en_potential_loss en)\<rparr>))"

text \<open>One cap: when it is reached the breaker is halted, or tripped for the session.\<close>

definition halt_if ::
  "instant \<Rightarrow> bool \<Rightarrow> circuit_breaker_level \<Rightarrow> message \<Rightarrow> circuit_breaker_level option \<times> circuit_breaker \<Rightarrow>
   circuit_breaker_level option \<times> circuit_breaker" where
  "halt_if now c level reason s =
     (if c then (escalate (fst s) level, halt now level reason (snd s)) else s)"

definition trip_if ::
  "'z libs_scheme \<Rightarrow> instant \<Rightarrow> bool \<Rightarrow> message \<Rightarrow> circuit_breaker_level option \<times> circuit_breaker \<Rightarrow>
   circuit_breaker_level option \<times> circuit_breaker" where
  "trip_if L now c reason s =
     (if c then (escalate (fst s) Session, trip L now Session reason (snd s)) else s)"

definition check_loss_caps ::
  "'z libs_scheme \<Rightarrow> instant \<Rightarrow> risk_engine \<Rightarrow> circuit_breaker_level option \<times> risk_engine" where
  "check_loss_caps L now en =
     (let config = ep_config (en_params en); daily = da_stats (en_daily en);
          daily_loss = ps_loss daily; weekly_loss = ps_loss (wa_stats (en_weekly en));
          max_single = ps_max_single_loss daily; daily_fee = ps_fees daily;
          hourly_loss = ps_loss (ha_stats (en_hourly en));
          s1 = halt_if now (daily_loss \<ge> rc_max_daily_loss_usd config) Daily
                 [Lit ''daily loss cap breached: '', PDec daily_loss] (None, en_circuit_breaker en);
          s2 = halt_if now (weekly_loss \<ge> rc_max_weekly_loss_usd config) System
                 [Lit ''weekly loss cap breached: '', PDec weekly_loss] s1;
          s3 = halt_if now (max_single \<ge> rc_max_single_loss_usd config) Daily
                 [Lit ''single loss cap breached: '', PDec max_single] s2;
          s4 = halt_if now (daily_fee \<ge> rc_max_daily_fee_spend_usd config) Daily
                 [Lit ''daily fee spend cap breached: '', PDec daily_fee] s3;
          s5 = trip_if L now (hourly_loss \<ge> rc_max_hourly_loss_usd config)
                 [Lit ''hourly loss cap breached: '', PDec hourly_loss] s4
      in (fst s5, en\<lparr>en_circuit_breaker := snd s5\<rparr>))"

text \<open>The division of the error rate has a positive divisor. The daily fee cap assigns its level; the only level found
  before it is the lower session level.\<close>

definition apply_common_checks ::
  "'z libs_scheme \<Rightarrow> instant \<Rightarrow> post_trade_input \<Rightarrow> risk_metrics \<Rightarrow> risk_engine \<Rightarrow>
   circuit_breaker_level option \<times> risk_engine" where
  "apply_common_checks L now trade metrics en =
     (let config = ep_config (en_params en);
          cb0 = (if is_probe_mode (cb_state (en_circuit_breaker en))
                 then on_trade_result L now (is_success trade) (en_circuit_breaker en)
                 else en_circuit_breaker en);
          miss_count = mt_consecutive_market_misses metrics (pt_market_id trade);
          s1 = (if miss_count \<ge> rc_max_consecutive_misses config
                then (Some Session, trip L now Session
                       [Lit ''consecutive misses: '', PInt (uint miss_count), Lit '' >= '',
                        PInt (uint (rc_max_consecutive_misses config))] cb0)
                else (None, cb0));
          daily_fee = ps_fees (da_stats (en_daily en));
          s2 = (if daily_fee \<ge> rc_max_daily_fee_spend_usd config
                then (Some Daily, halt now Daily [Lit ''daily fee spend cap breached: '', PDec daily_fee] (snd s1))
                else s1);
          hourly_fee = ps_fees (ha_stats (en_hourly en));
          s3 = trip_if L now (hourly_fee \<ge> rc_max_hourly_fee_spend_usd config)
                 [Lit ''hourly fee spend cap breached: '', PDec hourly_fee] s2;
          error_rate = dec_div L (of_nat (unat (mt_api_error_count metrics))) (of_nat (unat (mt_api_request_count metrics)));
          s4 = trip_if L now (mt_api_request_count metrics > 0 \<and> error_rate \<ge> rc_api_error_rate_threshold config)
                 [Lit ''API error rate '', PDecP 2 error_rate, Lit '' >= threshold '',
                  PDec (rc_api_error_rate_threshold config)] s3
      in (fst s4, en\<lparr>en_circuit_breaker := snd s4, en_drawdown := update_equity (mt_equity metrics) (en_drawdown en)\<rparr>))"

definition post_trade_audit ::
  "trade_accounting_phase \<Rightarrow> post_trade_input \<Rightarrow> risk_engine_state \<Rightarrow> circuit_breaker_level option \<Rightarrow> ident option \<Rightarrow>
   bool \<times> bool \<times> bool \<Rightarrow> new_risk_audit_event" where
  "post_trade_audit phase trade snapshot tripped blacklisted rolled =
     new_audit (PostTradeUpdate (pt_trade_id trade) (pt_outcome trade) phase (es_daily_loss_usd snapshot)
       (es_weekly_loss_usd snapshot) (es_hourly_loss_usd snapshot) tripped blacklisted
       (fst rolled) (fst (snd rolled)) (snd (snd rolled)))"

definition apply_trade_result ::
  "'z libs_scheme \<Rightarrow> instant \<Rightarrow> trade_accounting_phase \<Rightarrow> post_trade_input \<Rightarrow> risk_metrics \<Rightarrow> risk_engine \<Rightarrow>
   (post_trade_report \<times> new_risk_audit_event \<times> blacklist_info option) \<times> risk_engine" where
  "apply_trade_result L now phase trade metrics en =
     (let (rolled, tripped1, en1) =
            (case phase of
               Fill \<Rightarrow> (let (r, e) = apply_fill L now trade en in (r, None, e))
             | Settlement \<Rightarrow>
                 (let (r, e) = apply_settlement L now trade en; (t, e') = check_loss_caps L now e in (r, t, e')));
          (entry, bl) =
            (if is_miss trade
             then maybe_auto_blacklist L now (pt_market_id trade)
                    (mt_consecutive_market_misses metrics (pt_market_id trade)) (en_blacklist en1)
             else (None, en_blacklist en1));
          (bt, en2) = apply_common_checks L now trade metrics (en1\<lparr>en_blacklist := bl\<rparr>);
          tripped = (case bt of None \<Rightarrow> tripped1 | Some b \<Rightarrow> escalate tripped1 b);
          blacklisted = (case entry of None \<Rightarrow> None | Some _ \<Rightarrow> Some (pt_market_id trade));
          en3 = publish_risk_snapshot now (increment_version en2);
          snapshot = engine_snapshot L now metrics en3
      in ((\<lparr>pp_snapshot = snapshot, pp_daily_rolled = fst rolled, pp_weekly_rolled = fst (snd rolled),
            pp_hourly_rolled = snd (snd rolled), pp_breaker_tripped = tripped, pp_auto_blacklisted = blacklisted\<rparr>,
           post_trade_audit phase trade snapshot tripped blacklisted rolled, entry), en3))"

definition breaker_reason :: "breaker_state \<Rightarrow> message" where
  "breaker_reason st = (case halt_reason_of st of Some r \<Rightarrow> r | None \<Rightarrow> [Lit ''loss cap breached''])"

text \<open>The audit and the emergency record of a trip are best effort: their errors are dropped.\<close>

definition announce_trip ::
  "'z libs_scheme \<Rightarrow> 'p risk_env \<Rightarrow> instant \<Rightarrow> circuit_breaker_level \<Rightarrow> breaker_state_name \<Rightarrow> risk_metrics \<Rightarrow>
   risk_engine \<Rightarrow> 'p \<Rightarrow> risk_engine \<times> 'p" where
  "announce_trip L env now level previous metrics en p =
     (let reason = breaker_reason (cb_state (en_circuit_breaker en));
          (_, p1) = ev_create_audit env (new_audit (BreakerTripped level reason previous)) p;
          (_, en1, p2) = record_emergency L env now level reason metrics en p1
      in (en1, publish_breaker_state L env now metrics en1 p2))"

definition persist_post_trade_followups ::
  "'z libs_scheme \<Rightarrow> 'p risk_env \<Rightarrow> instant \<Rightarrow> post_trade_report \<Rightarrow> blacklist_info option \<Rightarrow> breaker_state_name \<Rightarrow>
   risk_metrics \<Rightarrow> risk_engine \<Rightarrow> 'p \<Rightarrow> (oxide_error + unit) \<times> risk_engine \<times> 'p" where
  "persist_post_trade_followups L env now report auto_bl_entry previous metrics en p =
     (let (en1, p1) = (case pp_breaker_tripped report of
                         None \<Rightarrow> (en, p)
                       | Some level \<Rightarrow> announce_trip L env now level previous metrics en p);
          (res, p2) = (case auto_bl_entry of
                         None \<Rightarrow> (Inr (), p1)
                       | Some entry \<Rightarrow> ev_upsert_blacklist env (upsert_of_entry entry) p1)
      in case res of
           Inl e \<Rightarrow> (Inl e, halt_internal now (Lit ''auto-blacklist persist failed: '' # display_error e) en1, p2)
         | Inr _ \<Rightarrow>
             (Inr (), en1,
              if en_has_publisher en1
              then ev_publish env (PnlUpdate (ps_pnl (da_stats (en_daily en1))) (en_lifetime_realized en1)) p2 else p2))"

definition persist_settlement_potential_loss ::
  "'p risk_env \<Rightarrow> instant \<Rightarrow> post_trade_input \<Rightarrow> risk_engine \<Rightarrow> 'p \<Rightarrow> (oxide_error + unit) \<times> risk_engine \<times> 'p" where
  "persist_settlement_potential_loss env now trade en p =
     (if \<not> is_success trade then (Inr (), en, p)
      else case ev_resolve_loss env (pt_trade_id trade) p of
        (Inl e, p1) \<Rightarrow> (Inl e, halt_internal now (Lit ''potential loss resolve failed: '' # display_error e) en, p1)
      | (Inr _, p1) \<Rightarrow> (Inr (), en, p1))"

definition finish_trade_result ::
  "'z libs_scheme \<Rightarrow> 'p risk_env \<Rightarrow> instant \<Rightarrow> post_trade_report \<Rightarrow> blacklist_info option \<Rightarrow> breaker_state_name \<Rightarrow>
   risk_metrics \<Rightarrow> risk_engine \<Rightarrow> 'p \<Rightarrow> (oxide_error + post_trade_report option) \<times> risk_engine \<times> 'p" where
  "finish_trade_result L env now report entry previous metrics en p =
     (case persist_post_trade_followups L env now report entry previous metrics en p of
        (Inl e, en1, p1) \<Rightarrow> (Inl e, en1, p1)
      | (Inr _, en1, p1) \<Rightarrow> (Inr (Some report), en1, p1))"

text \<open>The fill phase also records the outcome in the metrics; they are returned as they are afterwards.\<close>

definition on_fill ::
  "'z libs_scheme \<Rightarrow> 'p risk_env \<Rightarrow> instant \<Rightarrow> post_trade_input \<Rightarrow> risk_metrics \<Rightarrow> risk_engine \<Rightarrow> 'p \<Rightarrow>
   ((oxide_error + post_trade_report option) \<times> risk_engine \<times> 'p) \<times> risk_metrics" where
  "on_fill L env now trade metrics en p =
     (case ev_begin_fill env (pt_trade_id trade) now p of
        (Inr AlreadyApplied, p1) \<Rightarrow> ((Inr None, en, p1), metrics)
      | (Inl e, p1) \<Rightarrow>
          ((Inl e, halt_internal now (Lit ''risk fill marker claim failed: '' # display_error e) en, p1), metrics)
      | (Inr Claimed, p1) \<Rightarrow>
          (let previous = to_name (cb_state (en_circuit_breaker en));
               pre_commit = capture_mutable_state en;
               metrics1 = ev_record_trade_outcome env (pt_side trade) (pt_market_id trade) (is_miss trade) metrics;
               ((report, audit, entry), en1) = apply_trade_result L now Fill trade metrics1 en;
               commit = \<lparr>fm_trade_id = pt_trade_id trade, fm_potential_loss = fill_potential_loss_entry L trade,
                 fm_state = upsert_of (pp_snapshot report), fm_audit = audit\<rparr>
           in case ev_commit_fill env commit p1 of
                (Inl e, p2) \<Rightarrow>
                  ((Inl e, halt_internal now (Lit ''risk fill commit failed: '' # display_error e)
                      (restore_mutable_state now pre_commit en1), p2), metrics1)
              | (Inr _, p2) \<Rightarrow> (finish_trade_result L env now report entry previous metrics1 en1 p2, metrics1)))"

definition on_settlement ::
  "'z libs_scheme \<Rightarrow> 'p risk_env \<Rightarrow> instant \<Rightarrow> post_trade_input \<Rightarrow> risk_metrics \<Rightarrow> risk_engine \<Rightarrow> 'p \<Rightarrow>
   (oxide_error + post_trade_report option) \<times> risk_engine \<times> 'p" where
  "on_settlement L env now trade metrics en p =
     (case persist_settlement_potential_loss env now trade en p of
        (Inl e, en0, p0) \<Rightarrow> (Inl e, en0, p0)
      | (Inr _, en0, p0) \<Rightarrow>
          (let previous = to_name (cb_state (en_circuit_breaker en0));
               ((report, audit, entry), en1) = apply_trade_result L now Settlement trade metrics en0
           in case persist_and_audit env now (pp_snapshot report) audit en1 p0 of
                (Inl e, en2, p2) \<Rightarrow> (Inl e, en2, p2)
              | (Inr _, en2, p2) \<Rightarrow> finish_trade_result L env now report entry previous metrics en2 p2))"

definition engine_on_trade_result ::
  "'z libs_scheme \<Rightarrow> 'p risk_env \<Rightarrow> instant \<Rightarrow> trade_accounting_phase \<Rightarrow> post_trade_input \<Rightarrow> risk_metrics \<Rightarrow>
   risk_engine \<Rightarrow> 'p \<Rightarrow> ((oxide_error + post_trade_report option) \<times> risk_engine \<times> 'p) \<times> risk_metrics" where
  "engine_on_trade_result L env now phase trade metrics en p =
     (case phase of
        Fill \<Rightarrow> on_fill L env now trade metrics en p
      | Settlement \<Rightarrow> (on_settlement L env now trade metrics en p, metrics))"

text \<open>The winning token and the trigger of a settlement are not read here.\<close>

record market_settlement_input =
  mi_trade_id :: ident
  mi_market_id :: ident
  mi_token_id :: ident
  mi_side :: side
  mi_cost_usd :: usd
  mi_fee_usd :: usd
  mi_realized_pnl_usd :: usd
  mi_shares :: decimal
  mi_entry_price :: decimal

definition on_market_settled ::
  "'z libs_scheme \<Rightarrow> 'p risk_env \<Rightarrow> instant \<Rightarrow> market_settlement_input \<Rightarrow> risk_metrics \<Rightarrow> risk_engine \<Rightarrow> 'p \<Rightarrow>
   ((oxide_error + post_trade_report option) \<times> risk_engine \<times> 'p) \<times> risk_metrics" where
  "on_market_settled L env now input metrics en p =
     engine_on_trade_result L env now Settlement
       \<lparr>pt_trade_id = mi_trade_id input, pt_market_id = mi_market_id input, pt_token_id = mi_token_id input,
        pt_side = mi_side input, pt_outcome = Success, pt_cost_usd = mi_cost_usd input, pt_fee_usd = mi_fee_usd input,
        pt_net_profit_usd = Some (mi_realized_pnl_usd input), pt_shares = mi_shares input,
        pt_entry_price = mi_entry_price input\<rparr> metrics en p"

section \<open>Tick\<close>

text \<open>The audits of a tick are best effort.\<close>

definition audit_if :: "'p risk_env \<Rightarrow> bool \<Rightarrow> risk_audit_event \<Rightarrow> 'p \<Rightarrow> 'p" where
  "audit_if env c e p = (if c then snd (ev_create_audit env (new_audit e) p) else p)"

definition tick_audits ::
  "'z libs_scheme \<Rightarrow> 'p risk_env \<Rightarrow> instant \<Rightarrow> risk_metrics \<Rightarrow> risk_engine \<Rightarrow> bool \<Rightarrow> bool \<Rightarrow> bool \<Rightarrow> bool \<Rightarrow>
   risk_engine \<Rightarrow> 'p \<Rightarrow> 'p" where
  "tick_audits L env now metrics pre cb_transitioned daily_rolled weekly_rolled hourly_rolled en p =
     (let p1 = audit_if env daily_rolled (AccountingRollover WDaily (da_window_start (en_daily pre))
                 (da_window_start (en_daily en)) (da_stats (en_daily pre))) p;
          p2 = audit_if env weekly_rolled (AccountingRollover WWeekly (wa_week_start (en_weekly pre))
                 (wa_week_start (en_weekly en)) (wa_stats (en_weekly pre))) p1;
          p3 = audit_if env hourly_rolled (AccountingRollover WHourly
                 (date_naive L (hourly_window_start L (en_hourly pre)))
                 (date_naive L (hourly_window_start L (en_hourly en))) (ha_stats (en_hourly pre))) p2
      in if cb_transitioned
         then audit_if env (to_name (cb_state (en_circuit_breaker pre)) = NRecovered
                  \<and> to_name (cb_state (en_circuit_breaker en)) = NClosed) (BreakerRecovered NRecovered)
                (publish_breaker_state L env now metrics en p3)
         else p3)"

definition tick_state :: "'z libs_scheme \<Rightarrow> instant \<Rightarrow> risk_engine \<Rightarrow> (bool \<times> bool \<times> bool \<times> bool) \<times> risk_engine" where
  "tick_state L now en =
     (let (cb, cb_transitioned) = tick now (en_circuit_breaker en);
          (d, daily_rolled) = daily_maybe_rollover L now (en_daily en);
          (w, weekly_rolled) = weekly_maybe_rollover L now (en_weekly en);
          (h, hourly_rolled) = hourly_maybe_rollover L now (en_hourly en)
      in ((cb_transitioned, daily_rolled, weekly_rolled, hourly_rolled),
          en\<lparr>en_circuit_breaker := cb, en_daily := d, en_weekly := w, en_hourly := h,
             en_blacklist := snd (gc_blacklist now (en_blacklist en))\<rparr>))"

definition engine_tick ::
  "'z libs_scheme \<Rightarrow> 'p risk_env \<Rightarrow> instant \<Rightarrow> risk_metrics \<Rightarrow> risk_engine \<Rightarrow> 'p \<Rightarrow>
   (oxide_error + bool) \<times> risk_engine \<times> 'p" where
  "engine_tick L env now metrics en p =
     (let ((cb_transitioned, daily_rolled, weekly_rolled, hourly_rolled), en1) = tick_state L now en;
          secs = rc_potential_loss_escalation_secs (ep_config (en_params en1))
      in case ev_find_stale env secs p of
           (Inl e, p1) \<Rightarrow> (Inl e, en1, p1)
         | (Inr stale, p1) \<Rightarrow>
             if stale \<noteq> []
             then
               (let reason = [PInt (int (length stale)), Lit '' stale potential-loss entries exceeded '',
                              PInt (uint secs), Lit ''s''];
                    en2 = publish_risk_snapshot now
                            (en1\<lparr>en_circuit_breaker := halt now System reason (en_circuit_breaker en1)\<rparr>);
                    p2 = publish_breaker_state L env now metrics en2 p1
                in case record_emergency L env now System reason metrics en2 p2 of
                     (Inl e, en3, p3) \<Rightarrow> (Inl e, en3, p3)
                   | (Inr _, en3, p3) \<Rightarrow> (Inr True, en3, p3))
             else
               (let any_change = (cb_transitioned \<or> daily_rolled \<or> weekly_rolled \<or> hourly_rolled);
                    en2 = (if any_change then publish_risk_snapshot now en1 else en1);
                    (res, p2) = (if any_change then ev_upsert_state env (upsert_of (engine_snapshot L now metrics en2)) p1
                                 else (Inr (), p1))
                in case res of
                     Inl e \<Rightarrow> (Inl e, halt_internal now (Lit ''tick persist failed: '' # display_error e) en2, p2)
                   | Inr _ \<Rightarrow> (Inr any_change, en2,
                       tick_audits L env now metrics en cb_transitioned daily_rolled weekly_rolled hourly_rolled en2 p2)))"

section \<open>Reconciliation\<close>

definition on_reconciliation_result ::
  "'z libs_scheme \<Rightarrow> 'p risk_env \<Rightarrow> instant \<Rightarrow> reconciliation_report \<Rightarrow> risk_metrics \<Rightarrow> risk_engine \<Rightarrow> 'p \<Rightarrow>
   (oxide_error + unit) \<times> risk_engine \<times> 'p" where
  "on_reconciliation_result L env now report metrics en p =
     (case ev_create_reconciliation env \<lparr>nc_report = report, nc_duration_ms = to_i64_or_max (rr_duration_ms report)\<rparr> p of
        (Inl e, p1) \<Rightarrow> (Inl e, halt_internal now (Lit ''reconciliation report persist failed: '' # display_error e) en, p1)
      | (Inr _, p1) \<Rightarrow>
          (case persist_audit_event env now
                  (new_audit (ReconciliationCompleted (rr_status report) (length (rr_mismatches report)))) en p1 of
             (Inl e, en2, p2) \<Rightarrow> (Inl e, en2, p2)
           | (Inr _, en2, p2) \<Rightarrow>
               if rr_status report = Critical
               then
                 (let reason = [Lit ''reconciliation critical drift: '', PInt (int (length (rr_mismatches report))),
                                Lit '' mismatches''];
                      en3 = publish_risk_snapshot now (increment_version
                              (en2\<lparr>en_circuit_breaker := halt now System reason (en_circuit_breaker en2)\<rparr>))
                  in case ev_upsert_state env (upsert_of (engine_snapshot L now metrics en3)) p2 of
                       (Inl e, p3) \<Rightarrow>
                         (Inl e, halt_internal now (Lit ''reconciliation breaker persist failed: '' # display_error e) en3, p3)
                     | (Inr _, p3) \<Rightarrow>
                         (let (_, en4, p4) = record_emergency L env now System reason metrics en3 p3 in (Inr (), en4, p4)))
               else (Inr (), en2, p2)))"

section \<open>Operator commands\<close>

definition engine_halt :: "'p risk_env \<Rightarrow> instant \<Rightarrow> message \<Rightarrow> risk_engine \<Rightarrow> 'p \<Rightarrow> risk_engine \<times> 'p" where
  "engine_halt env now reason en p =
     (halt_internal now reason en, snd (ev_create_audit env (new_audit (EngineHalted reason)) p))"

definition engine_acknowledge_and_resume ::
  "'p risk_env \<Rightarrow> instant \<Rightarrow> risk_engine \<Rightarrow> 'p \<Rightarrow> (oxide_error + unit) \<times> risk_engine \<times> 'p" where
  "engine_acknowledge_and_resume env now en p =
     (let (cb, was_halted) = acknowledge_and_resume now (en_circuit_breaker en);
          en1 = publish_risk_snapshot now (increment_version (en\<lparr>en_circuit_breaker := cb\<rparr>))
      in case ev_create_audit env (new_audit EngineResumed) p of
           (Inl e, p1) \<Rightarrow> (Inl e, halt_internal now (Lit ''resume audit failed: '' # display_error e) en1, p1)
         | (Inr _, p1) \<Rightarrow> (Inr (), en1, p1))"

definition reset_circuit_breaker ::
  "'z libs_scheme \<Rightarrow> 'p risk_env \<Rightarrow> instant \<Rightarrow> message \<Rightarrow> risk_metrics \<Rightarrow> risk_engine \<Rightarrow> 'p \<Rightarrow>
   (oxide_error + unit) \<times> risk_engine \<times> 'p" where
  "reset_circuit_breaker L env now reason metrics en p =
     (let en1 = publish_risk_snapshot now (increment_version
                  (en\<lparr>en_circuit_breaker := reset_breaker now (en_circuit_breaker en)\<rparr>));
          p1 = publish_breaker_state L env now metrics en1 p
      in persist_and_audit env now (engine_snapshot L now metrics en1) (new_audit (BreakerReset reason)) en1 p1)"

definition add_blacklist ::
  "'z libs_scheme \<Rightarrow> 'p risk_env \<Rightarrow> instant \<Rightarrow> ident \<Rightarrow> blacklist_reason \<Rightarrow> message \<Rightarrow> risk_metrics \<Rightarrow> risk_engine \<Rightarrow> 'p \<Rightarrow>
   (oxide_error + unit) \<times> risk_engine \<times> 'p" where
  "add_blacklist L env now market_id reason operator_reason metrics en p =
     (let (entry, bl) = add_permanent now market_id reason (en_blacklist en);
          en1 = en\<lparr>en_blacklist := bl\<rparr>
      in case ev_upsert_blacklist env (upsert_of_entry entry) p of
           (Inl e, p1) \<Rightarrow> (Inl e, halt_internal now (Lit ''blacklist persist failed: '' # display_error e) en1, p1)
         | (Inr _, p1) \<Rightarrow>
             (let en2 = publish_risk_snapshot now (increment_version en1);
                  p2 = publish_breaker_state L env now metrics en2 p1
              in persist_and_audit env now (engine_snapshot L now metrics en2)
                   (new_audit (BlacklistAdded entry operator_reason)) en2 p2))"

definition remove_blacklist ::
  "'z libs_scheme \<Rightarrow> 'p risk_env \<Rightarrow> instant \<Rightarrow> ident \<Rightarrow> message \<Rightarrow> risk_metrics \<Rightarrow> risk_engine \<Rightarrow> 'p \<Rightarrow>
   (oxide_error + unit) \<times> risk_engine \<times> 'p" where
  "remove_blacklist L env now market_id reason metrics en p =
     (let en1 = en\<lparr>en_blacklist := snd (remove_market market_id (en_blacklist en))\<rparr>
      in case ev_remove_blacklist env market_id p of
           (Inl e, p1) \<Rightarrow> (Inl e, halt_internal now (Lit ''blacklist remove persist failed: '' # display_error e) en1, p1)
         | (Inr _, p1) \<Rightarrow>
             (let en2 = publish_risk_snapshot now (increment_version en1)
              in persist_and_audit env now (engine_snapshot L now metrics en2)
                   (new_audit (BlacklistRemoved market_id reason)) en2 p1))"

definition resolve_potential_loss ::
  "'z libs_scheme \<Rightarrow> 'p risk_env \<Rightarrow> instant \<Rightarrow> ident \<Rightarrow> risk_metrics \<Rightarrow> risk_engine \<Rightarrow> 'p \<Rightarrow>
   (oxide_error + unit) \<times> risk_engine \<times> 'p" where
  "resolve_potential_loss L env now ledger_id metrics en p =
     (let en1 = publish_risk_snapshot now (increment_version
                  (en\<lparr>en_potential_loss := resolve_entry L now ledger_id (en_potential_loss en)\<rparr>))
      in case ev_upsert_state env (upsert_of (engine_snapshot L now metrics en1)) p of
           (Inl e, p1) \<Rightarrow> (Inl e, halt_internal now (Lit ''potential loss resolve persist failed: '' # display_error e) en1, p1)
         | (Inr _, p1) \<Rightarrow> (Inr (), en1, p1))"

definition engine_reload :: "'z libs_scheme \<Rightarrow> instant \<Rightarrow> risk_config \<Rightarrow> risk_engine \<Rightarrow> risk_engine" where
  "engine_reload L now config en =
     (let params = from_config config
      in publish_risk_snapshot now (increment_version
           (en\<lparr>en_circuit_breaker := set_config (rc_circuit_breaker (ep_config params)) (en_circuit_breaker en),
              en_drawdown := set_params (dc_max_drawdown_pct (rc_drawdown (ep_config params)))
                (dc_drawdown_reduction_factor (rc_drawdown (ep_config params))) (en_drawdown en),
              en_daily := set_budget L (rc_daily_budget_usd (ep_config params)) (en_daily en),
              en_blacklist := reload_blacklist now (ep_config params) (en_blacklist en),
              en_params := params\<rparr>)))"

section \<open>Execution events\<close>

datatype execution_risk_event =
    FokFailure ident ident u32
  | TradeFailed ident ident
  | EvDepthDrop ident decimal
  | HeartbeatFailure
  | HeartbeatSuccess

definition on_execution_event :: "'z libs_scheme \<Rightarrow> instant \<Rightarrow> execution_risk_event \<Rightarrow> risk_engine \<Rightarrow> risk_engine" where
  "on_execution_event L now event en =
     (let config = ep_config (en_params en) in
      case event of
        HeartbeatFailure \<Rightarrow>
          (let (cb, tripped) = on_heartbeat_failure now (rc_heartbeat_max_failures config) (en_circuit_breaker en);
               en1 = en\<lparr>en_circuit_breaker := cb\<rparr>
           in if tripped then publish_risk_snapshot now (increment_version en1) else en1)
      | HeartbeatSuccess \<Rightarrow> en\<lparr>en_circuit_breaker := on_heartbeat_success (en_circuit_breaker en)\<rparr>
      | FokFailure market_id token_id consecutive \<Rightarrow>
          if consecutive \<ge> rc_max_consecutive_misses config
          then publish_risk_snapshot now (increment_version
                 (en\<lparr>en_circuit_breaker := trip L now Session
                    [Lit ''consecutive FOK failures on '', Lit market_id, Lit '': '', PInt (uint consecutive), Lit '' >= '',
                     PInt (uint (rc_max_consecutive_misses config))] (en_circuit_breaker en)\<rparr>))
          else en
      | TradeFailed market_id token_id \<Rightarrow> en
      | EvDepthDrop market_id pct_drop \<Rightarrow> en)"

lemmas engine_op_defs [engine_defs] = halt_internal_def record_emergency_def persist_and_audit_def
  persist_audit_event_def restore_mutable_state_def persist_post_trade_followups_def announce_trip_def
  persist_settlement_potential_loss_def finish_trade_result_def on_fill_def on_settlement_def
  engine_on_trade_result_def on_market_settled_def engine_tick_def on_reconciliation_result_def engine_halt_def
  engine_acknowledge_and_resume_def reset_circuit_breaker_def add_blacklist_def remove_blacklist_def
  resolve_potential_loss_def engine_reload_def on_execution_event_def

end
