(* ===== verification/Engine_Safety.thy ===== *)
theory Engine_Safety
  imports Engine
begin

text \<open>
  What holds of the engine across all its operations: the operations as steps of one machine, the soundness of the published
  snapshot, the fail-closed reaction to errors, the persistence of a halt, the reaction to loss caps, and the effect of a
  failed commit, of a replayed fill and of a reload.
\<close>

section \<open>The engine as a machine\<close>

datatype engine_op =
    OpTradeResult trade_accounting_phase post_trade_input risk_metrics
  | OpTick risk_metrics
  | OpReconciliation reconciliation_report risk_metrics
  | OpHalt message
  | OpAcknowledge
  | OpReset message risk_metrics
  | OpAddBlacklist ident blacklist_reason message risk_metrics
  | OpRemoveBlacklist ident message risk_metrics
  | OpResolveLoss ident risk_metrics
  | OpReload risk_config
  | OpExecutionEvent execution_risk_event

fun op_by_operator :: "engine_op \<Rightarrow> bool" where
  "op_by_operator OpAcknowledge = True"
| "op_by_operator (OpReset _ _) = True"
| "op_by_operator _ = False"

text \<open>One operation: the error it returns, if any, and the states after it.\<close>

definition error_of :: "oxide_error + 'a \<Rightarrow> oxide_error option" where
  "error_of r = (case r of Inl e \<Rightarrow> Some e | Inr _ \<Rightarrow> None)"

fun engine_step ::
  "'z libs_scheme \<Rightarrow> 'p risk_env \<Rightarrow> instant \<Rightarrow> engine_op \<Rightarrow> risk_engine \<times> 'p \<Rightarrow> oxide_error option \<times> risk_engine \<times> 'p" where
  "engine_step L env now (OpTradeResult phase trade metrics) (en, p) =
     (let ((r, en1, p1), _) = engine_on_trade_result L env now phase trade metrics en p in (error_of r, en1, p1))"
| "engine_step L env now (OpTick metrics) (en, p) =
     (let (r, en1, p1) = engine_tick L env now metrics en p in (error_of r, en1, p1))"
| "engine_step L env now (OpReconciliation report metrics) (en, p) =
     (let (r, en1, p1) = on_reconciliation_result L env now report metrics en p in (error_of r, en1, p1))"
| "engine_step L env now (OpHalt reason) (en, p) = (None, engine_halt env now reason en p)"
| "engine_step L env now OpAcknowledge (en, p) =
     (let (r, en1, p1) = engine_acknowledge_and_resume env now en p in (error_of r, en1, p1))"
| "engine_step L env now (OpReset reason metrics) (en, p) =
     (let (r, en1, p1) = reset_circuit_breaker L env now reason metrics en p in (error_of r, en1, p1))"
| "engine_step L env now (OpAddBlacklist m r why metrics) (en, p) =
     (let (r, en1, p1) = add_blacklist L env now m r why metrics en p in (error_of r, en1, p1))"
| "engine_step L env now (OpRemoveBlacklist m why metrics) (en, p) =
     (let (r, en1, p1) = remove_blacklist L env now m why metrics en p in (error_of r, en1, p1))"
| "engine_step L env now (OpResolveLoss i metrics) (en, p) =
     (let (r, en1, p1) = resolve_potential_loss L env now i metrics en p in (error_of r, en1, p1))"
| "engine_step L env now (OpReload config) (en, p) = (None, engine_reload L now config en, p)"
| "engine_step L env now (OpExecutionEvent event) (en, p) = (None, on_execution_event L now event en, p)"

inductive engine_run ::
  "'z libs_scheme \<Rightarrow> 'p risk_env \<Rightarrow> risk_engine \<times> 'p \<Rightarrow> (instant \<times> engine_op) list \<Rightarrow> risk_engine \<times> 'p \<Rightarrow> bool"
  for L :: "'z libs_scheme" and env :: "'p risk_env" where
  engine_run_nil: "engine_run L env s [] s"
| engine_run_cons: "engine_step L env now op s = (r, s1) \<Longrightarrow> engine_run L env s1 ops s2 \<Longrightarrow>
    engine_run L env s ((now, op) # ops) s2"

inductive_simps engine_run_nil_iff [simp]: "engine_run L env s [] s'"
inductive_simps engine_run_cons_iff: "engine_run L env s (o1 # ops) s'"

section \<open>Frames\<close>

lemma publish_frame [simp]:
  "en_circuit_breaker (publish_risk_snapshot now en) = en_circuit_breaker en"
  "en_daily (publish_risk_snapshot now en) = en_daily en"
  "en_weekly (publish_risk_snapshot now en) = en_weekly en"
  "en_hourly (publish_risk_snapshot now en) = en_hourly en"
  "en_potential_loss (publish_risk_snapshot now en) = en_potential_loss en"
  "en_params (publish_risk_snapshot now en) = en_params en"
  "en_blacklist (publish_risk_snapshot now en) = en_blacklist en"
  "en_drawdown (publish_risk_snapshot now en) = en_drawdown en"
  "en_has_publisher (publish_risk_snapshot now en) = en_has_publisher en"
  "en_state_version (publish_risk_snapshot now en) = en_state_version en"
  "en_lifetime_realized (publish_risk_snapshot now en) = en_lifetime_realized en"
  "en_last_emergency (publish_risk_snapshot now en) = en_last_emergency en"
  by (simp_all add: publish_risk_snapshot_def)

lemma increment_frame [simp]:
  "en_circuit_breaker (increment_version en) = en_circuit_breaker en"
  "en_daily (increment_version en) = en_daily en"
  "en_weekly (increment_version en) = en_weekly en"
  "en_hourly (increment_version en) = en_hourly en"
  "en_potential_loss (increment_version en) = en_potential_loss en"
  "en_params (increment_version en) = en_params en"
  "en_blacklist (increment_version en) = en_blacklist en"
  "en_drawdown (increment_version en) = en_drawdown en"
  "en_risk_snapshot (increment_version en) = en_risk_snapshot en"
  by (simp_all add: increment_version_def)

lemma published_allows [simp]:
  "engine_allows_trading (publish_risk_snapshot now en) \<longleftrightarrow> allows_trading (cb_state (en_circuit_breaker en))"
  by (cases "cb_state (en_circuit_breaker en)")
     (simp_all add: engine_allows_trading_def publish_risk_snapshot_def compile_risk_snapshot_def
        compile_manual_halt_def Let_def)

lemma allows_trading_cong:
  "en_risk_snapshot en = en_risk_snapshot en' \<Longrightarrow> engine_allows_trading en = engine_allows_trading en'"
  by (simp add: engine_allows_trading_def)

section \<open>Breaker part of a step\<close>

text \<open>The breaker of the engine moves only by the breaker's own operations: \<open>breaker_effect\<close> relates it before and
  after an operation that is not an operator's.\<close>

definition keeps_halt :: "circuit_breaker \<Rightarrow> circuit_breaker \<Rightarrow> bool" where
  "keeps_halt cb cb' \<longleftrightarrow>
     (\<forall>l. halt_level (cb_state cb) = Some l \<longrightarrow> (\<exists>l'. halt_level (cb_state cb') = Some l' \<and> l \<le> l'))"

lemma keeps_halt_refl [simp]: "keeps_halt cb cb"
  by (auto simp: keeps_halt_def)

lemma keeps_halt_trans: "keeps_halt a b \<Longrightarrow> keeps_halt b c \<Longrightarrow> keeps_halt a c"
  by (fastforce simp: keeps_halt_def intro: order_trans)

lemma keeps_halt_step: "breaker_step L cb (now, ev) cb' \<Longrightarrow> \<not> by_operator ev \<Longrightarrow> keeps_halt cb cb'"
  using step_halt_level by (auto simp: keeps_halt_def)

lemma keeps_halt_ops [simp]:
  "keeps_halt cb (halt now l r cb)" "keeps_halt cb (trip L now l r cb)" "keeps_halt cb (fst (tick now cb))"
  "keeps_halt cb (on_trade_result L now ok cb)" "keeps_halt cb (fst (on_heartbeat_failure now m cb))"
  "keeps_halt cb (on_heartbeat_success cb)" "keeps_halt cb (set_config c cb)"
  using keeps_halt_step [OF step_halt] keeps_halt_step [OF step_trip] keeps_halt_step [OF step_tick]
    keeps_halt_step [OF step_result] keeps_halt_step [OF step_hb_failure] keeps_halt_step [OF step_hb_success]
    keeps_halt_step [OF step_set_config] by simp_all

lemmas keeps_halt_after = keeps_halt_ops [THEN keeps_halt_trans [rotated]]

lemma keeps_halt_if [simp]: "keeps_halt cb (snd s) \<Longrightarrow> keeps_halt cb (snd (halt_if now c l r s))"
  by (auto simp: halt_if_def intro: keeps_halt_trans)

lemma keeps_trip_if [simp]: "keeps_halt cb (snd s) \<Longrightarrow> keeps_halt cb (snd (trip_if L now c r s))"
  by (auto simp: trip_if_def intro: keeps_halt_trans)

lemma check_loss_caps_keeps:
  "keeps_halt (en_circuit_breaker en) (en_circuit_breaker (snd (check_loss_caps L now en)))"
  by (simp add: check_loss_caps_def Let_def)

lemma apply_common_checks_keeps:
  "keeps_halt (en_circuit_breaker en) (en_circuit_breaker (snd (apply_common_checks L now trade metrics en)))"
  by (auto simp: apply_common_checks_def Let_def intro!: keeps_trip_if keeps_halt_after)

section \<open>The configuration part of a step\<close>

text \<open>The engine's parameters and the settings the breaker and the drawdown guard hold of them.\<close>

definition same_config :: "risk_engine \<Rightarrow> risk_engine \<Rightarrow> bool" where
  "same_config en en' \<longleftrightarrow> en_params en' = en_params en
     \<and> cb_config (en_circuit_breaker en') = cb_config (en_circuit_breaker en)
     \<and> dg_max_drawdown_pct (en_drawdown en') = dg_max_drawdown_pct (en_drawdown en)
     \<and> dg_reduction_factor (en_drawdown en') = dg_reduction_factor (en_drawdown en)"

lemma same_config_refl [simp]: "same_config en en"
  by (simp add: same_config_def)

lemma same_config_trans: "same_config a b \<Longrightarrow> same_config b c \<Longrightarrow> same_config a c"
  by (simp add: same_config_def)

lemma breaker_ops_config [simp]:
  "cb_config (halt now l r cb) = cb_config cb" "cb_config (trip L now l r cb) = cb_config cb"
  "cb_config (fst (tick now cb)) = cb_config cb" "cb_config (on_trade_result L now ok cb) = cb_config cb"
  "cb_config (fst (on_heartbeat_failure now m cb)) = cb_config cb" "cb_config (on_heartbeat_success cb) = cb_config cb"
  "cb_config (fst (acknowledge_and_resume now cb)) = cb_config cb" "cb_config (reset_breaker now cb) = cb_config cb"
  by (auto simp: halt_def trip_def tick_def on_trade_result_def on_heartbeat_failure_def on_heartbeat_success_def
      acknowledge_and_resume_def reset_breaker_def Let_def split: breaker_state.splits)

lemma breaker_pair_config:
  "tick now cb = (cb', b) \<Longrightarrow> cb_config cb' = cb_config cb"
  "acknowledge_and_resume now cb = (cb', b) \<Longrightarrow> cb_config cb' = cb_config cb"
  "on_heartbeat_failure now m cb = (cb', b) \<Longrightarrow> cb_config cb' = cb_config cb"
  by (metis breaker_ops_config(3) fst_conv, metis breaker_ops_config(7) fst_conv, metis breaker_ops_config(5) fst_conv)

lemma update_equity_config [simp]:
  "dg_max_drawdown_pct (update_equity e g) = dg_max_drawdown_pct g"
  "dg_reduction_factor (update_equity e g) = dg_reduction_factor g"
  by (simp_all add: update_equity_def)

lemma halt_if_config [simp]: "cb_config (snd (halt_if now c l r s)) = cb_config (snd s)"
  by (simp add: halt_if_def)

lemma trip_if_config [simp]: "cb_config (snd (trip_if L now c r s)) = cb_config (snd s)"
  by (simp add: trip_if_def)

lemma check_loss_caps_config: "same_config en (snd (check_loss_caps L now en))"
  by (simp add: same_config_def check_loss_caps_def Let_def)

lemma apply_common_checks_config: "same_config en (snd (apply_common_checks L now trade metrics en))"
  by (simp add: same_config_def apply_common_checks_def Let_def)

section \<open>Results that halt on error\<close>

text \<open>The shape of most operations: without an error the engine is the intended one, with an error it is that engine halted.\<close>

definition halts_on_error :: "instant \<Rightarrow> oxide_error + 'a \<Rightarrow> risk_engine \<Rightarrow> risk_engine \<Rightarrow> bool" where
  "halts_on_error now r en en' \<longleftrightarrow> (if isl r then \<exists>reason. en' = halt_internal now reason en else en' = en)"

lemma halts_on_error_Inl [simp]: "halts_on_error now (Inl e) en (halt_internal now reason en)"
  by (auto simp: halts_on_error_def)

lemma halts_on_error_cong: "halts_on_error now (Inl e) en en' \<Longrightarrow> halts_on_error now (Inl e') en en'"
  by (simp add: halts_on_error_def)

lemma halts_on_error_Inr [simp]: "halts_on_error now (Inr x) en en' \<longleftrightarrow> en' = en"
  by (auto simp: halts_on_error_def)

lemma halt_internal_breaker [simp]:
  "en_circuit_breaker (halt_internal now reason en) = halt now System reason (en_circuit_breaker en)"
  by (simp add: halt_internal_def)

lemma halt_internal_frame [simp]:
  "en_params (halt_internal now reason en) = en_params en"
  "en_drawdown (halt_internal now reason en) = en_drawdown en"
  by (simp_all add: halt_internal_def)

lemma halted_after_halt [simp]: "is_halted (cb_state (halt now l r cb))" "\<not> allows_trading (cb_state (halt now l r cb))"
  by (cases "cb_state cb"; simp add: halt_def)+

lemma halt_internal_denies [simp]: "\<not> engine_allows_trading (halt_internal now reason en)"
  by (simp add: halt_internal_def)

lemma persist_and_audit_result:
  "persist_and_audit env now snapshot audit en p = (r, en', p') \<Longrightarrow> halts_on_error now r en en'"
  by (auto simp: persist_and_audit_def split: prod.splits sum.splits)

lemma persist_audit_event_result:
  "persist_audit_event env now audit en p = (r, en', p') \<Longrightarrow> halts_on_error now r en en'"
  by (auto simp: persist_audit_event_def split: prod.splits sum.splits)

lemma persist_settlement_result:
  "persist_settlement_potential_loss env now trade en p = (r, en', p') \<Longrightarrow> halts_on_error now r en en'"
  by (auto simp: persist_settlement_potential_loss_def split: prod.splits sum.splits if_splits)

lemma record_emergency_result:
  "record_emergency L env now level reason metrics en p = (r, en', p') \<Longrightarrow>
   en' = en\<lparr>en_last_emergency := Some (now, reason)\<rparr>"
  by (auto simp: record_emergency_def Let_def split: prod.splits)

lemma announce_trip_result:
  "announce_trip L env now level previous metrics en p = (en', p') \<Longrightarrow> \<exists>x. en' = en\<lparr>en_last_emergency := x\<rparr>"
  by (auto simp: announce_trip_def Let_def split: prod.splits dest: record_emergency_result)

lemma followups_result:
  assumes "persist_post_trade_followups L env now report entry previous metrics en p = (r, en', p')"
  shows "\<exists>x. halts_on_error now r (en\<lparr>en_last_emergency := x\<rparr>) en'"
proof -
  obtain en1 p1 where 1: "(case pp_breaker_tripped report of None \<Rightarrow> (en, p)
      | Some level \<Rightarrow> announce_trip L env now level previous metrics en p) = (en1, p1)"
    by (metis surj_pair)
  have "\<exists>x. en1 = en\<lparr>en_last_emergency := x\<rparr>"
  proof (cases "pp_breaker_tripped report")
    case None
    then show ?thesis
      using 1 by (intro exI [of _ "en_last_emergency en"]) simp
  next
    case (Some level)
    then show ?thesis
      using 1 announce_trip_result by fastforce
  qed
  then obtain x where x: "en1 = en\<lparr>en_last_emergency := x\<rparr>" ..
  have "halts_on_error now r en1 en'"
    using assms unfolding persist_post_trade_followups_def 1
    by (auto simp: Let_def simp del: not_None_eq split: prod.splits sum.splits)
  then show ?thesis
    using x by blast
qed

lemma finish_result:
  assumes "finish_trade_result L env now report entry previous metrics en p = (r, en', p')"
  shows "\<exists>x. halts_on_error now r (en\<lparr>en_last_emergency := x\<rparr>) en'"
proof -
  obtain r1 en1 p1 where 1: "persist_post_trade_followups L env now report entry previous metrics en p = (r1, en1, p1)"
    by (metis surj_pair)
  from followups_result [OF this] obtain x where x: "halts_on_error now r1 (en\<lparr>en_last_emergency := x\<rparr>) en1" ..
  have "halts_on_error now r (en\<lparr>en_last_emergency := x\<rparr>) en'"
    using assms x by (cases r1) (auto simp: finish_trade_result_def 1 intro: halts_on_error_cong)
  then show ?thesis ..
qed

section \<open>The published snapshot\<close>

text \<open>The lock-free snapshot never allows a trade that the breaker behind the mutex denies.\<close>

definition published_sound :: "risk_engine \<Rightarrow> bool" where
  "published_sound en \<longleftrightarrow> (engine_allows_trading en \<longrightarrow> allows_trading (cb_state (en_circuit_breaker en)))"

lemma published_sound_publish [simp]: "published_sound (publish_risk_snapshot now en)"
  by (simp add: published_sound_def)

lemma published_sound_emergency [simp]:
  "published_sound (en\<lparr>en_last_emergency := x\<rparr>) = published_sound en"
  by (simp add: published_sound_def engine_allows_trading_def)

lemma allows_emergency [simp]: "engine_allows_trading (en\<lparr>en_last_emergency := x\<rparr>) = engine_allows_trading en"
  by (simp add: engine_allows_trading_def)

lemma published_sound_halt [simp]: "published_sound (halt_internal now reason en)"
  by (simp add: halt_internal_def)

section \<open>Every operation\<close>

text \<open>What each operation guarantees: a sound snapshot stays sound, no operation but an operator's weakens a halt, and an error
  leaves the engine halted with a snapshot that denies trading.\<close>

definition safe_result :: "bool \<Rightarrow> oxide_error + 'a \<Rightarrow> risk_engine \<Rightarrow> risk_engine \<Rightarrow> bool" where
  "safe_result keep r en en' \<longleftrightarrow> (published_sound en \<longrightarrow> published_sound en')
     \<and> (keep \<longrightarrow> keeps_halt (en_circuit_breaker en) (en_circuit_breaker en'))
     \<and> (isl r \<longrightarrow> is_halted (cb_state (en_circuit_breaker en')) \<and> \<not> engine_allows_trading en')
     \<and> same_config en en'"

lemma same_config_simps [simp]:
  "same_config en (halt_internal now reason en') = same_config en en'"
  "same_config en (publish_risk_snapshot now en') = same_config en en'"
  "same_config en (increment_version en') = same_config en en'"
  "same_config en (en'\<lparr>en_last_emergency := x\<rparr>) = same_config en en'"
  "same_config en (en'\<lparr>en_blacklist := bl\<rparr>) = same_config en en'"
  by (simp_all add: same_config_def halt_internal_def)

lemma same_config_breaker [simp]:
  "cb_config cb = cb_config (en_circuit_breaker en') \<Longrightarrow>
   same_config en (en'\<lparr>en_circuit_breaker := cb\<rparr>) = same_config en en'"
  by (auto simp: same_config_def)

lemma same_config_potential_loss [simp]: "same_config en (en'\<lparr>en_potential_loss := l\<rparr>) = same_config en en'"
  by (simp add: same_config_def)

lemma safe_halt_internal [simp]:
  "safe_result k r en (halt_internal now reason en)"
  by (simp add: safe_result_def)

lemma safe_Inr_same [simp]: "safe_result k (Inr x) en en"
  by (simp add: safe_result_def)

lemma safe_halts_on_error:
  assumes "halts_on_error now r en1 en'" "published_sound en \<longrightarrow> published_sound en1"
    "k \<longrightarrow> keeps_halt (en_circuit_breaker en) (en_circuit_breaker en1)" "same_config en en1"
  shows "safe_result k r en en'"
  using assms by (auto simp: safe_result_def halts_on_error_def intro: keeps_halt_trans split: if_splits)

definition phase_engine :: "'z libs_scheme \<Rightarrow> instant \<Rightarrow> trade_accounting_phase \<Rightarrow> post_trade_input \<Rightarrow> risk_engine \<Rightarrow> risk_engine" where
  "phase_engine L now phase trade en =
     (case phase of Fill \<Rightarrow> snd (apply_fill L now trade en)
      | Settlement \<Rightarrow> snd (check_loss_caps L now (snd (apply_settlement L now trade en))))"

definition phase_blacklist :: "'z libs_scheme \<Rightarrow> instant \<Rightarrow> post_trade_input \<Rightarrow> risk_metrics \<Rightarrow> risk_engine \<Rightarrow> risk_engine" where
  "phase_blacklist L now trade metrics en =
     en\<lparr>en_blacklist := (if is_miss trade
        then snd (maybe_auto_blacklist L now (pt_market_id trade)
                    (mt_consecutive_market_misses metrics (pt_market_id trade)) (en_blacklist en))
        else en_blacklist en)\<rparr>"

lemma apply_trade_result_shape:
  "snd (apply_trade_result L now phase trade metrics en) = publish_risk_snapshot now (increment_version
     (snd (apply_common_checks L now trade metrics (phase_blacklist L now trade metrics (phase_engine L now phase trade en)))))"
  by (cases phase) (auto simp: apply_trade_result_def phase_engine_def phase_blacklist_def Let_def case_prod_beta)

lemma phase_blacklist_frame [simp]:
  "en_circuit_breaker (phase_blacklist L now trade metrics en) = en_circuit_breaker en"
  "en_params (phase_blacklist L now trade metrics en) = en_params en"
  "en_daily (phase_blacklist L now trade metrics en) = en_daily en"
  "en_weekly (phase_blacklist L now trade metrics en) = en_weekly en"
  "en_hourly (phase_blacklist L now trade metrics en) = en_hourly en"
  by (simp_all add: phase_blacklist_def)

lemma apply_fill_frame [simp]:
  "en_circuit_breaker (snd (apply_fill L now trade en)) = en_circuit_breaker en"
  "en_params (snd (apply_fill L now trade en)) = en_params en"
  by (simp_all add: apply_fill_def Let_def split: prod.splits)

lemma apply_settlement_frame [simp]:
  "en_circuit_breaker (snd (apply_settlement L now trade en)) = en_circuit_breaker en"
  "en_params (snd (apply_settlement L now trade en)) = en_params en"
  by (simp_all add: apply_settlement_def Let_def split: prod.splits)

lemma check_loss_caps_frame [simp]:
  "en_params (snd (check_loss_caps L now en)) = en_params en"
  "en_daily (snd (check_loss_caps L now en)) = en_daily en"
  "en_weekly (snd (check_loss_caps L now en)) = en_weekly en"
  "en_hourly (snd (check_loss_caps L now en)) = en_hourly en"
  by (simp_all add: check_loss_caps_def Let_def)

lemma apply_common_checks_frame [simp]:
  "en_params (snd (apply_common_checks L now trade metrics en)) = en_params en"
  "en_daily (snd (apply_common_checks L now trade metrics en)) = en_daily en"
  "en_weekly (snd (apply_common_checks L now trade metrics en)) = en_weekly en"
  "en_hourly (snd (apply_common_checks L now trade metrics en)) = en_hourly en"
  "en_potential_loss (snd (apply_common_checks L now trade metrics en)) = en_potential_loss en"
  by (simp_all add: apply_common_checks_def Let_def)

lemma phase_engine_keeps: "keeps_halt (en_circuit_breaker en) (en_circuit_breaker (phase_engine L now phase trade en))"
  using check_loss_caps_keeps [of "snd (apply_settlement L now trade en)" L now]
  by (cases phase) (simp_all add: phase_engine_def)

lemma phase_engine_config: "same_config en (phase_engine L now phase trade en)"
proof -
  have "same_config en (snd (apply_settlement L now trade en))" "same_config en (snd (apply_fill L now trade en))"
    by (simp_all add: same_config_def apply_settlement_def apply_fill_def Let_def split: prod.splits)
  then show ?thesis
    using same_config_trans [OF _ check_loss_caps_config] by (cases phase) (simp_all add: phase_engine_def)
qed

lemma apply_trade_result_safe:
  assumes "apply_trade_result L now phase trade metrics en = (x, en')"
  shows "published_sound en'" "keeps_halt (en_circuit_breaker en) (en_circuit_breaker en')" "same_config en en'"
proof -
  let ?en1 = "phase_blacklist L now trade metrics (phase_engine L now phase trade en)"
  have en': "en' = publish_risk_snapshot now (increment_version (snd (apply_common_checks L now trade metrics ?en1)))"
    using assms apply_trade_result_shape [of L now phase trade metrics en] by simp
  show "published_sound en'"
    by (simp add: en')
  show "keeps_halt (en_circuit_breaker en) (en_circuit_breaker en')"
    using phase_engine_keeps [of en L now phase trade] apply_common_checks_keeps [of ?en1 L now trade metrics]
    by (simp add: en' keeps_halt_trans)
  have "same_config en ?en1"
    using phase_engine_config [of en L now phase trade] by (simp add: phase_blacklist_def)
  then show "same_config en en'"
    using same_config_trans [OF _ apply_common_checks_config [of ?en1 L now trade metrics]] by (simp add: en')
qed

lemma on_settlement_cases:
  assumes "on_settlement L env now trade metrics en p = (r, en', p')"
  obtains
    (unresolved) e reason where "r = Inl e" "en' = halt_internal now reason en"
  | (applied) report en1 x where "apply_trade_result L now Settlement trade metrics en = (report, en1)"
      "halts_on_error now r (en1\<lparr>en_last_emergency := x\<rparr>) en'"
proof -
  obtain r0 en0 p0 where 0: "persist_settlement_potential_loss env now trade en p = (r0, en0, p0)"
    by (metis surj_pair)
  obtain report audit entry en1 where 1: "apply_trade_result L now Settlement trade metrics en = ((report, audit, entry), en1)"
    by (metis surj_pair)
  obtain r2 en2 p2 where 2: "persist_and_audit env now (pp_snapshot report) audit en1 p0 = (r2, en2, p2)"
    by (metis surj_pair)
  show thesis
  proof (cases r0)
    case (Inl e)
    then obtain reason where "en' = halt_internal now reason en" "r = Inl e"
      using assms persist_settlement_result [OF 0] by (auto simp: on_settlement_def 0 halts_on_error_def)
    then show thesis
      using unresolved by blast
  next
    case (Inr u)
    then have en0: "en0 = en"
      using persist_settlement_result [OF 0] by simp
    show thesis
    proof (cases r2)
      case (Inl e)
      then have "halts_on_error now r en1 en'"
        using assms Inr persist_and_audit_result [OF 2]
        by (auto simp: on_settlement_def 0 1 2 en0 Let_def intro: halts_on_error_cong)
      then show thesis
        using 1 by (intro applied [of _ en1 "en_last_emergency en1"]) auto
    next
      case Inr2: (Inr u2)
      then have "finish_trade_result L env now report entry (to_name (cb_state (en_circuit_breaker en))) metrics en1 p2 = (r, en', p')"
        using assms Inr persist_and_audit_result [OF 2] by (auto simp: on_settlement_def 0 1 2 en0 Let_def)
      from finish_result [OF this] show thesis
        using applied 1 by blast
    qed
  qed
qed

lemma on_settlement_safe:
  assumes "on_settlement L env now trade metrics en p = (r, en', p')"
  shows "safe_result True r en en'"
  using assms
proof (cases rule: on_settlement_cases)
  case (applied report en1 x)
  then show ?thesis
    using apply_trade_result_safe [OF applied(1)] by (auto intro: safe_halts_on_error)
qed simp

lemma on_fill_cases:
  assumes "on_fill L env now trade metrics en p = ((r, en', p'), metrics')"
  obtains
    (replayed) "ev_begin_fill env (pt_trade_id trade) now p = (Inr AlreadyApplied, p')" "r = Inr None" "en' = en"
  | (unclaimed) e reason where "ev_begin_fill env (pt_trade_id trade) now p = (Inl e, p')" "r = Inl e"
      "en' = halt_internal now reason en"
  | (uncommitted) p1 c e reason report en1 where "ev_begin_fill env (pt_trade_id trade) now p = (Inr Claimed, p1)"
      "apply_trade_result L now Fill trade metrics' en = (report, en1)" "fm_trade_id c = pt_trade_id trade"
      "ev_commit_fill env c p1 = (Inl e, p')" "r = Inl e"
      "en' = halt_internal now reason (restore_mutable_state now (capture_mutable_state en) en1)"
  | (committed) p1 c p2 report audit entry en1 where "ev_begin_fill env (pt_trade_id trade) now p = (Inr Claimed, p1)"
      "apply_trade_result L now Fill trade metrics' en = ((report, audit, entry), en1)" "fm_trade_id c = pt_trade_id trade"
      "ev_commit_fill env c p1 = (Inr (), p2)"
      "finish_trade_result L env now report entry (to_name (cb_state (en_circuit_breaker en))) metrics' en1 p2 = (r, en', p')"
proof -
  define metrics1 where "metrics1 = ev_record_trade_outcome env (pt_side trade) (pt_market_id trade) (is_miss trade) metrics"
  obtain report audit entry en1 where 1: "apply_trade_result L now Fill trade metrics1 en = ((report, audit, entry), en1)"
    by (metis surj_pair)
  obtain b p1 where b: "ev_begin_fill env (pt_trade_id trade) now p = (b, p1)"
    by (metis surj_pair)
  define commit :: fill_commit where "commit = \<lparr>fm_trade_id = pt_trade_id trade, fm_potential_loss = fill_potential_loss_entry L trade,
                 fm_state = upsert_of (pp_snapshot report), fm_audit = audit\<rparr>"
  have id: "fm_trade_id commit = pt_trade_id trade"
    by (simp add: commit_def)
  obtain c p2 where c: "ev_commit_fill env commit p1 = (c, p2)"
    by (metis surj_pair)
  note eq = assms [unfolded on_fill_def Let_def metrics1_def [symmetric] b 1 prod.case commit_def [symmetric] c]
  consider (r) "b = Inr AlreadyApplied" | (u) e where "b = Inl e" | (cl) "b = Inr Claimed"
    by (metis fill_claim.exhaust obj_sumE)
  then show thesis
  proof cases
    case r
    then show thesis
      using eq b by (intro replayed) auto
  next
    case u
    then show thesis
      using eq b by (intro unclaimed) auto
  next
    case cl
    show thesis
    proof (cases c)
      case (Inl e)
      show thesis
        using eq b 1 c id cl Inl by (intro uncommitted) auto
    next
      case (Inr u)
      show thesis
        using eq b 1 c id cl Inr by (intro committed) auto
    qed
  qed
qed

lemma on_fill_safe:
  assumes "on_fill L env now trade metrics en p = ((r, en', p'), metrics')"
  shows "safe_result True r en en'"
  using assms
proof (cases rule: on_fill_cases)
  case (uncommitted p1 c e reason report en1)
  then show ?thesis
    using apply_trade_result_safe(3) [OF uncommitted(2)]
    by (simp add: safe_result_def restore_mutable_state_def capture_mutable_state_def same_config_def)
next
  case (committed p1 c p2 report audit entry en1)
  from finish_result [OF committed(5)] show ?thesis
    using apply_trade_result_safe [OF committed(2)] by (auto intro: safe_halts_on_error)
qed simp_all

lemma on_trade_result_safe:
  "engine_on_trade_result L env now phase trade metrics en p = ((r, en', p'), metrics') \<Longrightarrow> safe_result True r en en'"
  by (cases phase) (auto simp: engine_on_trade_result_def intro: on_fill_safe on_settlement_safe)

lemma reconciliation_safe:
  assumes "on_reconciliation_result L env now report metrics en p = (r, en', p')"
  shows "safe_result True r en en'"
proof -
  obtain c p1 where c: "ev_create_reconciliation env \<lparr>nc_report = report, nc_duration_ms = to_i64_or_max (rr_duration_ms report)\<rparr> p
      = (c, p1)"
    by (metis surj_pair)
  obtain a en2 p2 where a: "persist_audit_event env now
      (new_audit (ReconciliationCompleted (rr_status report) (length (rr_mismatches report)))) en p1 = (a, en2, p2)"
    by (metis surj_pair)
  note eq = assms [unfolded on_reconciliation_result_def Let_def c a prod.case]
  show ?thesis
  proof (cases "isl c \<or> isl a \<or> rr_status report \<noteq> Critical")
    case True
    then show ?thesis
      using eq persist_audit_event_result [OF a] by (cases c; cases a) (auto simp: halts_on_error_def)
  next
    case False
    then have en2: "en2 = en"
      using persist_audit_event_result [OF a] by (cases a) auto
    show ?thesis
      using eq False
      by (cases c; cases a)
         (auto simp: en2 safe_result_def record_emergency_def Let_def keeps_halt_after split: prod.splits sum.splits)
  qed
qed

lemma acknowledge_safe:
  "engine_acknowledge_and_resume env now en p = (r, en', p') \<Longrightarrow> safe_result False r en en'"
  by (auto dest: breaker_pair_config simp: engine_acknowledge_and_resume_def safe_result_def Let_def split: prod.splits sum.splits)

lemma reset_safe: "reset_circuit_breaker L env now reason metrics en p = (r, en', p') \<Longrightarrow> safe_result False r en en'"
  by (auto simp: reset_circuit_breaker_def Let_def dest!: persist_and_audit_result intro: safe_halts_on_error)

lemma add_blacklist_safe:
  "add_blacklist L env now m br why metrics en p = (r, en', p') \<Longrightarrow> safe_result True r en en'"
  by (auto simp: add_blacklist_def Let_def split: prod.splits sum.splits
      dest!: persist_and_audit_result intro: safe_halts_on_error)
     (auto simp: safe_result_def)

lemma remove_blacklist_safe:
  "remove_blacklist L env now m why metrics en p = (r, en', p') \<Longrightarrow> safe_result True r en en'"
  by (auto simp: remove_blacklist_def Let_def split: prod.splits sum.splits
      dest!: persist_and_audit_result intro: safe_halts_on_error)
     (auto simp: safe_result_def)

lemma resolve_safe:
  "resolve_potential_loss L env now i metrics en p = (r, en', p') \<Longrightarrow> safe_result True r en en'"
  by (auto simp: resolve_potential_loss_def Let_def safe_result_def split: prod.splits sum.splits)

lemma tick_state_frame:
  assumes "tick_state L now en = (flags, en1)"
  shows "en_circuit_breaker en1 = fst (tick now (en_circuit_breaker en))" "en_risk_snapshot en1 = en_risk_snapshot en"
    "en_params en1 = en_params en"
  using assms by (auto simp: tick_state_def Let_def split: prod.splits)

lemma tick_allows: "allows_trading (cb_state cb) \<Longrightarrow> allows_trading (cb_state (fst (tick now cb)))"
  by (auto simp: tick_def split: breaker_state.splits)

lemma tick_state_sound:
  "tick_state L now en = (flags, en1) \<Longrightarrow> published_sound en \<Longrightarrow> published_sound en1"
  using tick_allows by (auto simp: published_sound_def engine_allows_trading_def tick_state_frame)

text \<open>A tick differs in one case: when the lookup of stale entries fails, its error is returned and nothing is halted.\<close>

lemma tick_safe:
  assumes "engine_tick L env now metrics en p = (r, en', p')"
  shows "safe_result True (if isl (fst (ev_find_stale env (rc_potential_loss_escalation_secs (ep_config (en_params en))) p))
      then Inr () else map_sum id (\<lambda>_. ()) r) en en'"
proof -
  obtain ct dr wr hr en1 where 1: "tick_state L now en = ((ct, dr, wr, hr), en1)"
    by (metis surj_pair)
  let ?secs = "rc_potential_loss_escalation_secs (ep_config (en_params en))"
  obtain s p1 where s: "ev_find_stale env ?secs p = (s, p1)"
    by (metis surj_pair)
  note eq = assms [unfolded engine_tick_def 1 Let_def prod.case tick_state_frame(3) [OF 1] s]
  have keep: "keeps_halt (en_circuit_breaker en) (en_circuit_breaker en1)"
    by (simp add: tick_state_frame [OF 1])
  have config: "same_config en en1"
    using 1 by (auto dest: breaker_pair_config simp: tick_state_def same_config_def Let_def split: prod.splits)
  note sound = tick_state_sound [OF 1]
  show ?thesis
  proof (cases s)
    case (Inl e)
    then show ?thesis
      using eq keep sound config by (auto simp: s safe_result_def)
  next
    case (Inr stale)
    show ?thesis
    proof (cases "stale = []")
      case True
      then show ?thesis
        using eq keep sound config Inr s
        by (auto simp: safe_result_def keeps_halt_after split: prod.splits sum.splits if_splits)
    next
      case False
      then show ?thesis
        using eq keep config Inr s
        by (auto simp: safe_result_def record_emergency_def Let_def keeps_halt_after
            split: prod.splits sum.splits)
    qed
  qed
qed

lemma reload_safe [simp]: "published_sound (engine_reload L now config en)"
  "keeps_halt (en_circuit_breaker en) (en_circuit_breaker (engine_reload L now config en))"
  by (simp_all add: engine_reload_def Let_def)

lemma heartbeat_success_allows:
  "allows_trading (cb_state (on_heartbeat_success cb)) = allows_trading (cb_state cb)"
  by (simp add: on_heartbeat_success_def)

lemma heartbeat_failure_untripped:
  "on_heartbeat_failure now m cb = (cb', False) \<Longrightarrow> cb_state cb' = cb_state cb"
  by (auto simp: on_heartbeat_failure_def Let_def split: if_splits)

lemma published_sound_breaker:
  "published_sound en \<Longrightarrow> allows_trading (cb_state cb') = allows_trading (cb_state (en_circuit_breaker en)) \<Longrightarrow>
   published_sound (en\<lparr>en_circuit_breaker := cb'\<rparr>)"
  by (simp add: published_sound_def engine_allows_trading_def)

lemma execution_event_safe:
  "published_sound en \<Longrightarrow> published_sound (on_execution_event L now event en)"
  "keeps_halt (en_circuit_breaker en) (en_circuit_breaker (on_execution_event L now event en))"
proof -
  show "published_sound en \<Longrightarrow> published_sound (on_execution_event L now event en)"
    by (cases event)
       (auto simp: on_execution_event_def Let_def published_sound_breaker heartbeat_success_allows
          dest: heartbeat_failure_untripped split: prod.splits)
  have "keeps_halt (en_circuit_breaker en) cb'" if "on_heartbeat_failure now m (en_circuit_breaker en) = (cb', b)" for m cb' b
    using keeps_halt_ops(5) [of "en_circuit_breaker en" now m] that by simp
  then show "keeps_halt (en_circuit_breaker en) (en_circuit_breaker (on_execution_event L now event en))"
    by (cases event) (auto simp: on_execution_event_def Let_def split: prod.splits)
qed

fun stale_lookup_fails :: "'p risk_env \<Rightarrow> engine_op \<Rightarrow> risk_engine \<Rightarrow> 'p \<Rightarrow> bool" where
  "stale_lookup_fails env (OpTick _) en p =
     isl (fst (ev_find_stale env (rc_potential_loss_escalation_secs (ep_config (en_params en))) p))"
| "stale_lookup_fails env _ en p = False"

lemma error_of_iff [simp]: "error_of r = None \<longleftrightarrow> \<not> isl r" "error_of r = Some e \<longleftrightarrow> r = Inl e"
  by (cases r; auto simp: error_of_def)+

lemmas op_safe = on_trade_result_safe reconciliation_safe acknowledge_safe reset_safe add_blacklist_safe
  remove_blacklist_safe resolve_safe tick_safe

lemma execution_event_config: "same_config en (on_execution_event L now event en)"
  by (cases event) (auto simp: on_execution_event_def Let_def dest: breaker_pair_config split: prod.splits)

lemma step_safe:
  assumes "engine_step L env now op (en, p) = (err, en', p')"
  shows "published_sound en \<Longrightarrow> published_sound en'"
    and "\<not> op_by_operator op \<Longrightarrow> keeps_halt (en_circuit_breaker en) (en_circuit_breaker en')"
    and "err \<noteq> None \<Longrightarrow> \<not> stale_lookup_fails env op en p \<Longrightarrow>
      is_halted (cb_state (en_circuit_breaker en')) \<and> \<not> engine_allows_trading en'"
    and "\<forall>c. op \<noteq> OpReload c \<Longrightarrow> same_config en en'"
proof -
  have "(published_sound en \<longrightarrow> published_sound en')
    \<and> (\<not> op_by_operator op \<longrightarrow> keeps_halt (en_circuit_breaker en) (en_circuit_breaker en'))
    \<and> (err \<noteq> None \<longrightarrow> \<not> stale_lookup_fails env op en p \<longrightarrow>
        is_halted (cb_state (en_circuit_breaker en')) \<and> \<not> engine_allows_trading en')
    \<and> ((\<forall>c. op \<noteq> OpReload c) \<longrightarrow> same_config en en')"
    using assms
    by (cases op)
       (auto simp: engine_halt_def execution_event_safe execution_event_config split: prod.splits
          dest!: op_safe simp: safe_result_def)
  then show "published_sound en \<Longrightarrow> published_sound en'"
    and "\<not> op_by_operator op \<Longrightarrow> keeps_halt (en_circuit_breaker en) (en_circuit_breaker en')"
    and "err \<noteq> None \<Longrightarrow> \<not> stale_lookup_fails env op en p \<Longrightarrow>
      is_halted (cb_state (en_circuit_breaker en')) \<and> \<not> engine_allows_trading en'"
    and "\<forall>c. op \<noteq> OpReload c \<Longrightarrow> same_config en en'"
    by blast+
qed

end
