(* ===== verification/Fill_Markers.thy ===== *)
theory Fill_Markers
  imports Engine_Safety
begin

text \<open>
  Fills are accounted once: what the engine relies on from the markers of the store, that no operation loses a marker, and
  that a fill which has been committed is ignored when it is delivered again.
\<close>

text \<open>The markers of applied fills: a store that has committed the fill of a trade answers every later claim of that trade with
  \<open>AlreadyApplied\<close> and never forgets a marker. \<open>applied\<close> reads the markers off the store's state.\<close>

definition keeps_markers :: "('p \<Rightarrow> ident set) \<Rightarrow> ('p \<Rightarrow> 'a \<times> 'p) \<Rightarrow> bool" where
  "keeps_markers applied f \<longleftrightarrow> (\<forall>p. applied p \<subseteq> applied (snd (f p)))"

definition fill_markers :: "'p risk_env \<Rightarrow> ('p \<Rightarrow> ident set) \<Rightarrow> bool" where
  "fill_markers env applied \<longleftrightarrow>
     (\<forall>t now p. t \<in> applied p \<longrightarrow> fst (ev_begin_fill env t now p) = Inr AlreadyApplied)
   \<and> (\<forall>c p. fst (ev_commit_fill env c p) = Inr () \<longrightarrow> fm_trade_id c \<in> applied (snd (ev_commit_fill env c p)))
   \<and> (\<forall>x. keeps_markers applied (ev_upsert_state env x)) \<and> (\<forall>x y. keeps_markers applied (ev_begin_fill env x y))
   \<and> (\<forall>x. keeps_markers applied (ev_commit_fill env x)) \<and> (\<forall>x. keeps_markers applied (ev_upsert_blacklist env x))
   \<and> (\<forall>x. keeps_markers applied (ev_remove_blacklist env x)) \<and> (\<forall>x. keeps_markers applied (ev_create_emergency env x))
   \<and> (\<forall>x. keeps_markers applied (ev_create_reconciliation env x)) \<and> (\<forall>x. keeps_markers applied (ev_create_audit env x))
   \<and> (\<forall>x. keeps_markers applied (ev_resolve_loss env x)) \<and> (\<forall>x. keeps_markers applied (ev_find_stale env x))
   \<and> (\<forall>x p. applied p \<subseteq> applied (ev_publish env x p)) \<and> (\<forall>x p. applied p \<subseteq> applied (ev_try_enqueue env x p))"

lemma env_marked:
  assumes "fill_markers env applied" "t \<in> applied p"
  shows "ev_upsert_state env a p = (r, p') \<Longrightarrow> t \<in> applied p'"
    and "ev_begin_fill env b c p = (r2, p') \<Longrightarrow> t \<in> applied p'"
    and "ev_commit_fill env d p = (r, p') \<Longrightarrow> t \<in> applied p'"
    and "ev_upsert_blacklist env e p = (r, p') \<Longrightarrow> t \<in> applied p'"
    and "ev_remove_blacklist env f p = (r, p') \<Longrightarrow> t \<in> applied p'"
    and "ev_create_emergency env g p = (r, p') \<Longrightarrow> t \<in> applied p'"
    and "ev_create_reconciliation env h p = (r, p') \<Longrightarrow> t \<in> applied p'"
    and "ev_create_audit env i p = (r, p') \<Longrightarrow> t \<in> applied p'"
    and "ev_resolve_loss env b p = (r, p') \<Longrightarrow> t \<in> applied p'"
    and "ev_find_stale env j p = (r3, p') \<Longrightarrow> t \<in> applied p'"
    and "t \<in> applied (ev_publish env k p)"
  using assms by (auto simp: fill_markers_def keeps_markers_def) (metis snd_conv subsetD)+

lemma publish_marked:
  "fill_markers env applied \<Longrightarrow> t \<in> applied p \<Longrightarrow> t \<in> applied (publish_breaker_state L env now metrics en p)"
  by (auto simp: publish_breaker_state_def intro: env_marked)

lemma audit_marked: "fill_markers env applied \<Longrightarrow> t \<in> applied p \<Longrightarrow> t \<in> applied (audit_if env c e p)"
  by (cases "ev_create_audit env (new_audit e) p") (auto simp: audit_if_def intro: env_marked)

lemma persist_marked:
  assumes "fill_markers env applied" "t \<in> applied p"
  shows "persist_and_audit env now s a en p = (r, en', p') \<Longrightarrow> t \<in> applied p'"
    and "persist_audit_event env now a en p = (r, en', p') \<Longrightarrow> t \<in> applied p'"
    and "persist_settlement_potential_loss env now trade en p = (r, en', p') \<Longrightarrow> t \<in> applied p'"
    and "record_emergency L env now l m metrics en p = (r, en', p') \<Longrightarrow> t \<in> applied p'"
  using assms
  by (auto simp: persist_and_audit_def persist_audit_event_def persist_settlement_potential_loss_def record_emergency_def
      Let_def split: prod.splits sum.splits if_splits dest: env_marked)

lemma announce_marked:
  assumes m: "fill_markers env applied" "t \<in> applied p" and f: "announce_trip L env now l prev metrics en p = (en', p')"
  shows "t \<in> applied p'"
proof -
  let ?reason = "breaker_reason (cb_state (en_circuit_breaker en))"
  obtain r1 p1 where 1: "ev_create_audit env (new_audit (BreakerTripped l ?reason prev)) p = (r1, p1)"
    by (metis surj_pair)
  obtain r2 en1 p2 where 2: "record_emergency L env now l ?reason metrics en p1 = (r2, en1, p2)"
    by (metis surj_pair)
  have "p' = publish_breaker_state L env now metrics en1 p2"
    using f by (auto simp: announce_trip_def Let_def 1 2)
  moreover have "t \<in> applied p2"
    using persist_marked(4) [OF m(1) env_marked(8) [OF m 1] 2] .
  ultimately show ?thesis
    using publish_marked [OF m(1)] by simp
qed

lemma followups_marked:
  assumes m: "fill_markers env applied" "t \<in> applied p"
    and f: "persist_post_trade_followups L env now report entry prev metrics en p = (r, en', p')"
  shows "t \<in> applied p'"
proof -
  obtain en1 p1 where 1: "(case pp_breaker_tripped report of None \<Rightarrow> (en, p)
      | Some level \<Rightarrow> announce_trip L env now level prev metrics en p) = (en1, p1)"
    by (metis surj_pair)
  then have "t \<in> applied p1"
    using m by (auto split: option.splits dest: announce_marked)
  then show ?thesis
    using f m unfolding persist_post_trade_followups_def 1 Let_def prod.case
    by (auto split: prod.splits sum.splits option.splits if_splits intro: env_marked)
qed

lemma finish_marked:
  "fill_markers env applied \<Longrightarrow> t \<in> applied p \<Longrightarrow>
   finish_trade_result L env now report entry prev metrics en p = (r, en', p') \<Longrightarrow> t \<in> applied p'"
  by (auto simp: finish_trade_result_def split: prod.splits sum.splits dest: followups_marked)

lemma fill_marked:
  assumes "fill_markers env applied" "t \<in> applied p" "on_fill L env now trade metrics en p = ((r, en', p'), metrics')"
  shows "t \<in> applied p'"
  using assms(3)
proof (cases rule: on_fill_cases)
  case (uncommitted p1)
  then show ?thesis
    using env_marked(2,3) assms(1,2) by metis
next
  case (committed p1 c p2)
  then show ?thesis
    using env_marked(2,3) finish_marked assms(1,2) by metis
qed (use env_marked(2) [OF assms(1,2)] in blast)+

lemma settlement_marked:
  assumes m: "fill_markers env applied" "t \<in> applied p" and f: "on_settlement L env now trade metrics en p = (r, en', p')"
  shows "t \<in> applied p'"
proof -
  obtain r0 en0 p0 where 0: "persist_settlement_potential_loss env now trade en p = (r0, en0, p0)"
    by (metis surj_pair)
  obtain report audit entry en1 where 1: "apply_trade_result L now Settlement trade metrics en0 = ((report, audit, entry), en1)"
    by (metis surj_pair)
  obtain r2 en2 p2 where 2: "persist_and_audit env now (pp_snapshot report) audit en1 p0 = (r2, en2, p2)"
    by (metis surj_pair)
  have "t \<in> applied p0" "t \<in> applied p2"
    using persist_marked(3) [OF m 0] persist_marked(1) [OF m(1) _ 2] by auto
  then show ?thesis
    using f m by (cases r0; cases r2) (auto simp: on_settlement_def 0 1 2 Let_def dest: finish_marked)
qed

lemma reconciliation_marked:
  assumes m: "fill_markers env applied" "t \<in> applied p"
    and f: "on_reconciliation_result L env now report metrics en p = (r, en', p')"
  shows "t \<in> applied p'"
proof -
  let ?new = "\<lparr>nc_report = report, nc_duration_ms = to_i64_or_max (rr_duration_ms report)\<rparr>"
  let ?audit = "new_audit (ReconciliationCompleted (rr_status report) (length (rr_mismatches report)))"
  let ?reason = "[Lit ''reconciliation critical drift: '', PInt (int (length (rr_mismatches report))), Lit '' mismatches'']"
  obtain c p1 where c: "ev_create_reconciliation env ?new p = (c, p1)"
    by (metis surj_pair)
  obtain a en2 p2 where a: "persist_audit_event env now ?audit en p1 = (a, en2, p2)"
    by (metis surj_pair)
  define en3 where "en3 = publish_risk_snapshot now (increment_version
      (en2\<lparr>en_circuit_breaker := halt now System ?reason (en_circuit_breaker en2)\<rparr>))"
  obtain u p3 where u: "ev_upsert_state env (upsert_of (engine_snapshot L now metrics en3)) p2 = (u, p3)"
    by (metis surj_pair)
  obtain e en4 p4 where e: "record_emergency L env now System ?reason metrics en3 p3 = (e, en4, p4)"
    by (metis surj_pair)
  have p1: "t \<in> applied p1"
    using env_marked(7) [OF m c] .
  have p2: "t \<in> applied p2"
    using persist_marked(2) [OF m(1) p1 a] .
  have p3: "t \<in> applied p3"
    using env_marked(1) [OF m(1) p2 u] .
  have p4: "t \<in> applied p4"
    using persist_marked(4) [OF m(1) p3 e] .
  have "p' \<in> {p1, p2, p3, p4}"
    using f by (cases c; cases a; cases u)
      (auto simp: on_reconciliation_result_def Let_def c a u e en3_def [symmetric] split: if_splits)
  then show ?thesis
    using p1 p2 p3 p4 by auto
qed

lemma tick_audits_marked:
  "fill_markers env applied \<Longrightarrow> t \<in> applied p \<Longrightarrow> t \<in> applied (tick_audits L env now metrics pre a b c d en p)"
  by (simp add: tick_audits_def Let_def audit_marked publish_marked)

lemma tick_marked:
  assumes m: "fill_markers env applied" "t \<in> applied p" and f: "engine_tick L env now metrics en p = (r, en', p')"
  shows "t \<in> applied p'"
proof -
  obtain a b c d en1 where 1: "tick_state L now en = ((a, b, c, d), en1)"
    by (metis surj_pair)
  obtain s p1 where s: "ev_find_stale env (rc_potential_loss_escalation_secs (ep_config (en_params en1))) p = (s, p1)"
    by (metis surj_pair)
  have p1: "t \<in> applied p1"
    using env_marked(10) [OF m s] .
  have mp: "t \<in> applied (publish_breaker_state L env now metrics e p1)" for e
    by (rule publish_marked [OF m(1) p1])
  show ?thesis
  proof (cases s)
    case (Inl e)
    then show ?thesis
      using f p1 by (simp add: engine_tick_def 1 s Let_def)
  next
    case (Inr stale)
    show ?thesis
    proof (cases "stale = []")
      case True
      define en2 where "en2 = (if a \<or> b \<or> c \<or> d then publish_risk_snapshot now en1 else en1)"
      obtain u p2 where u: "(if a \<or> b \<or> c \<or> d then ev_upsert_state env (upsert_of (engine_snapshot L now metrics en2)) p1
          else (Inr (), p1)) = (u, p2)"
        by (metis surj_pair)
      then have p2: "t \<in> applied p2"
        using env_marked(1) [OF m(1) p1, of "upsert_of (engine_snapshot L now metrics en2)" u p2] p1
        by (simp split: if_splits)
      have "p' = p2 \<or> p' = tick_audits L env now metrics en a b c d en2 p2"
        using f [unfolded engine_tick_def 1 Let_def prod.case s Inr sum.case True not_False_eq_True simp_thms if_False
            en2_def [symmetric] u]
        by (cases u) auto
      then show ?thesis
        using p2 tick_audits_marked [OF m(1) p2] by auto
    next
      case False
      define reason where "reason = [PInt (int (length stale)), Lit '' stale potential-loss entries exceeded '',
        PInt (uint (rc_potential_loss_escalation_secs (ep_config (en_params en1)))), Lit ''s'']"
      define en2 where "en2 = publish_risk_snapshot now
        (en1\<lparr>en_circuit_breaker := halt now System reason (en_circuit_breaker en1)\<rparr>)"
      obtain e en3 p3 where e: "record_emergency L env now System reason metrics en2
          (publish_breaker_state L env now metrics en2 p1) = (e, en3, p3)"
        by (metis surj_pair)
      have "p' = p3"
        using f [unfolded engine_tick_def 1 Let_def prod.case s Inr sum.case if_P [OF False] reason_def [symmetric]
            en2_def [symmetric] e]
        by (cases e) auto
      then show ?thesis
        using persist_marked(4) [OF m(1) mp e] by simp
    qed
  qed
qed

lemma operator_marked:
  assumes "fill_markers env applied" "t \<in> applied p"
  shows "engine_acknowledge_and_resume env now en p = (r, en', p') \<Longrightarrow> t \<in> applied p'"
    and "reset_circuit_breaker L env now why metrics en p = (r, en', p') \<Longrightarrow> t \<in> applied p'"
    and "engine_halt env now why en p = (en', p') \<Longrightarrow> t \<in> applied p'"
    and "add_blacklist L env now mk br why metrics en p = (r, en', p') \<Longrightarrow> t \<in> applied p'"
    and "remove_blacklist L env now mk why metrics en p = (r, en', p') \<Longrightarrow> t \<in> applied p'"
    and "resolve_potential_loss L env now i metrics en p = (r, en', p') \<Longrightarrow> t \<in> applied p'"
proof -
  note dests = env_marked [OF assms(1)] persist_marked [OF assms(1)]
  show "engine_acknowledge_and_resume env now en p = (r, en', p') \<Longrightarrow> t \<in> applied p'"
    using assms by (auto simp: engine_acknowledge_and_resume_def Let_def split: prod.splits sum.splits dest: dests)
  show "reset_circuit_breaker L env now why metrics en p = (r, en', p') \<Longrightarrow> t \<in> applied p'"
    using persist_marked(1) [OF assms(1) publish_marked [OF assms]] unfolding reset_circuit_breaker_def Let_def by blast
  show "engine_halt env now why en p = (en', p') \<Longrightarrow> t \<in> applied p'"
    using assms by (cases "ev_create_audit env (new_audit (EngineHalted why)) p") (auto simp: engine_halt_def dest: dests)
  show "add_blacklist L env now mk br why metrics en p = (r, en', p') \<Longrightarrow> t \<in> applied p'"
    using assms by (auto simp: add_blacklist_def Let_def split: prod.splits sum.splits
        dest: dests persist_marked(1) [OF assms(1) publish_marked [OF assms(1)]])
  show "remove_blacklist L env now mk why metrics en p = (r, en', p') \<Longrightarrow> t \<in> applied p'"
    using assms by (auto simp: remove_blacklist_def Let_def split: prod.splits sum.splits dest: dests)
  show "resolve_potential_loss L env now i metrics en p = (r, en', p') \<Longrightarrow> t \<in> applied p'"
    using assms by (auto simp: resolve_potential_loss_def Let_def split: prod.splits sum.splits dest: dests)
qed

lemma trade_result_marked:
  "fill_markers env applied \<Longrightarrow> t \<in> applied p \<Longrightarrow>
   engine_on_trade_result L env now phase trade metrics en p = ((r, en', p'), metrics') \<Longrightarrow> t \<in> applied p'"
  by (cases phase) (auto simp: engine_on_trade_result_def dest: fill_marked settlement_marked)

lemma step_marked:
  assumes "fill_markers env applied" "t \<in> applied p" "engine_step L env now op (en, p) = (err, en', p')"
  shows "t \<in> applied p'"
  using assms(2,3)
  by (cases op) (auto split: prod.splits dest: trade_result_marked [OF assms(1,2)] tick_marked [OF assms(1,2)]
      reconciliation_marked [OF assms(1,2)] operator_marked [OF assms(1,2)])

lemma run_marked:
  "engine_run L env s ops s' \<Longrightarrow> fill_markers env applied \<Longrightarrow> t \<in> applied (snd s) \<Longrightarrow> t \<in> applied (snd s')"
proof (induction rule: engine_run.induct)
  case (engine_run_cons now op s r s1 ops s2)
  then show ?case
    using step_marked [of env applied t "snd s" L now op "fst s" r "fst s1" "snd s1"] by simp
qed

lemma committed_fill_marked:
  assumes m: "fill_markers env applied" and f: "on_fill L env now trade metrics en p = ((Inr (Some report), en', p'), metrics')"
  shows "pt_trade_id trade \<in> applied p'"
  using f
proof (cases rule: on_fill_cases)
  case (committed p1 c p2 rep audit entry en1)
  have "pt_trade_id trade \<in> applied p2"
    using m committed(3,4) by (metis fill_markers_def fst_conv snd_conv)
  then show ?thesis
    using finish_marked [OF m _ committed(5)] by simp
qed simp_all

lemma marked_fill_ignored:
  assumes "fill_markers env applied" "pt_trade_id trade \<in> applied p"
  shows "\<exists>p'. on_fill L env now trade metrics en p = ((Inr None, en, p'), metrics)"
proof -
  have "fst (ev_begin_fill env (pt_trade_id trade) now p) = Inr AlreadyApplied"
    using assms by (simp add: fill_markers_def)
  then show ?thesis
    by (cases "ev_begin_fill env (pt_trade_id trade) now p") (simp add: on_fill_def)
qed

text \<open>A store of markers: the committed trades, newest first.\<close>

definition marker_env :: "ident list risk_env" where
  "marker_env = noop_env\<lparr>ev_begin_fill := \<lambda>t _ p. (Inr (if t \<in> set p then AlreadyApplied else Claimed), p),
     ev_commit_fill := \<lambda>c p. (Inr (), fm_trade_id c # p)\<rparr>"

lemma marker_env_markers: "fill_markers marker_env set"
  by (auto simp: fill_markers_def keeps_markers_def marker_env_def noop_env_def)

end
