(* ===== verification/Pre_Trade.thy ===== *)
theory Pre_Trade
  imports Engine_State
begin

text \<open>
  The decision functions of \<open>engine.rs\<close>: the full pre-trade check, the check repeated on the sized bet, the bankroll and
  the exposure limit that binds next. The result \<open>None\<close> is the one panic the code does not guard (see the sizing theory).
  Stopwatch readings are the record \<open>timings\<close>.
\<close>

record timings =
  tg_check :: "risk_check_id \<Rightarrow> u64"
  tg_phase1 :: u64
  tg_phase2 :: u64
  tg_total :: u64

definition available_bankroll :: "'z decimal_ops_scheme \<Rightarrow> usd \<Rightarrow> usd \<Rightarrow> usd \<Rightarrow> usd \<Rightarrow> usd \<Rightarrow> usd" where
  "available_bankroll D equity reserve reserved_usd potential_loss config_bankroll =
     (let dynamic = max (dec_sub D (dec_sub D (dec_sub D equity reserve) reserved_usd) potential_loss) 0;
          capped = min config_bankroll dynamic
      in max capped 0)"

definition first_denial :: "risk_check_result list \<Rightarrow> message option" where
  "first_denial results =
     map_option (\<lambda>c. Lit (check_id_str (cr_check_id c)) # Lit '': '' #
                   (case cr_detail c of Some d \<Rightarrow> d | None \<Rightarrow> [Lit ''failed'']))
       (find (\<lambda>c. \<not> cr_passed c) results)"

definition enqueue_pre_trade_audit ::
  "'p risk_env \<Rightarrow> risk_engine \<Rightarrow> bool \<Rightarrow> risk_decision_trace \<Rightarrow> ident \<Rightarrow> ident \<Rightarrow> report_mode \<Rightarrow> 'p \<Rightarrow> 'p" where
  "enqueue_pre_trade_audit env en allowed trace opportunity_id market_id mode p =
     (if \<not> en_has_audit_sink en then p
      else ev_try_enqueue env
        (if allowed \<and> mode = ShortCircuit
         then TradeAllowedSummary opportunity_id market_id (td_state_version trace)
                (length (td_check_results trace)) (td_total_elapsed_us trace) (td_evaluated_at trace)
         else if allowed then TradeAllowed trace opportunity_id market_id
         else TradeDenied trace opportunity_id market_id) p)"

definition phase1_context ::
  "instant \<Rightarrow> risk_engine \<Rightarrow> opportunity \<Rightarrow> probability_input \<Rightarrow> factor_decision_context option \<Rightarrow>
   admission_gate_input \<Rightarrow> pre_trade_context" where
  "phase1_context now en opp probability factor_context admission =
     \<lparr>pc_opportunity = opp, pc_probability = probability, pc_snap = en_risk_snapshot en,
      pc_metrics = zeroed_metrics, pc_factor_context = factor_context,
      pc_settlement_gate = ag_settlement admission, pc_integrity = ag_integrity admission,
      pc_now = now, pc_sized_intent = None\<rparr>"

text \<open>The verdict once the gates have run: the denial of the first failed gate, or the sized bet.\<close>

definition sized_verdict ::
  "'z decimal_ops_scheme \<Rightarrow> engine_params \<Rightarrow> pre_trade_context \<Rightarrow>
   (bool \<times> message option \<times> size_result option \<times> size_constraint list option) option" where
  "sized_verdict D params ctx =
     (let config = ep_config params;
          bankroll = available_bankroll D (ms_equity (pc_metrics ctx)) (rc_reserve_balance_usd config)
            (ms_reserved_usd (pc_metrics ctx)) (ctx_total_potential_loss ctx) (rc_bankroll_usd config)
      in case size_bet D (ep_sizer params) ctx bankroll (ctx_drawdown_factor D ctx) of
           None \<Rightarrow> None
         | Some size_result \<Rightarrow>
             if sr_bet_usd size_result > 0 \<and> sr_bet_usd size_result \<ge> rc_min_trade_usd config
             then Some (True, None, Some size_result, None)
             else Some (False,
               Some [Lit ''sizing returned '', PDec (sr_bet_usd size_result), Lit '' (binding: '',
                     Lit (sr_binding_constraint size_result), Lit '', min_trade: '',
                     PDec (rc_min_trade_usd config), Lit '')''],
               None, Some (sr_breakdown size_result)))"

definition gate_verdict ::
  "'z decimal_ops_scheme \<Rightarrow> engine_params \<Rightarrow> pipeline_report \<Rightarrow> pre_trade_context \<Rightarrow>
   (bool \<times> message option \<times> size_result option \<times> size_constraint list option) option" where
  "gate_verdict D params gate_report ctx =
     (if pr_has_failed_hard_gate gate_report
      then Some (False, first_denial (pr_results gate_report), None, None)
      else sized_verdict D params ctx)"

definition pre_trade_check_core ::
  "'z decimal_ops_scheme \<Rightarrow> 'p risk_env \<Rightarrow> timings \<Rightarrow> instant \<Rightarrow> risk_engine \<Rightarrow> opportunity \<Rightarrow> probability_input \<Rightarrow>
   (ident \<Rightarrow> risk_metrics_snapshot) \<Rightarrow> factor_decision_context option \<Rightarrow> admission_gate_input \<Rightarrow> report_mode \<Rightarrow>
   'p \<Rightarrow> (risk_decision \<times> 'p) option" where
  "pre_trade_check_core D env tg now en opp probability metrics factor_context admission mode p =
     (let version = en_state_version en;
          params = en_params en;
          pipeline = check_refs_in_order D (ep_pipeline params);
          (gate_report, ctx) = phased_report (tg_check tg) (tg_phase1 tg) (tg_phase2 tg) pipeline
            (phase1_context now en opp probability factor_context admission) (metrics (opp_market_id opp)) mode
      in case gate_verdict D params gate_report ctx of
           None \<Rightarrow> None
         | Some (allowed, denial, recommended_size, sizing_breakdown) \<Rightarrow>
             let trace = \<lparr>td_check_results = pr_results gate_report, td_sizing_breakdown = sizing_breakdown,
                   td_state_version = version, td_total_elapsed_us = tg_total tg, td_evaluated_at = now\<rparr>;
                 decision = \<lparr>dn_allowed = allowed, dn_denial_reason = denial,
                   dn_recommended_size = recommended_size, dn_drawdown_factor = ctx_drawdown_factor D ctx,
                   dn_evaluated_at = now, dn_state_version = version, dn_trace = trace\<rparr>
             in Some (decision, enqueue_pre_trade_audit env en allowed trace (opp_opportunity_id opp)
                                  (opp_market_id opp) mode p))"

record sized_pre_trade_input =
  sp_opportunity :: opportunity
  sp_metrics :: "ident \<Rightarrow> risk_metrics_snapshot"
  sp_factor_context :: "factor_decision_context option"
  sp_settlement_gate :: settlement_gate_input
  sp_integrity :: trade_integrity_snapshot
  sp_approved_size :: usd
  sp_approved_fee :: usd
  sp_mode :: report_mode

definition sized_context :: "instant \<Rightarrow> risk_engine \<Rightarrow> sized_pre_trade_input \<Rightarrow> pre_trade_context" where
  "sized_context now en input =
     \<lparr>pc_opportunity = sp_opportunity input,
      pc_probability = \<lparr>pi_calibrated_win_prob = cs_fused_probability (opp_calibration (sp_opportunity input)),
        pi_fill_prob = 1, pi_calibration_confidence = em_confidence (opp_meta (sp_opportunity input)),
        pi_sample_size = cs_sample_size (opp_calibration (sp_opportunity input)), pi_model_staleness_secs = 0,
        pi_expected_slippage_pct = 0, pi_expected_failure_cost_pct = 0\<rparr>,
      pc_snap = en_risk_snapshot en, pc_metrics = sp_metrics input (opp_market_id (sp_opportunity input)),
      pc_factor_context = sp_factor_context input, pc_settlement_gate = sp_settlement_gate input,
      pc_integrity = sp_integrity input, pc_now = now,
      pc_sized_intent = Some \<lparr>si_bet_usd = sp_approved_size input, si_fee_usd = sp_approved_fee input\<rparr>\<rparr>"

definition pre_trade_check_sized ::
  "'z decimal_ops_scheme \<Rightarrow> 'p risk_env \<Rightarrow> timings \<Rightarrow> instant \<Rightarrow> risk_engine \<Rightarrow> sized_pre_trade_input \<Rightarrow> 'p \<Rightarrow>
   risk_decision \<times> 'p" where
  "pre_trade_check_sized D env tg now en input p =
     (let version = en_state_version en;
          ctx = sized_context now en input;
          gate_report = evaluate_sized_gates (tg_check tg) (tg_phase1 tg) D (ep_pipeline (en_params en)) ctx (sp_mode input);
          allowed = (\<not> pr_has_failed_hard_gate gate_report);
          denial = (if pr_has_failed_hard_gate gate_report then first_denial (pr_results gate_report) else None);
          trace = \<lparr>td_check_results = pr_results gate_report, td_sizing_breakdown = None,
            td_state_version = version, td_total_elapsed_us = tg_total tg, td_evaluated_at = now\<rparr>;
          decision = \<lparr>dn_allowed = allowed, dn_denial_reason = denial, dn_recommended_size = None,
            dn_drawdown_factor = ctx_drawdown_factor D ctx, dn_evaluated_at = now, dn_state_version = version,
            dn_trace = trace\<rparr>
      in (decision, enqueue_pre_trade_audit env en allowed trace (opp_opportunity_id (sp_opportunity input))
                      (opp_market_id (sp_opportunity input)) (sp_mode input) p))"

definition available_bankroll_for_sizing :: "'z decimal_ops_scheme \<Rightarrow> risk_engine \<Rightarrow> risk_metrics \<Rightarrow> usd" where
  "available_bankroll_for_sizing D en metrics =
     (let config = ep_config (en_params en)
      in available_bankroll D (mt_equity metrics) (rc_reserve_balance_usd config) (mt_reserved_usd metrics)
           (rs_total_potential_loss (en_risk_snapshot en)) (rc_bankroll_usd config))"

section \<open>What a decision depends on\<close>

definition full_context ::
  "instant \<Rightarrow> risk_engine \<Rightarrow> opportunity \<Rightarrow> probability_input \<Rightarrow> (ident \<Rightarrow> risk_metrics_snapshot) \<Rightarrow>
   factor_decision_context option \<Rightarrow> admission_gate_input \<Rightarrow> pre_trade_context" where
  "full_context now en opp probability metrics factor_context admission =
     (phase1_context now en opp probability factor_context admission)\<lparr>pc_metrics := metrics (opp_market_id opp)\<rparr>"

definition verdict_of :: "(risk_decision \<times> 'p) option \<Rightarrow> (bool \<times> message option \<times> size_result option) option" where
  "verdict_of = map_option (\<lambda>(d, p). (dn_allowed d, dn_denial_reason d, dn_recommended_size d))"

text \<open>The decision without phases, modes and timings: all gates on the live metrics, then the sizer.\<close>

definition ref_verdict ::
  "'z decimal_ops_scheme \<Rightarrow> engine_params \<Rightarrow> pre_trade_context \<Rightarrow> (bool \<times> message option \<times> size_result option) option" where
  "ref_verdict D params ctx =
     (if \<exists>c \<in> set (check_refs_in_order D (ep_pipeline params)). \<not> passes ctx c
      then Some (False, first_denial (map (\<lambda>c. ck_evaluate c ctx) (check_refs_in_order D (ep_pipeline params))), None)
      else map_option (\<lambda>(a, d, r, _). (a, d, r)) (sized_verdict D params ctx))"

lemma first_denial_Cons:
  "first_denial (r # rs) =
     (if cr_passed r then first_denial rs
      else Some (Lit (check_id_str (cr_check_id r)) # Lit '': '' #
                   (case cr_detail r of Some d \<Rightarrow> d | None \<Rightarrow> [Lit ''failed''])))"
  by (simp add: first_denial_def)

lemma first_denial_executed:
  "first_denial (map (result_of tm ctx) (executed mode ctx cs)) = first_denial (map (\<lambda>c. ck_evaluate c ctx) cs)"
proof -
  have all: "first_denial (map (result_of tm ctx) cs) = first_denial (map (\<lambda>c. ck_evaluate c ctx) cs)" for cs
    by (induction cs) (simp_all add: first_denial_Cons result_of_def)
  have "first_denial (map (result_of tm ctx) (executed mode ctx cs)) = first_denial (map (result_of tm ctx) cs)"
    by (induction mode ctx cs rule: executed.induct) (simp_all add: first_denial_Cons)
  then show ?thesis by (simp add: all)
qed

lemma phased_report_ctx:
  "\<not> pr_has_failed_hard_gate (fst (phased_report tm e1 e2 cs c1 m mode)) \<Longrightarrow>
   snd (phased_report tm e1 e2 cs c1 m mode) = c1\<lparr>pc_metrics := m\<rparr>"
  by (auto simp: phased_report_def Let_def merge_report_def split: if_splits)

lemma core_verdict:
  "verdict_of (pre_trade_check_core D env tg now en opp prob metrics fc adm mode p)
     = ref_verdict D (en_params en) (full_context now en opp prob metrics fc adm)"
proof -
  let ?c1 = "phase1_context now en opp prob fc adm" and ?m = "metrics (opp_market_id opp)"
  let ?gs = "check_refs_in_order D (ep_pipeline (en_params en))"
  let ?ph = "phased_report (tg_check tg) (tg_phase1 tg) (tg_phase2 tg) ?gs ?c1 ?m mode"
  let ?ctx = "full_context now en opp prob metrics fc adm"
  have ctx: "?ctx = ?c1\<lparr>pc_metrics := ?m\<rparr>" by (simp add: full_context_def)
  note parts = phased_report_parts [OF ctx refl, of "tg_check tg" "tg_phase1 tg" "tg_phase2 tg" D
      "ep_pipeline (en_params en)" mode]
  obtain r c where ph: "?ph = (r, c)" by (cases ?ph)
  have "verdict_of (pre_trade_check_core D env tg now en opp prob metrics fc adm mode p)
      = map_option (\<lambda>(a, d, s, _). (a, d, s)) (gate_verdict D (en_params en) r c)"
    by (simp add: pre_trade_check_core_def ph verdict_of_def Let_def split: option.split)
  moreover have "gate_verdict D (en_params en) r c =
      (if \<exists>g \<in> set ?gs. \<not> passes ?ctx g
       then Some (False, first_denial (map (\<lambda>g. ck_evaluate g ?ctx) ?gs), None, None)
       else sized_verdict D (en_params en) ?ctx)"
    using parts ph phased_report_ctx [of "tg_check tg" "tg_phase1 tg" "tg_phase2 tg" ?gs ?c1 ?m mode]
    by (simp add: gate_verdict_def first_denial_executed ctx)
  ultimately show ?thesis by (simp add: ref_verdict_def)
qed


lemma core_allowed:
  assumes "pre_trade_check_core D env tg now en opp prob metrics fc adm mode p = Some (d, p')" "dn_allowed d"
    "ctx = full_context now en opp prob metrics fc adm" "en_params en = from_config config"
  shows "(\<forall>c \<in> set (check_refs_in_order D config). passes ctx c)
    \<and> (\<exists>r. dn_recommended_size d = Some r \<and> 0 < sr_bet_usd r \<and> rc_min_trade_usd config \<le> sr_bet_usd r
        \<and> size_bet D (new_sizer config) ctx
            (available_bankroll D (ms_equity (pc_metrics ctx)) (rc_reserve_balance_usd config)
              (ms_reserved_usd (pc_metrics ctx)) (ctx_total_potential_loss ctx) (rc_bankroll_usd config))
            (ctx_drawdown_factor D ctx) = Some r)"
proof -
  have v: "ref_verdict D (from_config config) ctx = Some (True, dn_denial_reason d, dn_recommended_size d)"
    using core_verdict [of D env tg now en opp prob metrics fc adm mode p] assms by (simp add: verdict_of_def)
  then have g: "\<forall>c \<in> set (check_refs_in_order D config). passes ctx c"
    by (auto simp: ref_verdict_def from_config_def split: if_splits)
  with v have "map_option (\<lambda>(a, d, r, _). (a, d, r)) (sized_verdict D (from_config config) ctx)
      = Some (True, dn_denial_reason d, dn_recommended_size d)"
    by (simp add: ref_verdict_def from_config_def)
  then show ?thesis
    using g by (auto simp: sized_verdict_def from_config_def Let_def split: option.splits if_splits)
qed

lemma all_gates_passed:
  assumes "\<forall>c \<in> set (check_refs_in_order D config). passes ctx c"
  shows "manual_allows_trading (ctx_manual_halt ctx)" "cg_allows_trading (ctx_circuit_breaker ctx)"
    "is_market_blacklisted_trading_path ctx = None" "\<not> ctx_is_token_blacklisted ctx"
    "\<not> blocks_admission (pc_integrity ctx) (sg_mode (pc_settlement_gate ctx))"
    "ms_is_authoritative (pc_metrics ctx)" "\<not> ms_is_stale (pc_metrics ctx)"
    "ms_metrics_age_secs (pc_metrics ctx) \<le> rc_max_metrics_staleness_secs config"
    "das_daily_loss (rs_daily (pc_snap ctx)) < rc_max_daily_loss_usd config"
    "ctx_weekly_loss ctx < rc_max_weekly_loss_usd config"
    "has_hourly_loss (rs_hourly (pc_snap ctx)) < rc_max_hourly_loss_usd config"
    "das_daily_fee (rs_daily (pc_snap ctx)) < rc_max_daily_fee_spend_usd config"
    "has_hourly_fee (rs_hourly (pc_snap ctx)) < rc_max_hourly_fee_spend_usd config"
    "ms_open_position_count (pc_metrics ctx) < rc_max_open_positions config"
    "rc_min_balance_usd config \<le> ms_cash_balance (pc_metrics ctx)"
    "ms_market_exposure (pc_metrics ctx) \<le> 0" "ctx_drawdown_action D ctx \<noteq> Halt"
  using assms by (simp_all add: check_refs_in_order_def passes_def gate_def)

text \<open>C24: An allowed trade is a safe trade. When the check allows a trade, then in the published snapshot the breaker allows
  trading and is not halted, neither the market nor the token is blacklisted, every loss and fee cap has room; the
  metrics are authoritative and fresh, no drawdown halt is due, the market carries no exposure yet and a position is free; and the recommended
  size is positive, at least the minimum trade, and, up to half a cent of rounding, within the single-bet limit, the single-loss limit, the
  head-room of the total exposure and the rest of the daily budget.\<close>

theorem allowed_trade_is_safe:
  assumes "decimal_laws D" "en_params en = from_config config"
    "pre_trade_check_core D env tg now en opp prob metrics fc adm mode p = Some (d, p')" "dn_allowed d"
  shows "let m = metrics (opp_market_id opp); s = en_risk_snapshot en in
    engine_allows_trading en
    \<and> trading_path_block_detail (rs_blacklist s) (opp_market_id opp) = None
    \<and> \<not> is_token_blacklisted (rs_blacklist s) (opp_token_id opp)
    \<and> das_daily_loss (rs_daily s) < rc_max_daily_loss_usd config
    \<and> was_weekly_loss (rs_weekly s) < rc_max_weekly_loss_usd config
    \<and> has_hourly_loss (rs_hourly s) < rc_max_hourly_loss_usd config
    \<and> das_daily_fee (rs_daily s) < rc_max_daily_fee_spend_usd config
    \<and> has_hourly_fee (rs_hourly s) < rc_max_hourly_fee_spend_usd config
    \<and> ms_is_authoritative m \<and> \<not> ms_is_stale m \<and> ms_metrics_age_secs m \<le> rc_max_metrics_staleness_secs config
    \<and> snd (snapshot_evaluate D (rs_drawdown s) (ms_equity m)) \<noteq> Halt
    \<and> ms_market_exposure m \<le> 0 \<and> ms_open_position_count m < rc_max_open_positions config
    \<and> (\<exists>r. dn_recommended_size d = Some r \<and> 0 < sr_bet_usd r \<and> rc_min_trade_usd config \<le> sr_bet_usd r
         \<and> sr_bet_usd r \<le> max (rc_max_single_bet_usd config) 0 + 1 / 200
         \<and> sr_bet_usd r \<le> max (rc_max_single_loss_usd config) 0 + 1 / 200
         \<and> sr_bet_usd r \<le> max (dec_sub D (rc_max_total_exposure_usd config) (ms_total_exposure m)) 0 + 1 / 200
         \<and> sr_bet_usd r \<le> max (das_daily_budget_remaining (rs_daily s)) 0 + 1 / 200)"
proof -
  define ctx where "ctx = full_context now en opp prob metrics fc adm"
  have f: "pc_snap ctx = en_risk_snapshot en" "pc_metrics ctx = metrics (opp_market_id opp)" "pc_opportunity ctx = opp"
    by (simp_all add: ctx_def full_context_def phase1_context_def)
  note a = core_allowed [OF assms(3,4) ctx_def assms(2)]
  then obtain r bankroll where r: "dn_recommended_size d = Some r" "0 < sr_bet_usd r" "rc_min_trade_usd config \<le> sr_bet_usd r"
      "size_bet D (new_sizer config) ctx bankroll (ctx_drawdown_factor D ctx) = Some r" by auto
  note limits = decimal.size_bet_limits [OF decimal.intro [OF assms(1)] r(4)]
  note g = all_gates_passed [OF conjunct1 [OF a]]
  have b: "sr_bet_usd r \<le> max (rc_max_single_bet_usd config) 0 + 1 / 200"
    "sr_bet_usd r \<le> max (rc_max_single_loss_usd config) 0 + 1 / 200"
    "sr_bet_usd r \<le> max (dec_sub D (rc_max_total_exposure_usd config) (ms_total_exposure (pc_metrics ctx))) 0 + 1 / 200"
    "sr_bet_usd r \<le> max (ctx_daily_budget_remaining ctx) 0 + 1 / 200"
    using limits by blast+
  show ?thesis
    unfolding Let_def using g b r(1-3)
    by (simp add: f engine_allows_trading_def ctx_manual_halt_def ctx_circuit_breaker_def
        is_market_blacklisted_trading_path_def ctx_is_token_blacklisted_def ctx_weekly_loss_def
        ctx_drawdown_action_def ctx_daily_budget_remaining_def)
qed

definition demo_engine :: risk_engine where
  "demo_engine = \<lparr>en_circuit_breaker = new_breaker default_circuit_breaker_config 0,
     en_daily = new_daily utc_libs 0 50, en_weekly = new_weekly utc_libs 0, en_hourly = new_hourly utc_libs 0,
     en_potential_loss = new_ledger, en_lifetime_realized = 0, en_params = from_config default_risk_config,
     en_risk_snapshot = demo_snapshot, en_blacklist = new_blacklist 0 default_risk_config,
     en_drawdown = new_drawdown 1000 10 (1 / 2), en_has_audit_sink = False, en_has_publisher = False,
     en_state_version = 0, en_last_emergency = None\<rparr>"

definition demo_timings :: timings where
  "demo_timings = \<lparr>tg_check = (\<lambda>_. 1), tg_phase1 = 10, tg_phase2 = 22, tg_total = 40\<rparr>"

lemma demo_full_context: "full_context 0 demo_engine demo_opp demo_prob (\<lambda>_. demo_metrics) None demo_admission = demo_ctx"
  by (simp add: full_context_def phase1_context_def demo_engine_def demo_ctx_def)

lemma demo_gates: "\<forall>c \<in> set (check_refs_in_order exact_ops default_risk_config). passes demo_ctx c"
  by (simp add: check_refs_in_order_def gate_def passes_def)
     (simp add: gate_defs demo_defs config_defaults exact_ops_def ctx_manual_halt_def ctx_circuit_breaker_def
       is_market_blacklisted_trading_path_def ctx_is_token_blacklisted_def empty_blacklist_snapshot_def
       trading_path_block_detail_def is_token_blacklisted_def intended_cost_usd_def intended_fee_usd_def
       ctx_daily_budget_remaining_def ctx_weekly_loss_def ctx_total_potential_loss_def ctx_ws_disconnect_secs_def
       open_directional_count_same_side_def daily_directional_trades_same_side_def ctx_drawdown_action_def
       snapshot_evaluate_def snapshot_guard_def drawdown_from_snapshot_def evaluate_drawdown_def staleness_order Let_def)

lemma demo_verdict:
  "\<exists>r. ref_verdict exact_ops (from_config default_risk_config) demo_ctx = Some (True, None, Some r) \<and> sr_bet_usd r = 25"
proof -
  have "available_bankroll exact_ops (ms_equity (pc_metrics demo_ctx)) (rc_reserve_balance_usd default_risk_config)
      (ms_reserved_usd (pc_metrics demo_ctx)) (ctx_total_potential_loss demo_ctx) (rc_bankroll_usd default_risk_config) = 900"
    "ctx_drawdown_factor exact_ops demo_ctx = 1"
    by (simp_all add: available_bankroll_def demo_defs config_defaults exact_ops_def ctx_total_potential_loss_def
        ctx_drawdown_factor_def snapshot_sizing_factor_def sizing_factor_def snapshot_guard_def
        drawdown_from_snapshot_def evaluate_drawdown_def Let_def)
  moreover obtain r where r: "size_bet exact_ops (new_sizer default_risk_config) demo_ctx 900 1 = Some r" "sr_bet_usd r = 25"
    using demo_size by blast
  moreover have "rc_min_trade_usd default_risk_config = 1" by (simp add: config_defaults)
  ultimately have "sized_verdict exact_ops (from_config default_risk_config) demo_ctx = Some (True, None, Some r, None)"
    by (simp add: sized_verdict_def from_config_def)
  moreover have "ep_pipeline (from_config default_risk_config) = default_risk_config" by (simp add: from_config_def)
  ultimately show ?thesis using demo_gates r(2) by (simp add: ref_verdict_def)
qed

theorem allowed_trade_is_safe_witness:
  "\<exists>d. pre_trade_check_core exact_ops noop_env demo_timings 0 demo_engine demo_opp demo_prob (\<lambda>_. demo_metrics) None
        demo_admission ShortCircuit () = Some (d, ()) \<and> dn_allowed d \<and> engine_allows_trading demo_engine"
proof -
  let ?r = "pre_trade_check_core exact_ops noop_env demo_timings 0 demo_engine demo_opp demo_prob (\<lambda>_. demo_metrics) None
        demo_admission ShortCircuit ()"
  have params: "en_params demo_engine = from_config default_risk_config" by (simp add: demo_engine_def)
  obtain r where "verdict_of ?r = Some (True, None, Some r)"
    using demo_verdict core_verdict [of exact_ops noop_env demo_timings 0 demo_engine demo_opp demo_prob
        "\<lambda>_. demo_metrics" None demo_admission ShortCircuit "()"]
    by (auto simp: params demo_full_context)
  then obtain d where d: "?r = Some (d, ())" "dn_allowed d" by (auto simp: verdict_of_def)
  from allowed_trade_is_safe [OF exact_ops_laws params d] d show ?thesis unfolding Let_def by blast
qed

text \<open>C26: The second check bounds the sized bet exactly. Once the bet and its fee are known, the check passes exactly if the bet
  fits the rest of the daily budget, the single-bet limit, the exposure limits per market, in total and as a share of the cash, and the
  open potential loss including the bet and its fee stays within the cash balance.\<close>

theorem sized_check_exact:
  "dn_allowed (fst (pre_trade_check_sized D env tg now en input p)) \<longleftrightarrow>
   (let config = ep_pipeline (en_params en); m = sp_metrics input (opp_market_id (sp_opportunity input));
        s = en_risk_snapshot en; bet = sp_approved_size input
    in bet \<le> das_daily_budget_remaining (rs_daily s)
     \<and> bet \<le> rc_max_single_bet_usd config
     \<and> dec_add D (ms_market_exposure m) bet \<le> rc_max_single_market_exposure_usd config
     \<and> dec_add D (ms_total_exposure m) bet \<le> rc_max_total_exposure_usd config
     \<and> 0 < ms_cash_balance m
     \<and> dec_mul D (dec_div D (dec_add D (ms_total_exposure m) bet) (ms_cash_balance m)) 100 \<le> rc_max_total_exposure_pct config
     \<and> dec_add D (dec_add D (rs_total_potential_loss s) bet) (sp_approved_fee input) \<le> ms_cash_balance m)"
proof -
  have pct: "cr_passed (exposure_pct_check D config ctx) \<longleftrightarrow> 0 < ms_cash_balance (pc_metrics ctx)
      \<and> dec_mul D (dec_div D (dec_add D (ms_total_exposure (pc_metrics ctx)) (intended_cost_usd ctx))
            (ms_cash_balance (pc_metrics ctx))) 100 \<le> rc_max_total_exposure_pct config" for config ctx
    by (auto simp: exposure_pct_check_def Let_def not_le)
  show ?thesis
    by (simp add: pre_trade_check_sized_def evaluate_sized_eq ref_report_def sized_gate_refs_def gate_def passes_def pct
        sized_context_def intended_cost_usd_def intended_fee_usd_def ctx_daily_budget_remaining_def
        ctx_total_potential_loss_def Let_def) blast
qed

text \<open>A trade that sizing turns down leaves no reason in the audit row: the row lists failed gates only, and all passed.\<close>

lemma sizing_denial_has_no_audit_reason:
  assumes "pre_trade_check_core D env tg now en opp prob metrics fc adm mode p = Some (d, p')"
    "\<forall>c \<in> set (check_refs_in_order D (ep_pipeline (en_params en))). passes (full_context now en opp prob metrics fc adm) c"
  shows "ac_rejection_reason (columns_of_event (TradeDenied (dn_trace d) i j)) = None"
proof -
  let ?ctx = "full_context now en opp prob metrics fc adm" and ?gs = "check_refs_in_order D (ep_pipeline (en_params en))"
  have ctx: "?ctx = (phase1_context now en opp prob fc adm)\<lparr>pc_metrics := metrics (opp_market_id opp)\<rparr>"
    by (simp add: full_context_def)
  obtain r c where ph: "phased_report (tg_check tg) (tg_phase1 tg) (tg_phase2 tg) ?gs
      (phase1_context now en opp prob fc adm) (metrics (opp_market_id opp)) mode = (r, c)" by fastforce
  have "pr_results r = map (result_of (tg_check tg) ?ctx) ?gs"
    using phased_report_parts [OF ctx refl, of "tg_check tg" "tg_phase1 tg" "tg_phase2 tg" D "ep_pipeline (en_params en)" mode]
      ph executed_pass [OF assms(2)] by simp
  moreover have "td_check_results (dn_trace d) = pr_results r"
    using assms(1) by (auto simp: pre_trade_check_core_def ph Let_def split: option.splits)
  ultimately have "filter (\<lambda>check. \<not> cr_passed check) (td_check_results (dn_trace d)) = []"
    using assms(2) by (simp add: filter_empty_conv)
  then show ?thesis by (simp add: denial_reason_def bare_def)
qed

end
