(* ===== verification/Engine_Properties.thy ===== *)
theory Engine_Properties
  imports Fill_Markers Pre_Trade
begin

text \<open>
  The properties of the engine's operations (\<open>oxide-arb-risk/src/engine.rs\<close>) over \<^emph>\<open>Engine_Safety\<close>: errors halt, halts persist,
  the published snapshot is sound, loss caps stop trading, a failed commit is undone, and a fill is accounted once.
\<close>

section \<open>Runs\<close>

lemma run_sound:
  "engine_run L env s ops s' \<Longrightarrow> published_sound (fst s) \<Longrightarrow> published_sound (fst s')"
proof (induction rule: engine_run.induct)
  case (engine_run_cons now op s r s1 ops s2)
  then have "published_sound (fst s1)"
    using step_safe(1) [of L env now op "fst s" "snd s" r "fst s1" "snd s1"] by simp
  then show ?case
    by (rule engine_run_cons.IH)
qed

lemma run_keeps_halt:
  "engine_run L env s ops s' \<Longrightarrow> \<forall>(t, op) \<in> set ops. \<not> op_by_operator op \<Longrightarrow>
   keeps_halt (en_circuit_breaker (fst s)) (en_circuit_breaker (fst s'))"
proof (induction rule: engine_run.induct)
  case (engine_run_cons now op s r s1 ops s2)
  then have "keeps_halt (en_circuit_breaker (fst s)) (en_circuit_breaker (fst s1))"
    using step_safe(2) [of L env now op "fst s" "snd s" r "fst s1" "snd s1"] by simp
  then show ?case
    using engine_run_cons by (auto intro: keeps_halt_trans)
qed simp

section \<open>A store that fails\<close>

definition store_down :: oxide_error where
  "store_down = Storage ''connection refused''"

definition failing_env :: "'p risk_env" where
  "failing_env = noop_env\<lparr>ev_upsert_state := \<lambda>_ p. (Inl store_down, p), ev_commit_fill := \<lambda>_ p. (Inl store_down, p),
     ev_find_stale := \<lambda>_ p. (Inl store_down, p)\<rparr>"

definition live_engine :: risk_engine where
  "live_engine = publish_risk_snapshot 0 demo_engine"

text \<open>C1: An operation that returns an error leaves the engine halted. Whatever step of whatever operation fails (a marker, a commit, a state row, an audit
  row, a blacklist row, a report), the breaker is halted afterwards and the published snapshot denies trading. The one
  exception is a tick whose lookup of stale entries fails.\<close>

theorem engine_errors_halt:
  assumes "engine_step L env now op (en, p) = (Some e, en', p')" and "\<not> stale_lookup_fails env op en p"
  shows "is_halted (cb_state (en_circuit_breaker en')) \<and> \<not> engine_allows_trading en'"
  using step_safe(3) [OF assms(1)] assms(2) by simp

theorem engine_errors_halt_witness:
  "engine_allows_trading live_engine \<and>
   (case engine_step utc_libs failing_env 0 (OpResolveLoss ''t1'' demo_live_metrics) (live_engine, ()) of
      (err, en', p') \<Rightarrow> err = Some store_down \<and> is_halted (cb_state (en_circuit_breaker en')) \<and> \<not> engine_allows_trading en')"
proof -
  obtain err en' p' where s: "engine_step utc_libs failing_env 0 (OpResolveLoss ''t1'' demo_live_metrics) (live_engine, ()) = (err, en', p')"
    by (metis surj_pair)
  then have e: "err = Some store_down"
    by (auto simp: resolve_potential_loss_def failing_env_def Let_def)
  have "engine_allows_trading live_engine"
    by (simp add: live_engine_def demo_engine_def new_breaker_def)
  then show ?thesis
    using engine_errors_halt [OF s [unfolded e]] e unfolding s by simp
qed

text \<open>The exception: the tick returns the error and the engine goes on trading.\<close>

lemma stale_lookup_error_keeps_trading:
  "case engine_tick utc_libs failing_env 0 demo_live_metrics live_engine () of
     (r, en', p') \<Rightarrow> r = Inl store_down \<and> engine_allows_trading en'"
proof -
  obtain f en1 where 1: "tick_state utc_libs 0 live_engine = (f, en1)"
    by (metis surj_pair)
  have "engine_allows_trading live_engine"
    by (simp add: live_engine_def demo_engine_def new_breaker_def)
  then have "engine_allows_trading en1"
    using allows_trading_cong [OF tick_state_frame(2) [OF 1]] by simp
  then show ?thesis
    by (cases f) (simp add: engine_tick_def 1 failing_env_def Let_def)
qed

text \<open>C2: A halt persists through every operation of the engine that is not an operator's. After any sequence of trade results,
  ticks, reconciliations, blacklist commands, reloads, execution events and failed writes, a halted engine is still halted, at a level at least as
  severe, and denies trading if its snapshot was sound before.\<close>

theorem engine_halt_persists:
  assumes "engine_run L env (en, p) ops (en', p')" "\<forall>(t, op) \<in> set ops. \<not> op_by_operator op"
    and "halt_level (cb_state (en_circuit_breaker en)) = Some l" "published_sound en"
  shows "(\<exists>l'. halt_level (cb_state (en_circuit_breaker en')) = Some l' \<and> l \<le> l') \<and> \<not> engine_allows_trading en'"
proof -
  have "\<exists>l'. halt_level (cb_state (en_circuit_breaker en')) = Some l' \<and> l \<le> l'"
    using run_keeps_halt [OF assms(1)] assms(2,3) by (simp add: keeps_halt_def)
  then show ?thesis
    using run_sound [OF assms(1)] assms(4) halted_no_trading by (auto simp: published_sound_def)
qed

theorem engine_halt_persists_witness:
  "\<exists>en'. engine_run utc_libs noop_env (halt_internal 0 [] live_engine, ()) [(1, OpReload default_risk_config)] (en', ())
    \<and> \<not> engine_allows_trading en'"
proof -
  let ?en = "halt_internal 0 [] live_engine"
  let ?op = "(1, OpReload default_risk_config)"
  obtain en' where s: "engine_step utc_libs noop_env 1 (OpReload default_risk_config) (?en, ()) = (None, en', ())"
    by simp
  then have r: "engine_run utc_libs noop_env (?en, ()) [?op] (en', ())"
    by (auto intro: engine_run_cons engine_run_nil)
  have l: "halt_level (cb_state (en_circuit_breaker ?en)) = Some System"
    by (simp add: live_engine_def demo_engine_def new_breaker_def halt_def)
  have "\<not> engine_allows_trading en'"
    using engine_halt_persists [OF r _ l] by simp
  with r show ?thesis
    by blast
qed

section \<open>Loss caps\<close>

lemma halt_reaches: "\<exists>l'. halt_level (cb_state (halt now l r cb)) = Some l' \<and> l \<le> l'"
  by (cases "cb_state cb") (auto simp: halt_def not_less)

definition halted_at_least :: "circuit_breaker_level \<Rightarrow> circuit_breaker \<Rightarrow> bool" where
  "halted_at_least l cb \<longleftrightarrow> (\<exists>l'. halt_level (cb_state cb) = Some l' \<and> l \<le> l')"

lemma halted_at_least_keep: "halted_at_least l cb \<Longrightarrow> keeps_halt cb cb' \<Longrightarrow> halted_at_least l cb'"
  by (fastforce simp: halted_at_least_def keeps_halt_def intro: order_trans)

lemma halted_at_least_halt [simp]: "halted_at_least l (halt now l r cb)"
  using halt_reaches by (simp add: halted_at_least_def)

lemma level_le_System [simp]: "(l :: circuit_breaker_level) \<le> System"
  by (cases l) (simp_all add: less_eq_circuit_breaker_level_def)

lemma halted_at_least_System [simp]: "halted_at_least l (halt now System r cb)"
  using halted_at_least_halt [of System now r cb] by (auto simp: halted_at_least_def intro: order_trans [OF level_le_System])

lemma halted_at_least_denies: "halted_at_least l cb \<Longrightarrow> \<not> allows_trading (cb_state cb)"
  using halted_no_trading by (auto simp: halted_at_least_def)

definition no_trading :: "circuit_breaker \<Rightarrow> bool" where
  "no_trading cb \<longleftrightarrow> \<not> allows_trading (cb_state cb)"

lemma no_trading_trip [simp]: "no_trading (trip L now l r cb)"
  by (cases "cb_state cb") (auto simp: no_trading_def trip_def Let_def)

lemma no_trading_halt [simp]: "no_trading (halt now l r cb)"
  by (simp add: no_trading_def)

lemma halt_if_effect [simp]:
  "halted_at_least l (snd s) \<Longrightarrow> halted_at_least l (snd (halt_if now c l2 r s))"
  "c \<Longrightarrow> halted_at_least l (snd (halt_if now c l r s))"
  "no_trading (snd s) \<Longrightarrow> no_trading (snd (halt_if now c l2 r s))"
  by (auto simp: halt_if_def intro: halted_at_least_keep)

lemma trip_if_effect [simp]:
  "halted_at_least l (snd s) \<Longrightarrow> halted_at_least l (snd (trip_if L now c r s))"
  "no_trading (snd s) \<or> c \<Longrightarrow> no_trading (snd (trip_if L now c r s))"
  by (auto simp: trip_if_def intro: halted_at_least_keep)

definition caps_enforced :: "risk_config \<Rightarrow> risk_engine \<Rightarrow> bool" where
  "caps_enforced config en \<longleftrightarrow>
     (let cb = en_circuit_breaker en; daily = da_stats (en_daily en) in
        (ps_loss daily \<ge> rc_max_daily_loss_usd config \<longrightarrow> halted_at_least Daily cb)
      \<and> (ps_loss (wa_stats (en_weekly en)) \<ge> rc_max_weekly_loss_usd config \<longrightarrow> halted_at_least System cb)
      \<and> (ps_max_single_loss daily \<ge> rc_max_single_loss_usd config \<longrightarrow> halted_at_least Daily cb)
      \<and> (ps_fees daily \<ge> rc_max_daily_fee_spend_usd config \<longrightarrow> halted_at_least Daily cb)
      \<and> (ps_loss (ha_stats (en_hourly en)) \<ge> rc_max_hourly_loss_usd config \<longrightarrow> no_trading cb))"

lemma check_loss_caps_effect: "caps_enforced (ep_config (en_params en)) (snd (check_loss_caps L now en))"
  by (simp add: caps_enforced_def check_loss_caps_def Let_def)

lemma common_checks_no_trading:
  assumes "no_trading (en_circuit_breaker en)"
  shows "no_trading (en_circuit_breaker (snd (apply_common_checks L now trade metrics en)))"
proof -
  have "\<not> is_probe_mode (cb_state (en_circuit_breaker en))"
    using assms by (cases "cb_state (en_circuit_breaker en)") (auto simp: no_trading_def)
  then show ?thesis
    using assms by (simp add: apply_common_checks_def Let_def)
qed

lemma caps_enforced_mono:
  assumes "caps_enforced config en" "en_daily en' = en_daily en" "en_weekly en' = en_weekly en" "en_hourly en' = en_hourly en"
    "keeps_halt (en_circuit_breaker en) (en_circuit_breaker en')"
    "no_trading (en_circuit_breaker en) \<longrightarrow> no_trading (en_circuit_breaker en')"
  shows "caps_enforced config en'"
  using assms unfolding caps_enforced_def Let_def by (metis halted_at_least_keep)

lemma caps_enforced_halted: "halted_at_least System (en_circuit_breaker en) \<Longrightarrow> caps_enforced config en"
  using halted_at_least_denies [of System "en_circuit_breaker en"]
  by (auto simp: caps_enforced_def Let_def halted_at_least_def no_trading_def intro: order_trans [OF level_le_System])

lemma settlement_caps:
  assumes "on_settlement L env now trade metrics en p = (r, en', p')"
  shows "caps_enforced (ep_config (en_params en)) en' \<and> published_sound en'"
  using assms
proof (cases rule: on_settlement_cases)
  case unresolved
  then show ?thesis
    by (simp add: caps_enforced_halted)
next
  case (applied report en1 x)
  let ?c = "ep_config (en_params en)"
  let ?e1 = "phase_blacklist L now trade metrics (phase_engine L now Settlement trade en)"
  have en1: "en1 = publish_risk_snapshot now (increment_version (snd (apply_common_checks L now trade metrics ?e1)))"
    using applied(1) apply_trade_result_shape [of L now Settlement trade metrics en] by simp
  have "caps_enforced ?c ?e1"
    using check_loss_caps_effect [of "snd (apply_settlement L now trade en)" L now]
    by (simp add: phase_engine_def caps_enforced_def)
  then have "caps_enforced ?c (snd (apply_common_checks L now trade metrics ?e1))"
    using apply_common_checks_keeps [of ?e1 L now trade metrics] common_checks_no_trading [of ?e1 L now trade metrics]
    by (auto intro: caps_enforced_mono)
  then have caps: "caps_enforced ?c (en1\<lparr>en_last_emergency := x\<rparr>)"
    by (simp add: en1 caps_enforced_def)
  show ?thesis
  proof (cases "isl r")
    case True
    then obtain reason where "en' = halt_internal now reason (en1\<lparr>en_last_emergency := x\<rparr>)"
      using applied(2) by (auto simp: halts_on_error_def)
    then show ?thesis
      by (simp add: caps_enforced_halted)
  next
    case False
    then show ?thesis
      using applied(2) caps apply_trade_result_safe [OF applied(1)] by (simp add: halts_on_error_def)
  qed
qed


definition demo_loss :: post_trade_input where
  "demo_loss = \<lparr>pt_trade_id = ''t1'', pt_market_id = ''m1'', pt_token_id = ''k1'', pt_side = Buy, pt_outcome = Success,
     pt_cost_usd = 200, pt_fee_usd = 1, pt_net_profit_usd = Some (- 200), pt_shares = 400, pt_entry_price = 1 / 2\<rparr>"

lemma noop_persist [simp]:
  "persist_settlement_potential_loss noop_env now trade en p = (Inr (), en, p)"
  "persist_and_audit noop_env now snapshot audit en p = (Inr (), en, p)"
  by (simp_all add: persist_settlement_potential_loss_def persist_and_audit_def noop_env_def)

lemma finish_ok:
  assumes f: "finish_trade_result L env now report entry previous metrics en p = (r, en', p')"
    and u: "\<forall>x q. fst (ev_upsert_blacklist env x q) = Inr ()"
  shows "r = Inr (Some report)"
proof -
  obtain en1 p1 where 1: "(case pp_breaker_tripped report of None \<Rightarrow> (en, p)
      | Some level \<Rightarrow> announce_trip L env now level previous metrics en p) = (en1, p1)"
    by (metis surj_pair)
  obtain p2 where 2: "(case entry of None \<Rightarrow> (Inr (), p1) | Some e \<Rightarrow> ev_upsert_blacklist env (upsert_of_entry e) p1) = (Inr (), p2)"
    using u by (cases entry) (auto, metis prod.collapse)
  show ?thesis
    using f by (simp add: finish_trade_result_def persist_post_trade_followups_def 1 2 Let_def)
qed

lemma noop_upsert_blacklist: "\<forall>x q. fst (ev_upsert_blacklist noop_env x q) = Inr ()"
  by (simp add: noop_env_def)

lemma noop_settlement_ok:
  assumes "on_settlement L noop_env now trade metrics en p = (r, en', p')"
  shows "\<not> isl r"
proof -
  obtain report audit entry en1 where 1: "apply_trade_result L now Settlement trade metrics en = ((report, audit, entry), en1)"
    by (metis surj_pair)
  show ?thesis
    using assms by (auto simp: on_settlement_def 1 Let_def dest: finish_ok [OF _ noop_upsert_blacklist])
qed

lemma settlement_daily:
  "en_daily (snd (apply_settlement L now trade en)) =
     fst (daily_record_trade L now (case pt_net_profit_usd trade of None \<Rightarrow> 0 | Some v \<Rightarrow> v) 0 0 (pt_outcome trade) (en_daily en))"
  by (simp add: apply_settlement_def Let_def case_prod_beta)

lemma noop_settlement_daily:
  assumes "on_settlement L noop_env now trade metrics en p = (r, en', p')"
  shows "en_daily en' = en_daily (snd (apply_settlement L now trade en))"
  using assms
proof (cases rule: on_settlement_cases)
  case unresolved
  then show ?thesis
    using noop_settlement_ok [OF assms] by simp
next
  case (applied report en1 x)
  then have "en_daily en' = en_daily en1"
    using noop_settlement_ok [OF assms] by (simp add: halts_on_error_def)
  then show ?thesis
    using applied(1) apply_trade_result_shape [of L now Settlement trade metrics en] by (simp add: phase_engine_def)
qed


section \<open>Failed and replayed fills\<close>

lemma lifetime_frame:
  "en_lifetime_realized (increment_version en) = en_lifetime_realized en"
  "en_lifetime_realized (snd (apply_fill L now trade en)) = en_lifetime_realized en"
  "en_lifetime_realized (phase_blacklist L now trade metrics en) = en_lifetime_realized en"
  "en_lifetime_realized (snd (apply_common_checks L now trade metrics en)) = en_lifetime_realized en"
  by (simp_all add: apply_common_checks_def phase_blacklist_def increment_version_def apply_fill_def Let_def
      split: prod.splits)

lemma fill_result_frame:
  assumes "apply_trade_result L now Fill trade metrics en = (x, en')"
  shows "en_params en' = en_params en" "en_lifetime_realized en' = en_lifetime_realized en"
proof -
  have "en' = publish_risk_snapshot now (increment_version
     (snd (apply_common_checks L now trade metrics (phase_blacklist L now trade metrics (snd (apply_fill L now trade en))))))"
    using assms apply_trade_result_shape [of L now Fill trade metrics en] by (simp add: phase_engine_def)
  then show "en_params en' = en_params en" "en_lifetime_realized en' = en_lifetime_realized en"
    by (simp_all add: lifetime_frame)
qed


definition demo_fill :: post_trade_input where
  "demo_fill = demo_loss\<lparr>pt_net_profit_usd := None\<rparr>"


text \<open>C5: A fill is accounted once. Once a fill has been processed, a later delivery of the same trade, whatever operations came in
  between and whatever the second message says, changes nothing in the engine and is reported as a replay. The store is assumed to keep
  the marker of a committed fill and to answer a claim of a marked trade with \<open>AlreadyApplied\<close>.\<close>

theorem fill_accounted_once:
  assumes "fill_markers env applied"
    and "engine_on_trade_result L env t1 Fill trade metrics en p = ((Inr (Some report), en1, p1), metrics1)"
    and "engine_run L env (en1, p1) ops (en2, p2)" and "pt_trade_id trade' = pt_trade_id trade"
  shows "\<exists>p3. engine_on_trade_result L env t2 Fill trade' metrics2 en2 p2 = ((Inr None, en2, p3), metrics2)"
proof -
  have "pt_trade_id trade \<in> applied p1"
    using committed_fill_marked [OF assms(1)] assms(2) by (simp add: engine_on_trade_result_def)
  then have "pt_trade_id trade' \<in> applied p2"
    using run_marked [OF assms(3,1)] assms(4) by simp
  from marked_fill_ignored [OF assms(1) this] show ?thesis
    by (simp add: engine_on_trade_result_def)
qed

lemma marker_fill_ok:
  assumes "pt_trade_id trade \<notin> set p"
  shows "\<exists>report en' p' metrics'. engine_on_trade_result L marker_env now Fill trade metrics en p = ((Inr (Some report), en', p'), metrics')"
proof -
  obtain r en' p' metrics' where f: "on_fill L marker_env now trade metrics en p = ((r, en', p'), metrics')"
    by (metis surj_pair)
  have ok: "\<forall>x q. fst (ev_upsert_blacklist marker_env x q) = Inr ()"
    by (simp add: marker_env_def noop_env_def)
  have c: "fst (ev_commit_fill marker_env c q) = Inr ()" for c q
    by (simp add: marker_env_def)
  have b: "ev_begin_fill marker_env (pt_trade_id trade) now p = (Inr Claimed, p)"
    using assms by (simp add: marker_env_def)
  from f have "\<exists>report. r = Inr (Some report)"
  proof (cases rule: on_fill_cases)
    case (committed p1 c p2 report audit entry en1)
    then show ?thesis
      using finish_ok [OF committed(5) ok] by blast
  next
    case (uncommitted p1 k)
    then show ?thesis
      using c by (metis fst_conv sum.distinct(1))
  qed (use b in simp_all)
  then show ?thesis
    using f by (auto simp: engine_on_trade_result_def)
qed

theorem fill_accounted_once_witness:
  "\<exists>report en1 p1 metrics1. engine_on_trade_result utc_libs marker_env 0 Fill demo_fill demo_live_metrics live_engine [] =
       ((Inr (Some report), en1, p1), metrics1)
     \<and> (\<exists>p3. engine_on_trade_result utc_libs marker_env 9 Fill demo_loss demo_live_metrics en1 p1 =
              ((Inr None, en1, p3), demo_live_metrics))"
proof -
  obtain report en1 p1 metrics1 where
    1: "engine_on_trade_result utc_libs marker_env 0 Fill demo_fill demo_live_metrics live_engine [] =
       ((Inr (Some report), en1, p1), metrics1)"
    using marker_fill_ok [of demo_fill "[]"] by (metis list.set(1) empty_iff)
  have "engine_run utc_libs marker_env (en1, p1) [] (en1, p1)" "pt_trade_id demo_loss = pt_trade_id demo_fill"
    by (simp_all add: demo_fill_def)
  from fill_accounted_once [OF marker_env_markers 1 this] 1 show ?thesis
    by blast
qed

end
