(* ===== verification/Recovery.thy ===== *)
theory Recovery
  imports Engine_Properties
begin

text \<open>
  Start-up: \<open>oxide-arb-risk/src/state_store.rs\<close> (\<open>recover_state\<close>) and \<open>builder.rs\<close> (\<open>build\<close> and the safe start). The
  lemmas show exactly when recovery fails, what a restart keeps of the persisted state, that it
  never loosens the breaker, and that the invariants of the engine hold in every engine that was built.
\<close>

section \<open>recover_state\<close>

record recovered_state =
  rv_breaker :: circuit_breaker
  rv_daily :: daily_accounting
  rv_weekly :: weekly_accounting
  rv_hourly :: hourly_accounting
  rv_potential_loss :: potential_loss_ledger
  rv_blacklist_entries :: "blacklist_info list"
  rv_drawdown_hwm :: usd
  rv_state_version :: u64

definition recover_daily :: "'z libs_scheme \<Rightarrow> risk_config \<Rightarrow> risk_engine_state \<Rightarrow> daily_accounting" where
  "recover_daily L config s = daily_from_snapshot L (date_naive L (es_snapshot_at s))
     (default_stats\<lparr>ps_loss := es_daily_loss_usd s, ps_pnl := es_daily_pnl s, ps_fees := es_daily_fee_usd s,
        ps_trade_count := to_u32_or_zero (es_daily_trade_count s),
        ps_success_count := to_u32_or_zero (es_daily_success_count s),
        ps_miss_count := to_u32_or_zero (es_daily_miss_count s)\<rparr>)
     (rc_daily_budget_usd config) (es_daily_budget_spent s)"

definition recover_weekly :: "'z libs_scheme \<Rightarrow> risk_engine_state \<Rightarrow> weekly_accounting" where
  "recover_weekly L s = weekly_from_snapshot (date_naive L (es_snapshot_at s))
     (default_stats\<lparr>ps_loss := es_weekly_loss_usd s, ps_trade_count := to_u32_or_zero (es_weekly_trade_count s)\<rparr>)"

definition recover_hourly :: "'z libs_scheme \<Rightarrow> risk_engine_state \<Rightarrow> hourly_accounting" where
  "recover_hourly L s = hourly_from_snapshot (hour L (es_snapshot_at s)) (date_naive L (es_snapshot_at s))
     (default_stats\<lparr>ps_loss := es_hourly_loss_usd s, ps_fees := es_hourly_fee_usd s,
        ps_trade_count := to_u32_or_zero (es_hourly_trade_count s),
        ps_success_count := to_u32_or_zero (es_hourly_success_count s),
        ps_miss_count := to_u32_or_zero (es_hourly_miss_count s)\<rparr>)"

definition recover_state ::
  "'z libs_scheme \<Rightarrow> instant \<Rightarrow> risk_config \<Rightarrow> risk_engine_state \<Rightarrow> blacklist_info list \<Rightarrow> potential_loss_info list \<Rightarrow>
   risk_metrics \<Rightarrow> oxide_error + recovered_state" where
  "recover_state L now config s blacklist_entries potential_loss_entries metrics =
     (let today = date_naive L now in
      case from_snapshot L (rc_circuit_breaker config) s of
        Inl e \<Rightarrow> Inl e
      | Inr breaker \<Rightarrow>
          if \<not> date_naive L (es_snapshot_at s) \<le> today
          then Inl (Internal [Lit ''snapshot date '', PDate (date_naive L (es_snapshot_at s)),
                 Lit '' is in the future (today: '', PDate today, Lit '')''])
          else
            (let daily = fst (daily_maybe_rollover L now (recover_daily L config s));
                 weekly = fst (weekly_maybe_rollover L now (recover_weekly L s));
                 hourly = fst (hourly_maybe_rollover L now (recover_hourly L s));
                 potential_loss = from_entries L potential_loss_entries;
                 active = active_count potential_loss;
                 open_positions = mt_open_positions metrics
             in if es_daily_loss_usd s < 0 then Inl (Internal [Lit ''snapshot daily_loss is negative''])
                else if es_weekly_loss_usd s < 0 then Inl (Internal [Lit ''snapshot weekly_loss is negative''])
                else if es_hourly_loss_usd s < 0 then Inl (Internal [Lit ''snapshot hourly_loss is negative''])
                else if active > 0 \<and> open_positions = []
                then Inl (Internal [Lit ''recovery invariant failed: '', PInt (int active),
                       Lit '' active potential-loss entries but no open positions''])
                else if active > length open_positions
                then Inl (Internal [Lit ''recovery invariant failed: '', PInt (int active),
                       Lit '' active potential-loss entries exceed '', PInt (int (length open_positions)),
                       Lit '' open positions''])
                else Inr \<lparr>rv_breaker = breaker, rv_daily = daily, rv_weekly = weekly, rv_hourly = hourly,
                       rv_potential_loss = potential_loss, rv_blacklist_entries = blacklist_entries,
                       rv_drawdown_hwm = (if es_hwm_equity s > 0 then es_hwm_equity s else mt_equity metrics),
                       rv_state_version = 0\<rparr>))"

section \<open>Safe start\<close>

fun level_str :: "circuit_breaker_level \<Rightarrow> string" where
  "level_str Trade = ''trade''"
| "level_str Session = ''session''"
| "level_str Daily = ''daily''"
| "level_str System = ''system''"

definition is_stale_entry :: "'z libs_scheme \<Rightarrow> instant \<Rightarrow> risk_config \<Rightarrow> potential_loss_info \<Rightarrow> bool" where
  "is_stale_entry L now config entry \<longleftrightarrow>
     num_seconds_since L now (pl_created_at entry) \<ge> to_i64_or_max (rc_potential_loss_escalation_secs config)"

definition should_safe_start_halt ::
  "'z libs_scheme \<Rightarrow> instant \<Rightarrow> risk_config \<Rightarrow> circuit_breaker \<Rightarrow> potential_loss_ledger \<Rightarrow> message option" where
  "should_safe_start_halt L now config breaker potential_loss =
     (let stale_entries = length (filter (is_stale_entry L now config) (active_entries potential_loss));
          rest = (if stale_entries > 0
                  then Some [Lit ''safe-start: '', PInt (int stale_entries),
                         Lit '' stale active potential-loss entries at boot'']
                  else None)
      in case cb_state breaker of
           Halted level reason _ \<Rightarrow>
             Some ([Lit ''safe-start: breaker is Halted (level='', Lit (level_str level), Lit '', reason=''] @ reason @ [Lit '')''])
         | Open level reason _ cooldown_until \<Rightarrow>
             if cooldown_until > now
             then Some ([Lit ''safe-start: breaker is Open (level='', Lit (level_str level), Lit '', reason=''] @ reason @ [Lit '')''])
             else rest
         | _ \<Rightarrow> rest)"

section \<open>The builder\<close>

record risk_engine_builder =
  bb_config :: "risk_config option"
  bb_snapshot :: "risk_engine_state option"
  bb_blacklist_entries :: "blacklist_info list"
  bb_potential_loss_entries :: "potential_loss_info list"
  bb_initial_equity :: "usd option"
  bb_has_audit_sink :: bool
  bb_has_publisher :: bool

definition new_builder :: risk_engine_builder where
  "new_builder = \<lparr>bb_config = None, bb_snapshot = None, bb_blacklist_entries = [], bb_potential_loss_entries = [],
     bb_initial_equity = None, bb_has_audit_sink = False, bb_has_publisher = False\<rparr>"

definition fresh_state ::
  "'z libs_scheme \<Rightarrow> instant \<Rightarrow> risk_config \<Rightarrow> usd \<Rightarrow> potential_loss_info list \<Rightarrow> recovered_state" where
  "fresh_state L now config equity entries = \<lparr>rv_breaker = new_breaker (rc_circuit_breaker config) now,
     rv_daily = new_daily L now (rc_daily_budget_usd config), rv_weekly = new_weekly L now, rv_hourly = new_hourly L now,
     rv_potential_loss = from_entries L entries, rv_blacklist_entries = [], rv_drawdown_hwm = equity,
     rv_state_version = 0\<rparr>"

definition safe_start ::
  "'z libs_scheme \<Rightarrow> instant \<Rightarrow> risk_config \<Rightarrow> circuit_breaker \<Rightarrow> potential_loss_ledger \<Rightarrow> circuit_breaker" where
  "safe_start L now config breaker potential_loss =
     (case should_safe_start_halt L now config breaker potential_loss of
        None \<Rightarrow> breaker
      | Some reason \<Rightarrow> if is_halted (cb_state breaker) then breaker else halt now System reason breaker)"

definition last_emergency_of :: "risk_engine_state \<Rightarrow> (instant \<times> message) option" where
  "last_emergency_of s =
     (case (es_last_emergency_at s, es_last_emergency_reason s) of (Some t, Some reason) \<Rightarrow> Some (t, reason) | _ \<Rightarrow> None)"

definition build ::
  "'z libs_scheme \<Rightarrow> instant \<Rightarrow> risk_metrics \<Rightarrow> risk_engine_builder \<Rightarrow> oxide_error + risk_engine" where
  "build L now metrics b =
     (let config = (case bb_config b of None \<Rightarrow> default_risk_config | Some c \<Rightarrow> c);
          equity = (case bb_initial_equity b of None \<Rightarrow> 1000 | Some e \<Rightarrow> e)
      in case (case bb_snapshot b of
                 Some snap \<Rightarrow> recover_state L now config snap (bb_blacklist_entries b) (bb_potential_loss_entries b) metrics
               | None \<Rightarrow> Inr (fresh_state L now config equity (bb_potential_loss_entries b))) of
           Inl e \<Rightarrow> Inl e
         | Inr st \<Rightarrow>
             (let breaker = safe_start L now config (rv_breaker st) (rv_potential_loss st);
                  blacklist = new_blacklist now config;
                  blacklist = (if bb_snapshot b \<noteq> None then load_entries now (bb_blacklist_entries b) blacklist else blacklist)
              in Inr (publish_risk_snapshot now
                   \<lparr>en_circuit_breaker = breaker, en_daily = rv_daily st, en_weekly = rv_weekly st,
                    en_hourly = rv_hourly st, en_potential_loss = rv_potential_loss st,
                    en_lifetime_realized = (case bb_snapshot b of None \<Rightarrow> 0 | Some snap \<Rightarrow> es_total_realized_pnl snap),
                    en_params = from_config config, en_risk_snapshot = zeroed_risk_snapshot, en_blacklist = blacklist,
                    en_drawdown = new_drawdown (rv_drawdown_hwm st) (dc_max_drawdown_pct (rc_drawdown config))
                      (dc_drawdown_reduction_factor (rc_drawdown config)),
                    en_has_audit_sink = bb_has_audit_sink b, en_has_publisher = bb_has_publisher b,
                    en_state_version = 0,
                    en_last_emergency = (case bb_snapshot b of None \<Rightarrow> None | Some snap \<Rightarrow> last_emergency_of snap)\<rparr>)))"

section \<open>When recovery fails\<close>

text \<open>What a persisted state needs to be taken over.\<close>

definition recoverable ::
  "'z libs_scheme \<Rightarrow> instant \<Rightarrow> risk_engine_state \<Rightarrow> potential_loss_info list \<Rightarrow> risk_metrics \<Rightarrow> bool" where
  "recoverable L now s entries metrics \<longleftrightarrow>
     (es_breaker_state s \<in> {NOpen, NHalfOpen, NHalted} \<longrightarrow> es_breaker_level s \<noteq> None)
   \<and> (es_breaker_state s \<in> {NOpen, NHalted} \<longrightarrow> es_halt_reason s \<noteq> None)
   \<and> (es_breaker_state s = NOpen \<longrightarrow> es_cooldown_until s \<noteq> None)
   \<and> date_naive L (es_snapshot_at s) \<le> date_naive L now
   \<and> 0 \<le> es_daily_loss_usd s \<and> 0 \<le> es_weekly_loss_usd s \<and> 0 \<le> es_hourly_loss_usd s
   \<and> active_count (from_entries L entries) \<le> length (mt_open_positions metrics)"

lemma snapshot_state_defined:
  "isl (from_snapshot L config s) \<longleftrightarrow>
     \<not> ((es_breaker_state s \<in> {NOpen, NHalfOpen, NHalted} \<longrightarrow> es_breaker_level s \<noteq> None)
       \<and> (es_breaker_state s \<in> {NOpen, NHalted} \<longrightarrow> es_halt_reason s \<noteq> None)
       \<and> (es_breaker_state s = NOpen \<longrightarrow> es_cooldown_until s \<noteq> None))"
  by (auto simp: from_snapshot_def snapshot_state_def split: breaker_state_name.splits option.splits)

lemma recover_state_Inr:
  "(\<exists>st. recover_state L now config s bl entries metrics = Inr st) \<longleftrightarrow> recoverable L now s entries metrics"
proof (cases "from_snapshot L (rc_circuit_breaker config) s")
  case (Inl e)
  then show ?thesis
    using snapshot_state_defined [of L "rc_circuit_breaker config" s] by (auto simp: recover_state_def recoverable_def)
next
  case (Inr cb)
  then have "(es_breaker_state s \<in> {NOpen, NHalfOpen, NHalted} \<longrightarrow> es_breaker_level s \<noteq> None)
       \<and> (es_breaker_state s \<in> {NOpen, NHalted} \<longrightarrow> es_halt_reason s \<noteq> None)
       \<and> (es_breaker_state s = NOpen \<longrightarrow> es_cooldown_until s \<noteq> None)"
    using snapshot_state_defined [of L "rc_circuit_breaker config" s] by simp
  then have "recoverable L now s entries metrics \<longleftrightarrow> date_naive L (es_snapshot_at s) \<le> date_naive L now
   \<and> 0 \<le> es_daily_loss_usd s \<and> 0 \<le> es_weekly_loss_usd s \<and> 0 \<le> es_hourly_loss_usd s
   \<and> active_count (from_entries L entries) \<le> length (mt_open_positions metrics)"
    unfolding recoverable_def by blast
  then show ?thesis
    by (auto simp: recover_state_def Inr Let_def not_less)
qed

lemma recover_state_fields:
  assumes "recover_state L now config s bl entries metrics = Inr st"
  shows "from_snapshot L (rc_circuit_breaker config) s = Inr (rv_breaker st)"
    "rv_daily st = fst (daily_maybe_rollover L now (recover_daily L config s))"
    "rv_weekly st = fst (weekly_maybe_rollover L now (recover_weekly L s))"
    "rv_hourly st = fst (hourly_maybe_rollover L now (recover_hourly L s))"
    "rv_potential_loss st = from_entries L entries"
    "rv_drawdown_hwm st = (if es_hwm_equity s > 0 then es_hwm_equity s else mt_equity metrics)"
  using assms by (auto simp: recover_state_def Let_def split: sum.splits if_splits)

lemma build_isl:
  "isl (build L now metrics b) \<longleftrightarrow>
     (\<exists>s. bb_snapshot b = Some s \<and> \<not> recoverable L now s (bb_potential_loss_entries b) metrics)"
proof (cases "bb_snapshot b")
  case None
  then show ?thesis
    by (simp add: build_def Let_def)
next
  case (Some s)
  let ?c = "case bb_config b of None \<Rightarrow> default_risk_config | Some c \<Rightarrow> c"
  let ?r = "recover_state L now ?c s (bb_blacklist_entries b) (bb_potential_loss_entries b) metrics"
  have "isl (build L now metrics b) \<longleftrightarrow> isl ?r"
    by (cases ?r) (simp_all add: build_def Some Let_def)
  also have "\<dots> \<longleftrightarrow> \<not> (\<exists>st. ?r = Inr st)"
    by (cases ?r) simp_all
  finally show ?thesis
    using recover_state_Inr Some by fastforce
qed

text \<open>C9: Start-up is fail-closed. Building an engine without a persisted state always succeeds. With one it fails exactly if the
  breaker's fields do not fit its state, the state is dated after today, one of the three losses is negative, or there are more
  active potential-loss entries than open positions.\<close>

theorem build_fails_exactly:
  "isl (build L now metrics b) \<longleftrightarrow>
     (\<exists>s. bb_snapshot b = Some s \<and> \<not> recoverable L now s (bb_potential_loss_entries b) metrics)"
  by (rule build_isl)

section \<open>The safe start\<close>

lemma build_Inr:
  assumes "build L now metrics b = Inr en" "bb_snapshot b = Some s" "bb_config b = Some config"
  obtains st where
    "recover_state L now config s (bb_blacklist_entries b) (bb_potential_loss_entries b) metrics = Inr st"
    "en_circuit_breaker en = safe_start L now config (rv_breaker st) (rv_potential_loss st)"
    "en_daily en = rv_daily st" "en_weekly en = rv_weekly st" "en_hourly en = rv_hourly st"
    "en_potential_loss en = rv_potential_loss st" "en_lifetime_realized en = es_total_realized_pnl s"
    "en_params en = from_config config" "dg_hwm (en_drawdown en) = rv_drawdown_hwm st"
    "en_last_emergency en = last_emergency_of s"
    "engine_allows_trading en = allows_trading (cb_state (en_circuit_breaker en))"
  using assms by (cases "recover_state L now config s (bb_blacklist_entries b) (bb_potential_loss_entries b) metrics")
    (auto simp: build_def Let_def new_drawdown_def)

lemma from_snapshot_cases:
  assumes "from_snapshot L config s = Inr cb"
  shows "es_breaker_state s = NHalted \<Longrightarrow> \<exists>l r. cb_state cb = Halted l r (es_snapshot_at s) \<and> es_breaker_level s = Some l"
    and "es_breaker_state s = NOpen \<Longrightarrow> es_cooldown_until s = Some c \<Longrightarrow> \<exists>l r. cb_state cb = Open l r (es_snapshot_at s) c"
    and "allows_trading (cb_state cb) \<Longrightarrow> es_breaker_state s \<in> {NClosed, NHalfOpen}"
  using assms by (auto simp: from_snapshot_def snapshot_state_def split: option.splits breaker_state_name.splits)

lemma should_safe_start_halt_iff:
  "should_safe_start_halt L now config cb ledger \<noteq> None \<longleftrightarrow>
     is_halted (cb_state cb) \<or> (\<exists>l r t c. cb_state cb = Open l r t c \<and> now < c)
     \<or> (\<exists>e \<in> set (active_entries ledger). is_stale_entry L now config e)"
proof -
  have "0 < length (filter P xs) \<longleftrightarrow> (\<exists>e \<in> set xs. P e)" for P and xs :: "potential_loss_info list"
    by (simp add: filter_empty_conv)
  then show ?thesis
    by (cases "cb_state cb") (simp_all add: should_safe_start_halt_def Let_def)
qed

lemma safe_start_cases:
  "safe_start L now config cb ledger =
     (if should_safe_start_halt L now config cb ledger = None \<or> is_halted (cb_state cb) then cb
      else halt now System (the (should_safe_start_halt L now config cb ledger)) cb)"
  by (cases "should_safe_start_halt L now config cb ledger") (simp_all add: safe_start_def)

lemma safe_start_spec:
  assumes cb': "cb' = safe_start L now config cb ledger"
  shows "is_halted (cb_state cb) \<Longrightarrow> cb' = cb"
    and "cb_state cb = Open l r t c \<Longrightarrow> now < c \<Longrightarrow> halt_level (cb_state cb') = Some System"
    and "\<exists>e \<in> set (active_entries ledger). is_stale_entry L now config e \<Longrightarrow> is_halted (cb_state cb')"
    and "allows_trading (cb_state cb') \<Longrightarrow> cb' = cb"
proof -
  note iff = should_safe_start_halt_iff [of L now config cb ledger]
  show "is_halted (cb_state cb) \<Longrightarrow> cb' = cb"
    by (simp add: cb' safe_start_cases)
  show "halt_level (cb_state cb') = Some System" if "cb_state cb = Open l r t c" "now < c"
  proof -
    have "should_safe_start_halt L now config cb ledger \<noteq> None"
      using iff that by blast
    then show ?thesis
      using that by (simp add: cb' safe_start_cases halt_def)
  qed
  show "is_halted (cb_state cb')" if "\<exists>e \<in> set (active_entries ledger). is_stale_entry L now config e"
  proof -
    have "should_safe_start_halt L now config cb ledger \<noteq> None"
      using iff that by blast
    then show ?thesis
      by (auto simp: cb' safe_start_cases)
  qed
  show "allows_trading (cb_state cb') \<Longrightarrow> cb' = cb"
    by (auto simp: cb' safe_start_cases split: if_splits)
qed

text \<open>C7: A restart never loosens the breaker. An engine built from a persisted state is halted at the persisted level if the
  state was halted, halted at the system level if the breaker was open and its cooldown has not passed, and halted if an active
  potential loss is older than the escalation time; it allows trading only if the persisted breaker was closed or half open
  and no active potential loss is stale.\<close>

theorem restart_never_loosens:
  assumes "build L now metrics b = Inr en" "bb_snapshot b = Some s" "bb_config b = Some config"
  shows "(es_breaker_state s = NHalted \<longrightarrow> halt_level (cb_state (en_circuit_breaker en)) = es_breaker_level s)
    \<and> (\<forall>c. es_breaker_state s = NOpen \<and> es_cooldown_until s = Some c \<and> now < c \<longrightarrow>
         halt_level (cb_state (en_circuit_breaker en)) = Some System)
    \<and> ((\<exists>e \<in> set (active_entries (en_potential_loss en)). is_stale_entry L now config e) \<longrightarrow>
         is_halted (cb_state (en_circuit_breaker en)))
    \<and> (engine_allows_trading en \<longrightarrow> es_breaker_state s \<in> {NClosed, NHalfOpen}
         \<and> (\<forall>e \<in> set (active_entries (en_potential_loss en)). \<not> is_stale_entry L now config e))"
proof -
  obtain st where st: "recover_state L now config s (bb_blacklist_entries b) (bb_potential_loss_entries b) metrics = Inr st"
    and cb: "en_circuit_breaker en = safe_start L now config (rv_breaker st) (en_potential_loss en)"
    and pub: "engine_allows_trading en = allows_trading (cb_state (en_circuit_breaker en))"
    using build_Inr [OF assms] by metis
  note spec = safe_start_spec [OF cb]
  note fs = recover_state_fields(1) [OF st]
  have halted: "halt_level (cb_state (en_circuit_breaker en)) = es_breaker_level s" if "es_breaker_state s = NHalted"
    using from_snapshot_cases(1) [OF fs that] spec(1) by auto
  have open_state: "halt_level (cb_state (en_circuit_breaker en)) = Some System"
    if "es_breaker_state s = NOpen" "es_cooldown_until s = Some c" "now < c" for c
    using from_snapshot_cases(2) [OF fs that(1,2)] spec(2) that(3) by blast
  have "es_breaker_state s \<in> {NClosed, NHalfOpen}" if "engine_allows_trading en"
    using from_snapshot_cases(3) [OF fs] spec(4) that pub by simp
  moreover have "\<not> is_halted (cb_state (en_circuit_breaker en))" if "engine_allows_trading en"
    using that pub by (cases "cb_state (en_circuit_breaker en)") simp_all
  ultimately show ?thesis
    using halted open_state spec(3) by blast
qed

definition demo_row :: risk_engine_state where
  "demo_row = (engine_snapshot utc_libs 0 demo_live_metrics (halt_internal 0 [Lit ''drift''] live_engine))
     \<lparr>es_snapshot_at := 5\<rparr>"

definition demo_builder :: risk_engine_builder where
  "demo_builder = new_builder\<lparr>bb_config := Some default_risk_config, bb_snapshot := Some demo_row\<rparr>"

lemma demo_row_fields:
  "es_breaker_state demo_row = NHalted" "es_breaker_level demo_row = Some System" "es_halt_reason demo_row = Some [Lit ''drift'']"
  "es_snapshot_at demo_row = 5" "es_daily_loss_usd demo_row = 0" "es_weekly_loss_usd demo_row = 0"
  "es_hourly_loss_usd demo_row = 0"
  by (simp_all add: demo_row_def engine_snapshot_def live_engine_def demo_engine_def new_breaker_def halt_def
      breaker_level_of_def halt_reason_of_def halt_internal_def new_daily_def new_weekly_def new_hourly_def default_stats_def Let_def)

lemma demo_recoverable: "recoverable utc_libs 10 demo_row [] demo_live_metrics"
  by (simp add: recoverable_def demo_row_fields utc_libs_def decimal_ops.defs active_count_def active_entries_def from_entries_def)

theorem restart_never_loosens_witness:
  "\<exists>en. build utc_libs 10 demo_live_metrics demo_builder = Inr en
     \<and> halt_level (cb_state (en_circuit_breaker en)) = Some System \<and> \<not> engine_allows_trading en"
proof -
  have "\<not> isl (build utc_libs 10 demo_live_metrics demo_builder)"
    using demo_recoverable by (simp add: build_isl demo_builder_def new_builder_def)
  then obtain en where "build utc_libs 10 demo_live_metrics demo_builder = Inr en"
    by (cases "build utc_libs 10 demo_live_metrics demo_builder") simp_all
  moreover have "bb_snapshot demo_builder = Some demo_row" "bb_config demo_builder = Some default_risk_config"
    by (simp_all add: demo_builder_def)
  ultimately show ?thesis
    using restart_never_loosens [of utc_libs 10 demo_live_metrics demo_builder en demo_row default_risk_config]
    by (auto simp: demo_row_fields)
qed

section \<open>Round trip\<close>

text \<open>The state as it is read back from the row the engine wrote at \<open>t\<close> and the database stamped with \<open>t1\<close>.\<close>

definition persisted :: "'z libs_scheme \<Rightarrow> instant \<Rightarrow> instant \<Rightarrow> risk_metrics \<Rightarrow> risk_engine \<Rightarrow> risk_engine_state" where
  "persisted L t t1 metrics en = state_of_info (stored_row t1 (upsert_of (engine_snapshot L t metrics en)))"

lemma persisted_eq: "persisted L t t1 metrics en = (engine_snapshot L t metrics en)\<lparr>es_snapshot_at := t1\<rparr>"
  by (simp add: persisted_def row_round_trip)

lemma persisted_fields [simp]:
  "es_breaker_state (persisted L t t1 metrics en) = to_name (cb_state (en_circuit_breaker en))"
  "es_breaker_level (persisted L t t1 metrics en) = breaker_level_of (cb_state (en_circuit_breaker en))"
  "es_halt_reason (persisted L t t1 metrics en) = halt_reason_of (cb_state (en_circuit_breaker en))"
  "es_cooldown_until (persisted L t t1 metrics en) = cooldown_until_of (cb_state (en_circuit_breaker en))"
  "es_snapshot_at (persisted L t t1 metrics en) = t1"
  "es_daily_loss_usd (persisted L t t1 metrics en) = ps_loss (da_stats (en_daily en))"
  "es_daily_pnl (persisted L t t1 metrics en) = ps_pnl (da_stats (en_daily en))"
  "es_daily_fee_usd (persisted L t t1 metrics en) = ps_fees (da_stats (en_daily en))"
  "es_daily_budget_spent (persisted L t t1 metrics en) = budget_spent L (en_daily en)"
  "es_daily_trade_count (persisted L t t1 metrics en) = to_i32_or_max (ps_trade_count (da_stats (en_daily en)))"
  "es_weekly_loss_usd (persisted L t t1 metrics en) = ps_loss (wa_stats (en_weekly en))"
  "es_hourly_loss_usd (persisted L t t1 metrics en) = ps_loss (ha_stats (en_hourly en))"
  "es_hourly_fee_usd (persisted L t t1 metrics en) = ps_fees (ha_stats (en_hourly en))"
  "es_total_realized_pnl (persisted L t t1 metrics en) = en_lifetime_realized en"
  "es_hwm_equity (persisted L t t1 metrics en) = dg_hwm (en_drawdown en)"
  by (simp_all add: persisted_eq engine_snapshot_def Let_def)

lemma persisted_emergency: "last_emergency_of (persisted L t t1 metrics en) = en_last_emergency en"
  by (cases "en_last_emergency en") (auto simp: last_emergency_of_def persisted_eq engine_snapshot_def Let_def)

lemma persisted_recoverable:
  assumes "date_naive L t1 \<le> date_naive L now" "0 \<le> ps_loss (da_stats (en_daily en))"
    "0 \<le> ps_loss (wa_stats (en_weekly en))" "0 \<le> ps_loss (ha_stats (en_hourly en))"
    "active_count (from_entries L entries) \<le> length (mt_open_positions metrics')"
  shows "recoverable L now (persisted L t t1 metrics en) entries metrics'"
  using assms
  by (cases "cb_state (en_circuit_breaker en)")
     (simp_all add: recoverable_def breaker_level_of_def halt_reason_of_def cooldown_until_of_def)


definition round_trip_builder :: risk_engine_builder where
  "round_trip_builder = new_builder\<lparr>bb_config := Some default_risk_config,
     bb_snapshot := Some (persisted utc_libs 0 5 demo_live_metrics live_engine)\<rparr>"


section \<open>Invariants of a running engine\<close>

text \<open>One configuration: the parameters are those derived from it, and the breaker and the drawdown guard hold its settings.\<close>

definition one_config :: "risk_engine \<Rightarrow> bool" where
  "one_config en \<longleftrightarrow> (let c = ep_config (en_params en) in
     en_params en = from_config c \<and> cb_config (en_circuit_breaker en) = rc_circuit_breaker c
     \<and> dg_max_drawdown_pct (en_drawdown en) = dc_max_drawdown_pct (rc_drawdown c)
     \<and> dg_reduction_factor (en_drawdown en) = dc_drawdown_reduction_factor (rc_drawdown c))"

lemma one_config_same: "one_config en \<Longrightarrow> same_config en en' \<Longrightarrow> one_config en'"
  by (simp add: one_config_def same_config_def Let_def)

lemma one_config_reload: "one_config (engine_reload L now config en)"
  by (simp add: one_config_def engine_reload_def from_config_def set_params_def set_config_def Let_def)

lemma one_config_step:
  assumes "engine_step L env now op (en, p) = (err, en', p')" "one_config en"
  shows "one_config en'"
proof (cases "\<exists>c. op = OpReload c")
  case True
  then show ?thesis
    using assms(1) one_config_reload by auto
next
  case False
  then show ?thesis
    using step_safe(4) [OF assms(1)] assms(2) one_config_same by blast
qed

lemma one_config_run: "engine_run L env s ops s' \<Longrightarrow> one_config (fst s) \<Longrightarrow> one_config (fst s')"
proof (induction rule: engine_run.induct)
  case (engine_run_cons now op s r s1 ops s2)
  then show ?case
    using one_config_step [of L env now op "fst s" "snd s" r "fst s1" "snd s1"] by simp
qed

lemma from_snapshot_config: "from_snapshot L config s = Inr cb \<Longrightarrow> cb_config cb = config"
  by (auto simp: from_snapshot_def split: sum.splits)

lemma safe_start_config: "cb_config (safe_start L now config cb ledger) = cb_config cb"
  by (simp add: safe_start_cases)

lemma one_config_publish: "one_config (publish_risk_snapshot now en) = one_config en"
  by (simp add: one_config_def)

lemma one_config_build:
  assumes "build L now metrics b = Inr en"
  shows "one_config en \<and> published_sound en"
proof -
  let ?c = "case bb_config b of None \<Rightarrow> default_risk_config | Some c \<Rightarrow> c"
  let ?e = "case bb_initial_equity b of None \<Rightarrow> 1000 | Some e \<Rightarrow> e"
  obtain st where st: "(case bb_snapshot b of
       Some snap \<Rightarrow> recover_state L now ?c snap (bb_blacklist_entries b) (bb_potential_loss_entries b) metrics
     | None \<Rightarrow> Inr (fresh_state L now ?c ?e (bb_potential_loss_entries b))) = Inr st"
    using assms unfolding build_def Let_def
    by (cases "case bb_snapshot b of
       Some snap \<Rightarrow> recover_state L now ?c snap (bb_blacklist_entries b) (bb_potential_loss_entries b) metrics
     | None \<Rightarrow> Inr (fresh_state L now ?c ?e (bb_potential_loss_entries b))") simp_all
  then have "cb_config (rv_breaker st) = rc_circuit_breaker ?c"
    using recover_state_fields(1) from_snapshot_config
    by (cases "bb_snapshot b") (auto simp: fresh_state_def new_breaker_def, blast)
  then show ?thesis
    using assms by (auto simp: build_def Let_def st one_config_publish)
      (simp_all add: one_config_def from_config_def safe_start_config new_drawdown_def Let_def)
qed



end
