(* ===== verification/Reservation.thy ===== *)
theory Reservation
  imports Pre_Trade "HOL-Library.AList"
begin

text \<open>
  \<open>oxide-arb-core/src/exposure/in_memory.rs\<close>: the reservations of exposure between the decision and the fill, with their limits
  (\<open>runtime_config/risk.rs\<close>), and the engine's view of which limit binds. Here the operations run one after the other; their
  interleaving is the subject of \<^emph>\<open>Reservation_Concurrency\<close>. An amount is a number of cents in 64 bits; the subtractions on the counters wrap,
  and the invariant shows that they never do.
\<close>

section \<open>Limits\<close>

record exposure_reservation_config =
  xc_max_total_exposure_cents :: u64
  xc_max_per_market_cents :: u64
  xc_default_ttl_secs :: u64
  xc_gc_interval_secs :: u64

text \<open>\<open>Decimal::to_u64\<close> on an integral value.\<close>

definition to_u64 :: "int \<Rightarrow> u64 option" where
  "to_u64 v = (if 0 \<le> v \<and> v < 2 ^ 64 then Some (word_of_int v) else None)"

definition usd_decimal_to_cents :: "'z decimal_ops_scheme \<Rightarrow> decimal \<Rightarrow> u64" where
  "usd_decimal_to_cents D value = (case to_u64 \<lceil>dec_mul D value 100\<rceil> of Some c \<Rightarrow> c | None \<Rightarrow> u64_max)"

definition exposure_reservation_config_of :: "'z decimal_ops_scheme \<Rightarrow> risk_config \<Rightarrow> exposure_reservation_config" where
  "exposure_reservation_config_of D config =
     \<lparr>xc_max_total_exposure_cents = usd_decimal_to_cents D (rc_max_total_exposure_usd config),
      xc_max_per_market_cents = usd_decimal_to_cents D (rc_max_single_market_exposure_usd config),
      xc_default_ttl_secs = rc_reservation_ttl_secs config, xc_gc_interval_secs = rc_reservation_gc_interval_secs config\<rparr>"

section \<open>State\<close>

datatype reservation_error =
    ExceedsLimit u64 u64 u64
  | NotFound ident
  | Backend string

record reservation_entry =
  xe_market_id :: ident
  xe_amount_cents :: u64
  xe_expires_at :: instant
  xe_reconcile_pinned :: bool

record in_memory_reservation =
  xr_reservations :: "(ident \<times> reservation_entry) list"
  xr_total_reserved_cents :: u64
  xr_per_market_cents :: "(ident \<times> u64) list"
  xr_config :: exposure_reservation_config

definition new_reservations :: "exposure_reservation_config \<Rightarrow> in_memory_reservation" where
  "new_reservations config = \<lparr>xr_reservations = [], xr_total_reserved_cents = 0, xr_per_market_cents = [],
     xr_config = config\<rparr>"

definition reload_limits :: "exposure_reservation_config \<Rightarrow> in_memory_reservation \<Rightarrow> in_memory_reservation" where
  "reload_limits config x = x\<lparr>xr_config := config\<rparr>"

section \<open>Reads\<close>

definition cents_to_usd :: "'z decimal_ops_scheme \<Rightarrow> u64 \<Rightarrow> usd" where
  "cents_to_usd D c = dec_div D (of_nat (unat c)) 100"

definition market_cents :: "in_memory_reservation \<Rightarrow> ident \<Rightarrow> u64" where
  "market_cents x m = (case map_of (xr_per_market_cents x) m of None \<Rightarrow> 0 | Some c \<Rightarrow> c)"

definition max_market_reserved_usd_sync :: "'z decimal_ops_scheme \<Rightarrow> in_memory_reservation \<Rightarrow> usd" where
  "max_market_reserved_usd_sync D x = cents_to_usd D (fold max (map snd (xr_per_market_cents x)) 0)"

definition total_reserved_usd_sync :: "'z decimal_ops_scheme \<Rightarrow> in_memory_reservation \<Rightarrow> usd" where
  "total_reserved_usd_sync D x = cents_to_usd D (xr_total_reserved_cents x)"

definition active_count_sync :: "in_memory_reservation \<Rightarrow> nat" where
  "active_count_sync x = length (xr_reservations x)"

definition per_market_reserved_sync :: "'z decimal_ops_scheme \<Rightarrow> in_memory_reservation \<Rightarrow> ident \<Rightarrow> usd" where
  "per_market_reserved_sync D x m =
     (case map_of (xr_per_market_cents x) m of None \<Rightarrow> 0 | Some c \<Rightarrow> cents_to_usd D c)"

definition reservation_snapshot_sync :: "'z decimal_ops_scheme \<Rightarrow> in_memory_reservation \<Rightarrow> ident \<Rightarrow> usd \<times> usd \<times> nat" where
  "reservation_snapshot_sync D x m = (total_reserved_usd_sync D x, per_market_reserved_sync D x m, active_count_sync x)"

section \<open>Operations\<close>

definition bump_market :: "ident \<Rightarrow> u64 \<Rightarrow> in_memory_reservation \<Rightarrow> in_memory_reservation" where
  "bump_market m a x = x\<lparr>xr_per_market_cents := AList.update m (market_cents x m + a) (xr_per_market_cents x)\<rparr>"

text \<open>A market that has no counter is left alone.\<close>

definition drop_market :: "ident \<Rightarrow> u64 \<Rightarrow> in_memory_reservation \<Rightarrow> in_memory_reservation" where
  "drop_market m a x =
     (case map_of (xr_per_market_cents x) m of
        None \<Rightarrow> x
      | Some c \<Rightarrow> x\<lparr>xr_per_market_cents := AList.update m (c - a) (xr_per_market_cents x)\<rparr>)"

definition drop_total :: "u64 \<Rightarrow> in_memory_reservation \<Rightarrow> in_memory_reservation" where
  "drop_total a x = x\<lparr>xr_total_reserved_cents := xr_total_reserved_cents x - a\<rparr>"

definition usd_to_cents :: "'z decimal_ops_scheme \<Rightarrow> usd \<Rightarrow> reservation_error + u64" where
  "usd_to_cents D amount =
     (let cents_decimal = \<lfloor>dec_mul D amount 100\<rfloor>
      in if cents_decimal < 0 then Inl (Backend ''amount overflow or negative'')
         else case to_u64 cents_decimal of
                None \<Rightarrow> Inl (Backend ''amount overflow or negative'')
              | Some c \<Rightarrow> Inr c)"

text \<open>The part that \<open>try_reserve_sync\<close> and \<open>restore_sync\<close> share, which differ in the messages: the amount is added to both counters if
  both limits allow it; without contention the first exchange of the loop succeeds.\<close>

definition admit ::
  "string \<Rightarrow> string \<Rightarrow> ident \<Rightarrow> u64 \<Rightarrow> in_memory_reservation \<Rightarrow> (reservation_error + unit) \<times> in_memory_reservation" where
  "admit total_overflow market_overflow market_id amount_cents x =
     (let config = xr_config x; current = xr_total_reserved_cents x in
      case checked_add_u64 current amount_cents of
        None \<Rightarrow> (Inl (Backend total_overflow), x)
      | Some new_total \<Rightarrow>
          if new_total > xc_max_total_exposure_cents config
          then (Inl (ExceedsLimit current amount_cents (xc_max_total_exposure_cents config)), x)
          else
            (let x1 = x\<lparr>xr_total_reserved_cents := new_total\<rparr>;
                 market_current = market_cents x1 market_id;
                 x2 = bump_market market_id amount_cents x1;
                 undone = drop_total amount_cents (drop_market market_id amount_cents x2)
             in case checked_add_u64 market_current amount_cents of
                  None \<Rightarrow> (Inl (Backend market_overflow), undone)
                | Some market_new_total \<Rightarrow>
                    if market_new_total > xc_max_per_market_cents config
                    then (Inl (ExceedsLimit market_current amount_cents (xc_max_per_market_cents config)), undone)
                    else (Inr (), x2)))"

text \<open>The id is drawn by the caller of the model: \<open>ReservationId::from_v7\<close> returns one that is not in use.\<close>

definition try_reserve_sync ::
  "'z decimal_ops_scheme \<Rightarrow> instant \<Rightarrow> ident \<Rightarrow> ident \<Rightarrow> usd \<Rightarrow> int \<Rightarrow> in_memory_reservation \<Rightarrow>
   (reservation_error + ident) \<times> in_memory_reservation" where
  "try_reserve_sync D now rid market_id amount ttl x =
     (case usd_to_cents D amount of
        Inl e \<Rightarrow> (Inl e, x)
      | Inr amount_cents \<Rightarrow>
          (case admit ''reservation total overflow'' ''reservation market total overflow'' market_id amount_cents x of
             (Inl e, x1) \<Rightarrow> (Inl e, x1)
           | (Inr _, x1) \<Rightarrow>
               (Inr rid, x1\<lparr>xr_reservations := AList.update rid
                  \<lparr>xe_market_id = market_id, xe_amount_cents = amount_cents, xe_expires_at = now + ttl,
                   xe_reconcile_pinned = False\<rparr> (xr_reservations x1)\<rparr>)))"

definition pin_for_reconciliation_sync ::
  "ident \<Rightarrow> in_memory_reservation \<Rightarrow> (reservation_error + unit) \<times> in_memory_reservation" where
  "pin_for_reconciliation_sync rid x =
     (case map_of (xr_reservations x) rid of
        None \<Rightarrow> (Inl (NotFound rid), x)
      | Some entry \<Rightarrow>
          (Inr (), x\<lparr>xr_reservations := AList.update rid (entry\<lparr>xe_reconcile_pinned := True\<rparr>) (xr_reservations x)\<rparr>))"

definition restore_sync ::
  "'z decimal_ops_scheme \<Rightarrow> ident \<Rightarrow> ident \<Rightarrow> usd \<Rightarrow> bool \<Rightarrow> instant \<Rightarrow> in_memory_reservation \<Rightarrow>
   (reservation_error + unit) \<times> in_memory_reservation" where
  "restore_sync D rid market_id amount reconcile_pinned expires_at x =
     (if map_of (xr_reservations x) rid \<noteq> None then (Inr (), x)
      else case usd_to_cents D amount of
        Inl e \<Rightarrow> (Inl e, x)
      | Inr amount_cents \<Rightarrow>
          (case admit ''reservation total overflow on restore'' ''reservation market total overflow on restore''
                  market_id amount_cents x of
             (Inl e, x1) \<Rightarrow> (Inl e, x1)
           | (Inr _, x1) \<Rightarrow>
               (Inr (), x1\<lparr>xr_reservations := AList.update rid
                  \<lparr>xe_market_id = market_id, xe_amount_cents = amount_cents, xe_expires_at = expires_at,
                   xe_reconcile_pinned = reconcile_pinned\<rparr> (xr_reservations x1)\<rparr>)))"

definition remove_reservation_entry ::
  "ident \<Rightarrow> in_memory_reservation \<Rightarrow> (reservation_error + reservation_entry) \<times> in_memory_reservation" where
  "remove_reservation_entry rid x =
     (case map_of (xr_reservations x) rid of
        None \<Rightarrow> (Inl (NotFound rid), x)
      | Some entry \<Rightarrow>
          (Inr entry, drop_market (xe_market_id entry) (xe_amount_cents entry)
             (drop_total (xe_amount_cents entry) (x\<lparr>xr_reservations := AList.delete rid (xr_reservations x)\<rparr>))))"

definition release_sync :: "ident \<Rightarrow> in_memory_reservation \<Rightarrow> (reservation_error + unit) \<times> in_memory_reservation" where
  "release_sync rid x =
     (case remove_reservation_entry rid x of (Inl e, x1) \<Rightarrow> (Inl e, x1) | (Inr _, x1) \<Rightarrow> (Inr (), x1))"

definition resize_sync ::
  "'z decimal_ops_scheme \<Rightarrow> ident \<Rightarrow> usd \<Rightarrow> in_memory_reservation \<Rightarrow> (reservation_error + unit) \<times> in_memory_reservation" where
  "resize_sync D rid new_amount x =
     (case usd_to_cents D new_amount of
        Inl e \<Rightarrow> (Inl e, x)
      | Inr new_cents \<Rightarrow>
          (case map_of (xr_reservations x) rid of
             None \<Rightarrow> (Inl (NotFound rid), x)
           | Some entry \<Rightarrow>
               (let old_cents = xe_amount_cents entry in
                if new_cents = old_cents then (Inr (), x)
                else if new_cents > old_cents then (Inl (Backend ''resize cannot increase reservation amount''), x)
                else
                  (let delta = old_cents - new_cents
                   in (Inr (), drop_market (xe_market_id entry) delta (drop_total delta
                        (x\<lparr>xr_reservations := AList.update rid (entry\<lparr>xe_amount_cents := new_cents\<rparr>) (xr_reservations x)\<rparr>)))))))"

definition reservation_expired :: "instant \<Rightarrow> reservation_entry \<Rightarrow> bool" where
  "reservation_expired now entry \<longleftrightarrow> now \<ge> xe_expires_at entry \<and> \<not> xe_reconcile_pinned entry"

text \<open>\<open>retain\<close> visits every entry; the removed ones are taken off both counters.\<close>

definition gc_entry :: "instant \<Rightarrow> ident \<times> reservation_entry \<Rightarrow> u32 \<times> in_memory_reservation \<Rightarrow> u32 \<times> in_memory_reservation" where
  "gc_entry now kv s =
     (case (kv, s) of ((rid, entry), (count, x)) \<Rightarrow>
        if reservation_expired now entry
        then (count + 1, (drop_market (xe_market_id entry) (xe_amount_cents entry) (drop_total (xe_amount_cents entry) x))
                \<lparr>xr_reservations := AList.delete rid (xr_reservations x)\<rparr>)
        else (count, x))"

definition gc_expired :: "instant \<Rightarrow> in_memory_reservation \<Rightarrow> u32 \<times> in_memory_reservation" where
  "gc_expired now x = fold (gc_entry now) (xr_reservations x) (0, x)"

section \<open>Which exposure limit binds\<close>

datatype exposure_binding_limit = AbsoluteTotal | AbsoluteMarket | PercentOfCash | ReservationBackend | BankrollCap

definition total_potential_loss_usd :: "risk_engine \<Rightarrow> usd" where
  "total_potential_loss_usd en = rs_total_potential_loss (en_risk_snapshot en)"

definition exposure_headrooms ::
  "'z decimal_ops_scheme \<Rightarrow> risk_engine \<Rightarrow> risk_metrics \<Rightarrow> usd \<Rightarrow> ident \<Rightarrow> (exposure_binding_limit \<times> usd) list" where
  "exposure_headrooms D en metrics intent_cost market_id =
     (let config = ep_config (en_params en);
          reservation_config = exposure_reservation_config_of D config;
          total_exposure = mt_total_exposure metrics;
          market_exposure = mt_market_exposure metrics market_id;
          cash = mt_cash_balance metrics;
          reserved = mt_reserved_usd metrics;
          total_headroom = dec_sub D (dec_sub D (rc_max_total_exposure_usd config) total_exposure) intent_cost;
          market_headroom = dec_sub D (dec_sub D (rc_max_single_market_exposure_usd config) market_exposure) intent_cost;
          pct_cap_usd = (if cash > 0 then dec_div D (dec_mul D cash (rc_max_total_exposure_pct config)) 100 else 0);
          pct_headroom = dec_sub D (dec_sub D pct_cap_usd total_exposure) intent_cost;
          reservation_cap = cents_to_usd D (xc_max_total_exposure_cents reservation_config);
          reservation_headroom = dec_sub D reservation_cap reserved;
          bankroll_headroom = dec_sub D (available_bankroll_for_sizing D en metrics) intent_cost
      in [(AbsoluteTotal, total_headroom), (AbsoluteMarket, market_headroom), (PercentOfCash, pct_headroom),
          (ReservationBackend, reservation_headroom), (BankrollCap, bankroll_headroom)])"

definition binding_exposure_limit ::
  "'z decimal_ops_scheme \<Rightarrow> risk_engine \<Rightarrow> risk_metrics \<Rightarrow> usd \<Rightarrow> ident \<Rightarrow> exposure_binding_limit" where
  "binding_exposure_limit D en metrics intent_cost market_id =
     (case min_by snd (exposure_headrooms D en metrics intent_cost market_id) of
        None \<Rightarrow> BankrollCap | Some (limit, _) \<Rightarrow> limit)"

lemma binding_limit_least:
  "\<exists>h. (binding_exposure_limit D en metrics intent_cost market_id, h) \<in> set (exposure_headrooms D en metrics intent_cost market_id)
     \<and> (\<forall>(l, h') \<in> set (exposure_headrooms D en metrics intent_cost market_id). h \<le> h')"
proof -
  have ne: "exposure_headrooms D en metrics intent_cost market_id \<noteq> []"
    by (simp add: exposure_headrooms_def Let_def)
  obtain l h where m: "min_by snd (exposure_headrooms D en metrics intent_cost market_id) = Some (l, h)"
    using min_by_ne [OF ne] by fastforce
  then show ?thesis
    using min_by_mem [OF m] min_by_le [OF m] by (fastforce simp: binding_exposure_limit_def)
qed

section \<open>Sums over an association list\<close>

definition esum :: "('k \<Rightarrow> 'v \<Rightarrow> nat) \<Rightarrow> ('k \<times> 'v) list \<Rightarrow> nat" where
  "esum f es = (\<Sum>(k, v) \<leftarrow> es. f k v)"

definition weight_at :: "('k \<Rightarrow> 'v \<Rightarrow> nat) \<Rightarrow> ('k \<times> 'v) list \<Rightarrow> 'k \<Rightarrow> nat" where
  "weight_at f es k = (case map_of es k of None \<Rightarrow> 0 | Some v \<Rightarrow> f k v)"

lemma esum_Nil [simp]: "esum f [] = 0"
  by (simp add: esum_def)

lemma esum_Cons [simp]: "esum f ((k, v) # es) = f k v + esum f es"
  by (simp add: esum_def)

lemma weight_at_None [simp]: "map_of es k = None \<Longrightarrow> weight_at f es k = 0"
  by (simp add: weight_at_def)

lemma weight_at_Some [simp]: "map_of es k = Some v \<Longrightarrow> weight_at f es k = f k v"
  by (simp add: weight_at_def)

lemma weight_at_Cons: "weight_at f ((k', v) # es) k = (if k' = k then f k v else weight_at f es k)"
  by (simp add: weight_at_def)

lemma esum_update: "esum f (AList.update k v es) + weight_at f es k = esum f es + f k v"
  by (induction es) (auto simp: weight_at_Cons)

lemma esum_delete:
  "distinct (map fst es) \<Longrightarrow> esum f (AList.delete k es) + weight_at f es k = esum f es"
proof (induction es)
  case (Cons kv es)
  obtain k' v where kv: "kv = (k', v)" by fastforce
  show ?case
  proof (cases "k' = k")
    case True
    then have "map_of es k = None"
      using Cons.prems kv by (simp add: map_of_eq_None_iff)
    then show ?thesis
      using True kv Cons by (simp add: weight_at_Cons)
  next
    case False
    then show ?thesis
      using kv Cons by (simp add: weight_at_Cons)
  qed
qed simp

lemma weight_le_esum: "weight_at f es k \<le> esum f es"
  by (induction es) (auto simp: weight_at_Cons trans_le_add2)

lemma esum_cong: "(\<And>k v. (k, v) \<in> set es \<Longrightarrow> f k v = g k v) \<Longrightarrow> esum f es = esum g es"
  by (induction es) auto

lemma esum_mono: "(\<And>k v. (k, v) \<in> set es \<Longrightarrow> f k v \<le> g k v) \<Longrightarrow> esum f es \<le> esum g es"
  by (induction es) (auto intro!: add_mono)

section \<open>The invariant\<close>

definition cents :: "ident \<Rightarrow> reservation_entry \<Rightarrow> nat" where
  "cents _ e = unat (xe_amount_cents e)"

definition cents_in :: "ident \<Rightarrow> ident \<Rightarrow> reservation_entry \<Rightarrow> nat" where
  "cents_in m _ e = (if xe_market_id e = m then unat (xe_amount_cents e) else 0)"

text \<open>The counters are the sums of the entries.\<close>

definition counters_exact :: "in_memory_reservation \<Rightarrow> bool" where
  "counters_exact x \<longleftrightarrow> distinct (map fst (xr_reservations x))
     \<and> unat (xr_total_reserved_cents x) = esum cents (xr_reservations x)
     \<and> (\<forall>m. unat (market_cents x m) = esum (cents_in m) (xr_reservations x))"

definition within_limits :: "in_memory_reservation \<Rightarrow> bool" where
  "within_limits x \<longleftrightarrow> xr_total_reserved_cents x \<le> xc_max_total_exposure_cents (xr_config x)
     \<and> (\<forall>m. market_cents x m \<le> xc_max_per_market_cents (xr_config x))"

lemma drop_frame [simp]:
  "xr_reservations (drop_total a x) = xr_reservations x" "xr_config (drop_total a x) = xr_config x"
  "market_cents (drop_total a x) m = market_cents x m"
  "xr_total_reserved_cents (drop_total a x) = xr_total_reserved_cents x - a"
  "xr_reservations (drop_market m' a x) = xr_reservations x" "xr_config (drop_market m' a x) = xr_config x"
  "xr_total_reserved_cents (drop_market m' a x) = xr_total_reserved_cents x"
  by (auto simp: drop_total_def drop_market_def market_cents_def split: option.splits)

lemma market_cents_frame [simp]:
  "market_cents (x\<lparr>xr_reservations := es\<rparr>) m = market_cents x m"
  "market_cents (x\<lparr>xr_total_reserved_cents := t\<rparr>) m = market_cents x m"
  "market_cents (x\<lparr>xr_config := c\<rparr>) m = market_cents x m"
  by (simp_all add: market_cents_def)

lemma market_cents_bump [simp]:
  "market_cents (bump_market m a x) m' = (if m' = m then market_cents x m + a else market_cents x m')"
  by (simp add: bump_market_def market_cents_def update_conv)

lemma bump_frame [simp]:
  "xr_reservations (bump_market m a x) = xr_reservations x" "xr_config (bump_market m a x) = xr_config x"
  "xr_total_reserved_cents (bump_market m a x) = xr_total_reserved_cents x"
  by (simp_all add: bump_market_def)

lemma market_cents_drop:
  "a \<le> market_cents x m \<Longrightarrow> market_cents (drop_market m a x) m' = (if m' = m then market_cents x m - a else market_cents x m')"
  by (auto simp: drop_market_def market_cents_def update_conv split: option.splits)

lemma take_off:
  assumes ex: "counters_exact x" and d: "distinct (map fst es')"
    and t: "esum cents es' + unat a = esum cents (xr_reservations x)"
    and m: "\<And>m. esum (cents_in m) es' + (if m = k then unat a else 0) = esum (cents_in m) (xr_reservations x)"
    and x': "x' = drop_market k a (drop_total a (x\<lparr>xr_reservations := es'\<rparr>))"
  shows "counters_exact x'" "within_limits x \<Longrightarrow> within_limits x'"
proof -
  have le: "a \<le> xr_total_reserved_cents x"
    using ex t by (simp add: counters_exact_def word_le_nat_alt)
  have lm: "a \<le> market_cents x k"
    using ex m [of k] by (simp add: counters_exact_def word_le_nat_alt)
  have mk: "market_cents x' m' = (if m' = k then market_cents x k - a else market_cents x m')" for m'
    using lm by (simp add: x' market_cents_drop)
  have tot: "unat (xr_total_reserved_cents x') = esum cents es'"
    using ex t le by (simp add: x' counters_exact_def unat_sub)
  have mkt: "unat (market_cents x' m') = esum (cents_in m') es'" for m'
    using ex m [of m'] lm by (auto simp: mk counters_exact_def unat_sub)
  show "counters_exact x'"
    using tot mkt d by (simp add: counters_exact_def x')
  show "within_limits x'" if w: "within_limits x"
  proof -
    have "unat (xr_total_reserved_cents x') \<le> unat (xr_total_reserved_cents x)"
      using tot ex t by (simp add: counters_exact_def)
    moreover have "unat (market_cents x' m') \<le> unat (market_cents x m')" for m'
      using mkt [of m'] ex m [of m'] by (auto simp: counters_exact_def split: if_splits)
    moreover have "xr_config x' = xr_config x"
      by (simp add: x')
    ultimately show ?thesis
      using w unfolding within_limits_def by (metis order_trans word_le_nat_alt)
  qed
qed

lemma delete_take_off:
  assumes "counters_exact x" "map_of (xr_reservations x) rid = Some e"
    "x' = drop_market (xe_market_id e) (xe_amount_cents e) (drop_total (xe_amount_cents e)
       (x\<lparr>xr_reservations := AList.delete rid (xr_reservations x)\<rparr>))"
  shows "counters_exact x'" "within_limits x \<Longrightarrow> within_limits x'"
proof -
  let ?es = "AList.delete rid (xr_reservations x)"
  have d: "distinct (map fst (xr_reservations x))"
    using assms(1) by (simp add: counters_exact_def)
  then have d': "distinct (map fst ?es)"
    by (simp add: distinct_delete)
  have t: "esum cents ?es + unat (xe_amount_cents e) = esum cents (xr_reservations x)"
    using esum_delete [OF d, of cents rid] assms(2) by (simp add: cents_def)
  have m: "esum (cents_in m) ?es + (if m = xe_market_id e then unat (xe_amount_cents e) else 0)
      = esum (cents_in m) (xr_reservations x)" for m
    using esum_delete [OF d, of "cents_in m" rid] assms(2) by (auto simp: cents_in_def)
  show "counters_exact x'" "within_limits x \<Longrightarrow> within_limits x'"
    using take_off [OF assms(1) d' t m assms(3)] by simp_all
qed

lemma resize_take_off:
  assumes "counters_exact x" "map_of (xr_reservations x) rid = Some e" "c < xe_amount_cents e"
    "x' = drop_market (xe_market_id e) (xe_amount_cents e - c) (drop_total (xe_amount_cents e - c)
       (x\<lparr>xr_reservations := AList.update rid (e\<lparr>xe_amount_cents := c\<rparr>) (xr_reservations x)\<rparr>))"
  shows "counters_exact x'" "within_limits x \<Longrightarrow> within_limits x'"
proof -
  let ?es = "AList.update rid (e\<lparr>xe_amount_cents := c\<rparr>) (xr_reservations x)"
  have d': "distinct (map fst ?es)"
    using assms(1) by (simp add: counters_exact_def distinct_update)
  have u: "unat (xe_amount_cents e - c) = unat (xe_amount_cents e) - unat c" "unat c < unat (xe_amount_cents e)"
    using assms(3) by (simp_all add: unat_sub word_less_nat_alt word_le_nat_alt)
  have t: "esum cents ?es + unat (xe_amount_cents e - c) = esum cents (xr_reservations x)"
    using esum_update [of cents rid "e\<lparr>xe_amount_cents := c\<rparr>" "xr_reservations x"] assms(2) u by (simp add: cents_def)
  have m: "esum (cents_in m) ?es + (if m = xe_market_id e then unat (xe_amount_cents e - c) else 0)
      = esum (cents_in m) (xr_reservations x)" for m
    using esum_update [of "cents_in m" rid "e\<lparr>xe_amount_cents := c\<rparr>" "xr_reservations x"] assms(2) u
    by (auto simp: cents_in_def)
  show "counters_exact x'" "within_limits x \<Longrightarrow> within_limits x'"
    using take_off [OF assms(1) d' t m assms(4)] by simp_all
qed

text \<open>Admission: it succeeds exactly if both limits hold, and a refusal leaves both counters as they were.\<close>

definition fits :: "ident \<Rightarrow> u64 \<Rightarrow> in_memory_reservation \<Rightarrow> bool" where
  "fits m a x \<longleftrightarrow> unat (xr_total_reserved_cents x) + unat a \<le> unat (xc_max_total_exposure_cents (xr_config x))
     \<and> unat (market_cents x m) + unat a \<le> unat (xc_max_per_market_cents (xr_config x))"

lemma checked_add_le:
  "(case checked_add_u64 c a of None \<Rightarrow> False | Some n \<Rightarrow> n \<le> l) \<longleftrightarrow> unat c + unat a \<le> unat l"
proof (cases "unat c + unat a < 2 ^ 64")
  case True
  then have "unat (c + a) = unat c + unat a"
    by (simp add: unat_word_ariths)
  then show ?thesis
    using True by (simp add: checked_add_u64_def word_le_nat_alt)
next
  case False
  then show ?thesis
    using unat_u64_less [of l] by (simp add: checked_add_u64_def)
qed

lemma unat_add_fits: "unat (c :: u64) + unat a \<le> unat (l :: u64) \<Longrightarrow> unat (c + a) = unat c + unat a"
  using unat_u64_less [of l] by (simp add: unat_word_ariths)

lemma undo_bump:
  "market_cents (drop_market m a (bump_market m a x)) m' = market_cents x m'"
  by (simp add: drop_market_def bump_market_def market_cents_def update_conv)

lemma admit_result:
  assumes "admit s1 s2 m a x = (r, x')"
  shows "r = Inr () \<longleftrightarrow> fits m a x"
    and "r = Inr () \<Longrightarrow> x' = bump_market m a (x\<lparr>xr_total_reserved_cents := xr_total_reserved_cents x + a\<rparr>)"
    and "r \<noteq> Inr () \<Longrightarrow> xr_total_reserved_cents x' = xr_total_reserved_cents x \<and> (\<forall>m'. market_cents x' m' = market_cents x m')
      \<and> xr_reservations x' = xr_reservations x \<and> xr_config x' = xr_config x"
proof -
  note t = checked_add_le [where c = "xr_total_reserved_cents x" and a = a and l = "xc_max_total_exposure_cents (xr_config x)"]
  note k = checked_add_le [where c = "market_cents x m" and a = a and l = "xc_max_per_market_cents (xr_config x)"]
  show "r = Inr () \<longleftrightarrow> fits m a x"
    using assms t k by (auto simp: admit_def fits_def Let_def not_less split: option.splits if_splits)
  show "r = Inr () \<Longrightarrow> x' = bump_market m a (x\<lparr>xr_total_reserved_cents := xr_total_reserved_cents x + a\<rparr>)"
    using assms by (auto simp: admit_def Let_def checked_add_u64_def split: option.splits if_splits)
  show "r \<noteq> Inr () \<Longrightarrow> xr_total_reserved_cents x' = xr_total_reserved_cents x \<and> (\<forall>m'. market_cents x' m' = market_cents x m')
      \<and> xr_reservations x' = xr_reservations x \<and> xr_config x' = xr_config x"
    using assms
    by (auto simp: admit_def Let_def checked_add_u64_def undo_bump drop_total_def split: option.splits if_splits)
qed

lemma admit_insert:
  assumes ex: "counters_exact x" and fit: "fits m a x" and new: "map_of (xr_reservations x) rid = None"
    and e: "xe_market_id e = m" "xe_amount_cents e = a"
    and x': "x' = (bump_market m a (x\<lparr>xr_total_reserved_cents := xr_total_reserved_cents x + a\<rparr>))
      \<lparr>xr_reservations := AList.update rid e (xr_reservations x)\<rparr>"
  shows "counters_exact x'" "within_limits x \<Longrightarrow> within_limits x'"
proof -
  have t: "unat (xr_total_reserved_cents x + a) = unat (xr_total_reserved_cents x) + unat a"
    and k: "unat (market_cents x m + a) = unat (market_cents x m) + unat a"
    using fit unat_add_fits by (auto simp: fits_def)
  have "esum cents (AList.update rid e (xr_reservations x)) = esum cents (xr_reservations x) + unat a"
    using esum_update [of cents rid e "xr_reservations x"] new e by (simp add: cents_def)
  moreover have "esum (cents_in m') (AList.update rid e (xr_reservations x)) =
      esum (cents_in m') (xr_reservations x) + (if m' = m then unat a else 0)" for m'
    using esum_update [of "cents_in m'" rid e "xr_reservations x"] new e by (auto simp: cents_in_def)
  ultimately show "counters_exact x'"
    using ex t k by (auto simp: counters_exact_def x' distinct_update)
  show "within_limits x'" if "within_limits x"
    using that fit t k by (auto simp: within_limits_def x' fits_def word_le_nat_alt)
qed

section \<open>Runs\<close>

datatype res_op =
    Reserve instant ident ident usd int
  | Pin ident
  | Restore ident ident usd bool instant
  | Release ident
  | Resize ident usd
  | Gc instant
  | ReloadLimits exposure_reservation_config

fun apply_res_op :: "'z decimal_ops_scheme \<Rightarrow> res_op \<Rightarrow> in_memory_reservation \<Rightarrow> in_memory_reservation" where
  "apply_res_op D (Reserve now rid m amount ttl) x = snd (try_reserve_sync D now rid m amount ttl x)"
| "apply_res_op D (Pin rid) x = snd (pin_for_reconciliation_sync rid x)"
| "apply_res_op D (Restore rid m amount pinned t) x = snd (restore_sync D rid m amount pinned t x)"
| "apply_res_op D (Release rid) x = snd (release_sync rid x)"
| "apply_res_op D (Resize rid amount) x = snd (resize_sync D rid amount x)"
| "apply_res_op D (Gc now) x = snd (gc_expired now x)"
| "apply_res_op D (ReloadLimits config) x = reload_limits config x"

text \<open>A fresh id for every new reservation.\<close>

fun fresh_id :: "res_op \<Rightarrow> in_memory_reservation \<Rightarrow> bool" where
  "fresh_id (Reserve now rid m amount ttl) x = (map_of (xr_reservations x) rid = None)"
| "fresh_id _ x = True"

fun fresh_ids :: "'z decimal_ops_scheme \<Rightarrow> res_op list \<Rightarrow> in_memory_reservation \<Rightarrow> bool" where
  "fresh_ids D [] x = True"
| "fresh_ids D (op # ops) x = (fresh_id op x \<and> fresh_ids D ops (apply_res_op D op x))"

fun is_reload :: "res_op \<Rightarrow> bool" where
  "is_reload (ReloadLimits _) = True"
| "is_reload _ = False"

lemma drop_commute:
  "(drop_market k a (drop_total a x))\<lparr>xr_reservations := es\<rparr> = drop_market k a (drop_total a (x\<lparr>xr_reservations := es\<rparr>))"
  by (cases "map_of (xr_per_market_cents x) k") (simp_all add: drop_market_def drop_total_def)

lemma gc_fold:
  assumes "counters_exact x" "distinct (map fst es)" "\<forall>(k, e) \<in> set es. map_of (xr_reservations x) k = Some e"
  shows "counters_exact (snd (fold (gc_entry now) es (n, x)))
    \<and> (within_limits x \<longrightarrow> within_limits (snd (fold (gc_entry now) es (n, x))))
    \<and> (\<forall>k. map_of (xr_reservations (snd (fold (gc_entry now) es (n, x)))) k =
         (case map_of es k of Some e \<Rightarrow> if reservation_expired now e then None else Some e | None \<Rightarrow> map_of (xr_reservations x) k))"
  using assms
proof (induction es arbitrary: n x)
  case (Cons kv es)
  obtain k e where kv: "kv = (k, e)" by fastforce
  have k: "map_of (xr_reservations x) k = Some e" and nk: "map_of es k = None"
    using Cons.prems by (auto simp: kv map_of_eq_None_iff)
  show ?case
  proof (cases "reservation_expired now e")
    case False
    then have step: "gc_entry now kv (n, x) = (n, x)"
      by (simp add: kv gc_entry_def)
    from Cons.IH [OF Cons.prems(1), of n] show ?thesis
      using Cons.prems(2,3) False nk k by (auto simp: kv step [unfolded kv] split: option.splits)
  next
    case True
    let ?x = "drop_market (xe_market_id e) (xe_amount_cents e) (drop_total (xe_amount_cents e)
       (x\<lparr>xr_reservations := AList.delete k (xr_reservations x)\<rparr>))"
    have step: "gc_entry now kv (n, x) = (n + 1, ?x)"
      using True by (simp add: kv gc_entry_def drop_commute)
    note ok = delete_take_off [OF Cons.prems(1) k refl]
    have "map_of (xr_reservations ?x) k' = Some e'" if "(k', e') \<in> set es" for k' e'
    proof -
      have "k' \<noteq> k" "map_of (xr_reservations x) k' = Some e'"
        using that Cons.prems(2,3) by (force simp: kv)+
      then show ?thesis
        by (simp add: delete_conv')
    qed
    then have "\<forall>(k', e') \<in> set es. map_of (xr_reservations ?x) k' = Some e'"
      by blast
    from Cons.IH [OF ok(1) _ this, of "n + 1"] show ?thesis
      using Cons.prems(2) ok(2) True nk by (auto simp: kv step [unfolded kv] delete_conv' split: option.splits)
  qed
qed auto

lemma gc_expired_result:
  assumes "counters_exact x"
  shows "counters_exact (snd (gc_expired now x))" "within_limits x \<Longrightarrow> within_limits (snd (gc_expired now x))"
    "map_of (xr_reservations (snd (gc_expired now x))) k =
      (case map_of (xr_reservations x) k of Some e \<Rightarrow> if reservation_expired now e then None else Some e | None \<Rightarrow> None)"
proof -
  have "distinct (map fst (xr_reservations x))"
    using assms by (simp add: counters_exact_def)
  moreover from this have "\<forall>(k, e) \<in> set (xr_reservations x). map_of (xr_reservations x) k = Some e"
    by auto
  ultimately show "counters_exact (snd (gc_expired now x))" "within_limits x \<Longrightarrow> within_limits (snd (gc_expired now x))"
    "map_of (xr_reservations (snd (gc_expired now x))) k =
      (case map_of (xr_reservations x) k of Some e \<Rightarrow> if reservation_expired now e then None else Some e | None \<Rightarrow> None)"
    using gc_fold [OF assms, of "xr_reservations x" now 0] by (auto simp: gc_expired_def split: option.splits)
qed

section \<open>What the operations keep\<close>

lemma unchanged_counters:
  assumes "counters_exact x" "xr_total_reserved_cents x' = xr_total_reserved_cents x" "\<forall>m. market_cents x' m = market_cents x m"
    "xr_reservations x' = xr_reservations x" "xr_config x' = xr_config x"
  shows "counters_exact x'" "within_limits x \<Longrightarrow> within_limits x'"
  using assms by (simp_all add: counters_exact_def within_limits_def)

lemma reserve_keeps:
  assumes "counters_exact x" "map_of (xr_reservations x) rid = None" "try_reserve_sync D now rid m amount ttl x = (r, x')"
  shows "counters_exact x'" "within_limits x \<Longrightarrow> within_limits x'" "xr_config x' = xr_config x"
proof -
  have "(counters_exact x' \<and> (within_limits x \<longrightarrow> within_limits x')) \<and> xr_config x' = xr_config x"
  proof (cases "usd_to_cents D amount")
    case (Inl e)
    then show ?thesis
      using assms by (simp add: try_reserve_sync_def)
  next
    case (Inr a)
    obtain r1 x1 where ad: "admit ''reservation total overflow'' ''reservation market total overflow'' m a x = (r1, x1)"
      by fastforce
    note res = admit_result [OF ad]
    show ?thesis
    proof (cases "r1 = Inr ()")
      case True
      then show ?thesis
        using assms res admit_insert [OF assms(1) _ assms(2)] by (auto simp: try_reserve_sync_def Inr ad)
    next
      case False
      then have "x' = x1"
        using assms(3) by (auto simp: try_reserve_sync_def Inr ad split: sum.splits)
      then show ?thesis
        using res(3) [OF False] unchanged_counters [OF assms(1)] by simp
    qed
  qed
  then show "counters_exact x'" "within_limits x \<Longrightarrow> within_limits x'" "xr_config x' = xr_config x"
    by simp_all
qed

lemma restore_keeps:
  assumes "counters_exact x" "restore_sync D rid m amount pinned t x = (r, x')"
  shows "counters_exact x'" "within_limits x \<Longrightarrow> within_limits x'" "xr_config x' = xr_config x"
proof -
  have "(counters_exact x' \<and> (within_limits x \<longrightarrow> within_limits x')) \<and> xr_config x' = xr_config x"
  proof (cases "map_of (xr_reservations x) rid = None \<and> \<not> isl (usd_to_cents D amount)")
    case False
    then show ?thesis
      using assms by (cases "usd_to_cents D amount") (auto simp: restore_sync_def split: if_splits)
  next
    case True
    then obtain a where a: "usd_to_cents D amount = Inr a"
      by (cases "usd_to_cents D amount") auto
    obtain r1 x1 where ad: "admit ''reservation total overflow on restore'' ''reservation market total overflow on restore'' m a x = (r1, x1)"
      by fastforce
    note res = admit_result [OF ad]
    show ?thesis
    proof (cases "r1 = Inr ()")
      case ok: True
      then show ?thesis
        using assms True res admit_insert [OF assms(1) _ conjunct1 [OF True]] by (auto simp: restore_sync_def a ad)
    next
      case False
      then have "x' = x1"
        using assms(2) True by (auto simp: restore_sync_def a ad split: sum.splits)
      then show ?thesis
        using res(3) [OF False] unchanged_counters [OF assms(1)] by simp
    qed
  qed
  then show "counters_exact x'" "within_limits x \<Longrightarrow> within_limits x'" "xr_config x' = xr_config x"
    by simp_all
qed

lemma pin_keeps:
  assumes "counters_exact x" "pin_for_reconciliation_sync rid x = (r, x')"
  shows "counters_exact x'" "within_limits x \<Longrightarrow> within_limits x'" "xr_config x' = xr_config x"
proof -
  have "esum cents (AList.update rid (e\<lparr>xe_reconcile_pinned := True\<rparr>) (xr_reservations x)) = esum cents (xr_reservations x)"
    "esum (cents_in m) (AList.update rid (e\<lparr>xe_reconcile_pinned := True\<rparr>) (xr_reservations x)) = esum (cents_in m) (xr_reservations x)"
    if "map_of (xr_reservations x) rid = Some e" for e m
    using that esum_update [of cents rid "e\<lparr>xe_reconcile_pinned := True\<rparr>" "xr_reservations x"]
      esum_update [of "cents_in m" rid "e\<lparr>xe_reconcile_pinned := True\<rparr>" "xr_reservations x"]
    by (simp_all add: cents_def cents_in_def split: if_splits)
  then show "counters_exact x'" "within_limits x \<Longrightarrow> within_limits x'" "xr_config x' = xr_config x"
    using assms
    by (auto simp: pin_for_reconciliation_sync_def counters_exact_def within_limits_def distinct_update split: option.splits)
qed

lemma release_keeps:
  assumes "counters_exact x" "release_sync rid x = (r, x')"
  shows "counters_exact x'" "within_limits x \<Longrightarrow> within_limits x'" "xr_config x' = xr_config x"
  using assms delete_take_off [OF assms(1)]
  by (auto simp: release_sync_def remove_reservation_entry_def split: option.splits)

lemma resize_keeps:
  assumes "counters_exact x" "resize_sync D rid amount x = (r, x')"
  shows "counters_exact x'" "within_limits x \<Longrightarrow> within_limits x'" "xr_config x' = xr_config x"
proof -
  have lt: "c < xe_amount_cents e" if "c \<noteq> xe_amount_cents e" "\<not> xe_amount_cents e < c" for c and e :: reservation_entry
    using that by simp
  show "counters_exact x'" "within_limits x \<Longrightarrow> within_limits x'" "xr_config x' = xr_config x"
    using assms resize_take_off [OF assms(1) _ lt]
    by (auto simp: resize_sync_def Let_def split: option.splits sum.splits if_splits)
qed

lemma gc_config [simp]: "xr_config (snd (gc_expired now x)) = xr_config x"
proof -
  have "xr_config (snd (fold (gc_entry now) es (n, x))) = xr_config x" for es n
    by (induction es arbitrary: n x) (auto simp: gc_entry_def)
  then show ?thesis
    by (simp add: gc_expired_def)
qed

lemma reload_exact: "counters_exact x \<Longrightarrow> counters_exact (reload_limits config x)"
  by (simp add: reload_limits_def counters_exact_def)

lemma op_keeps:
  assumes "counters_exact x" "fresh_id op x"
  shows "counters_exact (apply_res_op D op x)"
    and "\<not> is_reload op \<Longrightarrow> within_limits x \<Longrightarrow> within_limits (apply_res_op D op x)"
    and "\<not> is_reload op \<Longrightarrow> xr_config (apply_res_op D op x) = xr_config x"
proof -
  note keeps = reserve_keeps [OF assms(1) _ prod.collapse [symmetric]] restore_keeps [OF assms(1) prod.collapse [symmetric]]
    pin_keeps [OF assms(1) prod.collapse [symmetric]] release_keeps [OF assms(1) prod.collapse [symmetric]]
    resize_keeps [OF assms(1) prod.collapse [symmetric]] gc_expired_result [OF assms(1)]
  have "counters_exact (apply_res_op D op x) \<and> (\<not> is_reload op \<longrightarrow> (within_limits x \<longrightarrow> within_limits (apply_res_op D op x))
      \<and> xr_config (apply_res_op D op x) = xr_config x)"
    using assms(2) by (cases op) (simp_all add: keeps reload_exact [OF assms(1)])
  then show "counters_exact (apply_res_op D op x)"
    and "\<not> is_reload op \<Longrightarrow> within_limits x \<Longrightarrow> within_limits (apply_res_op D op x)"
    and "\<not> is_reload op \<Longrightarrow> xr_config (apply_res_op D op x) = xr_config x"
    by simp_all
qed

lemma run_keeps:
  assumes "counters_exact x" "fresh_ids D ops x"
  shows "counters_exact (fold (apply_res_op D) ops x)"
    and "\<forall>op \<in> set ops. \<not> is_reload op \<Longrightarrow> within_limits x \<Longrightarrow> within_limits (fold (apply_res_op D) ops x)"
    and "\<forall>op \<in> set ops. \<not> is_reload op \<Longrightarrow> xr_config (fold (apply_res_op D) ops x) = xr_config x"
  using assms by (induction ops arbitrary: x) (simp_all add: op_keeps)

lemma new_exact: "counters_exact (new_reservations config)" "within_limits (new_reservations config)"
  by (simp_all add: counters_exact_def within_limits_def new_reservations_def market_cents_def)

text \<open>C16: Reserved exposure is counted exactly and stays within the limits. After any sequence of reservations, pins, restores, releases, reductions,
  collections of expired entries and reloads, the total counter is the sum of the active reservations in cents and each market's counter the sum of the
  reservations of that market, so no counter has wrapped; and as long as the limits were not reloaded, the sum of all
  reservations is at most the total limit and the sum of each market's at most the limit per market. New reservations have unused ids.\<close>

theorem reservations_exact:
  assumes "fresh_ids D ops (new_reservations config)"
  shows "let x = fold (apply_res_op D) ops (new_reservations config) in
      unat (xr_total_reserved_cents x) = esum (\<lambda>_ e. unat (xe_amount_cents e)) (xr_reservations x)
    \<and> (\<forall>m. unat (market_cents x m) =
          esum (\<lambda>_ e. if xe_market_id e = m then unat (xe_amount_cents e) else 0) (xr_reservations x))
    \<and> (\<not> list_ex is_reload ops \<longrightarrow>
          xr_total_reserved_cents x \<le> xc_max_total_exposure_cents config
        \<and> (\<forall>m. market_cents x m \<le> xc_max_per_market_cents config))"
proof -
  let ?x = "fold (apply_res_op D) ops (new_reservations config)"
  have "counters_exact ?x"
    using run_keeps(1) [OF new_exact(1) assms] .
  moreover have "within_limits ?x \<and> xr_config ?x = config" if "\<not> list_ex is_reload ops"
    using run_keeps(2,3) [OF new_exact(1) assms] new_exact(2) that by (simp add: list_ex_iff new_reservations_def)
  moreover have "cents = (\<lambda>_ e. unat (xe_amount_cents e))" "cents_in m = (\<lambda>_ e. if xe_market_id e = m then unat (xe_amount_cents e) else 0)" for m
    by (simp_all add: fun_eq_iff cents_def cents_in_def)
  ultimately show ?thesis
    unfolding counters_exact_def within_limits_def Let_def by metis
qed

lemma unat_of_int_u64:
  assumes "0 \<le> v" "v < 2 ^ 64"
  shows "unat (word_of_int v :: u64) = nat v"
proof -
  have "uint (word_of_int v :: u64) = v"
    using assms by (simp add: uint_word_of_int)
  then show ?thesis
    by (metis nat_uint_eq)
qed

lemma to_u64_unat: "to_u64 v = Some c \<Longrightarrow> unat c = nat v \<and> 0 \<le> v"
  by (auto simp: to_u64_def unat_of_int_u64 split: if_splits)

lemma usd_to_cents_result:
  "usd_to_cents D amount = (if 0 \<le> \<lfloor>dec_mul D amount 100\<rfloor> \<and> \<lfloor>dec_mul D amount 100\<rfloor> < 2 ^ 64
     then Inr (word_of_int \<lfloor>dec_mul D amount 100\<rfloor>) else Inl (Backend ''amount overflow or negative''))"
  by (simp add: usd_to_cents_def to_u64_def)

definition granted :: "'z decimal_ops_scheme \<Rightarrow> usd \<Rightarrow> ident \<Rightarrow> in_memory_reservation \<Rightarrow> bool" where
  "granted D amount m x \<longleftrightarrow> (let c = \<lfloor>dec_mul D amount 100\<rfloor> in 0 \<le> c
     \<and> unat (xr_total_reserved_cents x) + nat c \<le> unat (xc_max_total_exposure_cents (xr_config x))
     \<and> unat (market_cents x m) + nat c \<le> unat (xc_max_per_market_cents (xr_config x)))"

lemmas granted_iff = granted_def [unfolded Let_def, symmetric]

lemma reserve_granted:
  assumes "granted D amount m x" "c = \<lfloor>dec_mul D amount 100\<rfloor>"
  obtains x' where "try_reserve_sync D now rid m amount ttl x = (Inr rid, x')"
    "map_of (xr_reservations x') = (map_of (xr_reservations x))(rid \<mapsto>
       \<lparr>xe_market_id = m, xe_amount_cents = word_of_int c, xe_expires_at = now + ttl, xe_reconcile_pinned = False\<rparr>)"
    "unat (xr_total_reserved_cents x') = unat (xr_total_reserved_cents x) + nat c"
    "\<And>m'. unat (market_cents x' m') = unat (market_cents x m') + (if m' = m then nat c else 0)"
proof -
  note g = assms(1) [unfolded granted_def Let_def, folded assms(2)]
  have c: "0 \<le> c" "c < 2 ^ 64"
    using g unat_u64_less [of "xc_max_total_exposure_cents (xr_config x)"] by auto
  let ?a = "word_of_int c :: u64"
  have cents: "usd_to_cents D amount = Inr ?a" and na: "unat ?a = nat c"
    using c by (simp_all add: usd_to_cents_result unat_of_int_u64 flip: assms(2))
  have fit: "fits m ?a x"
    using g na by (simp add: fits_def)
  obtain r1 x1 where ad: "admit ''reservation total overflow'' ''reservation market total overflow'' m ?a x = (r1, x1)"
    by fastforce
  have r1: "r1 = Inr ()" and x1: "x1 = bump_market m ?a (x\<lparr>xr_total_reserved_cents := xr_total_reserved_cents x + ?a\<rparr>)"
    using admit_result(1,2) [OF ad] fit by simp_all
  have "unat (xr_total_reserved_cents x + ?a) = unat (xr_total_reserved_cents x) + nat c"
    "unat (market_cents x m + ?a) = unat (market_cents x m) + nat c"
    using fit unat_add_fits [of _ ?a] na by (auto simp: fits_def)
  then show ?thesis
    by (intro that [of "x1\<lparr>xr_reservations := AList.update rid
      \<lparr>xe_market_id = m, xe_amount_cents = ?a, xe_expires_at = now + ttl, xe_reconcile_pinned = False\<rparr> (xr_reservations x1)\<rparr>"])
      (simp_all add: try_reserve_sync_def cents ad r1 x1 update_conv')
qed

lemma reserve_refused:
  assumes "\<not> granted D amount m x"
  obtains e x' where "try_reserve_sync D now rid m amount ttl x = (Inl e, x')" "xr_reservations x' = xr_reservations x"
    "xr_total_reserved_cents x' = xr_total_reserved_cents x" "\<And>m'. market_cents x' m' = market_cents x m'"
proof (cases "usd_to_cents D amount")
  case (Inl e)
  then show ?thesis
    by (intro that [of e x]) (simp_all add: try_reserve_sync_def)
next
  case (Inr a)
  obtain r1 x1 where ad: "admit ''reservation total overflow'' ''reservation market total overflow'' m a x = (r1, x1)"
    by fastforce
  have "to_u64 \<lfloor>dec_mul D amount 100\<rfloor> = Some a"
    using Inr by (simp add: usd_to_cents_def Let_def split: if_splits option.splits)
  then have "\<not> fits m a x"
    using assms to_u64_unat [of _ a] unfolding granted_def fits_def Let_def by metis
  then have r1: "r1 \<noteq> Inr ()"
    using admit_result(1) [OF ad] by simp
  then obtain e where "r1 = Inl e"
    by (cases r1) auto
  then show ?thesis
    using admit_result(3) [OF ad r1] Inr by (intro that [of e x1]) (simp_all add: try_reserve_sync_def ad)
qed

text \<open>C17: A reservation is granted exactly if it fits. The amount is taken in whole cents, rounded down; the reservation is granted if and only if the
  cents are a non-negative 64-bit number and neither the total counter nor the counter of the market would exceed its limit. A granted
  reservation adds its entry and its cents to both counters, without wrapping; a refused one changes no entry and no counter.\<close>

theorem reserve_granted_exactly:
  "let (r, x') = try_reserve_sync D now rid m amount ttl x;
       c = \<lfloor>dec_mul D amount 100\<rfloor>;
       ok = (0 \<le> c \<and> unat (xr_total_reserved_cents x) + nat c \<le> unat (xc_max_total_exposure_cents (xr_config x))
             \<and> unat (market_cents x m) + nat c \<le> unat (xc_max_per_market_cents (xr_config x)))
   in (r = Inr rid \<longleftrightarrow> ok)
    \<and> map_of (xr_reservations x') = (if ok then (map_of (xr_reservations x))(rid \<mapsto>
        \<lparr>xe_market_id = m, xe_amount_cents = word_of_int c, xe_expires_at = now + ttl, xe_reconcile_pinned = False\<rparr>)
        else map_of (xr_reservations x))
    \<and> unat (xr_total_reserved_cents x') = unat (xr_total_reserved_cents x) + (if ok then nat c else 0)
    \<and> (\<forall>m'. unat (market_cents x' m') = unat (market_cents x m') + (if ok \<and> m' = m then nat c else 0))"
proof (cases "granted D amount m x")
  case True
  obtain x' where "try_reserve_sync D now rid m amount ttl x = (Inr rid, x')"
    "map_of (xr_reservations x') = (map_of (xr_reservations x))(rid \<mapsto>
       \<lparr>xe_market_id = m, xe_amount_cents = word_of_int \<lfloor>dec_mul D amount 100\<rfloor>, xe_expires_at = now + ttl, xe_reconcile_pinned = False\<rparr>)"
    "unat (xr_total_reserved_cents x') = unat (xr_total_reserved_cents x) + nat \<lfloor>dec_mul D amount 100\<rfloor>"
    "\<And>m'. unat (market_cents x' m') = unat (market_cents x m') + (if m' = m then nat \<lfloor>dec_mul D amount 100\<rfloor> else 0)"
    using reserve_granted [OF True refl, where now = now and rid = rid and ttl = ttl] by blast
  then show ?thesis
    unfolding Let_def granted_iff using True by simp
next
  case False
  obtain e x' where "try_reserve_sync D now rid m amount ttl x = (Inl e, x')" "xr_reservations x' = xr_reservations x"
    "xr_total_reserved_cents x' = xr_total_reserved_cents x" "\<And>m'. market_cents x' m' = market_cents x m'"
    using reserve_refused [OF False, where now = now and rid = rid and ttl = ttl] by blast
  then show ?thesis
    unfolding Let_def granted_iff using False by simp
qed

definition demo_limits :: exposure_reservation_config where
  "demo_limits = \<lparr>xc_max_total_exposure_cents = 1000, xc_max_per_market_cents = 600, xc_default_ttl_secs = 300,
     xc_gc_interval_secs = 30\<rparr>"

theorem reservations_exact_witness:
  "let x = fold (apply_res_op exact_ops) [Reserve 0 ''r1'' ''m1'' (5 / 2) 60, Release ''r1''] (new_reservations demo_limits)
   in unat (xr_total_reserved_cents x) = esum (\<lambda>_ e. unat (xe_amount_cents e)) (xr_reservations x)
     \<and> xr_total_reserved_cents x \<le> 1000"
proof -
  have "fresh_ids exact_ops [Reserve 0 ''r1'' ''m1'' (5 / 2) 60, Release ''r1''] (new_reservations demo_limits)"
    by (simp add: new_reservations_def)
  from reservations_exact [OF this] show ?thesis
    by (simp add: Let_def demo_limits_def)
qed

end
