(* ===== verification/Reservation_Concurrency.thy ===== *)
theory Reservation_Concurrency
  imports Reservation
begin

text \<open>
  The reservations of \<open>oxide-arb-core/src/exposure/in_memory.rs\<close> under concurrent use. Each operation is split at its accesses to shared
  memory: the loads, exchanges and subtractions on the atomic counters, and the operations on the two concurrent maps, which lock the shard of
  their key. A guard into the market counters is held from the entry call to the end of \<open>try_reserve_sync\<close>, while
  \<open>restore_sync\<close> drops it before the insertion; \<open>retain\<close> holds the lock of a shard of the reservations while
  it visits the entries of that shard. The hash functions of the maps and the number of shards are parameters.
\<close>

section \<open>Tasks\<close>

record dash_params =
  dp_rshard :: "ident \<Rightarrow> nat"
  dp_mshard :: "ident \<Rightarrow> nat"
  dp_shards :: nat

text \<open>A request to admit: \<open>rq_restore\<close> is the persisted id of \<open>restore_sync\<close>, and \<open>None\<close> for \<open>try_reserve_sync\<close>.\<close>

record request =
  rq_restore :: "ident option"
  rq_market_id :: ident
  rq_amount_cents :: u64
  rq_pinned :: bool
  rq_expires_at :: instant

datatype task =
    Idle
  | R_Check request
  | R_Load request
  | R_Cas request u64
  | R_Market request
  | R_Undo request
  | R_UndoTotal request
  | R_Insert request
  | D_Remove ident
  | D_Total reservation_entry
  | D_Market reservation_entry
  | Z_Get ident u64
  | Z_Total ident u64
  | Z_Market ident u64
  | P_Pin ident
  | G_Lock instant nat
  | G_Scan instant nat "ident list"
  | G_Market instant nat "ident list" ident reservation_entry
  | G_Remove instant nat "ident list" ident

section \<open>Locks\<close>

fun holds_r :: "task \<Rightarrow> nat option" where
  "holds_r (G_Scan _ s _) = Some s"
| "holds_r (G_Market _ s _ _ _) = Some s"
| "holds_r (G_Remove _ s _ _) = Some s"
| "holds_r _ = None"

fun holds_m :: "dash_params \<Rightarrow> task \<Rightarrow> nat option" where
  "holds_m P (R_Undo rq) = Some (dp_mshard P (rq_market_id rq))"
| "holds_m P (R_Insert rq) = (if rq_restore rq = None then Some (dp_mshard P (rq_market_id rq)) else None)"
| "holds_m P _ = None"

text \<open>No other task holds the shard.\<close>

definition r_free :: "task list \<Rightarrow> nat \<Rightarrow> nat \<Rightarrow> bool" where
  "r_free ts i s \<longleftrightarrow> list_all (\<lambda>j. j = i \<or> holds_r (ts ! j) \<noteq> Some s) [0..<length ts]"

definition m_free :: "dash_params \<Rightarrow> task list \<Rightarrow> nat \<Rightarrow> nat \<Rightarrow> bool" where
  "m_free P ts i s \<longleftrightarrow> list_all (\<lambda>j. j = i \<or> holds_m P (ts ! j) \<noteq> Some s) [0..<length ts]"

section \<open>Steps\<close>

text \<open>What the environment of a step decides: whether the weak exchange succeeds when it may, and the new id.\<close>

record choice =
  ch_cas :: bool
  ch_id :: ident

definition request_entry :: "request \<Rightarrow> reservation_entry" where
  "request_entry rq = \<lparr>xe_market_id = rq_market_id rq, xe_amount_cents = rq_amount_cents rq,
     xe_expires_at = rq_expires_at rq, xe_reconcile_pinned = rq_pinned rq\<rparr>"

definition insert_id :: "choice \<Rightarrow> request \<Rightarrow> ident" where
  "insert_id ch rq = (case rq_restore rq of None \<Rightarrow> ch_id ch | Some rid \<Rightarrow> rid)"

text \<open>One atomic step of a task; \<open>None\<close> while it waits for a lock. \<open>rf\<close> and \<open>mf\<close> say which shards the others leave free.\<close>

fun task_step ::
  "dash_params \<Rightarrow> choice \<Rightarrow> (nat \<Rightarrow> bool) \<Rightarrow> (nat \<Rightarrow> bool) \<Rightarrow> task \<Rightarrow> in_memory_reservation \<Rightarrow>
   (task \<times> in_memory_reservation) option" where
  "task_step P ch rf mf Idle x = None"
| "task_step P ch rf mf (R_Check rq) x =
     (case rq_restore rq of
        None \<Rightarrow> None
      | Some rid \<Rightarrow>
          if rf (dp_rshard P rid)
          then Some (if map_of (xr_reservations x) rid \<noteq> None then Idle else R_Load rq, x) else None)"
| "task_step P ch rf mf (R_Load rq) x =
     Some (case checked_add_u64 (xr_total_reserved_cents x) (rq_amount_cents rq) of
             None \<Rightarrow> Idle
           | Some new_total \<Rightarrow>
               if new_total > xc_max_total_exposure_cents (xr_config x) then Idle
               else R_Cas rq (xr_total_reserved_cents x), x)"
| "task_step P ch rf mf (R_Cas rq current) x =
     Some (if ch_cas ch \<and> xr_total_reserved_cents x = current
           then (R_Market rq, x\<lparr>xr_total_reserved_cents := current + rq_amount_cents rq\<rparr>)
           else (R_Load rq, x))"
| "task_step P ch rf mf (R_Market rq) x =
     (if mf (dp_mshard P (rq_market_id rq))
      then Some (case checked_add_u64 (market_cents x (rq_market_id rq)) (rq_amount_cents rq) of
                   None \<Rightarrow> R_Undo rq
                 | Some market_new_total \<Rightarrow>
                     if market_new_total > xc_max_per_market_cents (xr_config x) then R_Undo rq else R_Insert rq,
                 bump_market (rq_market_id rq) (rq_amount_cents rq) x)
      else None)"
| "task_step P ch rf mf (R_Undo rq) x = Some (R_UndoTotal rq, drop_market (rq_market_id rq) (rq_amount_cents rq) x)"
| "task_step P ch rf mf (R_UndoTotal rq) x = Some (Idle, drop_total (rq_amount_cents rq) x)"
| "task_step P ch rf mf (R_Insert rq) x =
     (if rf (dp_rshard P (insert_id ch rq))
      then Some (Idle, x\<lparr>xr_reservations := AList.update (insert_id ch rq) (request_entry rq) (xr_reservations x)\<rparr>)
      else None)"
| "task_step P ch rf mf (D_Remove rid) x =
     (if rf (dp_rshard P rid)
      then Some (case map_of (xr_reservations x) rid of
                   None \<Rightarrow> (Idle, x)
                 | Some e \<Rightarrow> (D_Total e, x\<lparr>xr_reservations := AList.delete rid (xr_reservations x)\<rparr>))
      else None)"
| "task_step P ch rf mf (D_Total e) x = Some (D_Market e, drop_total (xe_amount_cents e) x)"
| "task_step P ch rf mf (D_Market e) x =
     (if mf (dp_mshard P (xe_market_id e)) then Some (Idle, drop_market (xe_market_id e) (xe_amount_cents e) x) else None)"
| "task_step P ch rf mf (Z_Get rid new_cents) x =
     (if rf (dp_rshard P rid)
      then Some (case map_of (xr_reservations x) rid of
                   None \<Rightarrow> (Idle, x)
                 | Some e \<Rightarrow>
                     if new_cents < xe_amount_cents e
                     then (Z_Total (xe_market_id e) (xe_amount_cents e - new_cents),
                           x\<lparr>xr_reservations := AList.update rid (e\<lparr>xe_amount_cents := new_cents\<rparr>) (xr_reservations x)\<rparr>)
                     else (Idle, x))
      else None)"
| "task_step P ch rf mf (Z_Total m delta) x = Some (Z_Market m delta, drop_total delta x)"
| "task_step P ch rf mf (Z_Market m delta) x =
     (if mf (dp_mshard P m) then Some (Idle, drop_market m delta x) else None)"
| "task_step P ch rf mf (P_Pin rid) x =
     (if rf (dp_rshard P rid)
      then Some (Idle, case map_of (xr_reservations x) rid of
                   None \<Rightarrow> x
                 | Some e \<Rightarrow> x\<lparr>xr_reservations := AList.update rid (e\<lparr>xe_reconcile_pinned := True\<rparr>) (xr_reservations x)\<rparr>)
      else None)"
| "task_step P ch rf mf (G_Lock now s) x =
     (if s \<ge> dp_shards P then Some (Idle, x)
      else if rf s
      then Some (G_Scan now s (filter (\<lambda>k. dp_rshard P k = s) (map fst (xr_reservations x))), x) else None)"
| "task_step P ch rf mf (G_Scan now s []) x = Some (G_Lock now (Suc s), x)"
| "task_step P ch rf mf (G_Scan now s (k # ks)) x =
     Some (case map_of (xr_reservations x) k of
             None \<Rightarrow> (G_Scan now s ks, x)
           | Some e \<Rightarrow>
               if reservation_expired now e then (G_Market now s ks k e, drop_total (xe_amount_cents e) x)
               else (G_Scan now s ks, x))"
| "task_step P ch rf mf (G_Market now s ks k e) x =
     (if mf (dp_mshard P (xe_market_id e))
      then Some (G_Remove now s ks k, drop_market (xe_market_id e) (xe_amount_cents e) x) else None)"
| "task_step P ch rf mf (G_Remove now s ks k) x =
     Some (G_Scan now s ks, x\<lparr>xr_reservations := AList.delete k (xr_reservations x)\<rparr>)"

fun restoring :: "task \<Rightarrow> ident option" where
  "restoring (R_Check rq) = rq_restore rq"
| "restoring (R_Load rq) = rq_restore rq"
| "restoring (R_Cas rq _) = rq_restore rq"
| "restoring (R_Market rq) = rq_restore rq"
| "restoring (R_Undo rq) = rq_restore rq"
| "restoring (R_UndoTotal rq) = rq_restore rq"
| "restoring (R_Insert rq) = rq_restore rq"
| "restoring _ = None"

fun is_start :: "task \<Rightarrow> bool" where
  "is_start (R_Check rq) = (rq_restore rq \<noteq> None)"
| "is_start (R_Load rq) = (rq_restore rq = None)"
| "is_start (D_Remove _) = True"
| "is_start (Z_Get _ _) = True"
| "is_start (P_Pin _) = True"
| "is_start (G_Lock _ s) = (s = 0)"
| "is_start _ = False"

text \<open>A task moves, or an idle one is given an operation. New ids are unused, and an id is restored by one task at a time.\<close>

inductive sys_step ::
  "dash_params \<Rightarrow> in_memory_reservation \<times> task list \<Rightarrow> in_memory_reservation \<times> task list \<Rightarrow> bool"
  for P :: dash_params where
  sys_move: "i < length ts \<Longrightarrow> task_step P ch (r_free ts i) (m_free P ts i) (ts ! i) x = Some (t', x') \<Longrightarrow>
    map_of (xr_reservations x) (ch_id ch) = None \<Longrightarrow> Some (ch_id ch) \<notin> restoring ` set ts \<Longrightarrow>
    sys_step P (x, ts) (x', ts[i := t'])"
| sys_start: "i < length ts \<Longrightarrow> ts ! i = Idle \<Longrightarrow> is_start t \<Longrightarrow>
    restoring t = None \<or> restoring t \<notin> restoring ` set ts \<Longrightarrow> sys_step P (x, ts) (x, ts[i := t])"

section \<open>What is counted where\<close>

text \<open>The entry a collecting task has taken off the total but not yet removed.\<close>

fun gone_of :: "task \<Rightarrow> ident set" where
  "gone_of (G_Market _ _ _ k _) = {k}"
| "gone_of (G_Remove _ _ _ k) = {k}"
| "gone_of _ = {}"

definition gone :: "task list \<Rightarrow> ident set" where
  "gone ts = \<Union> (gone_of ` set ts)"

definition live :: "task list \<Rightarrow> (ident \<Rightarrow> reservation_entry \<Rightarrow> nat) \<Rightarrow> ident \<Rightarrow> reservation_entry \<Rightarrow> nat" where
  "live ts f k e = (if k \<in> gone ts then 0 else f k e)"

text \<open>What a task has in the total, and in a market's counter, beyond the live entries.\<close>

fun tot :: "task \<Rightarrow> nat" where
  "tot (R_Market rq) = unat (rq_amount_cents rq)"
| "tot (R_Undo rq) = unat (rq_amount_cents rq)"
| "tot (R_UndoTotal rq) = unat (rq_amount_cents rq)"
| "tot (R_Insert rq) = unat (rq_amount_cents rq)"
| "tot (D_Total e) = unat (xe_amount_cents e)"
| "tot (Z_Total _ delta) = unat delta"
| "tot _ = 0"

fun mkt :: "ident \<Rightarrow> task \<Rightarrow> nat" where
  "mkt m (R_Undo rq) = (if rq_market_id rq = m then unat (rq_amount_cents rq) else 0)"
| "mkt m (R_Insert rq) = (if rq_market_id rq = m then unat (rq_amount_cents rq) else 0)"
| "mkt m (D_Total e) = (if xe_market_id e = m then unat (xe_amount_cents e) else 0)"
| "mkt m (D_Market e) = (if xe_market_id e = m then unat (xe_amount_cents e) else 0)"
| "mkt m (Z_Total m' delta) = (if m' = m then unat delta else 0)"
| "mkt m (Z_Market m' delta) = (if m' = m then unat delta else 0)"
| "mkt m (G_Market _ _ _ _ e) = (if xe_market_id e = m then unat (xe_amount_cents e) else 0)"
| "mkt m _ = 0"

text \<open>What a task is about to insert for a market.\<close>

fun ins :: "ident \<Rightarrow> task \<Rightarrow> nat" where
  "ins m (R_Insert rq) = (if rq_market_id rq = m then unat (rq_amount_cents rq) else 0)"
| "ins m _ = 0"

text \<open>The amount a task is moving.\<close>

fun carried :: "task \<Rightarrow> nat" where
  "carried (R_Market rq) = unat (rq_amount_cents rq)"
| "carried (R_Undo rq) = unat (rq_amount_cents rq)"
| "carried (R_UndoTotal rq) = unat (rq_amount_cents rq)"
| "carried (R_Insert rq) = unat (rq_amount_cents rq)"
| "carried (D_Total e) = unat (xe_amount_cents e)"
| "carried (D_Market e) = unat (xe_amount_cents e)"
| "carried (Z_Total _ delta) = unat delta"
| "carried (Z_Market _ delta) = unat delta"
| "carried (G_Market _ _ _ _ e) = unat (xe_amount_cents e)"
| "carried _ = 0"

lemma mkt_le_carried: "mkt m t \<le> carried t"
  by (cases t) auto

lemma ins_le_mkt: "ins m t \<le> mkt m t"
  by (cases t) auto

section \<open>Sums over the tasks\<close>

definition tsum :: "(task \<Rightarrow> nat) \<Rightarrow> task list \<Rightarrow> nat" where
  "tsum f ts = sum_list (map f ts)"

lemma tsum_update: "i < length ts \<Longrightarrow> tsum f (ts[i := t]) + f (ts ! i) = tsum f ts + f t"
  unfolding tsum_def
proof (induction ts arbitrary: i)
  case (Cons a ts)
  then show ?case
    by (cases i) (auto simp: algebra_simps)
qed simp

lemma tsum_ge: "i < length ts \<Longrightarrow> f (ts ! i) \<le> tsum f ts"
  unfolding tsum_def by (rule member_le_sum_list) simp_all

lemma tsum_mono: "(\<And>t. f t \<le> g t) \<Longrightarrow> tsum f ts \<le> tsum g ts"
  by (simp add: tsum_def sum_list_mono)

lemma tsum_bound: "\<forall>t \<in> set ts. f t \<le> b \<Longrightarrow> tsum f ts \<le> length ts * b"
  by (induction ts) (auto simp: tsum_def)

section \<open>Live sums under a step\<close>

lemma gone_eq:
  assumes "i < length ts"
  shows "gone ts = gone (ts[i := Idle]) \<union> gone_of (ts ! i)" "gone (ts[i := t]) = gone (ts[i := Idle]) \<union> gone_of t"
proof -
  have *: "gone (xs[i := t]) = gone (xs[i := Idle]) \<union> gone_of t" if "i < length xs" for xs t
    using that by (induction xs arbitrary: i) (auto simp: gone_def split: nat.splits)
  show "gone (ts[i := t]) = gone (ts[i := Idle]) \<union> gone_of t"
    using * [OF assms] .
  show "gone ts = gone (ts[i := Idle]) \<union> gone_of (ts ! i)"
    using * [OF assms, of "ts ! i"] by simp
qed

lemma live_insert:
  assumes "k \<notin> gone ts" "gone ts' = gone ts" "map_of es k = None"
  shows "esum (live ts' f) (AList.update k e es) = esum (live ts f) es + f k e"
proof -
  have "live ts' f = live ts f"
    using assms(2) by (simp add: live_def fun_eq_iff)
  then show ?thesis
    using esum_update [of "live ts f" k e es] assms by (simp add: live_def)
qed

lemma live_remove:
  assumes "k \<notin> gone ts" "gone ts' = gone ts" "map_of es k = Some e" "distinct (map fst es)"
  shows "esum (live ts' f) (AList.delete k es) + f k e = esum (live ts f) es"
proof -
  have "live ts' f = live ts f"
    using assms(2) by (simp add: live_def fun_eq_iff)
  then show ?thesis
    using esum_delete [OF assms(4), of "live ts f" k] assms by (simp add: live_def)
qed

lemma live_replace:
  assumes "k \<notin> gone ts" "gone ts' = gone ts" "map_of es k = Some e"
  shows "esum (live ts' f) (AList.update k e' es) + f k e = esum (live ts f) es + f k e'"
proof -
  have "live ts' f = live ts f"
    using assms(2) by (simp add: live_def fun_eq_iff)
  then show ?thesis
    using esum_update [of "live ts f" k e' es] assms by (simp add: live_def)
qed

lemma esum_delete_zero: "(\<And>v. f k v = 0) \<Longrightarrow> esum f (AList.delete k es) = esum f es"
  by (induction es) auto

lemma live_take:
  assumes "k \<notin> gone ts" "gone ts' = insert k (gone ts)" "map_of es k = Some e" "distinct (map fst es)"
  shows "esum (live ts' f) es + f k e = esum (live ts f) es"
proof -
  have "esum (live ts' f) es = esum (live ts' f) (AList.delete k es)"
    using assms(2) by (simp add: esum_delete_zero live_def)
  also have "\<dots> = esum (live ts f) (AList.delete k es)"
    by (rule esum_cong) (auto simp: live_def assms(2) AList.delete_eq)
  finally show ?thesis
    using esum_delete [OF assms(4), of "live ts f" k] assms by (simp add: live_def)
qed

lemma live_drop:
  assumes "k \<in> gone ts" "gone ts' = gone ts - {k}"
  shows "esum (live ts' f) (AList.delete k es) = esum (live ts f) es"
proof -
  have "esum (live ts f) es = esum (live ts f) (AList.delete k es)"
    using assms(1) by (simp add: esum_delete_zero live_def)
  also have "\<dots> = esum (live ts' f) (AList.delete k es)"
    by (rule esum_cong) (auto simp: live_def assms(2) AList.delete_eq)
  finally show ?thesis ..
qed

section \<open>The invariant\<close>

fun shard_keys :: "task \<Rightarrow> ident set" where
  "shard_keys (G_Scan _ _ ks) = set ks"
| "shard_keys (G_Market _ _ ks k _) = insert k (set ks)"
| "shard_keys (G_Remove _ _ ks k) = insert k (set ks)"
| "shard_keys _ = {}"

text \<open>A collecting task works on the shard it holds; the total a task is about to install has passed the limit; a task past the check of its id restores an id that is not there.\<close>

definition task_ok :: "dash_params \<Rightarrow> in_memory_reservation \<Rightarrow> task \<Rightarrow> bool" where
  "task_ok P x t \<longleftrightarrow> (\<forall>k \<in> shard_keys t. holds_r t = Some (dp_rshard P k))
     \<and> carried t \<le> unat (xc_max_total_exposure_cents (xr_config x))
     \<and> (\<forall>rq c. t = R_Cas rq c \<longrightarrow> unat c + unat (rq_amount_cents rq) \<le> unat (xc_max_total_exposure_cents (xr_config x)))
     \<and> (\<forall>rid. restoring t = Some rid \<longrightarrow> (\<exists>rq. t = R_Check rq) \<or> map_of (xr_reservations x) rid = None)"

definition locks_exclusive :: "task list \<Rightarrow> bool" where
  "locks_exclusive ts \<longleftrightarrow> (\<forall>i j s. i < length ts \<longrightarrow> j < length ts \<longrightarrow> holds_r (ts ! i) = Some s \<longrightarrow>
     holds_r (ts ! j) = Some s \<longrightarrow> i = j)"

definition restores_distinct :: "task list \<Rightarrow> bool" where
  "restores_distinct ts \<longleftrightarrow> (\<forall>i j rid. i < length ts \<longrightarrow> j < length ts \<longrightarrow> restoring (ts ! i) = Some rid \<longrightarrow>
     restoring (ts ! j) = Some rid \<longrightarrow> i = j)"

definition totals_ok :: "in_memory_reservation \<Rightarrow> task list \<Rightarrow> bool" where
  "totals_ok x ts \<longleftrightarrow>
     unat (xr_total_reserved_cents x) = esum (live ts cents) (xr_reservations x) + tsum tot ts
   \<and> unat (xr_total_reserved_cents x) \<le> unat (xc_max_total_exposure_cents (xr_config x))"

definition markets_ok :: "in_memory_reservation \<Rightarrow> task list \<Rightarrow> bool" where
  "markets_ok x ts \<longleftrightarrow> (\<forall>m.
     unat (market_cents x m) = esum (live ts (cents_in m)) (xr_reservations x) + tsum (mkt m) ts
   \<and> esum (live ts (cents_in m)) (xr_reservations x) + tsum (ins m) ts \<le> unat (xc_max_per_market_cents (xr_config x)))"

definition sys_inv :: "dash_params \<Rightarrow> in_memory_reservation \<times> task list \<Rightarrow> bool" where
  "sys_inv P s \<longleftrightarrow> (case s of (x, ts) \<Rightarrow>
     distinct (map fst (xr_reservations x)) \<and> (\<forall>t \<in> set ts. task_ok P x t) \<and> locks_exclusive ts \<and> restores_distinct ts
     \<and> totals_ok x ts \<and> markets_ok x ts)"

text \<open>No sum of what the tasks can be moving reaches \<open>2 ^ 64\<close>.\<close>

definition no_overflow :: "in_memory_reservation \<times> task list \<Rightarrow> bool" where
  "no_overflow s \<longleftrightarrow> (case s of (x, ts) \<Rightarrow>
     (length ts + 1) * unat (xc_max_total_exposure_cents (xr_config x)) < 2 ^ 64)"

lemma r_free_iff: "r_free ts i s \<longleftrightarrow> (\<forall>j < length ts. j \<noteq> i \<longrightarrow> holds_r (ts ! j) \<noteq> Some s)"
  by (auto simp: r_free_def list_all_iff)

lemma gone_in_keys: "gone_of t \<subseteq> shard_keys t"
  by (cases t) auto

lemma gone_nth: "k \<in> gone ts \<longleftrightarrow> (\<exists>j < length ts. k \<in> gone_of (ts ! j))"
  unfolding gone_def by (simp add: Bex_def in_set_conv_nth) blast

lemma key_shard: "\<forall>t \<in> set ts. task_ok P x t \<Longrightarrow> j < length ts \<Longrightarrow> k \<in> shard_keys (ts ! j) \<Longrightarrow>
  holds_r (ts ! j) = Some (dp_rshard P k)"
  by (simp add: task_ok_def)

lemma gone_holder:
  assumes "k \<in> gone ts" "\<forall>t \<in> set ts. task_ok P x t"
  shows "\<exists>j < length ts. k \<in> gone_of (ts ! j) \<and> holds_r (ts ! j) = Some (dp_rshard P k)"
  using assms gone_in_keys key_shard [OF assms(2)] by (meson gone_nth subsetD)

lemma free_not_gone:
  assumes "r_free ts i (dp_rshard P k)" "\<forall>t \<in> set ts. task_ok P x t" "gone_of (ts ! i) = {}"
  shows "k \<notin> gone ts"
  using gone_holder [OF _ assms(2)] assms(1,3) by (auto simp: r_free_iff)

lemma held_not_gone:
  assumes "locks_exclusive ts" "\<forall>t \<in> set ts. task_ok P x t" "i < length ts" "k \<in> shard_keys (ts ! i)"
  shows "k \<notin> gone (ts[i := Idle])"
proof
  assume "k \<in> gone (ts[i := Idle])"
  then obtain j where j: "j < length ts" "k \<in> gone_of (ts[i := Idle] ! j)"
    by (auto simp: gone_nth)
  then have ji: "j \<noteq> i"
    by auto
  then have "k \<in> shard_keys (ts ! j)"
    using j gone_in_keys by (metis nth_list_update_neq subsetD)
  then have "holds_r (ts ! j) = Some (dp_rshard P k)" "holds_r (ts ! i) = Some (dp_rshard P k)"
    using key_shard [OF assms(2)] assms(3,4) j(1) by blast+
  then show False
    using assms(1,3) j(1) ji by (auto simp: locks_exclusive_def)
qed

section \<open>Accounting of a step\<close>

lemma totals_move:
  assumes "totals_ok x ts" "i < length ts"
    and live: "esum (live (ts[i := t']) cents) (xr_reservations x') + d = esum (live ts cents) (xr_reservations x) + a"
    and total: "unat (xr_total_reserved_cents x') + d' = unat (xr_total_reserved_cents x) + a'"
    and bal: "a + tot t' + d' = d + tot (ts ! i) + a'"
    and bound: "unat (xr_total_reserved_cents x') \<le> unat (xc_max_total_exposure_cents (xr_config x))"
    and config: "xr_config x' = xr_config x"
  shows "totals_ok x' (ts[i := t'])"
  using tsum_update [OF assms(2), of tot t'] assms by (simp add: totals_ok_def)

lemma markets_move:
  assumes ok: "markets_ok x ts" and i: "i < length ts"
    and live: "\<And>m. esum (live (ts[i := t']) (cents_in m)) (xr_reservations x') + d m = esum (live ts (cents_in m)) (xr_reservations x) + a m"
    and market: "\<And>m. unat (market_cents x' m) + d' m = unat (market_cents x m) + a' m"
    and bal: "\<And>m. a m + mkt m t' + d' m = d m + mkt m (ts ! i) + a' m"
    and lim: "\<And>m. a m + ins m t' \<le> d m + ins m (ts ! i) \<or>
      unat (market_cents x m) + a m + ins m t' \<le> unat (xc_max_per_market_cents (xr_config x)) + d m + ins m (ts ! i)"
    and config: "xr_config x' = xr_config x"
  shows "markets_ok x' (ts[i := t'])"
  unfolding markets_ok_def
proof (intro allI conjI)
  fix m
  have 1: "unat (market_cents x m) = esum (live ts (cents_in m)) (xr_reservations x) + tsum (mkt m) ts"
    and 2: "esum (live ts (cents_in m)) (xr_reservations x) + tsum (ins m) ts \<le> unat (xc_max_per_market_cents (xr_config x))"
    using ok by (simp_all add: markets_ok_def)
  show "unat (market_cents x' m) = esum (live (ts[i := t']) (cents_in m)) (xr_reservations x') + tsum (mkt m) (ts[i := t'])"
    using 1 live [of m] market [of m] bal [of m] tsum_update [OF i, of "mkt m" t'] by linarith
  have "tsum (ins m) ts \<le> tsum (mkt m) ts"
    by (rule tsum_mono) (rule ins_le_mkt)
  then show "esum (live (ts[i := t']) (cents_in m)) (xr_reservations x') + tsum (ins m) (ts[i := t'])
      \<le> unat (xc_max_per_market_cents (xr_config x'))"
    using 1 2 live [of m] lim [of m] tsum_update [OF i, of "ins m" t'] config by (auto simp: add.assoc)
qed

lemma drop_total_unat:
  "unat a \<le> unat (xr_total_reserved_cents x) \<Longrightarrow>
   unat (xr_total_reserved_cents (drop_total a x)) + unat a = unat (xr_total_reserved_cents x)"
  by (simp add: unat_sub word_le_nat_alt)

lemma drop_market_unat:
  "unat a \<le> unat (market_cents x k) \<Longrightarrow>
   unat (market_cents (drop_market k a x) m) + (if m = k then unat a else 0) = unat (market_cents x m)"
  by (simp add: market_cents_drop unat_sub word_le_nat_alt)

lemma market_room:
  assumes "sys_inv P (x, ts)" "no_overflow (x, ts)" "i < length ts" "ts ! i = R_Market rq"
  shows "unat (market_cents x (rq_market_id rq)) + unat (rq_amount_cents rq) < 2 ^ 64"
proof -
  let ?max = "unat (xc_max_total_exposure_cents (xr_config x))" and ?m = "rq_market_id rq" and ?ts = "ts[i := R_Insert rq]"
  have ok: "\<forall>t \<in> set ts. carried t \<le> ?max"
    using assms(1) by (simp add: sys_inv_def task_ok_def)
  have "carried (ts ! i) \<le> ?max"
    using ok assms(3) by simp
  then have "\<forall>t \<in> set ?ts. carried t \<le> ?max"
    using ok assms(4) set_update_subset_insert [of ts i "R_Insert rq"] by auto
  then have "tsum (mkt ?m) ?ts \<le> length ts * ?max"
    using tsum_bound [of ?ts "mkt ?m" ?max] mkt_le_carried order_trans by (metis length_list_update)
  moreover have "tsum (mkt ?m) ?ts = tsum (mkt ?m) ts + unat (rq_amount_cents rq)"
    using tsum_update [OF assms(3), of "mkt ?m" "R_Insert rq"] assms(4) by simp
  moreover have "esum (live ts (cents_in ?m)) (xr_reservations x) \<le> esum (live ts cents) (xr_reservations x)"
    by (rule esum_mono) (simp add: live_def cents_def cents_in_def)
  moreover have "esum (live ts cents) (xr_reservations x) \<le> ?max"
    using assms(1) by (simp add: sys_inv_def totals_ok_def)
  moreover have "unat (market_cents x ?m) = esum (live ts (cents_in ?m)) (xr_reservations x) + tsum (mkt ?m) ts"
    using assms(1) by (simp add: sys_inv_def markets_ok_def)
  ultimately show ?thesis
    using assms(2) by (simp add: no_overflow_def)
qed

definition counts_ok :: "in_memory_reservation \<Rightarrow> task list \<Rightarrow> bool" where
  "counts_ok x ts \<longleftrightarrow> totals_ok x ts \<and> markets_ok x ts"

lemma gone_same: "i < length ts \<Longrightarrow> gone_of t' = gone_of (ts ! i) \<Longrightarrow> gone (ts[i := t']) = gone ts"
  using gone_eq(1) [of i ts] gone_eq(2) [of i ts t'] by simp

lemma live_same: "i < length ts \<Longrightarrow> gone_of t' = gone_of (ts ! i) \<Longrightarrow> live (ts[i := t']) f = live ts f"
  using gone_same by (simp add: live_def fun_eq_iff)

text \<open>The four ways a step changes the shared memory: not at all, the total, a market's counter, the entries.\<close>

lemma counts_same:
  assumes "totals_ok x ts" "markets_ok x ts" "i < length ts" "gone_of t' = gone_of (ts ! i)" "tot t' = tot (ts ! i)"
    "\<And>m. mkt m t' = mkt m (ts ! i)" "\<And>m. ins m t' \<le> ins m (ts ! i)"
  shows "counts_ok x (ts[i := t'])"
  using assms totals_move [OF assms(1,3), where t' = t' and x' = x
        and d = 0 and a = 0 and d' = 0 and a' = 0]
    markets_move [OF assms(2,3), where t' = t' and x' = x
        and d = "\<lambda>_. 0" and a = "\<lambda>_. 0" and d' = "\<lambda>_. 0" and a' = "\<lambda>_. 0"]
  by (simp add: live_same totals_ok_def counts_ok_def)

lemma counts_drop_total:
  assumes "totals_ok x ts" "markets_ok x ts" "i < length ts" "gone_of t' = gone_of (ts ! i)" "tot t' + unat c = tot (ts ! i)"
    "\<And>m. mkt m t' = mkt m (ts ! i)" "\<And>m. ins m t' \<le> ins m (ts ! i)"
  shows "counts_ok (drop_total c x) (ts[i := t'])"
proof -
  have le: "unat c \<le> unat (xr_total_reserved_cents x)"
    using assms(1,5) tsum_ge [OF assms(3), of tot] by (simp add: totals_ok_def)
  note u = drop_total_unat [OF le]
  have "unat (xr_total_reserved_cents (drop_total c x)) \<le> unat (xc_max_total_exposure_cents (xr_config x))"
    using u assms(1) by (simp add: totals_ok_def)
  then show ?thesis
    using assms u totals_move [OF assms(1,3), where t' = t' and x' = "drop_total c x"
        and d = 0 and a = 0 and d' = "unat c" and a' = 0]
      markets_move [OF assms(2,3), where t' = t' and x' = "drop_total c x"
        and d = "\<lambda>_. 0" and a = "\<lambda>_. 0" and d' = "\<lambda>_. 0" and a' = "\<lambda>_. 0"]
    by (simp add: live_same counts_ok_def)
qed

lemma counts_drop_market:
  assumes "totals_ok x ts" "markets_ok x ts" "i < length ts" "gone_of t' = gone_of (ts ! i)" "tot t' = tot (ts ! i)"
    "\<And>m. mkt m t' + (if m = k then unat c else 0) = mkt m (ts ! i)" "\<And>m. ins m t' \<le> ins m (ts ! i)"
  shows "counts_ok (drop_market k c x) (ts[i := t'])"
proof -
  have le: "unat c \<le> unat (market_cents x k)"
    using assms(2) assms(6) [of k] tsum_ge [OF assms(3), of "mkt k"] by (simp add: markets_ok_def)
  note u = drop_market_unat [OF le]
  show ?thesis
    using assms u totals_move [OF assms(1,3), where t' = t' and x' = "drop_market k c x"
        and d = 0 and a = 0 and d' = 0 and a' = 0]
      markets_move [OF assms(2,3), where t' = t' and x' = "drop_market k c x"
        and d = "\<lambda>_. 0" and a = "\<lambda>_. 0" and d' = "\<lambda>m. if m = k then unat c else 0" and a' = "\<lambda>_. 0"]
    by (simp add: live_same totals_ok_def counts_ok_def)
qed

lemma counts_entries:
  assumes "totals_ok x ts" "markets_ok x ts" "i < length ts"
    and l: "\<And>f. f = cents \<or> (\<exists>m. f = cents_in m) \<Longrightarrow> esum (live (ts[i := t']) f) es' + d f = esum (live ts f) (xr_reservations x) + a f"
    and t: "a cents + tot t' = d cents + tot (ts ! i)"
    and m: "\<And>m. a (cents_in m) + mkt m t' = d (cents_in m) + mkt m (ts ! i)"
    and n: "\<And>m. a (cents_in m) + ins m t' \<le> d (cents_in m) + ins m (ts ! i)"
  shows "counts_ok (x\<lparr>xr_reservations := es'\<rparr>) (ts[i := t'])"
proof -
  have 1: "totals_ok (x\<lparr>xr_reservations := es'\<rparr>) (ts[i := t'])"
    using totals_move [OF assms(1,3), where t' = t' and x' = "x\<lparr>xr_reservations := es'\<rparr>"
        and d = "d cents" and a = "a cents" and d' = 0 and a' = 0] l [of cents] t assms(1)
    by (simp add: totals_ok_def)
  have "markets_ok (x\<lparr>xr_reservations := es'\<rparr>) (ts[i := t'])"
    using m n l by (intro markets_move [OF assms(2,3), where d = "\<lambda>m. d (cents_in m)" and a = "\<lambda>m. a (cents_in m)"
        and d' = "\<lambda>_. 0" and a' = "\<lambda>_. 0"]) auto
  with 1 show ?thesis by (simp add: counts_ok_def)
qed

section \<open>Every step keeps the counts\<close>

lemma counts_cas:
  assumes "sys_inv P (x, ts)" "i < length ts" "ts ! i = R_Cas rq c" "xr_total_reserved_cents x = c"
  shows "counts_ok (x\<lparr>xr_total_reserved_cents := c + rq_amount_cents rq\<rparr>) (ts[i := R_Market rq])"
proof -
  let ?x = "x\<lparr>xr_total_reserved_cents := c + rq_amount_cents rq\<rparr>" and ?t = "R_Market rq"
  have ok: "totals_ok x ts" "markets_ok x ts" "task_ok P x (ts ! i)"
    using assms(1,2) by (simp_all add: sys_inv_def)
  have le: "unat c + unat (rq_amount_cents rq) \<le> unat (xc_max_total_exposure_cents (xr_config x))"
    using ok(3) assms(3) by (simp add: task_ok_def)
  note u = unat_add_fits [OF le]
  have g: "gone_of ?t = gone_of (ts ! i)"
    using assms(3) by simp
  show ?thesis
    using u le totals_move [OF ok(1) assms(2), where t' = ?t and x' = ?x and d = 0 and a = 0 and d' = 0 and a' = "unat (rq_amount_cents rq)"]
      markets_move [OF ok(2) assms(2), where t' = ?t and x' = ?x and d = "\<lambda>_. 0" and a = "\<lambda>_. 0" and d' = "\<lambda>_. 0" and a' = "\<lambda>_. 0"]
    by (simp add: live_same [OF assms(2) g] assms(3,4) counts_ok_def)
qed

lemma counts_market:
  assumes "sys_inv P (x, ts)" "no_overflow (x, ts)" "i < length ts" "ts ! i = R_Market rq"
    and t': "t' = (case checked_add_u64 (market_cents x (rq_market_id rq)) (rq_amount_cents rq) of
                   None \<Rightarrow> R_Undo rq
                 | Some n \<Rightarrow> if n > xc_max_per_market_cents (xr_config x) then R_Undo rq else R_Insert rq)"
  shows "counts_ok (bump_market (rq_market_id rq) (rq_amount_cents rq) x) (ts[i := t'])"
proof -
  let ?m = "rq_market_id rq" and ?c = "rq_amount_cents rq"
  let ?x = "bump_market ?m ?c x"
  have ok: "totals_ok x ts" "markets_ok x ts"
    using assms(1) by (simp_all add: sys_inv_def)
  have u: "unat (market_cents x ?m + ?c) = unat (market_cents x ?m) + unat ?c"
    using market_room [OF assms(1-4)] by (simp add: unat_word_ariths)
  have lim: "unat (market_cents x ?m) + unat ?c \<le> unat (xc_max_per_market_cents (xr_config x))" if "t' = R_Insert rq"
    using that checked_add_le [where c = "market_cents x ?m" and a = ?c and l = "xc_max_per_market_cents (xr_config x)"]
    by (auto simp: t' not_less split: option.splits if_splits)
  have cases: "t' = R_Undo rq \<or> t' = R_Insert rq"
    by (auto simp: t' split: option.splits)
  then have g: "gone_of t' = gone_of (ts ! i)" and tt: "tot t' = tot (ts ! i)"
    and mm: "\<And>m. mkt m t' = (if m = ?m then unat ?c else 0)"
    by (auto simp: assms(4))
  have "totals_ok ?x (ts[i := t'])"
    using ok(1) totals_move [OF ok(1) assms(3), where t' = t' and x' = ?x and d = 0 and a = 0 and d' = 0 and a' = 0]
    by (simp add: live_same [OF assms(3) g] tt totals_ok_def)
  moreover have "markets_ok ?x (ts[i := t'])"
  proof (rule markets_move [OF ok(2) assms(3), where d = "\<lambda>_. 0" and a = "\<lambda>_. 0" and d' = "\<lambda>_. 0"
        and a' = "\<lambda>m. if m = ?m then unat ?c else 0"])
    fix m
    show "0 + ins m t' \<le> 0 + ins m (ts ! i) \<or>
      unat (market_cents x m) + 0 + ins m t' \<le> unat (xc_max_per_market_cents (xr_config x)) + 0 + ins m (ts ! i)"
      using cases lim by (auto simp: assms(4))
  qed (auto simp: live_same [OF assms(3) g] u mm assms(4))
  ultimately show ?thesis by (simp add: counts_ok_def)
qed

lemma counts_take:
  assumes "sys_inv P (x, ts)" "i < length ts" "ts ! i = G_Scan now s (k # ks)" "map_of (xr_reservations x) k = Some e"
  shows "counts_ok (drop_total (xe_amount_cents e) x) (ts[i := G_Market now s ks k e])"
proof -
  let ?t = "G_Market now s ks k e" and ?c = "xe_amount_cents e"
  let ?x = "drop_total ?c x"
  have ok: "totals_ok x ts" "markets_ok x ts" "distinct (map fst (xr_reservations x))"
    using assms(1) by (simp_all add: sys_inv_def)
  have "k \<notin> gone (ts[i := Idle])"
    using held_not_gone [of ts P x i k] assms(1-3) by (simp add: sys_inv_def)
  then have g: "k \<notin> gone ts" "gone (ts[i := ?t]) = insert k (gone ts)"
    using gone_eq(1) [OF assms(2)] gone_eq(2) [OF assms(2), of ?t] assms(3) by simp_all
  have l: "esum (live (ts[i := ?t]) f) (xr_reservations x) + f k e = esum (live ts f) (xr_reservations x)" for f
    using live_take [OF g assms(4) ok(3)] .
  have le: "unat ?c \<le> unat (xr_total_reserved_cents x)"
    using l [of cents] ok(1) by (simp add: totals_ok_def cents_def)
  note u = drop_total_unat [OF le]
  have b: "unat (xr_total_reserved_cents ?x) \<le> unat (xc_max_total_exposure_cents (xr_config x))"
    using u ok(1) by (simp add: totals_ok_def)
  have "totals_ok ?x (ts[i := ?t])"
    using totals_move [OF ok(1) assms(2), where t' = ?t and x' = ?x and d = "unat ?c" and a = 0 and d' = "unat ?c" and a' = 0]
      l [of cents] u b by (simp add: cents_def assms(3))
  moreover have "markets_ok ?x (ts[i := ?t])"
  proof (rule markets_move [OF ok(2) assms(2), where d = "\<lambda>m. cents_in m k e" and a = "\<lambda>_. 0" and d' = "\<lambda>_. 0" and a' = "\<lambda>_. 0"])
    show "esum (live (ts[i := ?t]) (cents_in m)) (xr_reservations ?x) + cents_in m k e
      = esum (live ts (cents_in m)) (xr_reservations x) + 0" for m
      using l [of "cents_in m"] by simp
  qed (auto simp: assms(3) cents_in_def)
  ultimately show ?thesis by (simp add: counts_ok_def)
qed

lemma inv_facts:
  assumes "sys_inv P (x, ts)"
  shows "totals_ok x ts" "markets_ok x ts" "distinct (map fst (xr_reservations x))" "\<forall>t \<in> set ts. task_ok P x t"
    "locks_exclusive ts" "restores_distinct ts"
  using assms by (simp_all add: sys_inv_def)

lemma counts_insert:
  assumes inv: "sys_inv P (x, ts)" and i: "i < length ts" "ts ! i = R_Insert rq"
    and "r_free ts i (dp_rshard P (insert_id ch rq))" and fresh: "map_of (xr_reservations x) (ch_id ch) = None"
  shows "counts_ok (x\<lparr>xr_reservations := AList.update (insert_id ch rq) (request_entry rq) (xr_reservations x)\<rparr>) (ts[i := Idle])"
proof -
  let ?k = "insert_id ch rq"
  note ok = inv_facts [OF inv]
  have k: "?k \<notin> gone ts"
    using free_not_gone [OF assms(4) ok(4)] i(2) by simp
  have "task_ok P x (ts ! i)"
    using ok(4) i(1) by simp
  then have n: "map_of (xr_reservations x) ?k = None"
    using fresh i(2) by (auto simp: task_ok_def insert_id_def split: option.splits)
  have g: "gone (ts[i := Idle]) = gone ts"
    using gone_same [OF i(1)] i(2) by simp
  show ?thesis
    using live_insert [OF k g n, of _ "request_entry rq"] i(2)
    by (intro counts_entries [OF ok(1,2) i(1), where d = "\<lambda>_. 0" and a = "\<lambda>f. f ?k (request_entry rq)"])
       (auto simp: cents_def cents_in_def request_entry_def)
qed

lemma counts_remove:
  assumes inv: "sys_inv P (x, ts)" and i: "i < length ts" "ts ! i = D_Remove rid"
    and "r_free ts i (dp_rshard P rid)" and e: "map_of (xr_reservations x) rid = Some e"
  shows "counts_ok (x\<lparr>xr_reservations := AList.delete rid (xr_reservations x)\<rparr>) (ts[i := D_Total e])"
proof -
  note ok = inv_facts [OF inv]
  have k: "rid \<notin> gone ts" and g: "gone (ts[i := D_Total e]) = gone ts"
    using free_not_gone [OF assms(4) ok(4)] gone_same [OF i(1)] i(2) by simp_all
  show ?thesis
    using live_remove [OF k g e ok(3)] i(2)
    by (intro counts_entries [OF ok(1,2) i(1), where d = "\<lambda>f. f rid e" and a = "\<lambda>_. 0"]) (auto simp: cents_def cents_in_def)
qed

lemma counts_resize:
  assumes inv: "sys_inv P (x, ts)" and i: "i < length ts" "ts ! i = Z_Get rid c"
    and "r_free ts i (dp_rshard P rid)" and e: "map_of (xr_reservations x) rid = Some e" "c < xe_amount_cents e"
  shows "counts_ok (x\<lparr>xr_reservations := AList.update rid (e\<lparr>xe_amount_cents := c\<rparr>) (xr_reservations x)\<rparr>)
    (ts[i := Z_Total (xe_market_id e) (xe_amount_cents e - c)])"
proof -
  let ?e = "e\<lparr>xe_amount_cents := c\<rparr>" and ?t = "Z_Total (xe_market_id e) (xe_amount_cents e - c)"
  note ok = inv_facts [OF inv]
  have k: "rid \<notin> gone ts" and g: "gone (ts[i := ?t]) = gone ts"
    using free_not_gone [OF assms(4) ok(4)] gone_same [OF i(1)] i(2) by simp_all
  have u: "unat c + unat (xe_amount_cents e - c) = unat (xe_amount_cents e)"
    using e(2) by (simp add: unat_sub word_less_nat_alt word_le_nat_alt)
  show ?thesis
    using live_replace [OF k g e(1), of _ ?e] i(2) u
    by (intro counts_entries [OF ok(1,2) i(1), where d = "\<lambda>f. f rid e" and a = "\<lambda>f. f rid ?e"]) (auto simp: cents_def cents_in_def)
qed

lemma counts_pin:
  assumes inv: "sys_inv P (x, ts)" and i: "i < length ts" "ts ! i = P_Pin rid"
    and "r_free ts i (dp_rshard P rid)" and e: "map_of (xr_reservations x) rid = Some e"
  shows "counts_ok (x\<lparr>xr_reservations := AList.update rid (e\<lparr>xe_reconcile_pinned := True\<rparr>) (xr_reservations x)\<rparr>) (ts[i := Idle])"
proof -
  let ?e = "e\<lparr>xe_reconcile_pinned := True\<rparr>"
  note ok = inv_facts [OF inv]
  have k: "rid \<notin> gone ts" and g: "gone (ts[i := Idle]) = gone ts"
    using free_not_gone [OF assms(4) ok(4)] gone_same [OF i(1)] i(2) by simp_all
  show ?thesis
    using live_replace [OF k g e, of _ ?e] i(2)
    by (intro counts_entries [OF ok(1,2) i(1), where d = "\<lambda>f. f rid e" and a = "\<lambda>f. f rid ?e"]) (auto simp: cents_def cents_in_def)
qed

lemma counts_gc_remove:
  assumes inv: "sys_inv P (x, ts)" and i: "i < length ts" "ts ! i = G_Remove now s ks k"
  shows "counts_ok (x\<lparr>xr_reservations := AList.delete k (xr_reservations x)\<rparr>) (ts[i := G_Scan now s ks])"
proof -
  note ok = inv_facts [OF inv]
  have "k \<notin> gone (ts[i := Idle])"
    using held_not_gone [OF ok(5,4) i(1), of k] i(2) by simp
  then have g: "k \<in> gone ts" "gone (ts[i := G_Scan now s ks]) = gone ts - {k}"
    using gone_eq(1) [OF i(1)] gone_eq(2) [OF i(1), of "G_Scan now s ks"] i(2) by auto
  show ?thesis
    using live_drop [OF g] i(2)
    by (intro counts_entries [OF ok(1,2) i(1), where d = "\<lambda>_. 0" and a = "\<lambda>_. 0"]) auto
qed

lemma counts_step:
  assumes inv: "sys_inv P (x, ts)" and no: "no_overflow (x, ts)" and i: "i < length ts"
    and step: "task_step P ch (r_free ts i) (m_free P ts i) (ts ! i) x = Some (t', x')"
    and fresh: "map_of (xr_reservations x) (ch_id ch) = None"
  shows "counts_ok x' (ts[i := t'])"
proof -
  note ok = inv_facts [OF inv]
  have same: "counts_ok x' (ts[i := u])" if "x' = x" "gone_of u = gone_of (ts ! i)" "tot u = tot (ts ! i)" "\<And>m. mkt m u = mkt m (ts ! i)"
      "\<And>m. ins m u \<le> ins m (ts ! i)" for u
    using counts_same [OF ok(1,2) i] that by simp
  have dt: "counts_ok x' (ts[i := u])" if "x' = drop_total c x" "gone_of u = gone_of (ts ! i)" "tot u + unat c = tot (ts ! i)"
      "\<And>m. mkt m u = mkt m (ts ! i)" "\<And>m. ins m u \<le> ins m (ts ! i)" for c u
    using counts_drop_total [OF ok(1,2) i] that by simp
  have dm: "counts_ok x' (ts[i := u])" if "x' = drop_market k c x" "gone_of u = gone_of (ts ! i)" "tot u = tot (ts ! i)"
      "\<And>m. mkt m u + (if m = k then unat c else 0) = mkt m (ts ! i)" "\<And>m. ins m u \<le> ins m (ts ! i)" for k c u
    using counts_drop_market [OF ok(1,2) i] that by simp
  show ?thesis
  proof (cases "ts ! i")
    case (R_Cas rq c)
    then show ?thesis
      using step counts_cas [OF inv i R_Cas] by (cases "ch_cas ch \<and> xr_total_reserved_cents x = c") (auto intro: same)
  next
    case (R_Market rq)
    then show ?thesis using step counts_market [OF inv no i R_Market refl] by (auto split: if_splits)
  next
    case (R_Insert rq)
    then show ?thesis using step counts_insert [OF inv i R_Insert _ fresh] by (auto split: if_splits)
  next
    case (D_Remove rid)
    then show ?thesis
      using step counts_remove [OF inv i D_Remove] by (cases "map_of (xr_reservations x) rid") (auto intro: same split: if_splits)
  next
    case (Z_Get rid c)
    then show ?thesis
      using step counts_resize [OF inv i Z_Get] by (cases "map_of (xr_reservations x) rid") (auto intro: same split: if_splits)
  next
    case (P_Pin rid)
    then show ?thesis
      using step counts_pin [OF inv i P_Pin] by (cases "map_of (xr_reservations x) rid") (auto intro: same split: if_splits)
  next
    case (G_Scan now s ks)
    then show ?thesis
      using step counts_take [OF inv i] by (cases ks) (auto intro: same split: option.splits if_splits)
  next
    case (G_Remove now s ks k)
    then show ?thesis using step counts_gc_remove [OF inv i G_Remove] by auto
  next
    case (R_Undo rq)
    then show ?thesis using step by (intro dm) auto
  next
    case (R_UndoTotal rq)
    then show ?thesis using step by (intro dt) auto
  next
    case (D_Total e)
    then show ?thesis using step by (intro dt) auto
  next
    case (D_Market e)
    then show ?thesis using step by (intro dm) (auto split: if_splits)
  next
    case (Z_Total m delta)
    then show ?thesis using step by (intro dt) auto
  next
    case (Z_Market m delta)
    then show ?thesis using step by (intro dm) (auto split: if_splits)
  next
    case (G_Market now s ks k e)
    then show ?thesis using step by (intro dm) (auto split: if_splits)
  qed (use step in \<open>auto intro!: same split: option.splits if_splits\<close>)
qed

section \<open>Every step keeps the structure\<close>

lemma config_step: "task_step P ch rf mf t x = Some (t', x') \<Longrightarrow> xr_config x' = xr_config x"
  by (induction P ch rf mf t x rule: task_step.induct) (auto split: option.splits if_splits)

lemma distinct_step:
  "task_step P ch rf mf t x = Some (t', x') \<Longrightarrow> distinct (map fst (xr_reservations x)) \<Longrightarrow> distinct (map fst (xr_reservations x'))"
  by (induction P ch rf mf t x rule: task_step.induct)
     (auto simp: distinct_update distinct_delete split: option.splits if_splits)

lemma keys_step:
  "task_step P ch rf mf t x = Some (t', x') \<Longrightarrow> map_of (xr_reservations x) rid = None \<Longrightarrow>
   (\<forall>rq. t = R_Insert rq \<longrightarrow> insert_id ch rq \<noteq> rid) \<Longrightarrow> map_of (xr_reservations x') rid = None"
  by (induction P ch rf mf t x rule: task_step.induct)
     (auto simp: update_conv' delete_conv' split: option.splits if_splits)

lemma holds_step:
  "task_step P ch rf mf t x = Some (t', x') \<Longrightarrow> holds_r t' = Some s \<Longrightarrow> holds_r t = Some s \<or> rf s"
  by (induction P ch rf mf t x rule: task_step.induct) (auto split: option.splits if_splits)

lemma restoring_step: "task_step P ch rf mf t x = Some (t', x') \<Longrightarrow> restoring t' = None \<or> restoring t' = restoring t"
  by (induction P ch rf mf t x rule: task_step.induct) (auto split: option.splits if_splits)

lemma shard_keys_step:
  "task_step P ch rf mf t x = Some (t', x') \<Longrightarrow> \<forall>k \<in> shard_keys t. holds_r t = Some (dp_rshard P k) \<Longrightarrow>
   \<forall>k \<in> shard_keys t'. holds_r t' = Some (dp_rshard P k)"
  by (induction P ch rf mf t x rule: task_step.induct) (auto split: option.splits if_splits)

lemma restored_step:
  "task_step P ch rf mf t x = Some (t', x') \<Longrightarrow> restoring t' = Some rid \<Longrightarrow>
   (\<exists>rq. t = R_Check rq) \<or> map_of (xr_reservations x) rid = None \<Longrightarrow>
   (\<exists>rq. t' = R_Check rq) \<or> map_of (xr_reservations x') rid = None"
  by (induction P ch rf mf t x rule: task_step.induct)
     (auto simp: bump_market_def drop_market_def drop_total_def split: option.splits if_splits)

lemma cas_step:
  "task_step P ch rf mf t x = Some (R_Cas rq c, x') \<Longrightarrow>
   unat c + unat (rq_amount_cents rq) \<le> unat (xc_max_total_exposure_cents (xr_config x))"
proof (cases t)
  case (R_Load rq')
  moreover assume "task_step P ch rf mf t x = Some (R_Cas rq c, x')"
  ultimately show ?thesis
    using checked_add_le [where c = c and a = "rq_amount_cents rq" and l = "xc_max_total_exposure_cents (xr_config x)"]
    by (auto split: option.splits if_splits)
next
  case (G_Scan now s ks)
  moreover assume "task_step P ch rf mf t x = Some (R_Cas rq c, x')"
  ultimately show ?thesis
    by (cases ks) (auto split: option.splits if_splits)
qed (auto split: option.splits if_splits)

lemma entry_bound:
  assumes "totals_ok x ts" "k \<notin> gone ts" "map_of (xr_reservations x) k = Some e"
  shows "unat (xe_amount_cents e) \<le> unat (xc_max_total_exposure_cents (xr_config x))"
  using weight_le_esum [of "live ts cents" "xr_reservations x" k] assms by (simp add: totals_ok_def live_def cents_def)

lemma carried_step:
  assumes inv: "sys_inv P (x, ts)" and i: "i < length ts"
    and step: "task_step P ch (r_free ts i) (m_free P ts i) (ts ! i) x = Some (t', x')"
  shows "carried t' \<le> unat (xc_max_total_exposure_cents (xr_config x))"
proof -
  let ?max = "unat (xc_max_total_exposure_cents (xr_config x))"
  note ok = inv_facts [OF inv]
  have t: "carried (ts ! i) \<le> ?max" "\<And>rq c. ts ! i = R_Cas rq c \<Longrightarrow> unat (rq_amount_cents rq) \<le> ?max"
    using ok(4) i by (force simp: task_ok_def dest!: bspec [OF _ nth_mem [OF i]])+
  have e: "unat (xe_amount_cents e) \<le> ?max" if "map_of (xr_reservations x) k = Some e"
    "r_free ts i (dp_rshard P k)" "gone_of (ts ! i) = {}" for k e
    using entry_bound [OF ok(1) free_not_gone [OF that(2) ok(4) that(3)] that(1)] .
  show ?thesis
  proof (cases "ts ! i")
    case (D_Remove rid)
    then show ?thesis using step e [of rid] by (auto split: option.splits if_splits)
  next
    case (Z_Get rid c)
    have "unat (xe_amount_cents e - c) \<le> unat (xe_amount_cents e)" if "c < xe_amount_cents e" for e :: reservation_entry
      using that by (simp add: unat_sub)
    then show ?thesis using step e [of rid] Z_Get by (fastforce intro: order_trans split: option.splits if_splits)
  next
    case (G_Scan now s ks)
    show ?thesis
    proof (cases ks)
      case (Cons k ks')
      have "k \<notin> gone ts"
        using held_not_gone [OF ok(5,4) i, of k] gone_eq(1) [OF i] G_Scan Cons by simp
      then show ?thesis
        using step entry_bound [OF ok(1), of k] G_Scan Cons by (auto split: option.splits if_splits)
    qed (use step G_Scan in auto)
  qed (use step t in \<open>auto split: option.splits if_splits\<close>)
qed

lemma task_ok_step:
  assumes inv: "sys_inv P (x, ts)" and i: "i < length ts"
    and step: "task_step P ch (r_free ts i) (m_free P ts i) (ts ! i) x = Some (t', x')"
    and fresh: "Some (ch_id ch) \<notin> restoring ` set ts"
  shows "\<forall>t \<in> set (ts[i := t']). task_ok P x' t"
proof -
  note ok = inv_facts [OF inv]
  have ti: "task_ok P x (ts ! i)"
    using ok(4) i by simp
  have "task_ok P x' t'"
    unfolding task_ok_def config_step [OF step]
  proof (intro conjI allI impI)
    show "\<forall>k\<in>shard_keys t'. holds_r t' = Some (dp_rshard P k)"
      using ti by (intro shard_keys_step [OF step]) (simp add: task_ok_def)
    show "carried t' \<le> unat (xc_max_total_exposure_cents (xr_config x))"
      by (rule carried_step [OF inv i step])
    show "unat c + unat (rq_amount_cents rq) \<le> unat (xc_max_total_exposure_cents (xr_config x))"
      if "t' = R_Cas rq c" for rq c
      using cas_step [OF step [unfolded that]] .
    show "(\<exists>rq. t' = R_Check rq) \<or> map_of (xr_reservations x') rid = None" if r: "restoring t' = Some rid" for rid
    proof (rule restored_step [OF step r])
      show "(\<exists>rq. ts ! i = R_Check rq) \<or> map_of (xr_reservations x) rid = None"
        using ti restoring_step [OF step] r by (auto simp: task_ok_def)
    qed
  qed
  moreover have "task_ok P x' (ts ! j)" if j: "j < length ts" "j \<noteq> i" for j
  proof -
    have tj: "task_ok P x (ts ! j)"
      using ok(4) j by simp
    have "map_of (xr_reservations x') rid = None" if r: "restoring (ts ! j) = Some rid" "map_of (xr_reservations x) rid = None" for rid
    proof (rule keys_step [OF step r(2)], intro allI impI)
      fix rq assume rq: "ts ! i = R_Insert rq"
      show "insert_id ch rq \<noteq> rid"
      proof (cases "rq_restore rq")
        case None
        then show ?thesis
          using fresh r(1) imageI [OF nth_mem [OF j(1)], of restoring] by (auto simp: insert_id_def)
      next
        case (Some k)
        then show ?thesis
          using ok(6) r(1) j i rq by (auto simp: restores_distinct_def insert_id_def)
      qed
    qed
    then show ?thesis
      using tj unfolding task_ok_def config_step [OF step] by (intro conjI allI impI; (elim conjE)?) metis+
  qed
  ultimately show ?thesis
    using i unfolding in_set_conv_nth Ball_def by (metis length_list_update nth_list_update)
qed

lemma locks_step:
  assumes "locks_exclusive ts" "i < length ts" "\<And>s. holds_r t' = Some s \<Longrightarrow> holds_r (ts ! i) = Some s \<or> r_free ts i s"
  shows "locks_exclusive (ts[i := t'])"
  using assms unfolding locks_exclusive_def r_free_iff by (smt (verit) length_list_update nth_list_update)

lemma restores_step:
  assumes "restores_distinct ts" "i < length ts" "restoring t' = None \<or> restoring t' = restoring (ts ! i) \<or> restoring t' \<notin> restoring ` set ts"
  shows "restores_distinct (ts[i := t'])"
  using assms unfolding restores_distinct_def
  by (smt (verit) image_eqI length_list_update nth_list_update nth_mem option.distinct(1))

lemma sys_inv_step:
  assumes "sys_step P s s'" "sys_inv P s" "no_overflow s"
  shows "sys_inv P s' \<and> no_overflow s'"
  using assms
proof (induction rule: sys_step.induct)
  case (sys_move i ts ch x t' x')
  note ok = inv_facts [OF sys_move.prems(1)]
  have "distinct (map fst (xr_reservations x'))" "\<forall>t \<in> set (ts[i := t']). task_ok P x' t"
    "locks_exclusive (ts[i := t'])" "restores_distinct (ts[i := t'])" "counts_ok x' (ts[i := t'])"
    using distinct_step [OF sys_move(2) ok(3)] task_ok_step [OF sys_move.prems(1) sys_move(1,2,4)]
      locks_step [OF ok(5) sys_move(1)] holds_step [OF sys_move(2)] restores_step [OF ok(6) sys_move(1)]
      restoring_step [OF sys_move(2)] counts_step [OF sys_move.prems sys_move(1-3)]
    by blast+
  then show ?case
    using sys_move.prems(2) config_step [OF sys_move(2)] by (simp add: sys_inv_def no_overflow_def counts_ok_def)
next
  case (sys_start i ts t x)
  note ok = inv_facts [OF sys_start.prems(1)]
  have z: "gone_of t = {}" "tot t = 0" "\<And>m. mkt m t = 0" "\<And>m. ins m t = 0" "carried t = 0" "shard_keys t = {}" "holds_r t = None"
    "\<And>rq c. t \<noteq> R_Cas rq c" "restoring t = None \<or> (\<exists>rq. t = R_Check rq)"
    using sys_start(3) by (cases t; simp)+
  have "counts_ok x (ts[i := t])"
    using counts_same [OF ok(1,2) sys_start(1), of t] z sys_start(2) by simp
  moreover have "task_ok P x t"
    using z by (auto simp: task_ok_def)
  then have "\<forall>t' \<in> set (ts[i := t]). task_ok P x t'"
    using ok(4) set_update_subset_insert [of ts i t] by blast
  moreover have "locks_exclusive (ts[i := t])" "restores_distinct (ts[i := t])"
    using locks_step [OF ok(5) sys_start(1), of t] restores_step [OF ok(6) sys_start(1), of t] z(7) sys_start(4) by auto
  ultimately show ?case
    using ok(3) sys_start.prems(2) by (simp add: sys_inv_def no_overflow_def counts_ok_def)
qed

section \<open>Reachable states\<close>

abbreviation sys_steps ::
  "dash_params \<Rightarrow> in_memory_reservation \<times> task list \<Rightarrow> in_memory_reservation \<times> task list \<Rightarrow> bool" where
  "sys_steps P \<equiv> (sys_step P)\<^sup>*\<^sup>*"

lemma sys_inv_steps: "sys_steps P s s' \<Longrightarrow> sys_inv P s \<Longrightarrow> no_overflow s \<Longrightarrow> sys_inv P s' \<and> no_overflow s'"
  by (induction rule: rtranclp_induct) (auto dest: sys_inv_step)

lemma config_steps: "sys_steps P s s' \<Longrightarrow> xr_config (fst s') = xr_config (fst s)"
  by (induction rule: rtranclp_induct) (auto elim!: sys_step.cases dest: config_step)

lemma tsum_idle: "tsum f (replicate n Idle) = n * f Idle"
  by (induction n) (auto simp: tsum_def)

lemma gone_idle [simp]: "gone (replicate n Idle) = {}"
  by (auto simp: gone_def)

lemma sys_inv_init: "sys_inv P (new_reservations config, replicate n Idle)"
proof -
  have "totals_ok (new_reservations config) (replicate n Idle)" "markets_ok (new_reservations config) (replicate n Idle)"
    by (simp_all add: totals_ok_def markets_ok_def new_reservations_def tsum_idle market_cents_def)
  moreover have "\<forall>t \<in> set (replicate n Idle). task_ok P (new_reservations config) t"
    by (simp add: task_ok_def)
  ultimately show ?thesis
    by (simp add: sys_inv_def locks_exclusive_def restores_distinct_def new_reservations_def)
qed

lemma all_idle: "\<forall>t \<in> set ts. t = Idle \<Longrightarrow> ts = replicate (length ts) Idle"
  by (induction ts) auto

lemma idle_exact:
  assumes "sys_inv P (x, ts)" "\<forall>t \<in> set ts. t = Idle"
  shows "counters_exact x" "within_limits x"
proof -
  note ok = inv_facts [OF assms(1)]
  have g: "live ts f = f" "tsum tot ts = 0" "tsum (mkt m) ts = 0" "tsum (ins m) ts = 0" for f m
    by (subst all_idle [OF assms(2)]; simp add: live_def fun_eq_iff tsum_idle)+
  show "counters_exact x" "within_limits x"
    using ok(1-3) by (simp_all add: counters_exact_def within_limits_def totals_ok_def markets_ok_def g word_le_nat_alt)
qed

text \<open>C15: Concurrent use never over-commits the exposure limits. Whatever the interleaving of the atomic steps of reservations, restores, releases,
  reductions, pins and collections, by any number of tasks whose amounts together stay below \<open>2 ^ 64\<close> cents: the total counter stays
  within the limit; the reservations that are not being collected sum up to at most the total counter, and those of a market to at most the limit per
  market; and whenever no operation is running, both counters equal the sums of the reservations and are within their limits. The weak exchange may fail at
  any time, new ids are unused and an id is restored by one task at a time.\<close>

theorem reservation_interleaving:
  assumes "sys_steps P (new_reservations config, replicate n Idle) (x, ts)"
    and "(n + 1) * unat (xc_max_total_exposure_cents config) < 2 ^ 64"
  shows "xr_total_reserved_cents x \<le> xc_max_total_exposure_cents config
    \<and> esum (\<lambda>k e. if k \<in> gone ts then 0 else unat (xe_amount_cents e)) (xr_reservations x) \<le> unat (xr_total_reserved_cents x)
    \<and> (\<forall>m. esum (\<lambda>k e. if k \<in> gone ts \<or> xe_market_id e \<noteq> m then 0 else unat (xe_amount_cents e)) (xr_reservations x)
             \<le> unat (xc_max_per_market_cents config))
    \<and> ((\<forall>t \<in> set ts. t = Idle) \<longrightarrow> counters_exact x \<and> within_limits x)"
proof -
  have inv: "sys_inv P (x, ts)" and cfg: "xr_config x = config"
    using sys_inv_steps [OF assms(1) sys_inv_init] config_steps [OF assms(1)] assms(2)
    by (simp_all add: no_overflow_def new_reservations_def)
  note ok = inv_facts [OF inv]
  have eq: "(\<lambda>k e. if k \<in> gone ts then 0 else unat (xe_amount_cents e)) = live ts cents"
    "(\<lambda>k e. if k \<in> gone ts \<or> xe_market_id e \<noteq> m then 0 else unat (xe_amount_cents e)) = live ts (cents_in m)" for m
    by (auto simp: live_def cents_def cents_in_def fun_eq_iff)
  have "\<forall>m. esum (live ts (cents_in m)) (xr_reservations x) \<le> unat (xc_max_per_market_cents config)"
    using ok(2) cfg by (meson markets_ok_def add_leE)
  then show ?thesis
    unfolding eq using ok(1) cfg idle_exact [OF inv] by (simp add: totals_ok_def word_le_nat_alt)
qed

section \<open>Schedules\<close>

datatype action = Move nat choice | Start nat task

fun run_action ::
  "dash_params \<Rightarrow> action \<Rightarrow> in_memory_reservation \<times> task list \<Rightarrow> (in_memory_reservation \<times> task list) option" where
  "run_action P (Move i ch) (x, ts) =
     (if i < length ts \<and> map_of (xr_reservations x) (ch_id ch) = None \<and> \<not> list_ex (\<lambda>t. restoring t = Some (ch_id ch)) ts
      then map_option (\<lambda>(t', x'). (x', ts[i := t'])) (task_step P ch (r_free ts i) (m_free P ts i) (ts ! i) x)
      else None)"
| "run_action P (Start i t) (x, ts) =
     (if i < length ts \<and> ts ! i = Idle \<and> is_start t \<and> (restoring t = None \<or> \<not> list_ex (\<lambda>u. restoring u = restoring t) ts)
      then Some (x, ts[i := t]) else None)"

fun run_schedule ::
  "dash_params \<Rightarrow> action list \<Rightarrow> in_memory_reservation \<times> task list \<Rightarrow> (in_memory_reservation \<times> task list) option" where
  "run_schedule P [] s = Some s"
| "run_schedule P (a # as) s = (case run_action P a s of None \<Rightarrow> None | Some s' \<Rightarrow> run_schedule P as s')"

lemma run_action_step: "run_action P a s = Some s' \<Longrightarrow> sys_step P s s'"
proof (cases s)
  case (Pair x ts)
  have ex: "list_ex (\<lambda>u. restoring u = r) ts \<longleftrightarrow> r \<in> restoring ` set ts" for r
    by (auto simp: list_ex_iff)
  show "run_action P a s = Some s' \<Longrightarrow> sys_step P s s'"
    unfolding Pair by (cases a) (auto simp: ex split: if_splits intro: sys_move sys_start)
qed

lemma run_schedule_steps: "run_schedule P as s = Some s' \<Longrightarrow> sys_steps P s s'"
  by (induction as arbitrary: s)
    (auto split: option.splits intro: converse_rtranclp_into_rtranclp dest!: run_action_step)

definition one_shard :: dash_params where
  "one_shard = \<lparr>dp_rshard = (\<lambda>_. 0), dp_mshard = (\<lambda>_. 0), dp_shards = 1\<rparr>"

definition demo_request :: request where
  "demo_request = \<lparr>rq_restore = None, rq_market_id = ''m1'', rq_amount_cents = 250, rq_pinned = False, rq_expires_at = 10\<rparr>"

text \<open>A task reserves; the exchange fails once.\<close>

definition reserve_schedule :: "action list" where
  "reserve_schedule = Start 0 (R_Load demo_request) # map (\<lambda>b. Move 0 \<lparr>ch_cas = b, ch_id = ''r1''\<rparr>) [True, False, True, True, True, True]"

text \<open>A second task begins to collect the reservation after it expired, while the first one reserves again.\<close>

definition collect_schedule :: "action list" where
  "collect_schedule = reserve_schedule
     @ Start 1 (G_Lock 100 0) # map (\<lambda>b. Move 1 \<lparr>ch_cas = b, ch_id = ''r2''\<rparr>) [True, True]
     @ Start 0 (R_Load demo_request) # map (\<lambda>b. Move 0 \<lparr>ch_cas = b, ch_id = ''r2''\<rparr>) [True, True, True]"

lemma demo_adds:
  "checked_add_u64 0 250 = Some 250" "checked_add_u64 250 250 = Some 500"
  by (simp_all add: checked_add_u64_def)

lemmas demo_run = demo_adds r_free_def m_free_def one_shard_def demo_request_def new_reservations_def demo_limits_def
  market_cents_def bump_market_def drop_total_def drop_market_def insert_id_def request_entry_def reservation_expired_def

lemma run_schedule_append:
  "run_schedule P (as @ bs) s = (case run_schedule P as s of None \<Rightarrow> None | Some s' \<Rightarrow> run_schedule P bs s')"
  by (induction as arbitrary: s) (auto split: option.splits)

lemma reserve_schedule_run:
  "run_schedule one_shard reserve_schedule (new_reservations demo_limits, [Idle, Idle]) =
     Some (\<lparr>xr_reservations = [(''r1'', request_entry demo_request)], xr_total_reserved_cents = 250,
       xr_per_market_cents = [(''m1'', 250)], xr_config = demo_limits\<rparr>, [Idle, Idle])"
  by (simp add: reserve_schedule_def demo_run)

lemma collect_schedule_run:
  "run_schedule one_shard collect_schedule (new_reservations demo_limits, [Idle, Idle]) =
     Some (\<lparr>xr_reservations = [(''r1'', request_entry demo_request)], xr_total_reserved_cents = 250,
       xr_per_market_cents = [(''m1'', 500)], xr_config = demo_limits\<rparr>,
       [R_Insert demo_request, G_Market 100 0 [] ''r1'' (request_entry demo_request)])"
  unfolding collect_schedule_def run_schedule_append reserve_schedule_run by (simp add: demo_run)

theorem reservation_interleaving_witness:
  "\<exists>x. run_schedule one_shard reserve_schedule (new_reservations demo_limits, replicate 2 Idle) = Some (x, replicate 2 Idle)
     \<and> xr_total_reserved_cents x = 250 \<and> counters_exact x \<and> within_limits x"
proof -
  have two: "replicate 2 Idle = [Idle, Idle]"
    by (simp add: numeral_2_eq_2)
  obtain x where x: "run_schedule one_shard reserve_schedule (new_reservations demo_limits, replicate 2 Idle) = Some (x, replicate 2 Idle)"
    "xr_total_reserved_cents x = 250"
    using reserve_schedule_run by (auto simp: two)
  then show ?thesis
    using reservation_interleaving [OF run_schedule_steps [OF x(1)]] by (simp add: demo_limits_def)
qed

text \<open>A reservation and a collection can wait for each other: \<open>try_reserve_sync\<close> keeps its guard into the market counters while it inserts into the
  reservations, and \<open>gc_expired\<close> locks a shard of the reservations while it looks up the market counters. From the state
  after \<open>collect_schedule\<close> neither task can take a step, and every later operation on that shard waits too.\<close>

lemma reserve_and_collect_deadlock:
  "\<exists>x ts. sys_steps one_shard (new_reservations demo_limits, replicate 2 Idle) (x, ts) \<and> length ts = 2 \<and> Idle \<notin> set ts
     \<and> (\<forall>s'. \<not> sys_step one_shard (x, ts) s')"
proof -
  let ?ts = "[R_Insert demo_request, G_Market 100 0 [] ''r1'' (request_entry demo_request)]"
  let ?x = "\<lparr>xr_reservations = [(''r1'', request_entry demo_request)], xr_total_reserved_cents = 250,
       xr_per_market_cents = [(''m1'', 500)], xr_config = demo_limits\<rparr>"
  have two: "replicate 2 Idle = [Idle, Idle]"
    by (simp add: numeral_2_eq_2)
  have "sys_steps one_shard (new_reservations demo_limits, replicate 2 Idle) (?x, ?ts)"
    unfolding two by (rule run_schedule_steps [OF collect_schedule_run])
  moreover have "\<not> sys_step one_shard (?x, ?ts) s'" for s'
  proof
    assume "sys_step one_shard (?x, ?ts) s'"
    then show False
    proof cases
      case (sys_move i ch t' x')
      then have "i = 0 \<or> i = 1"
        by (simp add: less_Suc_eq)
      then show False
        using sys_move by (auto simp: one_shard_def demo_request_def r_free_def m_free_def request_entry_def)
    next
      case (sys_start i t)
      then show False
        by (auto simp: less_Suc_eq)
    qed
  qed
  ultimately show ?thesis
    by (intro exI [of _ ?x] exI [of _ ?ts]) simp
qed

end
