(* ===== verification/Micro.thy ===== *)
theory Micro
  imports Decimal "HOL-Library.Signed_Division"
begin

text \<open>
  \<open>oxide-arb-models/src/types/micro.rs\<close>: the fixed-point numbers of the detection path, 64-bit integers that count millionths.
  A value of \<open>MicroPrice\<close>, \<open>MicroShares\<close>, \<open>MicroUsd\<close>, \<open>MicroProb\<close>, \<open>MicroPct\<close> or \<open>MicroScore\<close> is
  the integer it holds; \<open>i64\<close> says that it is one of Rust's. Products are formed in 128 bits and divided with
  truncation (\<open>sdiv\<close>); where the result leaves 64 bits, the code's own substitute is taken.
\<close>

section \<open>Signed machine integers\<close>

definition i64_max :: int where "i64_max = 2 ^ 63 - 1"
definition i64_min :: int where "i64_min = - (2 ^ 63)"

definition i64 :: "int \<Rightarrow> bool" where
  "i64 v \<longleftrightarrow> i64_min \<le> v \<and> v \<le> i64_max"

text \<open>\<open>ToPrimitive::to_i64\<close>\<close>

definition to_i64 :: "int \<Rightarrow> int option" where
  "to_i64 v = (if i64 v then Some v else None)"

definition to_i64_or :: "int \<Rightarrow> int \<Rightarrow> int" where
  "to_i64_or d v = (case to_i64 v of Some r \<Rightarrow> r | None \<Rightarrow> d)"

text \<open>\<open>saturating_add\<close> and \<open>saturating_sub\<close> clamp the exact result; \<open>+\<close>, \<open>-\<close> and \<open>*\<close> wrap in a release build.\<close>

definition sat_i64 :: "int \<Rightarrow> int" where
  "sat_i64 v = max i64_min (min i64_max v)"

definition wrap_i64 :: "int \<Rightarrow> int" where
  "wrap_i64 v = (v + 2 ^ 63) mod 2 ^ 64 - 2 ^ 63"

definition wrap_i128 :: "int \<Rightarrow> int" where
  "wrap_i128 v = (v + 2 ^ 127) mod 2 ^ 128 - 2 ^ 127"

lemma i64_simps [simp]: "i64 0" "i64 1" "i64 i64_max" "i64 i64_min"
  by (simp_all add: i64_def i64_max_def i64_min_def)

lemma i64_nonneg: "0 \<le> v \<Longrightarrow> i64 v \<longleftrightarrow> v \<le> i64_max"
  by (simp add: i64_def i64_min_def)

lemma i64_sat [simp]: "i64 (sat_i64 v)"
  by (simp add: sat_i64_def i64_def i64_min_def i64_max_def)

lemma sat_i64_id [simp]: "i64 v \<Longrightarrow> sat_i64 v = v"
  by (simp add: sat_i64_def i64_def)

lemma sat_i64_mono: "v \<le> w \<Longrightarrow> sat_i64 v \<le> sat_i64 w"
  by (simp add: sat_i64_def max_def min_def i64_min_def i64_max_def)

lemma wrap_i64_id: "i64 v \<Longrightarrow> wrap_i64 v = v"
  by (simp add: wrap_i64_def i64_def i64_min_def i64_max_def)

lemma i64_wrap [simp]: "i64 (wrap_i64 v)"
  using pos_mod_bound [of "2 ^ 64" "v + 2 ^ 63"] by (simp add: wrap_i64_def i64_def i64_min_def i64_max_def)

lemma wrap_i128_id: "- (2 ^ 127) \<le> v \<Longrightarrow> v < 2 ^ 127 \<Longrightarrow> wrap_i128 v = v"
  by (simp add: wrap_i128_def)

lemma to_i64_or_id [simp]: "i64 v \<Longrightarrow> to_i64_or d v = v"
  by (simp add: to_i64_or_def to_i64_def)

lemma i64_to_i64_or [simp]: "i64 d \<Longrightarrow> i64 (to_i64_or d v)"
  by (simp add: to_i64_or_def to_i64_def)

lemma to_i64_or_max: "0 \<le> v \<Longrightarrow> to_i64_or i64_max v = min v i64_max"
  by (auto simp: to_i64_or_def to_i64_def i64_nonneg min_def)

text \<open>Truncating division of non-negative numbers.\<close>

lemma sdiv_nonneg: "0 \<le> a \<Longrightarrow> 0 \<le> b \<Longrightarrow> a sdiv b = a div (b :: int)"
  by (cases "a = 0"; cases "b = 0") (simp_all add: signed_divide_int_def)

lemma sdiv_nonneg_ge_0: "0 \<le> a \<Longrightarrow> 0 \<le> b \<Longrightarrow> 0 \<le> a sdiv (b :: int)"
  by (simp add: sdiv_nonneg pos_imp_zdiv_nonneg_iff div_int_pos_iff)

section \<open>The macro's operations\<close>

type_synonym micro_price = int
type_synonym micro_shares = int
type_synonym micro_usd = int
type_synonym micro_prob = int
type_synonym micro_pct = int
type_synonym micro_score = int

definition MICRO_SCALE :: int where "MICRO_SCALE = 1000000"

lemma MICRO_SCALE_pos [simp]: "0 < MICRO_SCALE" "0 \<le> MICRO_SCALE" "MICRO_SCALE \<noteq> 0" "i64 MICRO_SCALE"
  by (simp_all add: MICRO_SCALE_def i64_def i64_min_def i64_max_def)

text \<open>\<open>Decimal::trunc\<close>\<close>

definition dec_trunc :: "decimal \<Rightarrow> int" where
  "dec_trunc d = (if 0 \<le> d then \<lfloor>d\<rfloor> else \<lceil>d\<rceil>)"

definition micro_try_from_decimal :: "'z decimal_ops_scheme \<Rightarrow> decimal \<Rightarrow> int option" where
  "micro_try_from_decimal D d =
     (let scaled = dec_mul D d (of_int MICRO_SCALE) in
      if scaled < 0 then None
      else case to_i64 (dec_trunc scaled) of None \<Rightarrow> None | Some v \<Rightarrow> if v \<ge> 0 then Some v else None)"

definition micro_to_decimal :: "'z decimal_ops_scheme \<Rightarrow> int \<Rightarrow> decimal" where
  "micro_to_decimal D v = dec_div D (of_int v) (of_int MICRO_SCALE)"

definition micro_add :: "int \<Rightarrow> int \<Rightarrow> int" where
  "micro_add a b = sat_i64 (a + b)"

definition micro_sub :: "int \<Rightarrow> int \<Rightarrow> int" where
  "micro_sub a b = sat_i64 (a - b)"

section \<open>Prices, shares and amounts\<close>

definition mul_shares :: "micro_price \<Rightarrow> micro_shares \<Rightarrow> micro_usd" where
  "mul_shares p shares = to_i64_or i64_max (p * shares sdiv MICRO_SCALE)"

definition affordable_shares :: "micro_price \<Rightarrow> micro_usd \<Rightarrow> micro_shares" where
  "affordable_shares p budget =
     (if p \<le> 0 then 0 else to_i64_or i64_max (budget * MICRO_SCALE sdiv p))"

definition vwap_from_cost :: "micro_usd \<Rightarrow> micro_shares \<Rightarrow> micro_price" where
  "vwap_from_cost total_cost total_shares =
     (if total_shares \<le> 0 then 0
      else (let num = total_cost * MICRO_SCALE; den = total_shares
            in to_i64_or i64_max ((num + den sdiv 2) sdiv den)))"

definition percent_of :: "micro_usd \<Rightarrow> micro_usd \<Rightarrow> int" where
  "percent_of v whole = (if whole \<le> 0 then 0 else to_i64_or 0 (v * 100 sdiv whole))"

text \<open>\<open>ToPrimitive::to_i32\<close> with 0 as the substitute.\<close>

definition ratio_bps :: "micro_usd \<Rightarrow> micro_usd \<Rightarrow> int" where
  "ratio_bps v whole =
     (if whole \<le> 0 then 0
      else (let bps = v * 10000 sdiv whole in if - (2 ^ 31) \<le> bps \<and> bps < 2 ^ 31 then bps else 0))"

definition vwap_price :: "micro_usd \<Rightarrow> micro_shares \<Rightarrow> micro_price" where
  "vwap_price v shares = (if shares \<le> 0 then 0 else to_i64_or i64_max (v * MICRO_SCALE sdiv shares))"

section \<open>Probabilities, percentages and scores\<close>

definition prob_from_micro :: "int \<Rightarrow> micro_prob" where
  "prob_from_micro v = (if v < 0 then 0 else if v > MICRO_SCALE then MICRO_SCALE else v)"

definition from_factor_micro :: "int \<Rightarrow> micro_prob" where
  "from_factor_micro v = (if v < 0 then 0 else v)"

definition prob_try_from_decimal :: "'z decimal_ops_scheme \<Rightarrow> decimal \<Rightarrow> micro_prob option" where
  "prob_try_from_decimal D d = micro_try_from_decimal D d"

definition prob_saturating_mul :: "micro_prob \<Rightarrow> micro_prob \<Rightarrow> micro_prob" where
  "prob_saturating_mul a b = from_factor_micro (to_i64_or i64_max (a * b sdiv MICRO_SCALE))"

text \<open>The weights are 32-bit counts.\<close>

definition prob_blend :: "micro_prob \<Rightarrow> micro_prob \<Rightarrow> u32 \<Rightarrow> u32 \<Rightarrow> micro_prob" where
  "prob_blend a b weight_num weight_den =
     (if weight_den = 0 then a
      else (let w = uint weight_num * MICRO_SCALE sdiv uint weight_den;
                one_minus_w = MICRO_SCALE - w;
                v = (a * one_minus_w + b * w) sdiv MICRO_SCALE
            in prob_from_micro (to_i64_or i64_max v)))"

text \<open>\<open>Ord::clamp\<close>, which panics when the bounds are the wrong way round.\<close>

definition clamp_i64 :: "int \<Rightarrow> int \<Rightarrow> int \<Rightarrow> int option" where
  "clamp_i64 v lo hi = (if lo \<le> hi then Some (max lo (min hi v)) else None)"

definition clamp_prob :: "micro_prob \<Rightarrow> micro_prob \<Rightarrow> micro_prob \<Rightarrow> micro_prob option" where
  "clamp_prob v floor_p ceiling_p = map_option prob_from_micro (clamp_i64 v floor_p ceiling_p)"

definition try_from_pct_decimal :: "'z decimal_ops_scheme \<Rightarrow> decimal \<Rightarrow> micro_pct option" where
  "try_from_pct_decimal D d = micro_try_from_decimal D (dec_div D d 100)"

definition to_pct_decimal :: "'z decimal_ops_scheme \<Rightarrow> micro_pct \<Rightarrow> decimal" where
  "to_pct_decimal D v = dec_div D (dec_mul D (of_int v) 100) (of_int MICRO_SCALE)"

definition from_profit_prob :: "micro_usd \<Rightarrow> micro_prob \<Rightarrow> micro_score" where
  "from_profit_prob profit prob = to_i64_or i64_max (profit * prob sdiv MICRO_SCALE)"

definition scale_by_factor :: "micro_score \<Rightarrow> micro_prob \<Rightarrow> micro_score" where
  "scale_by_factor s factor = to_i64_or i64_max (s * factor sdiv MICRO_SCALE)"

section \<open>Conversion\<close>

lemma representable_micro: "i64 v \<Longrightarrow> representable (of_int v / of_int MICRO_SCALE)"
  unfolding representable_def MICRO_SCALE_def
  by (intro exI [of _ v] exI [of _ 6]) (auto simp: i64_def i64_min_def i64_max_def)

lemma representable_i64: "i64 v \<Longrightarrow> representable (of_int v)"
  by (rule representable_of_int) (auto simp: i64_def i64_min_def i64_max_def)

lemma micro_to_decimal_exact:
  assumes "decimal_laws D" "i64 v"
  shows "micro_to_decimal D v = of_int v / of_int MICRO_SCALE"
  using assms unfolding micro_to_decimal_def decimal_laws_def
  by (intro faithful_exact [OF _ representable_micro]) (auto simp: MICRO_SCALE_def)

lemma micro_round_trip:
  assumes "decimal_laws D" "0 \<le> v" "v \<le> i64_max"
  shows "micro_try_from_decimal D (micro_to_decimal D v) = Some v"
proof -
  have i: "i64 v"
    using assms by (simp add: i64_nonneg)
  have "faithful (of_int v / of_int MICRO_SCALE * of_int MICRO_SCALE)
      (dec_mul D (of_int v / of_int MICRO_SCALE) (of_int MICRO_SCALE))"
    using assms(1) unfolding decimal_laws_def by blast
  then have "dec_mul D (micro_to_decimal D v) (of_int MICRO_SCALE) = of_int v"
    using faithful_exact [OF _ representable_i64 [OF i]] micro_to_decimal_exact [OF assms(1) i] by simp
  then show ?thesis
    using assms i by (simp add: micro_try_from_decimal_def dec_trunc_def to_i64_def)
qed

text \<open>A parsed value is the exact value rounded down to a millionth, whenever the exact product fits the decimal format.\<close>

lemma micro_try_from_decimal_floor:
  assumes "decimal_laws D" "representable (d * of_int MICRO_SCALE)" "0 \<le> d" "d * of_int MICRO_SCALE \<le> of_int i64_max"
  shows "micro_try_from_decimal D d = Some \<lfloor>d * of_int MICRO_SCALE\<rfloor>"
proof -
  have e: "dec_mul D d (of_int MICRO_SCALE) = d * of_int MICRO_SCALE"
    using assms(1,2) faithful_exact unfolding decimal_laws_def by blast
  have "0 \<le> d * of_int MICRO_SCALE"
    using assms(3) by simp
  moreover from this have "0 \<le> \<lfloor>d * of_int MICRO_SCALE\<rfloor>" "\<lfloor>d * of_int MICRO_SCALE\<rfloor> \<le> i64_max"
    using assms(4) by (simp_all add: floor_le_iff)
  ultimately show ?thesis
    unfolding micro_try_from_decimal_def e Let_def by (simp add: dec_trunc_def to_i64_def i64_nonneg)
qed

lemma micro_try_from_decimal_range: "micro_try_from_decimal D d = Some v \<Longrightarrow> 0 \<le> v \<and> v \<le> i64_max"
  by (auto simp: micro_try_from_decimal_def Let_def to_i64_def i64_nonneg split: if_splits option.splits)

section \<open>Ranges\<close>

lemma prob_from_micro_range [simp]: "0 \<le> prob_from_micro v" "prob_from_micro v \<le> MICRO_SCALE"
  by (simp_all add: prob_from_micro_def)

lemma prob_from_micro_id: "0 \<le> v \<Longrightarrow> v \<le> MICRO_SCALE \<Longrightarrow> prob_from_micro v = v"
  by (simp add: prob_from_micro_def)

lemma from_factor_nonneg [simp]: "0 \<le> from_factor_micro v"
  by (simp add: from_factor_micro_def)

lemma clamp_prob_range:
  assumes "clamp_prob v lo hi = Some r" "0 \<le> lo" "hi \<le> MICRO_SCALE"
  shows "lo \<le> r" "r \<le> hi"
  using assms by (auto simp: clamp_prob_def clamp_i64_def prob_from_micro_def split: if_splits)

lemma clamp_prob_Some: "lo \<le> hi \<Longrightarrow> clamp_prob v lo hi = Some (prob_from_micro (max lo (min hi v)))"
  by (simp add: clamp_prob_def clamp_i64_def)

text \<open>Every operation yields one of Rust's 64-bit values.\<close>

lemma i64_prob [simp]: "i64 (prob_from_micro v)"
  using prob_from_micro_range(2) [of v] by (simp add: i64_nonneg i64_max_def MICRO_SCALE_def)

lemma micro_ops_i64 [simp]:
  "i64 (micro_add a b)" "i64 (micro_sub a b)" "i64 (mul_shares p n)" "i64 (affordable_shares p u)"
  "i64 (vwap_from_cost u n)" "i64 (percent_of u w)" "i64 (vwap_price u n)" "i64 (prob_saturating_mul a b)"
  "i64 (from_profit_prob u a)" "i64 (scale_by_factor s a)"
  by (simp_all add: micro_add_def micro_sub_def mul_shares_def affordable_shares_def vwap_from_cost_def percent_of_def
      vwap_price_def prob_saturating_mul_def from_factor_micro_def from_profit_prob_def scale_by_factor_def Let_def)

section \<open>Rounding\<close>

lemma micro_div_bounds: "x div MICRO_SCALE * MICRO_SCALE \<le> x" "x \<le> (x div MICRO_SCALE + 1) * MICRO_SCALE"
  by (simp_all add: MICRO_SCALE_def)

lemma mul_shares_nonneg:
  assumes "0 \<le> p" "0 \<le> n"
  shows "mul_shares p n = min (p * n div MICRO_SCALE) i64_max"
  using assms by (simp add: mul_shares_def sdiv_nonneg to_i64_or_max pos_imp_zdiv_nonneg_iff)

lemma affordable_shares_pos:
  assumes "0 < p" "0 \<le> b"
  shows "affordable_shares p b = min (b * MICRO_SCALE div p) i64_max"
  using assms by (simp add: affordable_shares_def sdiv_nonneg to_i64_or_max pos_imp_zdiv_nonneg_iff)

text \<open>What a budget affords never costs more than the budget.\<close>

lemma affordable_cost:
  assumes "0 < p" "0 \<le> b" "0 \<le> n" "n \<le> affordable_shares p b"
  shows "0 \<le> mul_shares p n" "mul_shares p n \<le> b" "p * n div MICRO_SCALE \<le> b"
proof -
  have "p * n \<le> p * (b * MICRO_SCALE div p)"
    using assms by (intro mult_left_mono) (auto simp: affordable_shares_pos)
  also have "\<dots> \<le> b * MICRO_SCALE"
    using assms(1) by (simp add: minus_mod_eq_mult_div [symmetric])
  finally show "p * n div MICRO_SCALE \<le> b"
    by (metis MICRO_SCALE_pos(1,3) nonzero_mult_div_cancel_right zdiv_mono1)
  then show "mul_shares p n \<le> b" "0 \<le> mul_shares p n"
    using assms by (auto simp: mul_shares_nonneg pos_imp_zdiv_nonneg_iff i64_max_def)
qed

text \<open>The average price is the quotient rounded to the nearest millionth.\<close>

lemma round_div_bounds:
  fixes den num :: int
  assumes "0 < den"
  shows "2 * \<bar>(num + den div 2) div den * den - num\<bar> \<le> den"
proof -
  define h r where "h = den div 2" and "r = (num + h) mod den"
  have e: "(num + h) div den * den - num = h - r"
    using minus_mod_eq_div_mult [of "num + h" den] by (simp add: r_def)
  have "0 \<le> r" "r < den" "2 * h \<le> den" "den \<le> 2 * h + 1"
    using assms by (simp_all add: r_def h_def)
  then show ?thesis
    unfolding h_def [symmetric] e by (auto simp: abs_if)
qed

lemma vwap_nearest:
  assumes "0 < shares" "0 \<le> cost" "cost * MICRO_SCALE \<le> hi * shares" "hi \<le> i64_max"
  shows "0 \<le> vwap_from_cost cost shares" "vwap_from_cost cost shares \<le> hi"
    "2 * \<bar>vwap_from_cost cost shares * shares - cost * MICRO_SCALE\<bar> \<le> shares"
proof -
  let ?v = "(cost * MICRO_SCALE + shares div 2) div shares"
  have "?v \<le> (hi * shares + shares div 2) div shares"
    using assms by (intro zdiv_mono1) auto
  also have "\<dots> = hi"
    using assms(1) by (simp add: div_add1_eq div_pos_pos_trivial)
  finally have v: "?v \<le> hi" "0 \<le> ?v"
    using assms by (simp_all add: pos_imp_zdiv_nonneg_iff)
  then have e: "vwap_from_cost cost shares = ?v"
    using assms by (simp add: vwap_from_cost_def Let_def sdiv_nonneg i64_nonneg)
  show "0 \<le> vwap_from_cost cost shares" "vwap_from_cost cost shares \<le> hi"
    "2 * \<bar>vwap_from_cost cost shares * shares - cost * MICRO_SCALE\<bar> \<le> shares"
    unfolding e using v round_div_bounds [OF assms(1)] by simp_all
qed

end
