(* ===== verification/Book.thy ===== *)
theory Book
  imports Micro Risk_Types "HOL-Library.Sublist"
begin

text \<open>
  \<open>oxide-arb-models/src/domain/market/book.rs\<close>: price levels, published snapshots and the views of a YES/NO pair, and
  \<open>oxide-arb-algorithm/src/walker.rs\<close>: the simulated purchase through the ask levels. The lemmas on the walk show what it
  spends, at which prices, and that its average price is the rounded quotient.
\<close>

section \<open>Levels\<close>

type_synonym price = decimal
type_synonym shares = decimal

record book_level =
  bl_price :: micro_price
  bl_size :: micro_shares

definition level_from_decimal :: "'z decimal_ops_scheme \<Rightarrow> price \<Rightarrow> shares \<Rightarrow> book_level option" where
  "level_from_decimal D price sz =
     (if price \<le> 0 \<or> price > 1 then None
      else case micro_try_from_decimal D price of
             None \<Rightarrow> None
           | Some p \<Rightarrow> (case micro_try_from_decimal D sz of None \<Rightarrow> None | Some n \<Rightarrow> Some \<lparr>bl_price = p, bl_size = n\<rparr>))"

definition price_decimal :: "'z decimal_ops_scheme \<Rightarrow> book_level \<Rightarrow> price" where
  "price_decimal D l = micro_to_decimal D (bl_price l)"

definition size_decimal :: "'z decimal_ops_scheme \<Rightarrow> book_level \<Rightarrow> shares" where
  "size_decimal D l = micro_to_decimal D (bl_size l)"

definition depth_usd :: "book_level \<Rightarrow> micro_usd" where
  "depth_usd l = mul_shares (bl_price l) (bl_size l)"

definition total_depth_usd :: "book_level list \<Rightarrow> micro_usd" where
  "total_depth_usd levels = fold (\<lambda>l acc. micro_add acc (depth_usd l)) levels 0"

definition ask_depth_up_to :: "'z decimal_ops_scheme \<Rightarrow> book_level list \<Rightarrow> price \<Rightarrow> shares" where
  "ask_depth_up_to D levels limit_price =
     fold (\<lambda>l acc. dec_add D acc (size_decimal D l)) (takeWhile (\<lambda>l. price_decimal D l \<le> limit_price) levels) 0"

definition bid_depth_down_to :: "'z decimal_ops_scheme \<Rightarrow> book_level list \<Rightarrow> price \<Rightarrow> shares" where
  "bid_depth_down_to D levels limit_price =
     fold (\<lambda>l acc. dec_add D acc (size_decimal D l)) (takeWhile (\<lambda>l. price_decimal D l \<ge> limit_price) levels) 0"

definition ask_notional_up_to :: "'z decimal_ops_scheme \<Rightarrow> book_level list \<Rightarrow> price \<Rightarrow> usd" where
  "ask_notional_up_to D levels limit_price =
     fold (\<lambda>l acc. dec_add D acc (dec_mul D (price_decimal D l) (size_decimal D l)))
       (takeWhile (\<lambda>l. price_decimal D l \<le> limit_price) levels) 0"

section \<open>Snapshots and views\<close>

record book_snapshot =
  bk_bids :: "book_level list"
  bk_asks :: "book_level list"
  bk_timestamp_ms :: u64
  bk_version :: u64
  bk_total_ask_depth_usd :: micro_usd
  bk_total_bid_depth_usd :: micro_usd

definition new_book_snapshot :: "book_level list \<Rightarrow> book_level list \<Rightarrow> u64 \<Rightarrow> u64 \<Rightarrow> book_snapshot" where
  "new_book_snapshot bids asks timestamp_ms version =
     \<lparr>bk_bids = bids, bk_asks = asks, bk_timestamp_ms = timestamp_ms, bk_version = version,
      bk_total_ask_depth_usd = total_depth_usd asks, bk_total_bid_depth_usd = total_depth_usd bids\<rparr>"

record book_side_view =
  bv_levels :: "book_level list"
  bv_timestamp_ms :: u64
  bv_total_depth_usd :: micro_usd

definition bid_view :: "book_snapshot \<Rightarrow> book_side_view" where
  "bid_view b = \<lparr>bv_levels = bk_bids b, bv_timestamp_ms = bk_timestamp_ms b, bv_total_depth_usd = bk_total_bid_depth_usd b\<rparr>"

definition ask_view :: "book_snapshot \<Rightarrow> book_side_view" where
  "ask_view b = \<lparr>bv_levels = bk_asks b, bv_timestamp_ms = bk_timestamp_ms b, bv_total_depth_usd = bk_total_ask_depth_usd b\<rparr>"

definition first_level :: "book_level list \<Rightarrow> book_level option" where
  "first_level levels = (case levels of [] \<Rightarrow> None | l # _ \<Rightarrow> Some l)"

definition best_bid :: "'z decimal_ops_scheme \<Rightarrow> book_snapshot \<Rightarrow> price option" where
  "best_bid D b = map_option (price_decimal D) (first_level (bk_bids b))"

definition best_ask :: "'z decimal_ops_scheme \<Rightarrow> book_snapshot \<Rightarrow> price option" where
  "best_ask D b = map_option (price_decimal D) (first_level (bk_asks b))"

definition view_best_price :: "'z decimal_ops_scheme \<Rightarrow> book_side_view \<Rightarrow> price option" where
  "view_best_price D v = map_option (price_decimal D) (first_level (bv_levels v))"

definition best_price_micro :: "book_side_view \<Rightarrow> micro_price option" where
  "best_price_micro v = map_option bl_price (first_level (bv_levels v))"

definition view_is_empty :: "book_side_view \<Rightarrow> bool" where
  "view_is_empty v \<longleftrightarrow> bv_levels v = []"

record endgame_book_view =
  ev_yes_bids :: book_side_view
  ev_yes_asks :: book_side_view
  ev_no_bids :: book_side_view
  ev_no_asks :: book_side_view

definition saturating_sub_u64 :: "u64 \<Rightarrow> u64 \<Rightarrow> u64" where
  "saturating_sub_u64 a b = (if b \<le> a then a - b else 0)"

definition max_staleness_ms :: "endgame_book_view \<Rightarrow> u64 \<Rightarrow> u64" where
  "max_staleness_ms v now_ms =
     max (max (max (saturating_sub_u64 now_ms (bv_timestamp_ms (ev_yes_bids v)))
                   (saturating_sub_u64 now_ms (bv_timestamp_ms (ev_yes_asks v))))
              (saturating_sub_u64 now_ms (bv_timestamp_ms (ev_no_bids v))))
         (saturating_sub_u64 now_ms (bv_timestamp_ms (ev_no_asks v)))"

datatype book_gate_leg = YesLeg | NoLeg

definition stalest_leg :: "endgame_book_view \<Rightarrow> u64 \<Rightarrow> ident \<Rightarrow> ident \<Rightarrow> book_gate_leg \<times> ident \<times> u64" where
  "stalest_leg v now_ms token_yes token_no =
     (let yes_age = max (saturating_sub_u64 now_ms (bv_timestamp_ms (ev_yes_bids v)))
                        (saturating_sub_u64 now_ms (bv_timestamp_ms (ev_yes_asks v)));
          no_age = max (saturating_sub_u64 now_ms (bv_timestamp_ms (ev_no_bids v)))
                       (saturating_sub_u64 now_ms (bv_timestamp_ms (ev_no_asks v)))
      in if yes_age \<ge> no_age then (YesLeg, token_yes, yes_age) else (NoLeg, token_no, no_age))"

record endgame_book_pair =
  pb_yes :: book_snapshot
  pb_no :: book_snapshot

definition pair_view :: "endgame_book_pair \<Rightarrow> endgame_book_view" where
  "pair_view p = \<lparr>ev_yes_bids = bid_view (pb_yes p), ev_yes_asks = ask_view (pb_yes p),
     ev_no_bids = bid_view (pb_no p), ev_no_asks = ask_view (pb_no p)\<rparr>"

record top_of_book =
  tob_yes_best_bid :: "price option"
  tob_yes_best_ask :: "price option"
  tob_no_best_bid :: "price option"
  tob_no_best_ask :: "price option"
  tob_max_staleness_ms :: u64
  tob_yes_version :: u64
  tob_no_version :: u64

section \<open>Walking the asks\<close>

record walk_result =
  wr_shares :: micro_shares
  wr_vwap :: micro_price
  wr_total_cost :: micro_usd
  wr_levels_consumed :: nat
  wr_fully_filled :: bool
  wr_depth_used_pct :: int

text \<open>The loop of \<open>walk_asks_by_cost\<close>: remaining budget, shares, cost and levels so far.\<close>

fun walk_cost_loop :: "micro_price \<Rightarrow> book_level list \<Rightarrow> int \<times> int \<times> int \<times> nat \<Rightarrow> int \<times> int \<times> int \<times> nat" where
  "walk_cost_loop price_floor [] st = st"
| "walk_cost_loop price_floor (level # asks) (remaining_budget, total_shares, total_cost, levels_consumed) =
     (let price = bl_price level; sz = bl_size level in
      if price \<le> 0 \<or> sz \<le> 0
      then walk_cost_loop price_floor asks (remaining_budget, total_shares, total_cost, levels_consumed)
      else if price < price_floor then (remaining_budget, total_shares, total_cost, levels_consumed)
      else if remaining_budget \<le> 0 then (remaining_budget, total_shares, total_cost, levels_consumed)
      else
        (let fill = min (affordable_shares price remaining_budget) sz;
             cost = mul_shares price fill
         in walk_cost_loop price_floor asks
              (wrap_i64 (remaining_budget - cost), wrap_i64 (total_shares + fill), wrap_i64 (total_cost + cost),
               levels_consumed + 1)))"

definition walk_asks_by_cost :: "book_level list \<Rightarrow> micro_usd \<Rightarrow> micro_price \<Rightarrow> micro_usd \<Rightarrow> walk_result option" where
  "walk_asks_by_cost asks max_cost_usd price_floor total_ask_depth_usd =
     (case walk_cost_loop price_floor asks (max_cost_usd, 0, 0, 0) of
        (remaining_budget, total_shares, total_cost, levels_consumed) \<Rightarrow>
          if total_shares = 0 then None
          else Some \<lparr>wr_shares = total_shares, wr_vwap = vwap_from_cost total_cost total_shares,
                     wr_total_cost = total_cost, wr_levels_consumed = levels_consumed,
                     wr_fully_filled = (remaining_budget > 0),
                     wr_depth_used_pct = percent_of total_cost total_ask_depth_usd\<rparr>)"

fun walk_shares_loop :: "micro_price \<Rightarrow> book_level list \<Rightarrow> int \<times> int \<times> int \<times> nat \<Rightarrow> int \<times> int \<times> int \<times> nat" where
  "walk_shares_loop price_floor [] st = st"
| "walk_shares_loop price_floor (level # asks) (remaining, total_shares, total_cost, levels_consumed) =
     (if remaining = 0 then (remaining, total_shares, total_cost, levels_consumed)
      else
        (let price = bl_price level; sz = bl_size level in
         if price \<le> 0 \<or> sz \<le> 0
         then walk_shares_loop price_floor asks (remaining, total_shares, total_cost, levels_consumed)
         else if price < price_floor then (remaining, total_shares, total_cost, levels_consumed)
         else
           (let fill = min remaining sz;
                cost = mul_shares price fill
            in walk_shares_loop price_floor asks
                 (wrap_i64 (remaining - fill), wrap_i64 (total_shares + fill), wrap_i64 (total_cost + cost),
                  levels_consumed + 1))))"

definition walk_asks_by_shares :: "book_level list \<Rightarrow> micro_shares \<Rightarrow> micro_price \<Rightarrow> micro_usd \<Rightarrow> walk_result option" where
  "walk_asks_by_shares asks target_shares price_floor total_ask_depth_usd =
     (case walk_shares_loop price_floor asks (target_shares, 0, 0, 0) of
        (remaining, total_shares, total_cost, levels_consumed) \<Rightarrow>
          if total_shares = 0 then None
          else Some \<lparr>wr_shares = total_shares, wr_vwap = vwap_from_cost total_cost total_shares,
                     wr_total_cost = total_cost, wr_levels_consumed = levels_consumed,
                     wr_fully_filled = (remaining = 0),
                     wr_depth_used_pct = percent_of total_cost total_ask_depth_usd\<rparr>)"

definition walk_result_decimal :: "'z decimal_ops_scheme \<Rightarrow> walk_result \<Rightarrow> shares \<times> price \<times> usd \<times> int" where
  "walk_result_decimal D w =
     (micro_to_decimal D (wr_shares w), micro_to_decimal D (wr_vwap w), micro_to_decimal D (wr_total_cost w),
      wr_depth_used_pct w)"

section \<open>What a walk buys\<close>

text \<open>A purchase: the levels it takes from, each with the shares taken.\<close>

type_synonym purchase = "(book_level \<times> micro_shares) list"

definition bought :: "purchase \<Rightarrow> int" where
  "bought fs = (\<Sum>(l, n) \<leftarrow> fs. n)"

definition spent :: "purchase \<Rightarrow> int" where
  "spent fs = (\<Sum>(l, n) \<leftarrow> fs. bl_price l * n div MICRO_SCALE)"

definition purchase_of :: "micro_price \<Rightarrow> book_level list \<Rightarrow> purchase \<Rightarrow> bool" where
  "purchase_of price_floor asks fs \<longleftrightarrow> subseq (map fst fs) asks
     \<and> (\<forall>(l, n) \<in> set fs. price_floor \<le> bl_price l \<and> 0 < bl_price l \<and> 0 \<le> n \<and> n \<le> bl_size l)"

lemma purchase_simps [simp]:
  "bought [] = 0" "bought ((l, n) # fs) = n + bought fs" "spent [] = 0"
  "spent ((l, n) # fs) = bl_price l * n div MICRO_SCALE + spent fs" "purchase_of f asks []"
  by (simp_all add: bought_def spent_def purchase_of_def)

lemma purchase_skip: "purchase_of f asks fs \<Longrightarrow> purchase_of f (l # asks) fs"
  by (auto simp: purchase_of_def intro: subseq_order.order_trans list_emb_Cons)

lemma purchase_take:
  "purchase_of f asks fs \<Longrightarrow> f \<le> bl_price l \<Longrightarrow> 0 < bl_price l \<Longrightarrow> 0 \<le> n \<Longrightarrow> n \<le> bl_size l \<Longrightarrow> purchase_of f (l # asks) ((l, n) # fs)"
  by (auto simp: purchase_of_def)

definition depth_shares :: "book_level list \<Rightarrow> int" where
  "depth_shares asks = (\<Sum>l \<leftarrow> asks. max 0 (bl_size l))"

lemma depth_shares_simps [simp]: "depth_shares [] = 0" "depth_shares (l # asks) = max 0 (bl_size l) + depth_shares asks"
  by (simp_all add: depth_shares_def)

lemma depth_shares_nonneg [simp]: "0 \<le> depth_shares asks"
  by (induction asks) auto

lemma walk_cost_loop_spec:
  assumes "walk_cost_loop f asks (b, n, c, k) = (b', n', c', k')" "0 \<le> b" "0 \<le> c" "b + c \<le> i64_max" "0 \<le> n" "n + depth_shares asks \<le> i64_max"
  shows "\<exists>fs. purchase_of f asks fs \<and> n' = n + bought fs \<and> c' = c + spent fs \<and> b' = b - spent fs \<and> 0 \<le> b' \<and> k' = k + length fs"
  using assms
proof (induction asks arbitrary: b n c k)
  case Nil
  then show ?case
    by (intro exI [of _ "[]"]) simp
next
  case (Cons l asks)
  let ?p = "bl_price l" and ?s = "bl_size l"
  consider (skip) "?p \<le> 0 \<or> ?s \<le> 0" | (stop) "0 < ?p" "0 < ?s" "?p < f \<or> b \<le> 0" | (take) "0 < ?p" "0 < ?s" "f \<le> ?p" "0 < b"
    by linarith
  then show ?case
  proof cases
    case skip
    then have "walk_cost_loop f asks (b, n, c, k) = (b', n', c', k')"
      using Cons.prems(1) by (auto simp: Let_def)
    moreover have "n + depth_shares asks \<le> i64_max"
      using Cons.prems(6) by simp
    ultimately show ?thesis
      using Cons.IH [OF _ Cons.prems(2-5)] purchase_skip by blast
  next
    case stop
    then show ?thesis
      using Cons.prems by (intro exI [of _ "[]"]) (auto simp: Let_def split: if_splits)
  next
    case take
    define m where "m = min (affordable_shares ?p b) ?s"
    have m0: "0 \<le> m" "m \<le> ?s" "m \<le> affordable_shares ?p b"
      using take by (auto simp: m_def affordable_shares_pos i64_max_def pos_imp_zdiv_nonneg_iff)
    have cost: "0 \<le> mul_shares ?p m" "mul_shares ?p m \<le> b" "?p * m div MICRO_SCALE \<le> b"
      using affordable_cost [of ?p b m] take m0 by auto
    have exact: "mul_shares ?p m = ?p * m div MICRO_SCALE"
      using cost(3) Cons.prems(3,4) take m0 by (simp add: mul_shares_nonneg)
    have "n + ?s + depth_shares asks \<le> i64_max"
      using Cons.prems(6) take by simp
    then have "n + m \<le> i64_max"
      using m0 depth_shares_nonneg [of asks] by linarith
    then have "walk_cost_loop f asks (b - mul_shares ?p m, n + m, c + mul_shares ?p m, k + 1) = (b', n', c', k')"
      using Cons.prems take cost m0 by (simp add: Let_def m_def [symmetric] wrap_i64_id i64_nonneg)
    from Cons.IH [OF this] obtain fs where fs: "purchase_of f asks fs" "n' = n + m + bought fs" "c' = c + mul_shares ?p m + spent fs"
      "b' = b - mul_shares ?p m - spent fs" "0 \<le> b'" "k' = k + 1 + length fs"
      using Cons.prems cost m0 by auto
    then show ?thesis
      using purchase_take [OF fs(1), of l m] take m0 by (intro exI [of _ "(l, m) # fs"]) (simp add: exact)
  qed
qed

text \<open>The cost of a purchase is below its exact value by less than a millionth per level, and its average price is at most the highest price paid.\<close>

lemma spent_bounds_list:
  assumes "\<forall>(l, n) \<in> set fs. f \<le> bl_price l \<and> bl_price l \<le> hi \<and> 0 \<le> n"
  shows "spent fs * MICRO_SCALE \<le> hi * bought fs \<and> f * bought fs \<le> (spent fs + int (length fs)) * MICRO_SCALE \<and> 0 \<le> bought fs"
  using assms
proof (induction fs)
  case (Cons ln fs)
  obtain l n where ln: "ln = (l, n)" by (cases ln)
  have h: "f \<le> bl_price l" "bl_price l \<le> hi" "0 \<le> n"
    using Cons.prems by (simp_all add: ln)
  let ?x = "bl_price l * n"
  have "?x \<le> hi * n" "f * n \<le> ?x"
    using h by (simp_all add: mult_right_mono)
  moreover have "spent fs * MICRO_SCALE \<le> hi * bought fs" "f * bought fs \<le> (spent fs + int (length fs)) * MICRO_SCALE" "0 \<le> bought fs"
    using Cons by simp_all
  moreover note micro_div_bounds [of ?x]
  ultimately show ?case
    using h(3) by (simp add: ln distrib_left distrib_right)
qed simp

lemma spent_bounds:
  assumes "purchase_of f asks fs" "\<forall>l \<in> set asks. bl_price l \<le> hi"
  shows "spent fs * MICRO_SCALE \<le> hi * bought fs" "f * bought fs \<le> (spent fs + int (length fs)) * MICRO_SCALE" "0 \<le> bought fs"
proof -
  have "f \<le> bl_price l \<and> bl_price l \<le> hi \<and> 0 \<le> n" if "(l, n) \<in> set fs" for l n
  proof -
    have "l \<in> set (map fst fs)"
      using that by force
    moreover have "subseq (map fst fs) asks" and p: "f \<le> bl_price l" "0 \<le> n"
      using assms(1) that by (auto simp: purchase_of_def)
    ultimately have "l \<in> set asks"
      using list_emb_set [of "(=)" "map fst fs" asks l] by blast
    then show ?thesis
      using assms(2) p by blast
  qed
  then show "spent fs * MICRO_SCALE \<le> hi * bought fs" "f * bought fs \<le> (spent fs + int (length fs)) * MICRO_SCALE" "0 \<le> bought fs"
    using spent_bounds_list [of fs f hi] by blast+
qed

lemma spent_nonneg: "purchase_of f asks fs \<Longrightarrow> 0 \<le> spent fs"
  by (fastforce simp: purchase_of_def spent_def pos_imp_zdiv_nonneg_iff intro!: sum_list_nonneg)

text \<open>C20: A simulated purchase stays within its budget and its price floor. If \<open>walk_asks_by_cost\<close> returns a result, on a book whose prices are at most
  one dollar and whose total size fits 64 bits, then the result is a purchase from a subsequence of the ask levels, taking from each at most
  its size and only at prices not below the floor. Its shares are the sum of what it takes, its cost the sum of the costs of the levels,
  each rounded down to a millionth, and the cost is at most the budget; no sum wraps. The average price is at most the highest ask, within half a millionth
  of cost over shares.\<close>

theorem walk_respects_budget:
  assumes "walk_asks_by_cost asks max_cost_usd price_floor depth = Some w"
    and "0 \<le> max_cost_usd" "max_cost_usd \<le> i64_max" "depth_shares asks \<le> i64_max"
    and "\<forall>l \<in> set asks. bl_price l \<le> hi" "hi \<le> MICRO_SCALE"
  shows "(\<exists>fs. subseq (map fst fs) asks
        \<and> (\<forall>(l, n) \<in> set fs. price_floor \<le> bl_price l \<and> 0 \<le> n \<and> n \<le> bl_size l)
        \<and> wr_shares w = (\<Sum>(l, n) \<leftarrow> fs. n)
        \<and> wr_total_cost w = (\<Sum>(l, n) \<leftarrow> fs. bl_price l * n div MICRO_SCALE)
        \<and> wr_levels_consumed w = length fs)
    \<and> 0 < wr_shares w \<and> 0 \<le> wr_total_cost w \<and> wr_total_cost w \<le> max_cost_usd
    \<and> wr_vwap w \<le> hi \<and> 2 * \<bar>wr_vwap w * wr_shares w - wr_total_cost w * MICRO_SCALE\<bar> \<le> wr_shares w"
proof -
  obtain b n c k where loop: "walk_cost_loop price_floor asks (max_cost_usd, 0, 0, 0) = (b, n, c, k)"
    by (cases "walk_cost_loop price_floor asks (max_cost_usd, 0, 0, 0)")
  obtain fs where fs: "purchase_of price_floor asks fs" "n = bought fs" "c = spent fs" "b = max_cost_usd - spent fs" "0 \<le> b" "k = length fs"
    using walk_cost_loop_spec [OF loop] assms by auto
  have w: "n \<noteq> 0" "wr_shares w = n" "wr_total_cost w = c" "wr_levels_consumed w = k" "wr_vwap w = vwap_from_cost c n"
    using assms(1) by (auto simp: walk_asks_by_cost_def loop split: if_splits)
  note bounds = spent_bounds [OF fs(1) assms(5)]
  have pos: "0 < n" "0 \<le> c"
    using bounds(3) w(1) spent_nonneg [OF fs(1)] fs by linarith+
  have "hi \<le> i64_max"
    using assms(6) by (simp add: MICRO_SCALE_def i64_max_def)
  then have "wr_vwap w \<le> hi" "2 * \<bar>wr_vwap w * wr_shares w - wr_total_cost w * MICRO_SCALE\<bar> \<le> wr_shares w"
    using vwap_nearest [OF pos, of hi] bounds(1) fs w by simp_all
  moreover have "\<exists>fs. subseq (map fst fs) asks
        \<and> (\<forall>(l, n) \<in> set fs. price_floor \<le> bl_price l \<and> 0 \<le> n \<and> n \<le> bl_size l)
        \<and> wr_shares w = (\<Sum>(l, n) \<leftarrow> fs. n)
        \<and> wr_total_cost w = (\<Sum>(l, n) \<leftarrow> fs. bl_price l * n div MICRO_SCALE)
        \<and> wr_levels_consumed w = length fs"
    using fs w by (intro exI [of _ fs]) (auto simp: purchase_of_def bought_def spent_def)
  ultimately show ?thesis
    using pos fs w by simp
qed

definition demo_asks :: "book_level list" where
  "demo_asks = [\<lparr>bl_price = 970000, bl_size = 50000000\<rparr>, \<lparr>bl_price = 980000, bl_size = 50000000\<rparr>]"

theorem walk_respects_budget_witness:
  "\<exists>w. walk_asks_by_cost demo_asks 60000000 950000 (total_depth_usd demo_asks) = Some w \<and> wr_total_cost w \<le> 60000000 \<and> wr_vwap w \<le> 980000"
proof -
  obtain w where w: "walk_asks_by_cost demo_asks 60000000 950000 (total_depth_usd demo_asks) = Some w"
    by (simp add: walk_asks_by_cost_def demo_asks_def Let_def affordable_shares_def mul_shares_def sdiv_nonneg MICRO_SCALE_def
        to_i64_or_def to_i64_def i64_def i64_min_def i64_max_def wrap_i64_def)
  have "depth_shares demo_asks \<le> i64_max" "\<forall>l \<in> set demo_asks. bl_price l \<le> 980000"
    by (simp_all add: demo_asks_def i64_max_def)
  with walk_respects_budget [OF w, of 980000] show ?thesis
    using w by (auto simp: i64_max_def MICRO_SCALE_def)
qed

end
