(* ===== verification/Order_Book.thy ===== *)
theory Order_Book
  imports Book "HOL-Library.AList"
begin

text \<open>
  The live order books of \<open>oxide-arb-core/src/pipeline\<close>: \<open>order_book.rs\<close>, one token's book with snapshots and deltas;
  \<open>book_store.rs\<close>, the books by token with their published snapshots and versions; \<open>book_gate.rs\<close> and
  \<open>staleness_classifier.rs\<close>, the quality gate and the age ladder. Copying on write shares storage between a book and its
  snapshots without changing either, so a side is a list. \<open>slice::binary_search_by\<close> is written out. Latency traces and metrics are left out.
\<close>

section \<open>Binary search\<close>

datatype ordering = OrdLess | OrdEqual | OrdGreater

definition cmp_int :: "int \<Rightarrow> int \<Rightarrow> ordering" where
  "cmp_int a b = (if a < b then OrdLess else if a = b then OrdEqual else OrdGreater)"

text \<open>The loop narrows \<open>[base, base + n)\<close> to one element.\<close>

function binary_search_loop :: "(nat \<Rightarrow> ordering) \<Rightarrow> nat \<Rightarrow> nat \<Rightarrow> nat" where
  "binary_search_loop f base n =
     (if n > 1
      then (let half = n div 2; mid = base + half
            in binary_search_loop f (if f mid = OrdGreater then base else mid) (n - half))
      else base)"
  by pat_completeness auto
termination
  by (relation "measure (\<lambda>(f, base, n). n)") auto

text \<open>\<open>Inr\<close> is the index of a match, \<open>Inl\<close> the index to insert at.\<close>

definition binary_search_by :: "(nat \<Rightarrow> ordering) \<Rightarrow> nat \<Rightarrow> nat + nat" where
  "binary_search_by f n =
     (if n = 0 then Inl 0
      else (let base = binary_search_loop f 0 n in
            case f base of
              OrdEqual \<Rightarrow> Inr base
            | OrdLess \<Rightarrow> Inl (base + 1)
            | OrdGreater \<Rightarrow> Inl base))"

declare binary_search_loop.simps [simp del]

section \<open>One token's book\<close>

record order_book =
  ob_bids :: "book_level list"
  ob_asks :: "book_level list"
  ob_last_update_ms :: u64
  ob_token_id :: ident

definition new_order_book :: "ident \<Rightarrow> order_book" where
  "new_order_book token_id = \<lparr>ob_bids = [], ob_asks = [], ob_last_update_ms = 0, ob_token_id = token_id\<rparr>"

definition book_apply_snapshot :: "book_level list \<Rightarrow> book_level list \<Rightarrow> u64 \<Rightarrow> order_book \<Rightarrow> order_book" where
  "book_apply_snapshot bids asks timestamp_ms ob =
     ob\<lparr>ob_bids := filter (\<lambda>l. bl_size l > 0) (sort_key (\<lambda>l. - bl_price l) bids),
        ob_asks := filter (\<lambda>l. bl_size l > 0) (sort_key bl_price asks),
        ob_last_update_ms := timestamp_ms\<rparr>"

definition apply_snapshot_validated :: "book_level list \<Rightarrow> book_level list \<Rightarrow> u64 \<Rightarrow> order_book \<Rightarrow> order_book" where
  "apply_snapshot_validated bids asks timestamp_ms ob =
     ob\<lparr>ob_bids := bids, ob_asks := asks, ob_last_update_ms := timestamp_ms\<rparr>"

definition find_level :: "book_level list \<Rightarrow> micro_price \<Rightarrow> bool \<Rightarrow> nat + nat" where
  "find_level levels price descending =
     binary_search_by
       (\<lambda>i. if descending then cmp_int price (bl_price (levels ! i)) else cmp_int (bl_price (levels ! i)) price)
       (length levels)"

definition apply_level_delta :: "book_level \<Rightarrow> bool \<Rightarrow> book_level list \<Rightarrow> book_level list" where
  "apply_level_delta level descending levels =
     (case find_level levels (bl_price level) descending of
        Inr idx \<Rightarrow>
          if bl_size level > 0 then levels[idx := (levels ! idx)\<lparr>bl_size := bl_size level\<rparr>]
          else take idx levels @ drop (idx + 1) levels
      | Inl idx \<Rightarrow>
          if bl_size level > 0 then take idx levels @ level # drop idx levels else levels)"

definition apply_side_deltas :: "book_level list \<Rightarrow> bool \<Rightarrow> book_level list \<Rightarrow> book_level list" where
  "apply_side_deltas changes descending levels = fold (\<lambda>l. apply_level_delta l descending) changes levels"

definition ob_best_bid :: "'z decimal_ops_scheme \<Rightarrow> order_book \<Rightarrow> price option" where
  "ob_best_bid D ob = map_option (price_decimal D) (first_level (ob_bids ob))"

definition ob_best_ask :: "'z decimal_ops_scheme \<Rightarrow> order_book \<Rightarrow> price option" where
  "ob_best_ask D ob = map_option (price_decimal D) (first_level (ob_asks ob))"

definition spread :: "'z decimal_ops_scheme \<Rightarrow> order_book \<Rightarrow> price option" where
  "spread D ob =
     (case (ob_best_ask D ob, ob_best_bid D ob) of (Some ask, Some bid) \<Rightarrow> Some (dec_sub D ask bid) | _ \<Rightarrow> None)"

definition is_crossed :: "'z decimal_ops_scheme \<Rightarrow> order_book \<Rightarrow> bool" where
  "is_crossed D ob = (case (ob_best_bid D ob, ob_best_ask D ob) of (Some bid, Some ask) \<Rightarrow> bid \<ge> ask | _ \<Rightarrow> False)"

definition should_place_on_bids :: "'z decimal_ops_scheme \<Rightarrow> order_book \<Rightarrow> price \<Rightarrow> bool" where
  "should_place_on_bids D ob price =
     (case (ob_best_bid D ob, ob_best_ask D ob) of
        (Some bid, Some ask) \<Rightarrow> price < dec_div D (dec_add D bid ask) 2
      | (Some bid, None) \<Rightarrow> price \<le> bid
      | (None, Some ask) \<Rightarrow> price < ask
      | (None, None) \<Rightarrow> True)"

definition level_found :: "book_level list \<Rightarrow> micro_price \<Rightarrow> bool \<Rightarrow> bool" where
  "level_found levels price descending \<longleftrightarrow> (case find_level levels price descending of Inr _ \<Rightarrow> True | Inl _ \<Rightarrow> False)"

text \<open>The loop that sorts the changes by side; both lists are in the order of the changes.\<close>

fun split_changes ::
  "'z decimal_ops_scheme \<Rightarrow> order_book \<Rightarrow> (side \<times> price \<times> shares) list \<Rightarrow> book_level list \<times> book_level list" where
  "split_changes D ob [] = ([], [])"
| "split_changes D ob ((s, price, sz) # changes) =
     (case split_changes D ob changes of (bid_changes, ask_changes) \<Rightarrow>
        case level_from_decimal D price sz of
          None \<Rightarrow> (bid_changes, ask_changes)
        | Some level \<Rightarrow>
            (let on_bids = (s = Buy \<or> level_found (ob_bids ob) (bl_price level) True);
                 on_asks = (s = Sell \<or> level_found (ob_asks ob) (bl_price level) False)
             in if on_bids \<and> \<not> on_asks then (level # bid_changes, ask_changes)
                else if on_asks \<and> \<not> on_bids then (bid_changes, level # ask_changes)
                else if on_bids then (level # bid_changes, ask_changes)
                else if on_asks then (bid_changes, level # ask_changes)
                else if bl_size level > 0
                then if s = Buy \<or> should_place_on_bids D ob price
                     then (level # bid_changes, ask_changes) else (bid_changes, level # ask_changes)
                else (bid_changes, ask_changes)))"

definition apply_delta_cow :: "'z decimal_ops_scheme \<Rightarrow> (side \<times> price \<times> shares) list \<Rightarrow> u64 \<Rightarrow> order_book \<Rightarrow> order_book" where
  "apply_delta_cow D changes timestamp_ms ob =
     (case split_changes D ob changes of (bid_changes, ask_changes) \<Rightarrow>
        ob\<lparr>ob_bids := apply_side_deltas bid_changes True (ob_bids ob),
           ob_asks := apply_side_deltas ask_changes False (ob_asks ob),
           ob_last_update_ms := timestamp_ms\<rparr>)"

definition publish_cow :: "u64 \<Rightarrow> order_book \<Rightarrow> book_snapshot" where
  "publish_cow version ob = new_book_snapshot (ob_bids ob) (ob_asks ob) (ob_last_update_ms ob) version"

definition bid_depth :: "'z decimal_ops_scheme \<Rightarrow> order_book \<Rightarrow> shares" where
  "bid_depth D ob = fold (\<lambda>l acc. dec_add D acc (size_decimal D l)) (ob_bids ob) 0"

definition ask_depth :: "'z decimal_ops_scheme \<Rightarrow> order_book \<Rightarrow> shares" where
  "ask_depth D ob = fold (\<lambda>l acc. dec_add D acc (size_decimal D l)) (ob_asks ob) 0"

definition book_is_empty :: "order_book \<Rightarrow> bool" where
  "book_is_empty ob \<longleftrightarrow> ob_bids ob = [] \<and> ob_asks ob = []"

section \<open>The books by token\<close>

record token_book_state =
  tb_live :: order_book
  tb_published :: book_snapshot
  tb_version :: u64

type_synonym book_store = "(ident \<times> token_book_state) list"

definition new_token_state :: "ident \<Rightarrow> token_book_state" where
  "new_token_state token_id =
     \<lparr>tb_live = new_order_book token_id, tb_published = new_book_snapshot [] [] 0 0, tb_version = 0\<rparr>"

definition get_or_create_state :: "ident \<Rightarrow> book_store \<Rightarrow> token_book_state" where
  "get_or_create_state token_id bs = (case map_of bs token_id of Some st \<Rightarrow> st | None \<Rightarrow> new_token_state token_id)"

definition bump_and_publish :: "order_book \<Rightarrow> token_book_state \<Rightarrow> u64 \<times> token_book_state" where
  "bump_and_publish ob st =
     (let version = tb_version st + 1
      in (version, st\<lparr>tb_live := ob, tb_version := version, tb_published := publish_cow version ob\<rparr>))"

definition load_book :: "ident \<Rightarrow> book_store \<Rightarrow> book_snapshot option" where
  "load_book token_id bs = map_option tb_published (map_of bs token_id)"

definition book_version :: "ident \<Rightarrow> book_store \<Rightarrow> u64" where
  "book_version token_id bs = (case map_of bs token_id of None \<Rightarrow> 0 | Some st \<Rightarrow> tb_version st)"

definition store_apply_snapshot ::
  "ident \<Rightarrow> book_level list \<Rightarrow> book_level list \<Rightarrow> u64 \<Rightarrow> book_store \<Rightarrow> u64 \<times> book_store" where
  "store_apply_snapshot token_id bids asks timestamp_ms bs =
     (let st = get_or_create_state token_id bs
      in case bump_and_publish (apply_snapshot_validated bids asks timestamp_ms (tb_live st)) st of
           (version, st') \<Rightarrow> (version, AList.update token_id st' bs))"

definition store_apply_delta ::
  "'z decimal_ops_scheme \<Rightarrow> ident \<Rightarrow> (side \<times> price \<times> shares) list \<Rightarrow> u64 \<Rightarrow> book_store \<Rightarrow> u64 \<times> book_store" where
  "store_apply_delta D token_id changes timestamp_ms bs =
     (let st = get_or_create_state token_id bs
      in case bump_and_publish (apply_delta_cow D changes timestamp_ms (tb_live st)) st of
           (version, st') \<Rightarrow> (version, AList.update token_id st' bs))"

definition remove_book :: "ident \<Rightarrow> book_store \<Rightarrow> book_store" where
  "remove_book token_id bs = AList.delete token_id bs"

definition published_snapshots :: "book_store \<Rightarrow> (ident \<times> book_snapshot) list" where
  "published_snapshots bs = map (\<lambda>(t, st). (t, tb_published st)) bs"

definition load_pair :: "ident \<Rightarrow> ident \<Rightarrow> book_store \<Rightarrow> endgame_book_pair option" where
  "load_pair token_yes token_no bs =
     (case load_book token_yes bs of
        None \<Rightarrow> None
      | Some yes \<Rightarrow> (case load_book token_no bs of None \<Rightarrow> None | Some no \<Rightarrow> Some \<lparr>pb_yes = yes, pb_no = no\<rparr>))"

definition top_of_book_tokens :: "'z decimal_ops_scheme \<Rightarrow> ident \<Rightarrow> ident \<Rightarrow> u64 \<Rightarrow> book_store \<Rightarrow> top_of_book option" where
  "top_of_book_tokens D token_yes token_no now_ms bs =
     (case load_book token_yes bs of
        None \<Rightarrow> None
      | Some yes \<Rightarrow>
          (case load_book token_no bs of
             None \<Rightarrow> None
           | Some no \<Rightarrow>
               Some \<lparr>tob_yes_best_bid = best_bid D yes, tob_yes_best_ask = best_ask D yes,
                     tob_no_best_bid = best_bid D no, tob_no_best_ask = best_ask D no,
                     tob_max_staleness_ms = max (saturating_sub_u64 now_ms (bk_timestamp_ms yes))
                       (saturating_sub_u64 now_ms (bk_timestamp_ms no)),
                     tob_yes_version = bk_version yes, tob_no_version = bk_version no\<rparr>))"

section \<open>The age ladder and the gate\<close>

record staleness_thresholds =
  sth_fresh :: u64
  sth_acceptable :: u64
  sth_stale :: u64
  sth_expired :: u64

definition classify_staleness :: "staleness_thresholds \<Rightarrow> u64 \<Rightarrow> staleness_level" where
  "classify_staleness th age_ms =
     (if age_ms \<le> sth_fresh th then Fresh
      else if age_ms \<le> sth_acceptable th then Acceptable
      else if age_ms \<le> sth_stale th then Stale
      else Expired)"

datatype book_gate_error =
    EmptySide ident string
  | StaleBook book_gate_leg ident u64 u64
  | CrossedBook ident price price

definition check_side_empty :: "book_side_view \<Rightarrow> ident \<Rightarrow> string \<Rightarrow> book_gate_error list" where
  "check_side_empty v token_id side_name = (if view_is_empty v then [EmptySide token_id side_name] else [])"

definition check_crossed :: "'z decimal_ops_scheme \<Rightarrow> book_side_view \<Rightarrow> book_side_view \<Rightarrow> ident \<Rightarrow> book_gate_error list" where
  "check_crossed D bids asks token_id =
     (case (view_best_price D bids, view_best_price D asks) of
        (Some bid, Some ask) \<Rightarrow> if bid \<ge> ask then [CrossedBook token_id bid ask] else []
      | _ \<Rightarrow> [])"

definition gate_check ::
  "'z decimal_ops_scheme \<Rightarrow> endgame_book_view \<Rightarrow> u64 \<Rightarrow> u64 \<Rightarrow> ident \<Rightarrow> ident \<Rightarrow> book_gate_error list" where
  "gate_check D book now_ms expired_threshold_ms token_yes token_no =
     check_side_empty (ev_yes_bids book) token_yes ''bids'' @ check_side_empty (ev_yes_asks book) token_yes ''asks''
     @ check_side_empty (ev_no_bids book) token_no ''bids'' @ check_side_empty (ev_no_asks book) token_no ''asks''
     @ check_crossed D (ev_yes_bids book) (ev_yes_asks book) token_yes
     @ check_crossed D (ev_no_bids book) (ev_no_asks book) token_no
     @ (if max_staleness_ms book now_ms > expired_threshold_ms
        then (case stalest_leg book now_ms token_yes token_no of
                (leg, token_id, age_ms) \<Rightarrow> [StaleBook leg token_id age_ms expired_threshold_ms])
        else [])"

definition gate_is_crossed :: "'z decimal_ops_scheme \<Rightarrow> book_side_view \<Rightarrow> book_side_view \<Rightarrow> bool" where
  "gate_is_crossed D bids asks =
     (case (view_best_price D bids, view_best_price D asks) of (Some bid, Some ask) \<Rightarrow> bid \<ge> ask | _ \<Rightarrow> False)"

definition gate_pass :: "'z decimal_ops_scheme \<Rightarrow> endgame_book_pair \<Rightarrow> u64 \<Rightarrow> u64 \<Rightarrow> bool" where
  "gate_pass D p now_ms acceptable_threshold_ms =
     (let book = pair_view p in
      if view_is_empty (ev_yes_bids book) \<or> view_is_empty (ev_yes_asks book)
         \<or> view_is_empty (ev_no_bids book) \<or> view_is_empty (ev_no_asks book) then False
      else if gate_is_crossed D (ev_yes_bids book) (ev_yes_asks book)
              \<or> gate_is_crossed D (ev_no_bids book) (ev_no_asks book) then False
      else max_staleness_ms book now_ms \<le> acceptable_threshold_ms)"

section \<open>The search is correct\<close>

lemma binary_search_loop_spec:
  assumes "0 < n" "base + n \<le> N" "\<forall>i < N. base + n \<le> i \<longrightarrow> f i = OrdGreater" "base = 0 \<or> f base \<noteq> OrdGreater"
    and mono: "\<And>i j. i < j \<Longrightarrow> j < N \<Longrightarrow> f i = OrdGreater \<Longrightarrow> f j = OrdGreater"
  shows "binary_search_loop f base n < N
    \<and> (\<forall>i < N. binary_search_loop f base n < i \<longrightarrow> f i = OrdGreater)
    \<and> (binary_search_loop f base n = 0 \<or> f (binary_search_loop f base n) \<noteq> OrdGreater)"
  using assms(1-4)
proof (induction n arbitrary: base rule: less_induct)
  case (less n)
  show ?case
  proof (cases "n > 1")
    case True
    let ?h = "n - n div 2"
    let ?mid = "base + n div 2"
    have half: "0 < ?h" "?h < n" "?mid < N" "?mid \<le> base + ?h" "?mid + ?h = base + n" "base + ?h \<le> N"
      using True less.prems(2) by auto
    show ?thesis
    proof (cases "f ?mid = OrdGreater")
      case gt: True
      then have e: "binary_search_loop f base n = binary_search_loop f base ?h"
        using True by (simp add: binary_search_loop.simps [of f base n] Let_def)
      have "\<forall>i < N. base + ?h \<le> i \<longrightarrow> f i = OrdGreater"
        using gt half(4) mono [of ?mid] by (metis le_neq_implies_less order_trans)
      then show ?thesis
        unfolding e using less.IH [OF half(2,1,6)] less.prems(4) by blast
    next
      case False
      then have e: "binary_search_loop f base n = binary_search_loop f ?mid ?h"
        using True by (simp add: binary_search_loop.simps [of f base n] Let_def)
      show ?thesis
        unfolding e using less.IH [OF half(2,1), of ?mid] less.prems(2,3) False half(5) by simp
    qed
  next
    case False
    then have "n = 1" "binary_search_loop f base n = base"
      using less.prems(1) by (simp_all add: binary_search_loop.simps)
    then show ?thesis
      using less.prems(2-4) by auto
  qed
qed

text \<open>A side in order: strictly descending prices for bids, strictly ascending ones for asks, and no empty level.\<close>

definition lkey :: "bool \<Rightarrow> micro_price \<Rightarrow> int" where
  "lkey descending p = (if descending then - p else p)"

definition side_ok :: "bool \<Rightarrow> book_level list \<Rightarrow> bool" where
  "side_ok descending levels \<longleftrightarrow>
     sorted_wrt (\<lambda>a b. lkey descending (bl_price a) < lkey descending (bl_price b)) levels \<and> (\<forall>l \<in> set levels. 0 < bl_size l)"

lemma lkey_inj [simp]: "lkey d p = lkey d q \<longleftrightarrow> p = q"
  by (simp add: lkey_def)

lemma cmp_int_iff [simp]: "cmp_int a b = OrdLess \<longleftrightarrow> a < b" "cmp_int a b = OrdEqual \<longleftrightarrow> a = b" "cmp_int a b = OrdGreater \<longleftrightarrow> b < a"
  by (auto simp: cmp_int_def)

lemma cmp_key:
  "(if descending then cmp_int price probe else cmp_int probe price) = cmp_int (lkey descending probe) (lkey descending price)"
  by (simp add: cmp_int_def lkey_def)

lemma find_level_spec:
  assumes sorted: "sorted_wrt (\<lambda>a b. lkey d (bl_price a) < lkey d (bl_price b)) levels"
  shows "find_level levels p d = Inr i \<Longrightarrow> i < length levels \<and> bl_price (levels ! i) = p"
    and "find_level levels p d = Inl i \<Longrightarrow> i \<le> length levels
      \<and> (\<forall>j < i. lkey d (bl_price (levels ! j)) < lkey d p) \<and> (\<forall>j < length levels. i \<le> j \<longrightarrow> lkey d p < lkey d (bl_price (levels ! j)))"
proof -
  let ?n = "length levels"
  define f where "f j = cmp_int (lkey d (bl_price (levels ! j))) (lkey d p)" for j
  have lt: "lkey d (bl_price (levels ! j)) < lkey d (bl_price (levels ! k))" if "j < k" "k < ?n" for j k
    using sorted that by (simp add: sorted_wrt_iff_nth_less)
  have fl: "find_level levels p d = binary_search_by f ?n"
    unfolding find_level_def cmp_key f_def by simp
  define r where "r = binary_search_loop f 0 ?n"
  have r: "r < ?n \<and> (\<forall>j < ?n. r < j \<longrightarrow> f j = OrdGreater) \<and> (r = 0 \<or> f r \<noteq> OrdGreater)" if "0 < ?n"
    unfolding r_def
  proof (rule binary_search_loop_spec)
    show "f j = OrdGreater" if "i < j" "j < ?n" "f i = OrdGreater" for i j
      using that lt [of i j] by (simp add: f_def)
  qed (use that in auto)
  show "i < ?n \<and> bl_price (levels ! i) = p" if "find_level levels p d = Inr i"
    using that r unfolding fl
    by (auto simp: binary_search_by_def Let_def r_def [symmetric] f_def split: if_splits ordering.splits)
  show "i \<le> ?n \<and> (\<forall>j < i. lkey d (bl_price (levels ! j)) < lkey d p) \<and> (\<forall>j < ?n. i \<le> j \<longrightarrow> lkey d p < lkey d (bl_price (levels ! j)))"
    if i: "find_level levels p d = Inl i"
  proof (cases "?n = 0")
    case True
    then show ?thesis
      using i unfolding fl by (simp add: binary_search_by_def)
  next
    case False
    then have R: "r < ?n" "\<And>j. j < ?n \<Longrightarrow> r < j \<Longrightarrow> f j = OrdGreater" "r = 0 \<or> f r \<noteq> OrdGreater"
      using r by auto
    have gt: "lkey d p < lkey d (bl_price (levels ! j))" if "j < ?n" "r < j" for j
      using R(2) [OF that] by (simp add: f_def)
    have cases: "f r = OrdLess \<and> i = r + 1 \<or> f r = OrdGreater \<and> i = r"
      using i False unfolding fl by (auto simp: binary_search_by_def Let_def r_def [symmetric] split: if_splits ordering.splits)
    then show ?thesis
    proof
      assume "f r = OrdLess \<and> i = r + 1"
      then have "lkey d (bl_price (levels ! r)) < lkey d p" "i = r + 1"
        by (auto simp: f_def)
      moreover have "lkey d (bl_price (levels ! j)) \<le> lkey d (bl_price (levels ! r))" if "j \<le> r" for j
        using lt [of j r] that R(1) by (cases "j = r") auto
      ultimately show ?thesis
        using gt R(1) by (force simp: less_Suc_eq_le Suc_le_eq intro: order_le_less_trans)
    next
      assume "f r = OrdGreater \<and> i = r"
      then have "lkey d p < lkey d (bl_price (levels ! r))" "i = 0" "r = 0"
        using R(3) by (auto simp: f_def)
      then show ?thesis
        using gt by (metis gr_zeroI less_nat_zero_code zero_le)
    qed
  qed
qed

section \<open>A side as a map from prices to sizes\<close>

definition side_map :: "book_level list \<Rightarrow> micro_price \<rightharpoonup> micro_shares" where
  "side_map levels = map_of (map (\<lambda>l. (bl_price l, bl_size l)) levels)"

lemma level_eq: "l = k \<longleftrightarrow> bl_price l = bl_price k \<and> bl_size l = bl_size (k :: book_level)"
  by (cases l; cases k) simp

lemma level_surj [simp]: "\<lparr>bl_price = bl_price l, bl_size = bl_size l\<rparr> = (l :: book_level)"
  by (simp add: level_eq)

lemma side_ok_distinct: "side_ok d levels \<Longrightarrow> distinct (map bl_price levels)"
  by (auto simp: side_ok_def sorted_wrt_iff_nth_less distinct_conv_nth) (metis lkey_inj linorder_neqE_nat order_less_irrefl)

lemma side_map_Some:
  assumes "side_ok d levels"
  shows "side_map levels p = Some n \<longleftrightarrow> \<lparr>bl_price = p, bl_size = n\<rparr> \<in> set levels"
proof -
  have "distinct (map fst (map (\<lambda>l. (bl_price l, bl_size l)) levels))"
    using side_ok_distinct [OF assms] by (simp add: o_def)
  then show ?thesis
    unfolding side_map_def by (auto simp: image_iff level_surj intro: bexI [rotated])
qed

lemma same_price: "side_ok d levels \<Longrightarrow> l \<in> set levels \<Longrightarrow> k \<in> set levels \<Longrightarrow> bl_price l = bl_price k \<Longrightarrow> l = k"
  using side_ok_distinct [of d levels] by (auto simp: distinct_map inj_on_def)

lemma find_level_found:
  assumes "side_ok d levels"
  shows "level_found levels p d \<longleftrightarrow> side_map levels p \<noteq> None"
proof (cases "find_level levels p d")
  case (Inr i)
  then have "i < length levels" "bl_price (levels ! i) = p"
    using find_level_spec(1) assms by (auto simp: side_ok_def)
  then have "\<lparr>bl_price = p, bl_size = bl_size (levels ! i)\<rparr> \<in> set levels"
    by (metis level_eq nth_mem book_level.select_convs)
  then show ?thesis
    using Inr side_map_Some [OF assms] by (auto simp: level_found_def)
next
  case (Inl i)
  then have "\<forall>j < length levels. bl_price (levels ! j) \<noteq> p"
    using find_level_spec(2) assms by (metis side_ok_def not_less order_less_irrefl)
  then have "side_map levels p = None"
    by (auto simp: side_map_def map_of_eq_None_iff in_set_conv_nth)
  then show ?thesis
    using Inl by (simp add: level_found_def)
qed

lemma delta_replace:
  assumes ok: "side_ok d levels" and i: "i < length levels" "bl_price (levels ! i) = bl_price l"
  shows "0 < bl_size l \<Longrightarrow> side_ok d (levels[i := (levels ! i)\<lparr>bl_size := bl_size l\<rparr>])"
    and "side_ok d (take i levels @ drop (i + 1) levels)"
    and "set (levels[i := (levels ! i)\<lparr>bl_size := bl_size l\<rparr>]) = insert l {x \<in> set levels. bl_price x \<noteq> bl_price l}"
    and "set (take i levels @ drop (i + 1) levels) = {x \<in> set levels. bl_price x \<noteq> bl_price l}"
proof -
  let ?v = "(levels ! i)\<lparr>bl_size := bl_size l\<rparr>"
  have v: "?v = l"
    using i(2) by (simp add: level_eq)
  have eq: "levels = take i levels @ levels ! i # drop (i + 1) levels"
    using i(1) by (simp add: id_take_nth_drop)
  have dist: "x \<in> set (take i levels) \<union> set (drop (i + 1) levels) \<longrightarrow> bl_price x \<noteq> bl_price l" for x
    using side_ok_distinct [OF ok] i(2) by (subst (asm) eq) (auto simp: image_iff)
  have upd: "levels[i := ?v] = take i levels @ l # drop (i + 1) levels"
    unfolding v using i(1) by (simp add: upd_conv_take_nth_drop)
  have ok': "side_ok d (take i levels @ levels ! i # drop (i + 1) levels)"
    using ok eq by simp
  show "side_ok d (levels[i := ?v])" if "0 < bl_size l"
    unfolding upd using ok' that i(2) by (simp add: side_ok_def sorted_wrt_append)
  show "side_ok d (take i levels @ drop (i + 1) levels)"
    using ok' by (auto simp: side_ok_def sorted_wrt_append)
  have s: "set levels = insert (levels ! i) (set (take i levels) \<union> set (drop (i + 1) levels))"
    by (subst eq) simp
  show "set (take i levels @ drop (i + 1) levels) = {x \<in> set levels. bl_price x \<noteq> bl_price l}"
    using dist i(2) unfolding s by auto
  then show "set (levels[i := ?v]) = insert l {x \<in> set levels. bl_price x \<noteq> bl_price l}"
    unfolding upd by auto
qed

lemma delta_insert:
  assumes ok: "side_ok d levels" and i: "i \<le> length levels" "\<forall>j < i. lkey d (bl_price (levels ! j)) < lkey d (bl_price l)"
    "\<forall>j < length levels. i \<le> j \<longrightarrow> lkey d (bl_price l) < lkey d (bl_price (levels ! j))"
  shows "0 < bl_size l \<Longrightarrow> side_ok d (take i levels @ l # drop i levels)"
    and "set (take i levels @ l # drop i levels) = insert l (set levels)"
    and "\<forall>x \<in> set levels. bl_price x \<noteq> bl_price l"
proof -
  have eq: "levels = take i levels @ drop i levels"
    by simp
  have ok': "side_ok d (take i levels @ drop i levels)"
    using ok by simp
  have lo: "lkey d (bl_price x) < lkey d (bl_price l)" if "x \<in> set (take i levels)" for x
    using that i by (auto simp: in_set_conv_nth)
  have hi: "lkey d (bl_price l) < lkey d (bl_price x)" if "x \<in> set (drop i levels)" for x
    using that i by (auto simp: in_set_conv_nth)
  show "side_ok d (take i levels @ l # drop i levels)" if "0 < bl_size l"
    using ok' that lo hi unfolding side_ok_def sorted_wrt_append by (auto intro: order.strict_trans dest: in_set_takeD in_set_dropD)
  have s: "set levels = set (take i levels) \<union> set (drop i levels)"
    by (subst eq) (simp only: set_append)
  show "set (take i levels @ l # drop i levels) = insert l (set levels)"
    unfolding s by auto
  show "\<forall>x \<in> set levels. bl_price x \<noteq> bl_price l"
    unfolding s using lo hi by fastforce
qed

text \<open>One change to a side keeps it in order and updates its map at the price.\<close>

lemma apply_level_delta_spec:
  assumes ok: "side_ok d levels"
  shows "side_ok d (apply_level_delta l d levels)"
    "set (apply_level_delta l d levels) = {x \<in> set levels. bl_price x \<noteq> bl_price l} \<union> (if 0 < bl_size l then {l} else {})"
proof -
  have "side_ok d (apply_level_delta l d levels)
    \<and> set (apply_level_delta l d levels) = {x \<in> set levels. bl_price x \<noteq> bl_price l} \<union> (if 0 < bl_size l then {l} else {})"
  proof (cases "find_level levels (bl_price l) d")
    case (Inr i)
    then have i: "i < length levels" "bl_price (levels ! i) = bl_price l"
      using find_level_spec(1) ok by (auto simp: side_ok_def)
    show ?thesis
      using delta_replace [OF ok i] by (simp add: apply_level_delta_def Inr)
  next
    case (Inl i)
    then have i: "i \<le> length levels" "\<forall>j < i. lkey d (bl_price (levels ! j)) < lkey d (bl_price l)"
      "\<forall>j < length levels. i \<le> j \<longrightarrow> lkey d (bl_price l) < lkey d (bl_price (levels ! j))"
      using find_level_spec(2) ok by (auto simp: side_ok_def)
    note ins = delta_insert [OF ok i]
    show ?thesis
      using ins(1,2) ins(3) ok by (auto simp: apply_level_delta_def Inl)
  qed
  then show "side_ok d (apply_level_delta l d levels)"
    "set (apply_level_delta l d levels) = {x \<in> set levels. bl_price x \<noteq> bl_price l} \<union> (if 0 < bl_size l then {l} else {})"
    by blast+
qed

definition map_delta :: "book_level \<Rightarrow> (micro_price \<rightharpoonup> micro_shares) \<Rightarrow> micro_price \<rightharpoonup> micro_shares" where
  "map_delta l m = m(bl_price l := (if 0 < bl_size l then Some (bl_size l) else None))"

lemma apply_level_delta_map:
  assumes "side_ok d levels"
  shows "side_map (apply_level_delta l d levels) = map_delta l (side_map levels)"
proof
  fix p
  have "side_map (apply_level_delta l d levels) p = Some n \<longleftrightarrow> map_delta l (side_map levels) p = Some n" for n
    using side_map_Some [OF assms, of p n] side_map_Some [OF apply_level_delta_spec(1) [OF assms], of l p n] apply_level_delta_spec(2) [OF assms, of l]
    by (auto simp: map_delta_def level_eq)
  then show "side_map (apply_level_delta l d levels) p = map_delta l (side_map levels) p"
    by (metis option.exhaust)
qed

lemma apply_side_deltas_spec:
  assumes "side_ok d levels"
  shows "side_ok d (apply_side_deltas ls d levels)" "side_map (apply_side_deltas ls d levels) = fold map_delta ls (side_map levels)"
proof -
  have "side_ok d (fold (\<lambda>l. apply_level_delta l d) ls levels)
    \<and> side_map (fold (\<lambda>l. apply_level_delta l d) ls levels) = fold map_delta ls (side_map levels)"
    using assms by (induction ls arbitrary: levels) (simp_all add: apply_level_delta_spec(1) apply_level_delta_map)
  then show "side_ok d (apply_side_deltas ls d levels)" "side_map (apply_side_deltas ls d levels) = fold map_delta ls (side_map levels)"
    by (simp_all add: apply_side_deltas_def)
qed

section \<open>Deltas on maps\<close>

text \<open>The changes that reach the bids and the asks, given the bids at the start of the batch.\<close>

definition bid_levels ::
  "'z decimal_ops_scheme \<Rightarrow> (micro_price \<rightharpoonup> micro_shares) \<Rightarrow> (side \<times> price \<times> shares) list \<Rightarrow> book_level list" where
  "bid_levels D bids = List.map_filter (\<lambda>(s, price, sz). case level_from_decimal D price sz of
     None \<Rightarrow> None | Some l \<Rightarrow> if s = Buy \<or> bids (bl_price l) \<noteq> None then Some l else None)"

definition ask_levels ::
  "'z decimal_ops_scheme \<Rightarrow> (micro_price \<rightharpoonup> micro_shares) \<Rightarrow> (side \<times> price \<times> shares) list \<Rightarrow> book_level list" where
  "ask_levels D bids = List.map_filter (\<lambda>(s, price, sz). case level_from_decimal D price sz of
     None \<Rightarrow> None | Some l \<Rightarrow> if s = Sell \<and> bids (bl_price l) = None then Some l else None)"

lemma split_changes_eq:
  assumes "side_ok True (ob_bids ob)"
  shows "split_changes D ob changes = (bid_levels D (side_map (ob_bids ob)) changes, ask_levels D (side_map (ob_bids ob)) changes)"
proof (induction changes)
  case (Cons c changes)
  obtain s price sz where c: "c = (s, price, sz)" by (cases c)
  show ?case
    using Cons find_level_found [OF assms]
    by (cases s; cases "level_from_decimal D price sz") (auto simp: c bid_levels_def ask_levels_def map_filter_simps Let_def)
qed (simp add: bid_levels_def ask_levels_def map_filter_simps)

text \<open>What one event does to the book a reader sees: both sides as maps, the time and the version.\<close>

type_synonym book_abs = "(micro_price \<rightharpoonup> micro_shares) \<times> (micro_price \<rightharpoonup> micro_shares) \<times> u64 \<times> u64"

datatype book_event =
    SnapshotEv ident "book_level list" "book_level list" u64
  | DeltaEv ident "(side \<times> price \<times> shares) list" u64
  | RemoveEv ident

fun store_step :: "'z decimal_ops_scheme \<Rightarrow> book_event \<Rightarrow> book_store \<Rightarrow> book_store" where
  "store_step D (SnapshotEv t bids asks ts) bs = snd (store_apply_snapshot t bids asks ts bs)"
| "store_step D (DeltaEv t changes ts) bs = snd (store_apply_delta D t changes ts bs)"
| "store_step D (RemoveEv t) bs = remove_book t bs"

definition abs_default :: "book_abs option \<Rightarrow> book_abs" where
  "abs_default a = (case a of Some b \<Rightarrow> b | None \<Rightarrow> (Map.empty, Map.empty, 0, 0))"

fun book_abs_step :: "'z decimal_ops_scheme \<Rightarrow> ident \<Rightarrow> book_event \<Rightarrow> book_abs option \<Rightarrow> book_abs option" where
  "book_abs_step D t (SnapshotEv t' bids asks ts) a =
     (if t' = t then (case abs_default a of (_, _, _, v) \<Rightarrow> Some (side_map bids, side_map asks, ts, v + 1)) else a)"
| "book_abs_step D t (DeltaEv t' changes ts) a =
     (if t' = t
      then (case abs_default a of (mb, ma, _, v) \<Rightarrow>
              Some (fold map_delta (bid_levels D mb changes) mb, fold map_delta (ask_levels D mb changes) ma, ts, v + 1))
      else a)"
| "book_abs_step D t (RemoveEv t') a = (if t' = t then None else a)"

fun ordered_event :: "book_event \<Rightarrow> bool" where
  "ordered_event (SnapshotEv t bids asks ts) = (side_ok True bids \<and> side_ok False asks)"
| "ordered_event _ = True"

definition snapshot_abs :: "book_snapshot \<Rightarrow> book_abs" where
  "snapshot_abs b = (side_map (bk_bids b), side_map (bk_asks b), bk_timestamp_ms b, bk_version b)"

definition token_ok :: "token_book_state \<Rightarrow> bool" where
  "token_ok st \<longleftrightarrow> side_ok True (ob_bids (tb_live st)) \<and> side_ok False (ob_asks (tb_live st))
     \<and> tb_published st = publish_cow (tb_version st) (tb_live st)"

lemma side_ok_Nil [simp]: "side_ok d []"
  by (simp add: side_ok_def)

lemma new_token_ok [simp]: "token_ok (new_token_state t)" "snapshot_abs (tb_published (new_token_state t)) = (Map.empty, Map.empty, 0, 0)"
  by (simp_all add: token_ok_def new_token_state_def new_order_book_def publish_cow_def new_book_snapshot_def snapshot_abs_def side_map_def)

lemma publish_abs: "snapshot_abs (publish_cow v ob) = (side_map (ob_bids ob), side_map (ob_asks ob), ob_last_update_ms ob, v)"
  by (simp add: snapshot_abs_def publish_cow_def new_book_snapshot_def)

lemma map_of_store_step:
  "map_of (store_step D (SnapshotEv t' bids asks ts) bs) t =
     (if t' = t then Some (snd (bump_and_publish
        (apply_snapshot_validated bids asks ts (tb_live (get_or_create_state t bs))) (get_or_create_state t bs))) else map_of bs t)"
  "map_of (store_step D (DeltaEv t' changes ts) bs) t =
     (if t' = t then Some (snd (bump_and_publish
        (apply_delta_cow D changes ts (tb_live (get_or_create_state t bs))) (get_or_create_state t bs))) else map_of bs t)"
  "map_of (store_step D (RemoveEv t') bs) t = (if t' = t then None else map_of bs t)"
  by (auto simp: store_apply_snapshot_def store_apply_delta_def remove_book_def Let_def update_conv' delete_conv' split: prod.splits)

lemma bump_and_publish_ok:
  assumes "side_ok True (ob_bids ob)" "side_ok False (ob_asks ob)"
  shows "token_ok (snd (bump_and_publish ob st))"
    and "snapshot_abs (tb_published (snd (bump_and_publish ob st))) =
      (side_map (ob_bids ob), side_map (ob_asks ob), ob_last_update_ms ob, tb_version st + 1)"
  using assms by (simp_all add: token_ok_def bump_and_publish_def Let_def publish_abs)

lemma apply_delta_cow_ok:
  assumes "side_ok True (ob_bids ob)" "side_ok False (ob_asks ob)"
  shows "side_ok True (ob_bids (apply_delta_cow D changes ts ob))" "side_ok False (ob_asks (apply_delta_cow D changes ts ob))"
    "side_map (ob_bids (apply_delta_cow D changes ts ob)) =
       fold map_delta (bid_levels D (side_map (ob_bids ob)) changes) (side_map (ob_bids ob))"
    "side_map (ob_asks (apply_delta_cow D changes ts ob)) =
       fold map_delta (ask_levels D (side_map (ob_bids ob)) changes) (side_map (ob_asks ob))"
    "ob_last_update_ms (apply_delta_cow D changes ts ob) = ts"
  using apply_side_deltas_spec [OF assms(1)] apply_side_deltas_spec [OF assms(2)]
  by (simp_all add: apply_delta_cow_def split_changes_eq [OF assms(1)])

abbreviation token_abs :: "ident \<Rightarrow> book_store \<Rightarrow> book_abs option" where
  "token_abs t bs \<equiv> map_option (\<lambda>st. snapshot_abs (tb_published st)) (map_of bs t)"

abbreviation token_inv :: "ident \<Rightarrow> book_store \<Rightarrow> bool" where
  "token_inv t bs \<equiv> (\<forall>st. map_of bs t = Some st \<longrightarrow> token_ok st)"

lemma get_or_create_ok:
  assumes "token_inv t bs"
  shows "token_ok (get_or_create_state t bs)"
    and "abs_default (token_abs t bs) = snapshot_abs (tb_published (get_or_create_state t bs))"
  using assms by (auto simp: abs_default_def get_or_create_state_def split: option.splits)

lemma store_step_token:
  assumes inv: "token_inv t bs" and ev: "ordered_event ev"
  shows "token_abs t (store_step D ev bs) = book_abs_step D t ev (token_abs t bs) \<and> token_inv t (store_step D ev bs)"
proof -
  let ?st = "get_or_create_state t bs"
  have sides: "side_ok True (ob_bids (tb_live ?st))" "side_ok False (ob_asks (tb_live ?st))"
    using get_or_create_ok(1) [OF inv] by (simp_all add: token_ok_def)
  have abs: "abs_default (token_abs t bs) =
      (side_map (ob_bids (tb_live ?st)), side_map (ob_asks (tb_live ?st)), ob_last_update_ms (tb_live ?st), tb_version ?st)"
    using get_or_create_ok [OF inv] by (simp add: token_ok_def publish_abs)
  show ?thesis
  proof (cases ev)
    case (SnapshotEv t' bids asks ts)
    then show ?thesis
      using inv ev by (simp del: store_step.simps add: map_of_store_step abs bump_and_publish_ok apply_snapshot_validated_def)
  next
    case (DeltaEv t' changes ts)
    then show ?thesis
      using inv by (simp del: store_step.simps add: map_of_store_step abs bump_and_publish_ok apply_delta_cow_ok [OF sides])
  next
    case (RemoveEv t')
    then show ?thesis
      using inv by (simp del: store_step.simps add: map_of_store_step)
  qed
qed

lemma store_run_token:
  assumes "token_inv t bs" "\<forall>ev \<in> set evs. ordered_event ev"
  shows "token_abs t (fold (store_step D) evs bs) = fold (book_abs_step D t) evs (token_abs t bs)
    \<and> token_inv t (fold (store_step D) evs bs)"
  using assms
proof (induction evs arbitrary: bs)
  case (Cons ev evs)
  then have step: "token_abs t (store_step D ev bs) = book_abs_step D t ev (token_abs t bs)" "token_inv t (store_step D ev bs)"
    using store_step_token [of bs t ev D, OF Cons.prems(1)] by simp_all
  have "\<forall>e \<in> set evs. ordered_event e"
    using Cons.prems(2) by simp
  from Cons.IH [OF step(2) this] show ?case
    unfolding fold_simps step(1) .
qed simp

lemma side_ok_first:
  assumes "side_ok d levels" "side_map levels p = Some n"
  shows "levels \<noteq> [] \<and> side_map levels (bl_price (hd levels)) \<noteq> None \<and> lkey d (bl_price (hd levels)) \<le> lkey d p"
proof -
  have "\<lparr>bl_price = p, bl_size = n\<rparr> \<in> set levels"
    using assms by (simp add: side_map_Some)
  then obtain l ls where e: "levels = l # ls" and "\<lparr>bl_price = p, bl_size = n\<rparr> = l \<or> \<lparr>bl_price = p, bl_size = n\<rparr> \<in> set ls"
    by (cases levels) auto
  then have "lkey d (bl_price l) \<le> lkey d p"
    using assms(1) by (force simp: side_ok_def)
  then show ?thesis
    by (simp add: e side_map_def)
qed

section \<open>Properties\<close>


definition demo_events :: "book_event list" where
  "demo_events =
     [SnapshotEv ''yes'' [\<lparr>bl_price = 600000, bl_size = 10\<rparr>, \<lparr>bl_price = 500000, bl_size = 20\<rparr>]
        [\<lparr>bl_price = 700000, bl_size = 30\<rparr>] 7,
      DeltaEv ''yes'' [(Buy, 65 / 100, 2), (Sell, 7 / 10, 0), (Sell, 8 / 10, 4)] 9]"

lemma exact_level:
  assumes "0 < price" "price \<le> 1" "0 \<le> sz" "sz \<le> 1000"
  shows "level_from_decimal exact_ops price sz = Some \<lparr>bl_price = \<lfloor>price * 1000000\<rfloor>, bl_size = \<lfloor>sz * 1000000\<rfloor>\<rparr>"
proof -
  have "micro_try_from_decimal exact_ops d = Some \<lfloor>d * 1000000\<rfloor>" if "0 \<le> d" "d \<le> 1000" for d
  proof -
    define n where "n = \<lfloor>d * 1000000\<rfloor>"
    have "d * 1000000 \<le> 1000000000" "0 \<le> d * 1000000"
      using that by simp_all
    then have "0 \<le> n" "n \<le> 1000000000"
      unfolding n_def by linarith+
    then show ?thesis
      using that by (simp add: micro_try_from_decimal_def exact_ops_def dec_trunc_def to_i64_def i64_def i64_max_def i64_min_def
          MICRO_SCALE_def n_def [symmetric])
  qed
  then show ?thesis
    using assms by (simp add: level_from_decimal_def)
qed

lemma demo_events_book:
  "fold (book_abs_step exact_ops ''yes'') demo_events None =
     Some ([500000 \<mapsto> 20, 600000 \<mapsto> 10, 650000 \<mapsto> 2000000], [800000 \<mapsto> 4000000], 9, 2)"
  by (simp add: demo_events_def abs_default_def bid_levels_def ask_levels_def map_filter_simps exact_level side_map_def map_delta_def)

lemma demo_events_ordered: "\<forall>ev \<in> set demo_events. ordered_event ev"
  by (simp add: demo_events_def side_ok_def lkey_def)


text \<open>A Sell change at a price that is a bid when the batch arrives changes the bids, even when the same batch removes that
bid first: the ask is lost and a bid appears.\<close>

lemma sell_delta_becomes_bid:
  "fold (book_abs_step exact_ops t) [SnapshotEv t [\<lparr>bl_price = 500000, bl_size = 10\<rparr>] [] 7,
      DeltaEv t [(Buy, 1 / 2, 0), (Sell, 1 / 2, 3)] 9] None = Some ([500000 \<mapsto> 3000000], Map.empty, 9, 2)"
  by (simp add: abs_default_def bid_levels_def ask_levels_def map_filter_simps exact_level side_map_def map_delta_def)


end
