(* ===== verification/Control_Factors.thy ===== *)
theory Control_Factors
  imports Order_Book
begin

text \<open>
  Live control factors (\<open>oxide-arb-models/src/domain/control_factor\<close>): the typed values (\<open>value.rs\<close>, \<open>payload.rs\<close>), the compilation of an
  active publication into read-only indexes (\<open>live/snapshot.rs\<close>, \<open>live/index.rs\<close>), the classes of a live book
  (\<open>live/classify.rs\<close>) and the arithmetic of their effects (\<open>live/apply.rs\<close>). The lemmas show that a
  compiled snapshot is exactly the most restrictive combination of the factors in force.
\<close>

section \<open>Dimensions\<close>

datatype time_to_settlement_bucket = UnderOneHour | OneToSixHours | SixToTwentyFourHours | OverTwentyFourHours
datatype fee_profile_bucket = FeeZero | FeeLow | FeeStandard | FeeHigh
datatype spread_bucket = SpreadTight | SpreadNormal | SpreadWide | SpreadVeryWide
datatype depth_bucket = DepthThin | DepthNormal | DepthDeep
datatype book_age_bucket = AgeFresh | AgeRecent | AgeStale | AgeVeryStale
datatype latency_bucket = LatencyNamed string | LatencyUnknown
datatype factor_severity = SevInfo | SevWarning | SevCritical
datatype trading_health = Healthy | Degraded | MaintenanceRequired | HealthHalted
datatype portfolio_regime = RegimeNormal | CapitalPressure | RegimeDrawdown | SettlementBacklog | Incident
datatype count_bucket = CountZero | CountOne | CountTwoToFive | CountSixToTen | CountOverTen
datatype level_bucket = LevelNone | LevelLow | LevelMedium | LevelHigh | LevelCritical
datatype anomaly_type = PriceReversal | AbnormalBook | OracleMismatch | SettlementDelay | ManualIncident | CategorySpike
datatype account_scope = GlobalAccount | HolderAccount string
datatype asset_scope = AllAssets | Collateral | ConditionalTokens | MarketAsset ident
datatype metrics_freshness_bucket = MetricsFresh | MetricsDelayed | MetricsStale | MetricsExpired
datatype redeem_status_bucket = NotRedeemable | Redeemable | RedeemDelayed | RedeemFailed

record bucket_risk_dimensions =
  bd_category :: market_category
  bd_price_zone :: price_zone
  bd_duration_bucket :: duration_bucket
  bd_hours_to_settlement_bucket :: "time_to_settlement_bucket option"
  bd_neg_risk :: "bool option"
  bd_fee_profile :: "fee_profile_bucket option"

definition coarse :: "market_category \<Rightarrow> price_zone \<Rightarrow> duration_bucket \<Rightarrow> bucket_risk_dimensions" where
  "coarse category price_zone duration_bucket = \<lparr>bd_category = category, bd_price_zone = price_zone,
     bd_duration_bucket = duration_bucket, bd_hours_to_settlement_bucket = None, bd_neg_risk = None, bd_fee_profile = None\<rparr>"

record execution_quality_dimensions =
  ed_category :: market_category
  ed_price_zone :: price_zone
  ed_spread_bucket :: spread_bucket
  ed_depth_bucket :: depth_bucket
  ed_book_age_bucket :: book_age_bucket
  ed_latency_bucket :: latency_bucket
  ed_staleness_level :: staleness_level

record portfolio_risk_dimensions =
  pd_portfolio_regime :: portfolio_regime
  pd_category :: "market_category option"
  pd_open_position_bucket :: count_bucket
  pd_potential_loss_bucket :: level_bucket
  pd_drawdown_bucket :: level_bucket
  pd_settlement_backlog_bucket :: count_bucket

record reconciliation_health_dimensions =
  rhd_account_scope :: account_scope
  rhd_asset_scope :: asset_scope
  rhd_drift_severity :: factor_severity
  rhd_metrics_freshness_bucket :: metrics_freshness_bucket
  rhd_redeem_status_bucket :: redeem_status_bucket

record market_anomaly_dimensions =
  ad_market_id :: "ident option"
  ad_event_id :: "ident option"
  ad_category :: "market_category option"
  ad_anomaly_type :: anomaly_type
  ad_severity :: factor_severity

datatype factor_dimensions =
    BucketRiskDims bucket_risk_dimensions
  | ExecutionQualityDims execution_quality_dimensions
  | PortfolioRiskDims portfolio_risk_dimensions
  | ReconciliationHealthDims reconciliation_health_dimensions
  | MarketAnomalyDims market_anomaly_dimensions
  | Unspecified

fun dims_factor_type :: "factor_dimensions \<Rightarrow> control_factor_type option" where
  "dims_factor_type (BucketRiskDims _) = Some BucketRisk"
| "dims_factor_type (ExecutionQualityDims _) = Some ExecutionQuality"
| "dims_factor_type (PortfolioRiskDims _) = Some PortfolioRisk"
| "dims_factor_type (ReconciliationHealthDims _) = Some ReconciliationHealth"
| "dims_factor_type (MarketAnomalyDims _) = Some MarketAnomaly"
| "dims_factor_type Unspecified = None"

section \<open>Payloads\<close>

record bucket_risk_payload =
  bp_resolution_haircut_factor :: decimal
  bp_size_multiplier :: decimal
  bp_min_edge_bps_addon :: decimal
  bp_block_new_entries :: bool

record execution_quality_payload =
  eqp_fill_probability_multiplier :: decimal
  eqp_max_depth_usage_pct :: "decimal option"
  eqp_slippage_bps_addon :: decimal
  eqp_min_liquidity_score :: "decimal option"

record portfolio_risk_payload =
  prp_global_size_multiplier :: decimal
  prp_category_size_multiplier :: "decimal option"
  prp_daily_budget_multiplier :: decimal
  prp_max_open_positions :: "u32 option"
  prp_kelly_fraction_multiplier :: decimal

record reconciliation_health_payload =
  rhp_trading_health :: trading_health
  rhp_size_multiplier :: decimal
  rhp_require_manual_ack :: bool
  rhp_force_maintenance_mode :: bool
  rhp_fail_closed_after_secs :: "u64 option"

record market_anomaly_payload =
  map_severity :: factor_severity
  map_block_market :: bool
  map_block_event :: bool
  map_category_cooldown_secs :: "u64 option"
  map_reason_code :: string
  map_manual_ack_required :: bool

datatype factor_payload =
    BucketRiskPayload bucket_risk_payload
  | ExecutionQualityPayload execution_quality_payload
  | PortfolioRiskPayload portfolio_risk_payload
  | ReconciliationHealthPayload reconciliation_health_payload
  | MarketAnomalyPayload market_anomaly_payload

fun payload_factor_type :: "factor_payload \<Rightarrow> control_factor_type" where
  "payload_factor_type (BucketRiskPayload _) = BucketRisk"
| "payload_factor_type (ExecutionQualityPayload _) = ExecutionQuality"
| "payload_factor_type (PortfolioRiskPayload _) = PortfolioRisk"
| "payload_factor_type (ReconciliationHealthPayload _) = ReconciliationHealth"
| "payload_factor_type (MarketAnomalyPayload _) = MarketAnomaly"

datatype payload_safety_error =
    MultiplierOutOfRange string
  | NegativeAddon string
  | RiskExpandingWithoutApproval string
  | BlockFlagRelaxed string

definition ensure_multiplier :: "decimal \<Rightarrow> string \<Rightarrow> payload_safety_error option" where
  "ensure_multiplier v field = (if v < 0 \<or> v > 1 then Some (MultiplierOutOfRange field) else None)"

definition ensure_non_negative :: "decimal \<Rightarrow> string \<Rightarrow> payload_safety_error option" where
  "ensure_non_negative v field = (if v < 0 then Some (NegativeAddon field) else None)"

text \<open>\<open>s.trim().is_empty()\<close> on the UTF-8 bytes of \<open>s\<close>: every character has the property \<open>White_Space\<close>.\<close>

fun blank :: "nat list \<Rightarrow> bool" where
  "blank [] = True"
| "blank [b] = (9 \<le> b \<and> b \<le> 13 \<or> b = 32)"
| "blank [b, c] = (if 9 \<le> b \<and> b \<le> 13 \<or> b = 32 then blank [c] else b = 0xC2 \<and> (c = 0x85 \<or> c = 0xA0))"
| "blank (b # c # d # bs) =
     (if 9 \<le> b \<and> b \<le> 13 \<or> b = 32 then blank (c # d # bs)
      else if b = 0xC2 \<and> (c = 0x85 \<or> c = 0xA0) then blank (d # bs)
      else if b = 0xE1 \<and> c = 0x9A \<and> d = 0x80 then blank bs
      else if b = 0xE2 \<and> c = 0x80 \<and> (0x80 \<le> d \<and> d \<le> 0x8A \<or> d = 0xA8 \<or> d = 0xA9 \<or> d = 0xAF) then blank bs
      else if b = 0xE2 \<and> c = 0x81 \<and> d = 0x9F then blank bs
      else if b = 0xE3 \<and> c = 0x80 \<and> d = 0x80 then blank bs
      else False)"

definition trim_is_empty :: "string \<Rightarrow> bool" where
  "trim_is_empty s = blank (map of_char s)"

text \<open>The \<open>?\<close> operator: the first error ends the checks.\<close>

definition and_then :: "'e option \<Rightarrow> 'e option \<Rightarrow> 'e option" where
  "and_then a b = (case a of Some e \<Rightarrow> Some e | None \<Rightarrow> b)"

fun validate_safety :: "factor_payload \<Rightarrow> payload_safety_error option" where
  "validate_safety (BucketRiskPayload p) =
     and_then (ensure_multiplier (bp_resolution_haircut_factor p) ''resolution_haircut_factor'')
       (and_then (ensure_multiplier (bp_size_multiplier p) ''size_multiplier'')
         (ensure_non_negative (bp_min_edge_bps_addon p) ''min_edge_bps_addon''))"
| "validate_safety (ExecutionQualityPayload p) =
     and_then (ensure_multiplier (eqp_fill_probability_multiplier p) ''fill_probability_multiplier'')
       (and_then (case eqp_max_depth_usage_pct p of None \<Rightarrow> None | Some v \<Rightarrow> ensure_multiplier v ''max_depth_usage_pct'')
         (and_then (case eqp_min_liquidity_score p of None \<Rightarrow> None | Some v \<Rightarrow> ensure_multiplier v ''min_liquidity_score'')
           (ensure_non_negative (eqp_slippage_bps_addon p) ''slippage_bps_addon'')))"
| "validate_safety (PortfolioRiskPayload p) =
     and_then (ensure_multiplier (prp_global_size_multiplier p) ''global_size_multiplier'')
       (and_then (case prp_category_size_multiplier p of None \<Rightarrow> None | Some v \<Rightarrow> ensure_multiplier v ''category_size_multiplier'')
         (and_then (ensure_multiplier (prp_daily_budget_multiplier p) ''daily_budget_multiplier'')
           (ensure_multiplier (prp_kelly_fraction_multiplier p) ''kelly_fraction_multiplier'')))"
| "validate_safety (ReconciliationHealthPayload p) = ensure_multiplier (rhp_size_multiplier p) ''size_multiplier''"
| "validate_safety (MarketAnomalyPayload p) =
     (if trim_is_empty (map_reason_code p) then Some (RiskExpandingWithoutApproval ''reason_code'') else None)"

fun payload_severity :: "factor_payload \<Rightarrow> factor_severity option" where
  "payload_severity (ReconciliationHealthPayload p) =
     (if rhp_force_maintenance_mode p then Some SevCritical else Some SevWarning)"
| "payload_severity (MarketAnomalyPayload p) = Some (map_severity p)"
| "payload_severity _ = None"

definition looser_when_larger_or_none :: "'a::linorder option \<Rightarrow> 'a option \<Rightarrow> bool" where
  "looser_when_larger_or_none current prior =
     (case (current, prior) of (None, Some _) \<Rightarrow> True | (Some c, Some p) \<Rightarrow> c > p | _ \<Rightarrow> False)"

definition looser_when_smaller_or_none :: "'a::linorder option \<Rightarrow> 'a option \<Rightarrow> bool" where
  "looser_when_smaller_or_none current prior =
     (case (current, prior) of (None, Some _) \<Rightarrow> True | (Some c, Some p) \<Rightarrow> c < p | _ \<Rightarrow> False)"

definition unwrap_or :: "'a \<Rightarrow> 'a option \<Rightarrow> 'a" where
  "unwrap_or d v = (case v of Some x \<Rightarrow> x | None \<Rightarrow> d)"

fun relaxes :: "factor_payload \<Rightarrow> factor_payload \<Rightarrow> bool" where
  "relaxes (BucketRiskPayload a) (BucketRiskPayload b) \<longleftrightarrow>
     bp_resolution_haircut_factor a > bp_resolution_haircut_factor b \<or> bp_size_multiplier a > bp_size_multiplier b
     \<or> bp_min_edge_bps_addon a < bp_min_edge_bps_addon b \<or> \<not> bp_block_new_entries a \<and> bp_block_new_entries b"
| "relaxes (ExecutionQualityPayload a) (ExecutionQualityPayload b) \<longleftrightarrow>
     eqp_fill_probability_multiplier a > eqp_fill_probability_multiplier b \<or> eqp_slippage_bps_addon a < eqp_slippage_bps_addon b
     \<or> looser_when_larger_or_none (eqp_max_depth_usage_pct a) (eqp_max_depth_usage_pct b)
     \<or> looser_when_smaller_or_none (eqp_min_liquidity_score a) (eqp_min_liquidity_score b)"
| "relaxes (PortfolioRiskPayload a) (PortfolioRiskPayload b) \<longleftrightarrow>
     prp_global_size_multiplier a > prp_global_size_multiplier b \<or> prp_daily_budget_multiplier a > prp_daily_budget_multiplier b
     \<or> prp_kelly_fraction_multiplier a > prp_kelly_fraction_multiplier b
     \<or> unwrap_or 1 (prp_category_size_multiplier a) > unwrap_or 1 (prp_category_size_multiplier b)
     \<or> looser_when_larger_or_none (prp_max_open_positions a) (prp_max_open_positions b)"
| "relaxes (ReconciliationHealthPayload a) (ReconciliationHealthPayload b) \<longleftrightarrow>
     rhp_size_multiplier a > rhp_size_multiplier b \<or> \<not> rhp_force_maintenance_mode a \<and> rhp_force_maintenance_mode b
     \<or> \<not> rhp_require_manual_ack a \<and> rhp_require_manual_ack b
     \<or> looser_when_larger_or_none (rhp_fail_closed_after_secs a) (rhp_fail_closed_after_secs b)"
| "relaxes (MarketAnomalyPayload a) (MarketAnomalyPayload b) \<longleftrightarrow>
     \<not> map_block_market a \<and> map_block_market b \<or> \<not> map_block_event a \<and> map_block_event b
     \<or> \<not> map_manual_ack_required a \<and> map_manual_ack_required b
     \<or> looser_when_smaller_or_none (map_category_cooldown_secs a) (map_category_cooldown_secs b)"
| "relaxes _ _ \<longleftrightarrow> False"

section \<open>Factors and publications\<close>

datatype factor_expiry_behavior = FailNeutral | FailClosedIfCritical | NeutralAfterTtlUnlessManualHalt

fun expiry_behavior :: "control_factor_type \<Rightarrow> factor_expiry_behavior" where
  "expiry_behavior ReconciliationHealth = FailClosedIfCritical"
| "expiry_behavior MarketAnomaly = NeutralAfterTtlUnlessManualHalt"
| "expiry_behavior _ = FailNeutral"

definition effective_expiry_behavior :: "control_factor_type \<Rightarrow> factor_severity \<Rightarrow> factor_expiry_behavior" where
  "effective_expiry_behavior t severity =
     (if t = ReconciliationHealth \<and> expiry_behavior t = FailClosedIfCritical
      then (if severity = SevCritical then FailClosedIfCritical else FailNeutral)
      else expiry_behavior t)"

text \<open>The evidence, the registry status, the generation time and the owner are not read by the compilation.\<close>

record control_factor_value =
  cv_factor_id :: ident
  cv_factor_type :: control_factor_type
  cv_dimensions :: factor_dimensions
  cv_payload :: factor_payload
  cv_expires_at :: instant
  cv_schema_version :: u32

record control_factor_publication =
  cp_publication_id :: ident
  cp_expires_at :: instant
  cp_publication_hash :: string

section \<open>Indexes\<close>

record 'p indexed_factor =
  ix_factor_id :: ident
  ix_payload :: 'p

type_synonym bucket_risk_index = "(bucket_risk_dimensions \<times> bucket_risk_payload indexed_factor) list"
type_synonym execution_quality_index = "(execution_quality_dimensions \<times> execution_quality_payload indexed_factor) list"

definition fallback_keys :: "bucket_risk_dimensions \<Rightarrow> bucket_risk_dimensions list" where
  "fallback_keys dims =
     [dims, dims\<lparr>bd_fee_profile := None\<rparr>, dims\<lparr>bd_fee_profile := None, bd_neg_risk := None\<rparr>,
      dims\<lparr>bd_fee_profile := None, bd_neg_risk := None, bd_hours_to_settlement_bucket := None\<rparr>]"

fun first_match :: "('k \<times> 'v) list \<Rightarrow> 'k list \<Rightarrow> 'v option" where
  "first_match m [] = None"
| "first_match m (k # ks) = (case map_of m k of Some v \<Rightarrow> Some v | None \<Rightarrow> first_match m ks)"

definition bucket_lookup :: "bucket_risk_index \<Rightarrow> bucket_risk_dimensions \<Rightarrow> bucket_risk_payload indexed_factor option" where
  "bucket_lookup m dims = first_match m (fallback_keys dims)"

definition execution_quality_lookup ::
  "execution_quality_index \<Rightarrow> execution_quality_dimensions \<Rightarrow> execution_quality_payload indexed_factor option" where
  "execution_quality_lookup m dims =
     (case map_of m dims of
        Some v \<Rightarrow> Some v
      | None \<Rightarrow> if ed_latency_bucket dims \<noteq> LatencyUnknown
                 then map_of m (dims\<lparr>ed_latency_bucket := LatencyUnknown\<rparr>) else None)"

record market_anomaly_index =
  mx_blocked_markets :: "(ident \<times> market_anomaly_payload indexed_factor) list"
  mx_blocked_events :: "(ident \<times> market_anomaly_payload indexed_factor) list"
  mx_category_cooldowns :: "(market_category \<times> market_anomaly_payload indexed_factor) list"

definition anomaly_is_empty :: "market_anomaly_index \<Rightarrow> bool" where
  "anomaly_is_empty m \<longleftrightarrow> mx_blocked_markets m = [] \<and> mx_blocked_events m = [] \<and> mx_category_cooldowns m = []"

definition option_filter :: "('a \<Rightarrow> bool) \<Rightarrow> 'a option \<Rightarrow> 'a option" where
  "option_filter P v = (case v of Some x \<Rightarrow> if P x then Some x else None | None \<Rightarrow> None)"

definition market_block :: "market_anomaly_index \<Rightarrow> ident \<Rightarrow> market_anomaly_payload indexed_factor option" where
  "market_block m market_id = option_filter (\<lambda>e. map_block_market (ix_payload e)) (map_of (mx_blocked_markets m) market_id)"

definition event_block :: "market_anomaly_index \<Rightarrow> ident \<Rightarrow> market_anomaly_payload indexed_factor option" where
  "event_block m event_id = option_filter (\<lambda>e. map_block_event (ix_payload e)) (map_of (mx_blocked_events m) event_id)"

definition category_cooldown_secs :: "market_anomaly_index \<Rightarrow> market_category \<Rightarrow> u64 option" where
  "category_cooldown_secs m category =
     (case map_of (mx_category_cooldowns m) category of None \<Rightarrow> None | Some e \<Rightarrow> map_category_cooldown_secs (ix_payload e))"

definition is_some_and :: "('a \<Rightarrow> bool) \<Rightarrow> 'a option \<Rightarrow> bool" where
  "is_some_and P v = (case v of Some x \<Rightarrow> P x | None \<Rightarrow> False)"

definition anomaly_decision :: "market_anomaly_index \<Rightarrow> ident \<Rightarrow> ident \<Rightarrow> ident \<Rightarrow> market_anomaly_decision" where
  "anomaly_decision m publication_id market_id event_id =
     (let market = market_block m market_id; event = event_block m event_id;
          source = (case market of Some e \<Rightarrow> Some e | None \<Rightarrow> event)
      in \<lparr>ma_block_market = (market \<noteq> None), ma_block_event = (event \<noteq> None),
          ma_manual_ack_required =
            (is_some_and (\<lambda>e. map_manual_ack_required (ix_payload e)) (map_of (mx_blocked_markets m) market_id)
             \<or> is_some_and (\<lambda>e. map_manual_ack_required (ix_payload e)) (map_of (mx_blocked_events m) event_id)),
          ma_reason_code = map_option (\<lambda>e. map_reason_code (ix_payload e)) source,
          ma_source = map_option (\<lambda>e. \<lparr>af_factor_id = ix_factor_id e, af_factor_type = MarketAnomaly,
            af_publication_id = publication_id, af_input_value = 0, af_output_value = 1,
            af_reason = ''market anomaly block: '' @ map_reason_code (ix_payload e)\<rparr>) source\<rparr>)"

record portfolio_risk_state =
  px_global_size_multiplier :: decimal
  px_daily_budget_multiplier :: decimal
  px_kelly_fraction_multiplier :: decimal
  px_max_open_positions :: "u32 option"
  px_category_multipliers :: "(market_category \<times> decimal) list"
  px_binding_factor_id :: "ident option"

definition default_portfolio :: portfolio_risk_state where
  "default_portfolio = \<lparr>px_global_size_multiplier = 1, px_daily_budget_multiplier = 1, px_kelly_fraction_multiplier = 1,
     px_max_open_positions = None, px_category_multipliers = [], px_binding_factor_id = None\<rparr>"

fun min_optional :: "u32 option \<Rightarrow> u32 option \<Rightarrow> u32 option" where
  "min_optional (Some a) (Some b) = Some (min a b)"
| "min_optional (Some a) None = Some a"
| "min_optional None (Some b) = Some b"
| "min_optional None None = None"

definition absorb_portfolio :: "ident \<Rightarrow> portfolio_risk_payload \<Rightarrow> portfolio_risk_state \<Rightarrow> portfolio_risk_state" where
  "absorb_portfolio factor_id p st =
     (let st1 = (if prp_global_size_multiplier p < px_global_size_multiplier st
                 then st\<lparr>px_global_size_multiplier := prp_global_size_multiplier p, px_binding_factor_id := Some factor_id\<rparr>
                 else st)
      in st1\<lparr>px_daily_budget_multiplier := min (px_daily_budget_multiplier st1) (prp_daily_budget_multiplier p),
             px_kelly_fraction_multiplier := min (px_kelly_fraction_multiplier st1) (prp_kelly_fraction_multiplier p),
             px_max_open_positions := min_optional (px_max_open_positions st1) (prp_max_open_positions p)\<rparr>)"

definition absorb_category :: "market_category \<Rightarrow> decimal \<Rightarrow> portfolio_risk_state \<Rightarrow> portfolio_risk_state" where
  "absorb_category category multiplier st =
     st\<lparr>px_category_multipliers := AList.update category
          (min (unwrap_or 1 (map_of (px_category_multipliers st) category)) multiplier) (px_category_multipliers st)\<rparr>"

definition portfolio_decision :: "portfolio_risk_state \<Rightarrow> ident \<Rightarrow> market_category \<Rightarrow> portfolio_risk_decision" where
  "portfolio_decision st publication_id category =
     \<lparr>pr_global_size_multiplier = px_global_size_multiplier st,
      pr_category_size_multiplier = map_of (px_category_multipliers st) category,
      pr_daily_budget_multiplier = px_daily_budget_multiplier st,
      pr_kelly_fraction_multiplier = px_kelly_fraction_multiplier st,
      pr_max_open_positions = px_max_open_positions st, pr_category = Some category,
      pr_source = map_option (\<lambda>factor_id. \<lparr>af_factor_id = factor_id, af_factor_type = PortfolioRisk,
        af_publication_id = publication_id, af_input_value = 1, af_output_value = px_global_size_multiplier st,
        af_reason = ''portfolio risk worst-of size multiplier''\<rparr>) (px_binding_factor_id st)\<rparr>"

record reconciliation_health_state =
  hx_force_maintenance_mode :: bool
  hx_size_multiplier :: decimal
  hx_require_manual_ack :: bool
  hx_binding_factor_id :: "ident option"

definition default_reconciliation :: reconciliation_health_state where
  "default_reconciliation = \<lparr>hx_force_maintenance_mode = False, hx_size_multiplier = 1, hx_require_manual_ack = False,
     hx_binding_factor_id = None\<rparr>"

definition absorb_reconciliation ::
  "ident \<Rightarrow> reconciliation_health_payload \<Rightarrow> reconciliation_health_state \<Rightarrow> reconciliation_health_state" where
  "absorb_reconciliation factor_id p st =
     (let st1 = (if rhp_force_maintenance_mode p \<and> \<not> hx_force_maintenance_mode st
                 then st\<lparr>hx_force_maintenance_mode := True, hx_binding_factor_id := Some factor_id\<rparr> else st);
          st2 = (if rhp_size_multiplier p < hx_size_multiplier st1
                 then (let st' = st1\<lparr>hx_size_multiplier := rhp_size_multiplier p\<rparr>
                       in if hx_binding_factor_id st' = None \<or> \<not> hx_force_maintenance_mode st'
                          then st'\<lparr>hx_binding_factor_id := Some factor_id\<rparr> else st')
                 else st1)
      in st2\<lparr>hx_require_manual_ack := hx_require_manual_ack st2 \<or> rhp_require_manual_ack p\<rparr>)"

definition reconciliation_is_neutral :: "reconciliation_health_state \<Rightarrow> bool" where
  "reconciliation_is_neutral st \<longleftrightarrow>
     \<not> hx_force_maintenance_mode st \<and> hx_size_multiplier st = 1 \<and> \<not> hx_require_manual_ack st"

definition reconciliation_decision :: "reconciliation_health_state \<Rightarrow> ident \<Rightarrow> reconciliation_health_decision" where
  "reconciliation_decision st publication_id =
     \<lparr>rh_force_maintenance_mode = hx_force_maintenance_mode st, rh_size_multiplier = hx_size_multiplier st,
      rh_require_manual_ack = hx_require_manual_ack st,
      rh_source = map_option (\<lambda>factor_id. \<lparr>af_factor_id = factor_id, af_factor_type = ReconciliationHealth,
        af_publication_id = publication_id, af_input_value = 1, af_output_value = hx_size_multiplier st,
        af_reason = (if hx_force_maintenance_mode st then ''reconciliation maintenance mode''
                     else ''reconciliation size throttle'')\<rparr>) (hx_binding_factor_id st)\<rparr>"

section \<open>The compiled snapshot\<close>

definition LIVE_SNAPSHOT_SCHEMA_VERSION :: u32 where "LIVE_SNAPSHOT_SCHEMA_VERSION = 1"

record control_factor_snapshot =
  cx_publication_id :: "ident option"
  cx_loaded_at :: instant
  cx_expires_at :: "instant option"
  cx_source_version :: string
  cx_schema_version :: u32
  cx_bucket_risk :: bucket_risk_index
  cx_execution_quality :: execution_quality_index
  cx_portfolio_risk :: portfolio_risk_state
  cx_reconciliation_health :: reconciliation_health_state
  cx_market_anomalies :: market_anomaly_index

definition neutral_snapshot :: "instant \<Rightarrow> control_factor_snapshot" where
  "neutral_snapshot loaded_at = \<lparr>cx_publication_id = None, cx_loaded_at = loaded_at, cx_expires_at = None,
     cx_source_version = [], cx_schema_version = LIVE_SNAPSHOT_SCHEMA_VERSION, cx_bucket_risk = [], cx_execution_quality = [],
     cx_portfolio_risk = default_portfolio, cx_reconciliation_health = default_reconciliation,
     cx_market_anomalies = \<lparr>mx_blocked_markets = [], mx_blocked_events = [], mx_category_cooldowns = []\<rparr>\<rparr>"

datatype snapshot_build_error =
    SchemaMismatch ident u32 u32
  | DimensionPayloadMismatch ident
  | PayloadConstraint ident payload_safety_error
  | MissingMember ident
  | ExpiredSafetyFactor ident instant instant
  | PublicationHashMismatch string string
  | PayloadHashMismatch ident string string
  | DimensionsHashMismatch ident string string

definition route_anomaly :: "ident \<Rightarrow> market_anomaly_dimensions \<Rightarrow> market_anomaly_payload \<Rightarrow> market_anomaly_index \<Rightarrow> market_anomaly_index" where
  "route_anomaly factor_id d p m =
     (let e = \<lparr>ix_factor_id = factor_id, ix_payload = p\<rparr>;
          m1 = (case (map_block_market p, ad_market_id d) of
                  (True, Some market_id) \<Rightarrow> m\<lparr>mx_blocked_markets := AList.update market_id e (mx_blocked_markets m)\<rparr> | _ \<Rightarrow> m);
          m2 = (case (map_block_event p, ad_event_id d) of
                  (True, Some event_id) \<Rightarrow> m1\<lparr>mx_blocked_events := AList.update event_id e (mx_blocked_events m1)\<rparr> | _ \<Rightarrow> m1)
      in case (map_category_cooldown_secs p, ad_category d) of
           (Some _, Some category) \<Rightarrow> m2\<lparr>mx_category_cooldowns := AList.update category e (mx_category_cooldowns m2)\<rparr>
         | _ \<Rightarrow> m2)"

definition route :: "control_factor_value \<Rightarrow> control_factor_snapshot \<Rightarrow> snapshot_build_error + control_factor_snapshot" where
  "route f s =
     (case (cv_dimensions f, cv_payload f) of
        (BucketRiskDims d, BucketRiskPayload p) \<Rightarrow>
          Inr (s\<lparr>cx_bucket_risk := AList.update d \<lparr>ix_factor_id = cv_factor_id f, ix_payload = p\<rparr> (cx_bucket_risk s)\<rparr>)
      | (ExecutionQualityDims d, ExecutionQualityPayload p) \<Rightarrow>
          Inr (s\<lparr>cx_execution_quality := AList.update d \<lparr>ix_factor_id = cv_factor_id f, ix_payload = p\<rparr> (cx_execution_quality s)\<rparr>)
      | (PortfolioRiskDims d, PortfolioRiskPayload p) \<Rightarrow>
          (let st = absorb_portfolio (cv_factor_id f) p (cx_portfolio_risk s)
           in Inr (s\<lparr>cx_portfolio_risk :=
                (case (pd_category d, prp_category_size_multiplier p) of
                   (Some category, Some multiplier) \<Rightarrow> absorb_category category multiplier st | _ \<Rightarrow> st)\<rparr>))
      | (ReconciliationHealthDims d, ReconciliationHealthPayload p) \<Rightarrow>
          Inr (s\<lparr>cx_reconciliation_health := absorb_reconciliation (cv_factor_id f) p (cx_reconciliation_health s)\<rparr>)
      | (MarketAnomalyDims d, MarketAnomalyPayload p) \<Rightarrow>
          Inr (s\<lparr>cx_market_anomalies := route_anomaly (cv_factor_id f) d p (cx_market_anomalies s)\<rparr>)
      | _ \<Rightarrow> Inl (DimensionPayloadMismatch (cv_factor_id f)))"

definition factor_behavior :: "control_factor_value \<Rightarrow> factor_expiry_behavior" where
  "factor_behavior f =
     (case payload_severity (cv_payload f) of
        None \<Rightarrow> expiry_behavior (cv_factor_type f)
      | Some severity \<Rightarrow> effective_expiry_behavior (cv_factor_type f) severity)"

definition compile_factor ::
  "instant \<Rightarrow> bool \<Rightarrow> control_factor_value \<Rightarrow> control_factor_snapshot \<Rightarrow> snapshot_build_error + control_factor_snapshot" where
  "compile_factor now fail_closed f s =
     (if cv_schema_version f \<noteq> LIVE_SNAPSHOT_SCHEMA_VERSION
      then Inl (SchemaMismatch (cv_factor_id f) (cv_schema_version f) LIVE_SNAPSHOT_SCHEMA_VERSION)
      else if cv_factor_type f \<noteq> payload_factor_type (cv_payload f) then Inl (DimensionPayloadMismatch (cv_factor_id f))
      else if is_some_and (\<lambda>t. t \<noteq> cv_factor_type f) (dims_factor_type (cv_dimensions f))
      then Inl (DimensionPayloadMismatch (cv_factor_id f))
      else case validate_safety (cv_payload f) of
             Some e \<Rightarrow> Inl (PayloadConstraint (cv_factor_id f) e)
           | None \<Rightarrow>
               if cv_expires_at f \<le> now
               then if factor_behavior f = FailClosedIfCritical \<and> fail_closed
                    then Inl (ExpiredSafetyFactor (cv_factor_id f) (cv_expires_at f) now)
                    else Inr s
               else route f s)"

fun compile_loop ::
  "instant \<Rightarrow> bool \<Rightarrow> control_factor_value list \<Rightarrow> control_factor_snapshot \<Rightarrow> snapshot_build_error + control_factor_snapshot" where
  "compile_loop now fail_closed [] s = Inr s"
| "compile_loop now fail_closed (f # fs) s =
     (case compile_factor now fail_closed f s of Inl e \<Rightarrow> Inl e | Inr s' \<Rightarrow> compile_loop now fail_closed fs s')"

definition compile ::
  "control_factor_publication \<Rightarrow> control_factor_value list \<Rightarrow> instant \<Rightarrow> bool \<Rightarrow> snapshot_build_error + control_factor_snapshot" where
  "compile publication factors now fail_closed =
     compile_loop now fail_closed factors ((neutral_snapshot now)
       \<lparr>cx_publication_id := Some (cp_publication_id publication), cx_expires_at := Some (cp_expires_at publication),
        cx_source_version := cp_publication_hash publication\<rparr>)"

definition is_expired_at :: "control_factor_snapshot \<Rightarrow> instant \<Rightarrow> bool" where
  "is_expired_at s now = is_some_and (\<lambda>expires_at. expires_at \<le> now) (cx_expires_at s)"

definition has_active_safety_factor :: "control_factor_snapshot \<Rightarrow> bool" where
  "has_active_safety_factor s \<longleftrightarrow>
     \<not> reconciliation_is_neutral (cx_reconciliation_health s) \<or> \<not> anomaly_is_empty (cx_market_anomalies s)"

section \<open>Classes of a live book\<close>

definition spread_bucket_of :: "'z decimal_ops_scheme \<Rightarrow> price option \<Rightarrow> price option \<Rightarrow> spread_bucket" where
  "spread_bucket_of D bid_price ask_price =
     (case (bid_price, ask_price) of
        (Some bid, Some ask) \<Rightarrow>
          (let spread = max (dec_sub D ask bid) 0
           in if spread < 1 / 100 then SpreadTight else if spread < 3 / 100 then SpreadNormal
              else if spread < 6 / 100 then SpreadWide else SpreadVeryWide)
      | _ \<Rightarrow> SpreadVeryWide)"

definition depth_bucket_of :: "decimal \<Rightarrow> depth_bucket" where
  "depth_bucket_of ask_depth_usd =
     (if ask_depth_usd \<ge> 1000 then DepthDeep else if ask_depth_usd \<ge> 100 then DepthNormal else DepthThin)"

definition book_age_bucket_of :: "u64 \<Rightarrow> book_age_bucket" where
  "book_age_bucket_of age_ms =
     (if age_ms < 500 then AgeFresh else if age_ms < 2000 then AgeRecent else if age_ms < 5000 then AgeStale else AgeVeryStale)"

definition execution_quality_dimensions_of ::
  "'z decimal_ops_scheme \<Rightarrow> market_category \<Rightarrow> price_zone \<Rightarrow> staleness_level \<Rightarrow> book_snapshot \<Rightarrow> u64 \<Rightarrow> execution_quality_dimensions" where
  "execution_quality_dimensions_of D category zone staleness book now_ms =
     \<lparr>ed_category = category, ed_price_zone = zone,
      ed_spread_bucket = spread_bucket_of D (best_bid D book) (best_ask D book),
      ed_depth_bucket = depth_bucket_of (micro_to_decimal D (bk_total_ask_depth_usd book)),
      ed_book_age_bucket = book_age_bucket_of (saturating_sub_u64 now_ms (bk_timestamp_ms book)),
      ed_latency_bucket = LatencyUnknown, ed_staleness_level = staleness\<rparr>"

section \<open>Effects\<close>

definition clamp_unit :: "decimal \<Rightarrow> decimal" where
  "clamp_unit v = (if v < 0 then 0 else if v > 1 then 1 else v)"

definition effective_resolution_prob :: "'z decimal_ops_scheme \<Rightarrow> decimal \<Rightarrow> decimal \<Rightarrow> decimal" where
  "effective_resolution_prob D base haircut = clamp_unit (dec_mul D base (clamp_unit haircut))"

definition expected_net_profit :: "'z decimal_ops_scheme \<Rightarrow> usd \<Rightarrow> usd \<Rightarrow> usd \<Rightarrow> decimal \<Rightarrow> usd" where
  "expected_net_profit D payout_if_correct total_cost total_fees effective_p =
     dec_sub D (dec_sub D (dec_mul D payout_if_correct effective_p) total_cost) total_fees"

definition effective_min_edge_bps :: "'z decimal_ops_scheme \<Rightarrow> decimal \<Rightarrow> decimal \<Rightarrow> decimal" where
  "effective_min_edge_bps D base_min_edge_bps addon = dec_add D base_min_edge_bps (max addon 0)"

definition effective_fill_probability :: "'z decimal_ops_scheme \<Rightarrow> decimal \<Rightarrow> decimal \<Rightarrow> decimal" where
  "effective_fill_probability D base multiplier = clamp_unit (dec_mul D base (clamp_unit multiplier))"

definition effective_slippage_limit_bps :: "'z decimal_ops_scheme \<Rightarrow> decimal \<Rightarrow> decimal \<Rightarrow> decimal" where
  "effective_slippage_limit_bps D base_limit_bps addon = dec_sub D base_limit_bps (max addon 0)"

definition size_cap :: "'z decimal_ops_scheme \<Rightarrow> usd \<Rightarrow> decimal \<Rightarrow> usd" where
  "size_cap D base_size multiplier = max (dec_mul D base_size (clamp_unit multiplier)) 0"

section \<open>What a compiled snapshot holds\<close>

definition live_factors :: "instant \<Rightarrow> control_factor_value list \<Rightarrow> control_factor_value list" where
  "live_factors now fs = filter (\<lambda>f. now < cv_expires_at f) fs"

fun portfolio_multiplier :: "factor_payload \<Rightarrow> decimal option" where
  "portfolio_multiplier (PortfolioRiskPayload p) = Some (prp_global_size_multiplier p)"
| "portfolio_multiplier _ = None"

fun category_multiplier :: "market_category \<Rightarrow> factor_dimensions \<Rightarrow> factor_payload \<Rightarrow> decimal option" where
  "category_multiplier c (PortfolioRiskDims d) (PortfolioRiskPayload p) =
     (if pd_category d = Some c then prp_category_size_multiplier p else None)"
| "category_multiplier c _ _ = None"

fun health_multiplier :: "factor_payload \<Rightarrow> decimal option" where
  "health_multiplier (ReconciliationHealthPayload p) = Some (rhp_size_multiplier p)"
| "health_multiplier _ = None"

fun forces_maintenance :: "factor_payload \<Rightarrow> bool" where
  "forces_maintenance (ReconciliationHealthPayload p) = rhp_force_maintenance_mode p"
| "forces_maintenance _ = False"

fun needs_ack :: "factor_payload \<Rightarrow> bool" where
  "needs_ack (ReconciliationHealthPayload p) = rhp_require_manual_ack p"
| "needs_ack _ = False"

fun blocks_market :: "ident \<Rightarrow> factor_dimensions \<Rightarrow> factor_payload \<Rightarrow> bool" where
  "blocks_market m (MarketAnomalyDims d) (MarketAnomalyPayload p) \<longleftrightarrow> map_block_market p \<and> ad_market_id d = Some m"
| "blocks_market m _ _ \<longleftrightarrow> False"

fun blocks_event :: "ident \<Rightarrow> factor_dimensions \<Rightarrow> factor_payload \<Rightarrow> bool" where
  "blocks_event e (MarketAnomalyDims d) (MarketAnomalyPayload p) \<longleftrightarrow> map_block_event p \<and> ad_event_id d = Some e"
| "blocks_event e _ _ \<longleftrightarrow> False"

text \<open>The least of the values in force and 1.\<close>

definition worst_of :: "('a \<Rightarrow> decimal option) \<Rightarrow> 'a list \<Rightarrow> decimal" where
  "worst_of g fs = Min (set (1 # List.map_filter g fs))"

definition lower_to :: "decimal option \<Rightarrow> decimal \<Rightarrow> decimal" where
  "lower_to v m = (case v of None \<Rightarrow> m | Some x \<Rightarrow> min m x)"

lemma fold_lower_to: "fold (\<lambda>f. lower_to (g f)) fs m = fold min (List.map_filter g fs) m"
  by (induction fs arbitrary: m) (simp_all add: map_filter_simps lower_to_def min.commute split: option.split)

lemma worst_of_fold: "worst_of g fs = fold (\<lambda>f. lower_to (g f)) fs 1"
  unfolding worst_of_def fold_lower_to by (simp only: Min.set_eq_fold)

lemma worst_of_range:
  assumes "\<forall>f \<in> set fs. \<forall>v. g f = Some v \<longrightarrow> 0 \<le> v"
  shows "0 \<le> worst_of g fs" "worst_of g fs \<le> 1"
  using assms unfolding worst_of_def by (auto simp: map_filter_def)

lemma compile_factor_Inr:
  assumes "compile_factor now fail_closed f s = Inr s'"
  shows "(if now < cv_expires_at f then route f s = Inr s' else s' = s)
    \<and> validate_safety (cv_payload f) = None \<and> (now < cv_expires_at f \<or> factor_behavior f \<noteq> FailClosedIfCritical \<or> \<not> fail_closed)"
  using assms by (auto simp: compile_factor_def split: if_splits option.splits)

text \<open>What every routed factor does to a part of the snapshot, the loop does for all the factors in force.\<close>

lemma compile_loop_fold:
  assumes step: "\<And>f s s'. route f s = Inr s' \<Longrightarrow> view s' = upd f (view s)"
    and run: "compile_loop now fail_closed fs s = Inr s'"
  shows "view s' = fold upd (live_factors now fs) (view s)"
  using run
proof (induction fs arbitrary: s)
  case (Cons f fs)
  then obtain t where t: "compile_factor now fail_closed f s = Inr t" "compile_loop now fail_closed fs t = Inr s'"
    by (auto split: sum.splits)
  then have "view t = (if now < cv_expires_at f then upd f (view s) else view s)"
    using compile_factor_Inr [OF t(1)] step by (auto split: if_splits)
  then show ?case
    using Cons.IH [OF t(2)] by (simp add: live_factors_def)
qed (simp add: live_factors_def)

lemma compile_loop_all:
  assumes "compile_loop now fail_closed fs s = Inr s'" "f \<in> set fs"
  shows "validate_safety (cv_payload f) = None \<and> (now < cv_expires_at f \<or> factor_behavior f \<noteq> FailClosedIfCritical \<or> \<not> fail_closed)"
  using assms
proof (induction fs arbitrary: s)
  case (Cons g fs)
  then show ?case
    using compile_factor_Inr [of now fail_closed g s] by (fastforce split: sum.splits)
qed simp

lemma route_portfolio:
  assumes "route f s = Inr s'"
  shows "px_global_size_multiplier (cx_portfolio_risk s') =
      lower_to (portfolio_multiplier (cv_payload f)) (px_global_size_multiplier (cx_portfolio_risk s))"
  using assms by (cases "cv_dimensions f"; cases "cv_payload f")
    (auto simp: route_def absorb_portfolio_def absorb_category_def Let_def lower_to_def min_def split: option.splits if_splits)

lemma route_category:
  assumes "route f s = Inr s'"
  shows "unwrap_or 1 (map_of (px_category_multipliers (cx_portfolio_risk s')) c) =
      lower_to (category_multiplier c (cv_dimensions f) (cv_payload f)) (unwrap_or 1 (map_of (px_category_multipliers (cx_portfolio_risk s)) c))"
  using assms by (cases "cv_dimensions f"; cases "cv_payload f")
    (auto simp: route_def absorb_portfolio_def absorb_category_def Let_def lower_to_def unwrap_or_def update_conv'
      split: option.splits if_splits)

lemma route_health:
  assumes "route f s = Inr s'"
  shows "hx_size_multiplier (cx_reconciliation_health s') =
      lower_to (health_multiplier (cv_payload f)) (hx_size_multiplier (cx_reconciliation_health s))"
    and "hx_force_maintenance_mode (cx_reconciliation_health s') \<longleftrightarrow>
      hx_force_maintenance_mode (cx_reconciliation_health s) \<or> forces_maintenance (cv_payload f)"
    and "hx_require_manual_ack (cx_reconciliation_health s') \<longleftrightarrow>
      hx_require_manual_ack (cx_reconciliation_health s) \<or> needs_ack (cv_payload f)"
  using assms by (cases "cv_dimensions f"; cases "cv_payload f";
      auto simp: route_def absorb_reconciliation_def Let_def lower_to_def min_def split: option.splits if_splits)+

lemma compile_loop_inv:
  assumes step: "\<And>f s s'. route f s = Inr s' \<Longrightarrow> validate_safety (cv_payload f) = None \<Longrightarrow> P s \<Longrightarrow> P s'"
    and run: "compile_loop now fail_closed fs s = Inr s'" and start: "P s"
  shows "P s'"
  using run start
proof (induction fs arbitrary: s)
  case (Cons f fs)
  then obtain t where t: "compile_factor now fail_closed f s = Inr t" "compile_loop now fail_closed fs t = Inr s'"
    by (auto split: sum.splits)
  then have "P t"
    using compile_factor_Inr [OF t(1)] step Cons.prems(2) by (auto split: if_splits)
  then show ?case
    using Cons.IH [OF t(2)] by simp
qed simp

lemma route_blocked:
  assumes "route f s = Inr s'"
  shows "map_of (mx_blocked_markets (cx_market_anomalies s')) m \<noteq> None \<longleftrightarrow>
      map_of (mx_blocked_markets (cx_market_anomalies s)) m \<noteq> None \<or> blocks_market m (cv_dimensions f) (cv_payload f)"
    and "map_of (mx_blocked_events (cx_market_anomalies s')) e \<noteq> None \<longleftrightarrow>
      map_of (mx_blocked_events (cx_market_anomalies s)) e \<noteq> None \<or> blocks_event e (cv_dimensions f) (cv_payload f)"
  using assms by (cases "cv_dimensions f"; cases "cv_payload f";
      auto simp: route_def route_anomaly_def absorb_portfolio_def Let_def update_conv' split: option.splits if_splits bool.splits)+

definition blocks_flagged :: "control_factor_snapshot \<Rightarrow> bool" where
  "blocks_flagged s \<longleftrightarrow>
     (\<forall>m e. map_of (mx_blocked_markets (cx_market_anomalies s)) m = Some e \<longrightarrow> map_block_market (ix_payload e))
   \<and> (\<forall>m e. map_of (mx_blocked_events (cx_market_anomalies s)) m = Some e \<longrightarrow> map_block_event (ix_payload e))"

lemma route_flagged:
  assumes "route f s = Inr s'" "blocks_flagged s"
  shows "blocks_flagged s'"
  using assms by (cases "cv_dimensions f"; cases "cv_payload f")
    (auto simp: route_def route_anomaly_def blocks_flagged_def Let_def update_conv' split: option.splits if_splits bool.splits)

lemma flagged_blocks:
  assumes "blocks_flagged s"
  shows "market_block (cx_market_anomalies s) m \<noteq> None \<longleftrightarrow> map_of (mx_blocked_markets (cx_market_anomalies s)) m \<noteq> None"
    and "event_block (cx_market_anomalies s) e \<noteq> None \<longleftrightarrow> map_of (mx_blocked_events (cx_market_anomalies s)) e \<noteq> None"
  using assms by (auto simp: market_block_def event_block_def option_filter_def blocks_flagged_def split: option.splits)

lemma fold_or: "fold (\<lambda>f b. b \<or> P f) fs b \<longleftrightarrow> b \<or> (\<exists>f \<in> set fs. P f)"
  by (induction fs arbitrary: b) auto

lemma safe_multipliers:
  assumes "validate_safety (cv_payload f) = None"
  shows "portfolio_multiplier (cv_payload f) = Some v \<Longrightarrow> 0 \<le> v"
    and "category_multiplier c (cv_dimensions f) (cv_payload f) = Some v \<Longrightarrow> 0 \<le> v"
    and "health_multiplier (cv_payload f) = Some v \<Longrightarrow> 0 \<le> v"
  using assms by (cases "cv_dimensions f"; cases "cv_payload f";
      auto simp: and_then_def ensure_multiplier_def split: option.splits if_splits)+

lemma compile_loop_views:
  assumes run: "compile_loop now fail_closed fs s = Inr s'"
  shows "px_global_size_multiplier (cx_portfolio_risk s') =
      fold (\<lambda>f. lower_to (portfolio_multiplier (cv_payload f))) (live_factors now fs) (px_global_size_multiplier (cx_portfolio_risk s))"
    and "unwrap_or 1 (map_of (px_category_multipliers (cx_portfolio_risk s')) c) =
      fold (\<lambda>f. lower_to (category_multiplier c (cv_dimensions f) (cv_payload f))) (live_factors now fs)
        (unwrap_or 1 (map_of (px_category_multipliers (cx_portfolio_risk s)) c))"
    and "hx_size_multiplier (cx_reconciliation_health s') =
      fold (\<lambda>f. lower_to (health_multiplier (cv_payload f))) (live_factors now fs) (hx_size_multiplier (cx_reconciliation_health s))"
    and "hx_force_maintenance_mode (cx_reconciliation_health s') \<longleftrightarrow>
      hx_force_maintenance_mode (cx_reconciliation_health s) \<or> (\<exists>f \<in> set (live_factors now fs). forces_maintenance (cv_payload f))"
    and "hx_require_manual_ack (cx_reconciliation_health s') \<longleftrightarrow>
      hx_require_manual_ack (cx_reconciliation_health s) \<or> (\<exists>f \<in> set (live_factors now fs). needs_ack (cv_payload f))"
    and "map_of (mx_blocked_markets (cx_market_anomalies s')) m \<noteq> None \<longleftrightarrow>
      map_of (mx_blocked_markets (cx_market_anomalies s)) m \<noteq> None
      \<or> (\<exists>f \<in> set (live_factors now fs). blocks_market m (cv_dimensions f) (cv_payload f))"
    and "map_of (mx_blocked_events (cx_market_anomalies s')) e \<noteq> None \<longleftrightarrow>
      map_of (mx_blocked_events (cx_market_anomalies s)) e \<noteq> None
      \<or> (\<exists>f \<in> set (live_factors now fs). blocks_event e (cv_dimensions f) (cv_payload f))"
  by (rule compile_loop_fold [where view = "\<lambda>s. px_global_size_multiplier (cx_portfolio_risk s)"
          and upd = "\<lambda>f. lower_to (portfolio_multiplier (cv_payload f))", OF route_portfolio run]
      compile_loop_fold [where view = "\<lambda>s. unwrap_or 1 (map_of (px_category_multipliers (cx_portfolio_risk s)) c)"
          and upd = "\<lambda>f. lower_to (category_multiplier c (cv_dimensions f) (cv_payload f))", OF route_category run]
      compile_loop_fold [where view = "\<lambda>s. hx_size_multiplier (cx_reconciliation_health s)"
          and upd = "\<lambda>f. lower_to (health_multiplier (cv_payload f))", OF route_health(1) run]
      compile_loop_fold [where view = "\<lambda>s. hx_force_maintenance_mode (cx_reconciliation_health s)"
          and upd = "\<lambda>f b. b \<or> forces_maintenance (cv_payload f)", OF route_health(2) run, unfolded fold_or]
      compile_loop_fold [where view = "\<lambda>s. hx_require_manual_ack (cx_reconciliation_health s)"
          and upd = "\<lambda>f b. b \<or> needs_ack (cv_payload f)", OF route_health(3) run, unfolded fold_or]
      compile_loop_fold [where view = "\<lambda>s. map_of (mx_blocked_markets (cx_market_anomalies s)) m \<noteq> None"
          and upd = "\<lambda>f b. b \<or> blocks_market m (cv_dimensions f) (cv_payload f)", OF route_blocked(1) run, unfolded fold_or]
      compile_loop_fold [where view = "\<lambda>s. map_of (mx_blocked_events (cx_market_anomalies s)) e \<noteq> None"
          and upd = "\<lambda>f b. b \<or> blocks_event e (cv_dimensions f) (cv_payload f)", OF route_blocked(2) run, unfolded fold_or]; assumption?)+

section \<open>Properties\<close>


definition demo_portfolio_factor :: "instant \<Rightarrow> decimal \<Rightarrow> control_factor_value" where
  "demo_portfolio_factor expires multiplier = \<lparr>cv_factor_id = ''f1'', cv_factor_type = PortfolioRisk,
     cv_dimensions = PortfolioRiskDims \<lparr>pd_portfolio_regime = RegimeDrawdown, pd_category = None, pd_open_position_bucket = CountZero,
       pd_potential_loss_bucket = LevelLow, pd_drawdown_bucket = LevelHigh, pd_settlement_backlog_bucket = CountZero\<rparr>,
     cv_payload = PortfolioRiskPayload \<lparr>prp_global_size_multiplier = multiplier, prp_category_size_multiplier = None,
       prp_daily_budget_multiplier = 1, prp_max_open_positions = None, prp_kelly_fraction_multiplier = 1\<rparr>,
     cv_expires_at = expires, cv_schema_version = 1\<rparr>"


text \<open>An anomaly factor that only asks for an acknowledgement is not indexed: no decision ever requires it.\<close>

lemma acknowledgement_alone_not_indexed:
  assumes "cv_dimensions f = MarketAnomalyDims d" "cv_payload f = MarketAnomalyPayload p"
    and "\<not> map_block_market p" "\<not> map_block_event p" "map_category_cooldown_secs p = None"
  shows "route f s = Inr s"
  using assms by (simp add: route_def route_anomaly_def)

end
