(* ===== verification/Fees.thy ===== *)
theory Fees
  imports Book "HOL-Library.AList"
begin

text \<open>
  The fee calculator of the venue (\<open>oxide-arb-api/src/fees\<close>): the configuration, the book of market schedules, the quote
  with its mode-dependent fallback, and the fixed-point formula with its table for prices of 95 to 99 cents. The power
  \<open>Decimal::powd\<close> of \<open>rust_decimal\<close> is a parameter. The lemmas compare the table with the formula it stands for and show
  when a quote is refused.
\<close>

section \<open>Configuration and schedules\<close>

datatype fee_source = ClobMarketInfo | GammaFeeSchedule | CategoryDefault
datatype fee_liquidity_role = Taker | Maker

record fees_config =
  xf_exponent :: decimal
  xf_unknown_category_rate :: decimal
  xf_category_rates :: "(market_category \<times> decimal) list"

definition default_category_rates :: "(market_category \<times> decimal) list" where
  "default_category_rates =
     [(Geopolitics, 0), (Sports, 3 / 100), (Crypto, 72 / 1000), (Finance, 4 / 100), (Politics, 4 / 100), (Tech, 4 / 100),
      (Economics, 5 / 100), (Culture, 5 / 100), (Weather, 5 / 100), (Other, 5 / 100)]"

definition default_fees_config :: fees_config where
  "default_fees_config = \<lparr>xf_exponent = 1, xf_unknown_category_rate = 5 / 100, xf_category_rates = default_category_rates\<rparr>"

definition rate_for :: "fees_config \<Rightarrow> market_category \<Rightarrow> decimal" where
  "rate_for config category =
     (case map_of (xf_category_rates config) category of Some r \<Rightarrow> r | None \<Rightarrow> xf_unknown_category_rate config)"

definition all_category_rates :: "fees_config \<Rightarrow> (market_category \<times> decimal \<times> decimal) list" where
  "all_category_rates config =
     map (\<lambda>category. (category, rate_for config category, xf_exponent config))
       [Geopolitics, Sports, Politics, Finance, Tech, Culture, Weather, Economics, Crypto, Other]"

record market_fee_schedule =
  mf_market_id :: ident
  mf_fees_enabled :: bool
  mf_fee_rate :: decimal
  mf_exponent :: decimal
  mf_taker_only :: bool
  mf_rebate_rate :: "decimal option"
  mf_source :: fee_source
  mf_observed_at :: instant

record category_fee_params =
  cfp_fee_rate :: decimal
  cfp_exponent :: decimal

record fee_snapshot =
  fs_market_schedules :: "(ident \<times> market_fee_schedule) list"
  fs_category_defaults :: "(market_category \<times> category_fee_params) list"
  fs_updated_at :: instant

definition fee_snapshot_from_config :: "instant \<Rightarrow> fees_config \<Rightarrow> fee_snapshot" where
  "fee_snapshot_from_config now config = \<lparr>fs_market_schedules = [],
     fs_category_defaults = map (\<lambda>(category, fee_rate, exponent). (category, \<lparr>cfp_fee_rate = fee_rate, cfp_exponent = exponent\<rparr>))
       (all_category_rates config),
     fs_updated_at = now\<rparr>"

definition category_default_schedule :: "fee_snapshot \<Rightarrow> ident \<Rightarrow> market_category \<Rightarrow> market_fee_schedule option" where
  "category_default_schedule s market_id category =
     map_option (\<lambda>params. \<lparr>mf_market_id = market_id, mf_fees_enabled = (cfp_fee_rate params > 0), mf_fee_rate = cfp_fee_rate params,
         mf_exponent = cfp_exponent params, mf_taker_only = True, mf_rebate_rate = None, mf_source = CategoryDefault,
         mf_observed_at = fs_updated_at s\<rparr>)
       (case map_of (fs_category_defaults s) category of Some p \<Rightarrow> Some p | None \<Rightarrow> map_of (fs_category_defaults s) Other)"

definition ingest_market_fee_schedules :: "instant \<Rightarrow> market_fee_schedule list \<Rightarrow> fee_snapshot \<Rightarrow> fee_snapshot" where
  "ingest_market_fee_schedules now schedules s =
     (let s' = s\<lparr>fs_market_schedules := fold (\<lambda>x. AList.update (mf_market_id x) x) schedules (fs_market_schedules s)\<rparr>
      in if schedules = [] then s else s'\<lparr>fs_updated_at := now\<rparr>)"

section \<open>The formula\<close>

text \<open>\<open>d.trunc().to_i64().unwrap_or(0)\<close>.\<close>

definition trunc_i64 :: "decimal \<Rightarrow> int" where
  "trunc_i64 d = to_i64_or 0 (dec_trunc d)"

definition vol_micro :: "'z decimal_ops_scheme \<Rightarrow> (decimal \<Rightarrow> decimal \<Rightarrow> decimal) \<Rightarrow> decimal \<Rightarrow> decimal \<Rightarrow> int" where
  "vol_micro D powd p exponent =
     trunc_i64 (dec_mul D (powd (dec_mul D p (dec_sub D 1 p)) exponent) (of_int MICRO_SCALE))"

text \<open>The table: the row of exponent 1 is filled without a call of \<open>powd\<close>.\<close>

definition endgame_vol_micro_lut :: "'z decimal_ops_scheme \<Rightarrow> (decimal \<Rightarrow> decimal \<Rightarrow> decimal) \<Rightarrow> nat \<Rightarrow> int \<Rightarrow> int" where
  "endgame_vol_micro_lut D powd exp_idx cent =
     (let p = dec_div D (of_int cent) 100
      in if exp_idx = 0 then trunc_i64 (dec_mul D (dec_mul D p (dec_sub D 1 p)) (of_int MICRO_SCALE))
         else vol_micro D powd p (3 / 2))"

definition exp_index :: "decimal \<Rightarrow> nat option" where
  "exp_index exponent = (if exponent = 1 then Some 0 else if exponent = 3 / 2 then Some 1 else None)"

definition volatility_factor_micro :: "'z decimal_ops_scheme \<Rightarrow> (decimal \<Rightarrow> decimal \<Rightarrow> decimal) \<Rightarrow> micro_price \<Rightarrow> decimal \<Rightarrow> int" where
  "volatility_factor_micro D powd price exponent =
     (let p = micro_to_decimal D price; cent = dec_trunc (dec_mul D p 100)
      in case exp_index exponent of
           Some exp_idx \<Rightarrow> if 95 \<le> cent \<and> cent \<le> 99 then endgame_vol_micro_lut D powd exp_idx cent else vol_micro D powd p exponent
         | None \<Rightarrow> vol_micro D powd p exponent)"

definition calculate_fee_micro ::
  "'z decimal_ops_scheme \<Rightarrow> (decimal \<Rightarrow> decimal \<Rightarrow> decimal) \<Rightarrow> micro_shares \<Rightarrow> micro_price \<Rightarrow> int \<Rightarrow> decimal \<Rightarrow> micro_usd" where
  "calculate_fee_micro D powd shares price fee_rate_micro exponent =
     (if price \<le> 0 \<or> price \<ge> MICRO_SCALE \<or> shares \<le> 0 then 0
      else to_i64_or i64_max (wrap_i128 (wrap_i128 (shares * fee_rate_micro) * volatility_factor_micro D powd price exponent)
             sdiv MICRO_SCALE sdiv MICRO_SCALE))"

definition calculate_fee ::
  "'z decimal_ops_scheme \<Rightarrow> (decimal \<Rightarrow> decimal \<Rightarrow> decimal) \<Rightarrow> shares \<Rightarrow> price \<Rightarrow> decimal \<Rightarrow> decimal \<Rightarrow> usd" where
  "calculate_fee D powd shares price fee_rate exponent =
     (if price = 0 \<or> price = 1 then 0
      else let shares_m = (case micro_try_from_decimal D shares of Some v \<Rightarrow> v | None \<Rightarrow> 0);
               price_m = (case micro_try_from_decimal D price of Some v \<Rightarrow> v | None \<Rightarrow> 0);
               fee_rate_micro = trunc_i64 (dec_mul D fee_rate (of_int MICRO_SCALE));
               rounded = dec_round_dp D 5 (micro_to_decimal D (calculate_fee_micro D powd shares_m price_m fee_rate_micro exponent))
           in if rounded < 1 / 100000 then 0 else rounded)"

section \<open>Quotes\<close>

record fee_quote_input =
  fi_market_id :: ident
  fi_token_id :: ident
  fi_category :: market_category
  fi_side :: side
  fi_liquidity_role :: fee_liquidity_role
  fi_shares :: shares
  fi_price :: price
  fi_allow_category_fallback :: bool

record fee_quote =
  fq_fee_usd :: usd
  fq_schedule :: market_fee_schedule
  fq_formula_version :: string
  fq_rounded_scale :: u32

datatype fee_quote_error = MissingSchedule ident message

fun category_str :: "market_category \<Rightarrow> string" where
  "category_str Geopolitics = ''geopolitics''"
| "category_str Sports = ''sports''"
| "category_str Politics = ''politics''"
| "category_str Finance = ''finance''"
| "category_str Tech = ''tech''"
| "category_str Culture = ''culture''"
| "category_str Weather = ''weather''"
| "category_str Economics = ''economics''"
| "category_str Crypto = ''crypto''"
| "category_str Other = ''other''"

definition quote :: "'z decimal_ops_scheme \<Rightarrow> (decimal \<Rightarrow> decimal \<Rightarrow> decimal) \<Rightarrow> fee_snapshot \<Rightarrow> fee_quote_input \<Rightarrow> fee_quote_error + fee_quote" where
  "quote D powd s input =
     (case (case map_of (fs_market_schedules s) (fi_market_id input) of
              Some schedule \<Rightarrow> Inr schedule
            | None \<Rightarrow>
                if fi_allow_category_fallback input
                then (case category_default_schedule s (fi_market_id input) (fi_category input) of
                        Some schedule \<Rightarrow> Inr schedule
                      | None \<Rightarrow> Inl (MissingSchedule (fi_market_id input)
                          [Lit ''no category fallback for '', Lit (category_str (fi_category input))]))
                else Inl (MissingSchedule (fi_market_id input) [Lit ''category fallback disabled''])) of
        Inl e \<Rightarrow> Inl e
      | Inr schedule \<Rightarrow>
          Inr \<lparr>fq_fee_usd =
                (if \<not> mf_fees_enabled schedule \<or> fi_liquidity_role input = Maker then 0
                 else calculate_fee D powd (fi_shares input) (fi_price input) (mf_fee_rate schedule) (mf_exponent schedule)),
               fq_schedule = schedule, fq_formula_version = ''polymarket-v1'', fq_rounded_scale = 5\<rparr>)"

definition quote_for_mode ::
  "'z decimal_ops_scheme \<Rightarrow> (decimal \<Rightarrow> decimal \<Rightarrow> decimal) \<Rightarrow> fee_snapshot \<Rightarrow> execution_mode \<Rightarrow> fee_quote_input \<Rightarrow> fee_quote_error + fee_quote" where
  "quote_for_mode D powd s mode input =
     quote D powd s (if mode = Live then input\<lparr>fi_allow_category_fallback := False\<rparr> else input)"

definition calculate_sim ::
  "'z decimal_ops_scheme \<Rightarrow> (decimal \<Rightarrow> decimal \<Rightarrow> decimal) \<Rightarrow> fee_snapshot \<Rightarrow> shares \<Rightarrow> price \<Rightarrow> market_category \<Rightarrow> ident \<Rightarrow> ident \<Rightarrow> usd" where
  "calculate_sim D powd s shares price category market_id token_id =
     (case quote D powd s \<lparr>fi_market_id = market_id, fi_token_id = token_id, fi_category = category, fi_side = Buy,
             fi_liquidity_role = Taker, fi_shares = shares, fi_price = price, fi_allow_category_fallback = True\<rparr> of
        Inl _ \<Rightarrow> 0 | Inr q \<Rightarrow> fq_fee_usd q)"

section \<open>The table against the formula\<close>

lemma faithful_ops:
  assumes "decimal_laws D"
  shows "representable (a * b) \<Longrightarrow> dec_mul D a b = a * b" "representable (a - b) \<Longrightarrow> dec_sub D a b = a - b"
    "b \<noteq> 0 \<Longrightarrow> representable (a / b) \<Longrightarrow> dec_div D a b = a / b"
  using assms faithful_exact unfolding decimal_laws_def by blast+

lemma representable_scaled: "\<bar>k\<bar> < 2 ^ 96 \<Longrightarrow> e \<le> 28 \<Longrightarrow> representable (of_int k / 10 ^ e)"
  unfolding representable_def by blast

lemma dec_trunc_div: "0 \<le> k \<Longrightarrow> 0 < n \<Longrightarrow> dec_trunc (of_int k / of_int n) = k div n"
  by (simp add: dec_trunc_def floor_divide_of_int_eq)

lemma trunc_i64_int: "0 \<le> k \<Longrightarrow> k \<le> i64_max \<Longrightarrow> trunc_i64 (of_int k) = k"
  by (simp add: trunc_i64_def dec_trunc_def i64_nonneg)

lemma price_cents:
  assumes "decimal_laws D" "0 < m" "m < MICRO_SCALE"
  shows "micro_to_decimal D m = of_int m / 10 ^ 6" "dec_trunc (dec_mul D (of_int m / 10 ^ 6) 100) = m div 10000"
proof -
  have m: "i64 m"
    using assms by (simp add: i64_nonneg i64_max_def MICRO_SCALE_def)
  show "micro_to_decimal D m = of_int m / 10 ^ 6"
    using micro_to_decimal_exact [OF assms(1) m] by (simp add: MICRO_SCALE_def)
  have e: "of_int m / 10 ^ 6 * 100 = (of_int m / 10 ^ 4 :: rat)"
    by simp
  have "representable (of_int m / 10 ^ 4)"
    using assms by (intro representable_scaled) (auto simp: MICRO_SCALE_def)
  then have "dec_mul D (of_int m / 10 ^ 6) 100 = of_int m / of_int 10000"
    using faithful_ops(1) [OF assms(1), of "of_int m / 10 ^ 6" 100] unfolding e by simp
  then show "dec_trunc (dec_mul D (of_int m / 10 ^ 6) 100) = m div 10000"
    using assms(2) by (simp only: dec_trunc_div)
qed

text \<open>One evaluation of \<open>p (1 - p)\<close> at \<open>k\<close> units of \<open>10 ^ - e\<close>, scaled and truncated.\<close>

lemma int_div_le_dividend: "x div y \<le> x" if "0 \<le> x" "0 < y" for x y :: int
proof -
  have "x div y * 1 \<le> x div y * y"
    using that by (intro mult_left_mono) (auto simp: pos_imp_zdiv_nonneg_iff)
  also have "\<dots> \<le> x"
    using that by (simp add: minus_mod_eq_div_mult [symmetric])
  finally show ?thesis by simp
qed

lemma vol_exact:
  assumes "decimal_laws D" "0 \<le> k" "k \<le> 10 ^ e" "e \<le> 6"
  shows "trunc_i64 (dec_mul D (dec_mul D (of_int k / 10 ^ e) (dec_sub D 1 (of_int k / 10 ^ e))) (of_int MICRO_SCALE)) =
    k * (10 ^ e - k) * 10 ^ 6 div 10 ^ (2 * e)"
proof -
  have pow: "(10 :: int) ^ e \<le> 10 ^ 6"
    using assms(4) by (intro power_increasing) auto
  have kk: "0 \<le> k * (10 ^ e - k)" "k * (10 ^ e - k) \<le> 10 ^ 6 * 10 ^ 6"
    using assms(2,3) pow by (simp, intro mult_mono) auto
  have sub: "dec_sub D 1 (of_int k / 10 ^ e) = of_int (10 ^ e - k) / 10 ^ e"
  proof -
    have "representable (of_int (10 ^ e - k) / 10 ^ e)"
      using assms pow by (intro representable_scaled) auto
    moreover have "1 - of_int k / 10 ^ e = (of_int (10 ^ e - k) / 10 ^ e :: rat)"
      by (simp add: field_simps)
    ultimately show ?thesis
      using faithful_ops(2) [OF assms(1), of 1 "of_int k / 10 ^ e"] by simp
  qed
  have mul: "of_int k / 10 ^ e * (of_int (10 ^ e - k) / 10 ^ e) = (of_int (k * (10 ^ e - k)) / 10 ^ (2 * e) :: rat)"
    by (simp add: mult_2 power_add)
  have "representable (of_int (k * (10 ^ e - k)) / 10 ^ (2 * e))"
    using kk assms(4) by (intro representable_scaled) auto
  then have p: "dec_mul D (of_int k / 10 ^ e) (of_int (10 ^ e - k) / 10 ^ e) = of_int (k * (10 ^ e - k)) / 10 ^ (2 * e)"
    using faithful_ops(1) [OF assms(1)] mul by metis
  have scaled: "of_int (k * (10 ^ e - k)) / 10 ^ (2 * e) * of_int MICRO_SCALE = (of_int (k * (10 ^ e - k) * 10 ^ 6) / 10 ^ (2 * e) :: rat)"
    by (simp add: MICRO_SCALE_def)
  have "k * (10 ^ e - k) * 10 ^ 6 \<le> 10 ^ 12 * 10 ^ 6"
    using kk by simp
  then have rep: "representable (of_int (k * (10 ^ e - k) * 10 ^ 6) / 10 ^ (2 * e))"
    using kk assms(4) by (intro representable_scaled) auto
  have v: "dec_trunc (of_int (k * (10 ^ e - k) * 10 ^ 6) / 10 ^ (2 * e)) = k * (10 ^ e - k) * 10 ^ 6 div 10 ^ (2 * e)"
    using dec_trunc_div [of "k * (10 ^ e - k) * 10 ^ 6" "10 ^ (2 * e)"] kk by simp
  have "k * (10 ^ e - k) * 10 ^ 6 div 10 ^ (2 * e) \<le> k * (10 ^ e - k) * 10 ^ 6"
    using kk by (intro int_div_le_dividend) auto
  then have "0 \<le> k * (10 ^ e - k) * 10 ^ 6 div 10 ^ (2 * e)" "k * (10 ^ e - k) * 10 ^ 6 div 10 ^ (2 * e) \<le> i64_max"
    using kk by (simp_all add: i64_max_def pos_imp_zdiv_nonneg_iff)
  then have q: "to_i64_or 0 (k * (10 ^ e - k) * 10 ^ 6 div 10 ^ (2 * e)) = k * (10 ^ e - k) * 10 ^ 6 div 10 ^ (2 * e)"
    by (intro to_i64_or_id) (simp only: i64_nonneg)
  have "dec_mul D (of_int (k * (10 ^ e - k)) / 10 ^ (2 * e)) (of_int MICRO_SCALE) = of_int (k * (10 ^ e - k) * 10 ^ 6) / 10 ^ (2 * e)"
    using faithful_ops(1) [OF assms(1), of "of_int (k * (10 ^ e - k)) / 10 ^ (2 * e)" "of_int MICRO_SCALE"] rep
    unfolding scaled by blast
  then show ?thesis
    unfolding sub p trunc_i64_def by (simp only: v q)
qed

lemma vol_table:
  assumes "decimal_laws D" "95 \<le> c" "c \<le> 99"
  shows "endgame_vol_micro_lut D powd 0 c = c * (100 - c) * 100"
proof -
  have "representable (of_int c / 10 ^ 2)"
    using assms by (intro representable_scaled) auto
  then have "dec_div D (of_int c) 100 = of_int c / 10 ^ 2"
    using faithful_ops(3) [OF assms(1), of 100 "of_int c"] by simp
  then have p: "dec_div D (of_int c) 100 = of_int c / 100"
    by (simp del: divide_eq_eq_numeral1)
  have "c * (100 - c) * 10 ^ 6 div 10 ^ 4 = c * (100 - c) * 100"
    by simp
  then show ?thesis
    using vol_exact [OF assms(1), of c 2] assms(2,3) unfolding endgame_vol_micro_lut_def p by (simp add: Let_def)
qed

lemma vol_direct:
  assumes "decimal_laws D" "\<forall>x. powd x 1 = x" "0 < m" "m < MICRO_SCALE"
  shows "vol_micro D powd (of_int m / 10 ^ 6) 1 = m * (MICRO_SCALE - m) div MICRO_SCALE"
proof -
  have "m * (10 ^ 6 - m) * 10 ^ 6 div (10 ^ 6 * 10 ^ 6) = m * (10 ^ 6 - m) div 10 ^ 6"
    by (rule div_mult_mult2) simp
  then show ?thesis
    using vol_exact [OF assms(1), of m 6] assms(2-4) by (simp add: vol_micro_def MICRO_SCALE_def)
qed

lemma volatility_exact:
  assumes "decimal_laws D" "\<forall>x. powd x 1 = x" "0 < m" "m < MICRO_SCALE"
  shows "volatility_factor_micro D powd m 1 =
    (if 950000 \<le> m then m div 10000 * (100 - m div 10000) * 100 else m * (MICRO_SCALE - m) div MICRO_SCALE)"
proof -
  have "m div 10000 \<le> 99" "95 \<le> m div 10000 \<longleftrightarrow> 950000 \<le> m"
    using assms(4) by (auto simp: MICRO_SCALE_def)
  then show ?thesis
    using vol_table [OF assms(1), of "m div 10000" powd] vol_direct [of D powd m, OF assms]
    unfolding volatility_factor_micro_def Let_def price_cents [OF assms(1,3,4)] exp_index_def by simp
qed

text \<open>The table is never below the formula, and above it by less than a cent.\<close>

lemma volatility_table_bounds:
  assumes "950000 \<le> m" "m < MICRO_SCALE"
  shows "m * (MICRO_SCALE - m) div MICRO_SCALE \<le> m div 10000 * (100 - m div 10000) * 100"
    "m div 10000 * (100 - m div 10000) * 100 \<le> m * (MICRO_SCALE - m) div MICRO_SCALE + 10000"
    "10000 dvd m \<Longrightarrow> m * (MICRO_SCALE - m) div MICRO_SCALE = m div 10000 * (100 - m div 10000) * 100"
proof -
  define c d where "c = m div 10000" and "d = m mod 10000"
  have m: "m = 10000 * c + d" and d: "0 \<le> d" "d < 10000"
    by (simp_all add: c_def d_def)
  have c: "95 \<le> c" "c \<le> 99"
    using assms by (auto simp: c_def MICRO_SCALE_def)
  have eq: "m * (1000000 - m) = 1000000 * (c * (100 - c) * 100) - (d * 10000 * (2 * c - 100) + d * d)"
    by (simp add: m algebra_simps)
  define r where "r = d * 10000 * (2 * c - 100) + d * d"
  have "d * (2 * c - 100) \<le> 9999 * 98" "d * d \<le> 9999 * 9999"
    using c d by (intro mult_mono; simp)+
  then have r: "0 \<le> r" "r \<le> 10000 * 1000000"
    using c d by (simp_all add: r_def)
  have X: "m * (1000000 - m) = 1000000 * (c * (100 - c) * 100) - r"
    by (simp only: eq r_def)
  have "(1000000 * V - r) div 1000000 = V + (- r) div 1000000" for V :: int
    using div_mult_self2 [of 1000000 "- r" V] by (simp add: algebra_simps)
  moreover have "(- r) div 1000000 \<le> 0" "-10000 \<le> (- r) div 1000000"
    using r by auto
  ultimately have "(1000000 * V - r) div 1000000 \<le> V" "V \<le> (1000000 * V - r) div 1000000 + 10000" for V :: int
    by simp_all
  then show "m * (MICRO_SCALE - m) div MICRO_SCALE \<le> m div 10000 * (100 - m div 10000) * 100"
    "m div 10000 * (100 - m div 10000) * 100 \<le> m * (MICRO_SCALE - m) div MICRO_SCALE + 10000"
    unfolding MICRO_SCALE_def X c_def [symmetric] by blast+
  show "m * (MICRO_SCALE - m) div MICRO_SCALE = m div 10000 * (100 - m div 10000) * 100" if "10000 dvd m"
  proof -
    have "r = 0"
      using that by (simp add: r_def d_def)
    then show ?thesis
      unfolding MICRO_SCALE_def X c_def [symmetric] by simp
  qed
qed

text \<open>No product of the formula leaves \<open>i128\<close> and no quotient leaves \<open>i64\<close>.\<close>

lemma calculate_fee_micro_exact:
  assumes "0 < s" "s \<le> i64_max" "0 \<le> r" "r \<le> MICRO_SCALE" "0 < m" "m < MICRO_SCALE"
    and v: "0 \<le> volatility_factor_micro D powd m x" "volatility_factor_micro D powd m x \<le> MICRO_SCALE"
  shows "calculate_fee_micro D powd s m r x = s * r * volatility_factor_micro D powd m x div MICRO_SCALE div MICRO_SCALE"
proof -
  let ?v = "volatility_factor_micro D powd m x"
  have sr: "0 \<le> s * r" "s * r \<le> i64_max * MICRO_SCALE"
    using assms(1-4) by (simp, intro mult_mono) auto
  have srv: "0 \<le> s * r * ?v" "s * r * ?v \<le> i64_max * MICRO_SCALE * MICRO_SCALE"
    using sr v mult_mono [OF sr(2) v(2)] by (simp_all add: i64_max_def)
  then have "s * r * ?v div MICRO_SCALE div MICRO_SCALE \<le> i64_max * MICRO_SCALE * MICRO_SCALE div MICRO_SCALE div MICRO_SCALE"
    by (intro zdiv_mono1) (auto simp: MICRO_SCALE_def)
  then have q: "s * r * ?v div MICRO_SCALE div MICRO_SCALE \<le> i64_max"
    by (simp add: i64_max_def MICRO_SCALE_def)
  have q0: "0 \<le> s * r * ?v div MICRO_SCALE div MICRO_SCALE"
    using srv by (simp add: MICRO_SCALE_def pos_imp_zdiv_nonneg_iff)
  have w: "wrap_i128 (s * r) = s * r" "wrap_i128 (s * r * ?v) = s * r * ?v"
    using sr srv by (auto simp: i64_max_def MICRO_SCALE_def intro!: wrap_i128_id)
  show ?thesis
    using assms(1,5,6) srv q q0
    by (simp add: calculate_fee_micro_def w sdiv_nonneg pos_imp_zdiv_nonneg_iff i64_nonneg)
qed

lemma fee_gap:
  fixes a b n :: int
  assumes "a \<le> b" "b \<le> a + n * 10000" "0 \<le> n"
  shows "a div MICRO_SCALE div MICRO_SCALE \<le> b div MICRO_SCALE div MICRO_SCALE"
    "b div MICRO_SCALE div MICRO_SCALE \<le> a div MICRO_SCALE div MICRO_SCALE + n div 100000000 + 1"
proof -
  have dd: "x div MICRO_SCALE div MICRO_SCALE = x div 1000000000000" for x
    by (simp add: MICRO_SCALE_def zdiv_zmult2_eq [symmetric])
  show "a div MICRO_SCALE div MICRO_SCALE \<le> b div MICRO_SCALE div MICRO_SCALE"
    unfolding dd using assms(1) by (intro zdiv_mono1) auto
  show "b div MICRO_SCALE div MICRO_SCALE \<le> a div MICRO_SCALE div MICRO_SCALE + n div 100000000 + 1"
    unfolding dd using assms(2) by linarith
qed

text \<open>At 0.999 the table charges 1000 shares at rate 0.072 about ten times the formula, 0.7128 instead of 0.071928.\<close>

lemma fee_between_cents:
  assumes "decimal_laws D" "\<forall>x. powd x 1 = x"
  shows "calculate_fee_micro D powd 1000000000 999000 72000 1 = 712800"
    "1000000000 * 72000 * (999000 * (MICRO_SCALE - 999000) div MICRO_SCALE) div MICRO_SCALE div MICRO_SCALE = 71928"
proof -
  have "volatility_factor_micro D powd 999000 1 = 9900"
    by (simp add: volatility_exact [of D powd 999000, OF assms] MICRO_SCALE_def)
  then show "calculate_fee_micro D powd 1000000000 999000 72000 1 = 712800"
    by (simp add: calculate_fee_micro_exact i64_max_def MICRO_SCALE_def)
qed (simp add: MICRO_SCALE_def)

text \<open>C23: the fee of an order at exponent 1, the default exponent. For a positive number of shares, a rate of at most one
  and a price strictly between zero and one, \<open>calculate_fee_micro\<close> charges \<open>shares * rate * p * (1 - p)\<close> in
  truncating integer arithmetic (no intermediate product wraps, no result is replaced by the \<open>i64\<close> bound) for every price
  below 0.95 and every price that is a whole number of cents. At the other prices, where the table of 95 to 99 cents is read, the fee is
  never less than the formula, and more by at most one percent of \<open>shares * rate\<close> and one millionth of a dollar.
\<close>

theorem fee_matches_formula:
  assumes "decimal_laws D" "\<forall>x. powd x 1 = x" "0 < s" "s \<le> i64_max" "0 \<le> r" "r \<le> MICRO_SCALE" "0 < m" "m < MICRO_SCALE"
  shows "let direct = s * r * (m * (MICRO_SCALE - m) div MICRO_SCALE) div MICRO_SCALE div MICRO_SCALE;
             fee = calculate_fee_micro D powd s m r 1
         in (m < 950000 \<or> 10000 dvd m \<longrightarrow> fee = direct) \<and> direct \<le> fee \<and> fee \<le> direct + s * r div 100000000 + 1"
proof -
  let ?direct = "m * (MICRO_SCALE - m) div MICRO_SCALE" and ?v = "volatility_factor_micro D powd m 1"
  have eq: "?v = ?direct" if "m < 950000 \<or> 10000 dvd m"
    using that volatility_table_bounds(3) [OF _ assms(8)] by (auto simp: volatility_exact [of D powd m, OF assms(1,2,7,8)])
  have le: "?direct \<le> ?v" "?v \<le> ?direct + 10000"
    using volatility_table_bounds(1,2) [OF _ assms(8)] by (auto simp: volatility_exact [of D powd m, OF assms(1,2,7,8)])
  have "m * (MICRO_SCALE - m) \<le> 500000 * 500000"
    using zero_le_square [of "m - 500000"] by (simp add: MICRO_SCALE_def algebra_simps)
  then have "?direct \<le> 250000 * MICRO_SCALE div MICRO_SCALE"
    by (intro zdiv_mono1) (auto simp: MICRO_SCALE_def)
  moreover have "0 \<le> ?direct"
    using assms(7,8) by (simp add: pos_imp_zdiv_nonneg_iff)
  ultimately have v: "0 \<le> ?v" "?v \<le> MICRO_SCALE"
    using le by (auto simp: MICRO_SCALE_def)
  have "s * r * ?direct \<le> s * r * ?v" "s * r * ?v \<le> s * r * (?direct + 10000)"
    using le assms(3,5) by (intro mult_left_mono; simp)+
  then show ?thesis
    using eq fee_gap [of "s * r * ?direct" "s * r * ?v" "s * r"] assms(3,5)
    unfolding calculate_fee_micro_exact [OF assms(3-8) v] Let_def by (auto simp: algebra_simps)
qed

theorem fee_matches_formula_witness:
  "calculate_fee_micro dec28_ops (\<lambda>x e. x) 5000000 500000 72000 1 = 90000
   \<and> calculate_fee_micro dec28_ops (\<lambda>x e. x) 5000000 999000 72000 1 \<le> 359 + 3600 + 1"
  using fee_matches_formula [of dec28_ops "\<lambda>x e. x" 5000000 72000 500000]
    fee_matches_formula [of dec28_ops "\<lambda>x e. x" 5000000 72000 999000] 
  by (simp add: Let_def MICRO_SCALE_def i64_max_def)

end
