(* ===== verification/Orders.thy ===== *)
theory Orders
  imports Fees Order_Book
begin

text \<open>
  One order, from the sized bet to the row that records its outcome: the plan (\<open>execution/plan_builder.rs\<close>), the request sent to
  the venue (\<open>execution/fok_strategy.rs\<close>), the simulated fills of the dry-run and paper modes
  (\<open>execution/dispatcher.rs\<close>), the reading of the venue's reply (\<open>execution/clob_outcome.rs\<close>) and the resolved outcome
  (\<open>models/domain/trading/execution.rs\<close>). The venue client is a function of the world \<open>'p\<close>; the latency of a reply is part
  of it. Counters and traces of the telemetry are left out.
\<close>

section \<open>Data\<close>

datatype trade_state =
    Intent | Submitted | FillObserved | MissObserved | FailObserved | FillProcessing | MissProcessing | FailProcessing
  | StSettled | StMissed | StFailed | Orphaned

datatype execution_outcome =
    OFilled ident shares "price option" usd "string option" execution_mode u64
  | OMiss message execution_mode
  | OFailed message execution_mode
  | OUnknown message execution_mode

datatype execution_outcome_summary = SFilled ident | SMiss | SFailed | SUnknown

fun summary_from_outcome :: "execution_outcome \<Rightarrow> execution_outcome_summary" where
  "summary_from_outcome (OFilled order_id _ _ _ _ _ _) = SFilled order_id"
| "summary_from_outcome (OMiss _ _) = SMiss"
| "summary_from_outcome (OFailed _ _) = SFailed"
| "summary_from_outcome (OUnknown _ _) = SUnknown"

record execution_plan =
  xp_execution_id :: ident
  xp_opportunity_id :: ident
  xp_market_id :: ident
  xp_event_id :: ident
  xp_token_id :: ident
  xp_side :: side
  xp_shares :: shares
  xp_limit_price :: price
  xp_estimated_cost :: usd
  xp_estimated_fee :: usd
  xp_category :: market_category
  xp_neg_risk :: bool
  xp_reservation_id :: ident
  xp_detected_at :: instant
  xp_planned_at :: instant

record reservation_handle =
  rn_id :: ident
  rn_amount :: usd
  rn_market_id :: ident

datatype order_status = StatusFilled | PartiallyFilled | Rejected | Cancelled | StatusOpen | StatusExpired

fun order_status_str :: "order_status \<Rightarrow> string" where
  "order_status_str StatusFilled = ''filled''"
| "order_status_str PartiallyFilled = ''partially_filled''"
| "order_status_str Rejected = ''rejected''"
| "order_status_str Cancelled = ''cancelled''"
| "order_status_str StatusOpen = ''open''"
| "order_status_str StatusExpired = ''expired''"

datatype order_amount = AmountUsd usd | AmountShares shares

datatype order_type = Fok | Gtc | Gtd u64

record order_request =
  oq_market_id :: ident
  oq_token_id :: ident
  oq_side :: side
  oq_amount :: order_amount
  oq_price :: price
  oq_order_type :: order_type
  oq_neg_risk :: bool

record order_response =
  ox_order_id :: ident
  ox_status :: order_status
  ox_tx_hash :: "string option"
  ox_filled_shares :: shares
  ox_avg_fill_price :: "price option"
  ox_fee_paid :: usd
  ox_submitted_at :: instant
  ox_responded_at :: instant

text \<open>What the call of the venue under its timeout gives: a reply after so many milliseconds, an error, or nothing in time.\<close>

datatype order_reply = Responded order_response u64 | ReplyError message | TimedOut

section \<open>The plan\<close>

definition CLOB_SHARE_DECIMAL_PLACES :: nat where "CLOB_SHARE_DECIMAL_PLACES = 2"

definition shares_for_size :: "'z decimal_ops_scheme \<Rightarrow> opportunity \<Rightarrow> usd \<Rightarrow> shares" where
  "shares_for_size D opp approved_size =
     (if opp_entry_price opp \<le> 0 then 0
      else let raw = dec_div D approved_size (opp_entry_price opp);
               lot_scale = 10 ^ CLOB_SHARE_DECIMAL_PLACES
           in dec_div D (of_int \<lfloor>dec_mul D raw lot_scale\<rfloor>) lot_scale)"

definition preview_fee ::
  "'z decimal_ops_scheme \<Rightarrow> (decimal \<Rightarrow> decimal \<Rightarrow> decimal) \<Rightarrow> fee_snapshot \<Rightarrow> execution_mode \<Rightarrow> opportunity \<Rightarrow> usd \<Rightarrow>
   fee_quote_error + usd" where
  "preview_fee D powd fees mode opp approved_size =
     map_sum id fq_fee_usd (quote_for_mode D powd fees mode
       \<lparr>fi_market_id = opp_market_id opp, fi_token_id = opp_token_id opp, fi_category = opp_category opp,
        fi_side = opp_side opp, fi_liquidity_role = Taker, fi_shares = shares_for_size D opp approved_size,
        fi_price = opp_entry_price opp, fi_allow_category_fallback = (mode \<noteq> Live)\<rparr>)"

definition build_plan_inner ::
  "'z decimal_ops_scheme \<Rightarrow> (decimal \<Rightarrow> decimal \<Rightarrow> decimal) \<Rightarrow> fee_snapshot \<Rightarrow> instant \<Rightarrow> execution_mode \<Rightarrow> opportunity \<Rightarrow>
   usd \<Rightarrow> reservation_handle \<Rightarrow> ident \<Rightarrow> bool \<Rightarrow> fee_quote_error + execution_plan" where
  "build_plan_inner D powd fees now mode opp approved_size reservation execution_id neg_risk =
     (case preview_fee D powd fees mode opp approved_size of
        Inl e \<Rightarrow> Inl e
      | Inr fee \<Rightarrow>
          Inr \<lparr>xp_execution_id = execution_id, xp_opportunity_id = opp_opportunity_id opp,
            xp_market_id = opp_market_id opp, xp_event_id = opp_event_id opp, xp_token_id = opp_token_id opp,
            xp_side = opp_side opp, xp_shares = shares_for_size D opp approved_size,
            xp_limit_price = opp_entry_price opp, xp_estimated_cost = approved_size, xp_estimated_fee = fee,
            xp_category = opp_category opp, xp_neg_risk = neg_risk, xp_reservation_id = rn_id reservation,
            xp_detected_at = opp_detected_at opp, xp_planned_at = now\<rparr>)"

definition build_plan ::
  "'z decimal_ops_scheme \<Rightarrow> (decimal \<Rightarrow> decimal \<Rightarrow> decimal) \<Rightarrow> fee_snapshot \<Rightarrow> (ident \<Rightarrow> bool option) \<Rightarrow> instant \<Rightarrow>
   execution_mode \<Rightarrow> opportunity \<Rightarrow> usd \<Rightarrow> reservation_handle \<Rightarrow> ident \<Rightarrow> fee_quote_error + execution_plan" where
  "build_plan D powd fees neg_risk_of now mode opp approved_size reservation execution_id =
     build_plan_inner D powd fees now mode opp approved_size reservation execution_id
       (case neg_risk_of (opp_market_id opp) of Some n \<Rightarrow> n | None \<Rightarrow> False)"

section \<open>Simulated fills\<close>

definition dry_run ::
  "'z decimal_ops_scheme \<Rightarrow> (decimal \<Rightarrow> decimal \<Rightarrow> decimal) \<Rightarrow> fee_snapshot \<Rightarrow> execution_plan \<Rightarrow> execution_outcome" where
  "dry_run D powd fees plan =
     OFilled (''dry-'' @ xp_execution_id plan) (xp_shares plan) (Some (xp_limit_price plan))
       (calculate_sim D powd fees (xp_shares plan) (xp_limit_price plan) (xp_category plan) (xp_market_id plan) (xp_token_id plan))
       None DryRun 0"

definition has_sufficient_depth_at_price ::
  "'z decimal_ops_scheme \<Rightarrow> book_store \<Rightarrow> ident \<Rightarrow> side \<Rightarrow> price \<Rightarrow> usd \<Rightarrow> shares \<Rightarrow> bool" where
  "has_sufficient_depth_at_price D books token_id side limit_price buy_budget sell_shares =
     (case load_book token_id books of
        None \<Rightarrow> False
      | Some book \<Rightarrow>
          (case side of
             Buy \<Rightarrow> ask_notional_up_to D (bk_asks book) limit_price \<ge> buy_budget
           | Sell \<Rightarrow> bid_depth_down_to D (bk_bids book) limit_price \<ge> sell_shares))"

definition paper_trade ::
  "'z decimal_ops_scheme \<Rightarrow> (decimal \<Rightarrow> decimal \<Rightarrow> decimal) \<Rightarrow> fee_snapshot \<Rightarrow> book_store \<Rightarrow> execution_plan \<Rightarrow> execution_outcome" where
  "paper_trade D powd fees books plan =
     (if \<not> has_sufficient_depth_at_price D books (xp_token_id plan) (xp_side plan) (xp_limit_price plan)
            (xp_estimated_cost plan) (xp_shares plan)
      then OMiss [Lit ''paper: insufficient depth for '', PDec (xp_estimated_cost plan), Lit '' at '', PDec (xp_limit_price plan)] Paper
      else OFilled (''paper-'' @ xp_execution_id plan) (xp_shares plan) (Some (xp_limit_price plan))
        (calculate_sim D powd fees (xp_shares plan) (xp_limit_price plan) (xp_category plan) (xp_market_id plan) (xp_token_id plan))
        None Paper 5)"

definition dispatch ::
  "'z decimal_ops_scheme \<Rightarrow> (decimal \<Rightarrow> decimal \<Rightarrow> decimal) \<Rightarrow> fee_snapshot \<Rightarrow> book_store \<Rightarrow> execution_mode \<Rightarrow> execution_plan \<Rightarrow>
   execution_outcome" where
  "dispatch D powd fees books mode plan =
     (case mode of
        DryRun \<Rightarrow> dry_run D powd fees plan
      | Paper \<Rightarrow> paper_trade D powd fees books plan
      | Live \<Rightarrow> OFailed [Lit ''Live dispatch must go through FokOrderStrategy + ClobClient''] Live)"

section \<open>The venue\<close>

text \<open>The display of a quote error.\<close>

fun display_fee_quote_error :: "fee_quote_error \<Rightarrow> message" where
  "display_fee_quote_error (MissingSchedule market_id detail) =
     [Lit ''missing fee schedule for market '', Lit market_id, Lit '': ''] @ detail"

definition map_order_response ::
  "'z decimal_ops_scheme \<Rightarrow> (decimal \<Rightarrow> decimal \<Rightarrow> decimal) \<Rightarrow> fee_snapshot \<Rightarrow> order_response \<Rightarrow> execution_plan \<Rightarrow>
   execution_mode \<Rightarrow> u64 \<Rightarrow> ident \<Rightarrow> execution_outcome" where
  "map_order_response D powd fees resp plan mode latency_ms token_id =
     (case ox_status resp of
        PartiallyFilled \<Rightarrow>
          OUnknown [Lit ''FOK partial fill '', PDec (ox_filled_shares resp), Lit '' of '', PDec (xp_shares plan),
            Lit '' shares for order '', Lit (ox_order_id resp)] mode
      | StatusFilled \<Rightarrow>
          if ox_filled_shares resp \<le> 0
          then OMiss [Lit ''order '', Lit (ox_order_id resp), Lit '' returned zero fill''] mode
          else if ox_filled_shares resp < xp_shares plan
          then OUnknown [Lit ''FOK underfill '', PDec (ox_filled_shares resp), Lit '' of '', PDec (xp_shares plan),
            Lit '' shares for order '', Lit (ox_order_id resp)] mode
          else
            (let fill_price = (case ox_avg_fill_price resp of Some x \<Rightarrow> x | None \<Rightarrow> xp_limit_price plan) in
             case quote_for_mode D powd fees mode
               \<lparr>fi_market_id = xp_market_id plan, fi_token_id = token_id, fi_category = xp_category plan,
                fi_side = xp_side plan, fi_liquidity_role = Taker, fi_shares = ox_filled_shares resp,
                fi_price = fill_price, fi_allow_category_fallback = (mode \<noteq> Live)\<rparr> of
               Inl e \<Rightarrow> OFailed (display_fee_quote_error e) mode
             | Inr q \<Rightarrow> OFilled (ox_order_id resp) (ox_filled_shares resp) (Some fill_price) (fq_fee_usd q)
                 (ox_tx_hash resp) mode latency_ms)
      | StatusOpen \<Rightarrow>
          OMiss [Lit ''order '', Lit (ox_order_id resp), Lit '' resting open '', Lit em_dash,
            Lit '' FOK expected immediate fill or kill''] mode
      | st \<Rightarrow> OMiss [Lit ''order '', Lit (ox_order_id resp), Lit '' '', Lit (order_status_str st)] mode)"

definition order_request_of :: "execution_plan \<Rightarrow> order_request" where
  "order_request_of plan = \<lparr>oq_market_id = xp_market_id plan, oq_token_id = xp_token_id plan, oq_side = xp_side plan,
     oq_amount = (case xp_side plan of Buy \<Rightarrow> AmountUsd (xp_estimated_cost plan) | Sell \<Rightarrow> AmountShares (xp_shares plan)),
     oq_price = xp_limit_price plan, oq_order_type = Fok, oq_neg_risk = xp_neg_risk plan\<rparr>"

definition execute_live_fok ::
  "'z decimal_ops_scheme \<Rightarrow> (decimal \<Rightarrow> decimal \<Rightarrow> decimal) \<Rightarrow> fee_snapshot \<Rightarrow>
   (order_request \<Rightarrow> u64 \<Rightarrow> 'p \<Rightarrow> order_reply \<times> 'p) option \<Rightarrow> u64 \<Rightarrow> execution_plan \<Rightarrow> 'p \<Rightarrow> execution_outcome \<times> 'p" where
  "execute_live_fok D powd fees clob timeout_ms plan p =
     (case clob of
        None \<Rightarrow> (OFailed [Lit ''ClobClient unavailable in Live mode''] Live, p)
      | Some place_order \<Rightarrow>
          (case place_order (order_request_of plan) timeout_ms p of
             (Responded resp latency_ms, p1) \<Rightarrow> (map_order_response D powd fees resp plan Live latency_ms (xp_token_id plan), p1)
           | (ReplyError e, p1) \<Rightarrow> (OFailed e Live, p1)
           | (TimedOut, p1) \<Rightarrow> (OUnknown [Lit ''CLOB FOK order timeout after '', PInt (uint timeout_ms), Lit ''ms''] Live, p1)))"

definition fok_execute ::
  "'z decimal_ops_scheme \<Rightarrow> (decimal \<Rightarrow> decimal \<Rightarrow> decimal) \<Rightarrow> fee_snapshot \<Rightarrow> book_store \<Rightarrow>
   (order_request \<Rightarrow> u64 \<Rightarrow> 'p \<Rightarrow> order_reply \<times> 'p) option \<Rightarrow> u64 \<Rightarrow> execution_mode \<Rightarrow> execution_plan \<Rightarrow> 'p \<Rightarrow>
   execution_outcome \<times> 'p" where
  "fok_execute D powd fees books clob timeout_ms mode plan p =
     (if mode = Live then execute_live_fok D powd fees clob timeout_ms plan p
      else (dispatch D powd fees books mode plan, p))"

section \<open>The resolved outcome\<close>

fun trade_is_unprocessed :: "trade_state \<Rightarrow> bool" where
  "trade_is_unprocessed st \<longleftrightarrow> st \<in> {FillObserved, MissObserved, FailObserved}"

fun trade_is_processing :: "trade_state \<Rightarrow> bool" where
  "trade_is_processing st \<longleftrightarrow> st \<in> {FillProcessing, MissProcessing, FailProcessing}"

fun processed_terminal :: "trade_state \<Rightarrow> trade_state option" where
  "processed_terminal FillObserved = Some StSettled"
| "processed_terminal FillProcessing = Some StSettled"
| "processed_terminal MissObserved = Some StMissed"
| "processed_terminal MissProcessing = Some StMissed"
| "processed_terminal FailObserved = Some StFailed"
| "processed_terminal FailProcessing = Some StFailed"
| "processed_terminal _ = None"

fun state_business_outcome :: "trade_state \<Rightarrow> trade_business_outcome option" where
  "state_business_outcome FillObserved = Some Success"
| "state_business_outcome FillProcessing = Some Success"
| "state_business_outcome StSettled = Some Success"
| "state_business_outcome MissObserved = Some Miss"
| "state_business_outcome MissProcessing = Some Miss"
| "state_business_outcome StMissed = Some Miss"
| "state_business_outcome FailObserved = Some Failed"
| "state_business_outcome FailProcessing = Some Failed"
| "state_business_outcome StFailed = Some Failed"
| "state_business_outcome _ = None"

definition fill_expected_net_profit :: "'z decimal_ops_scheme \<Rightarrow> decimal \<Rightarrow> shares \<Rightarrow> usd \<Rightarrow> usd \<Rightarrow> usd" where
  "fill_expected_net_profit D fused_p filled_shares cost_usd fee_usd =
     dec_sub D (dec_sub D (dec_mul D filled_shares fused_p) cost_usd) fee_usd"

record resolved_outcome =
  ro_business_outcome :: trade_business_outcome
  ro_filled_shares :: shares
  ro_avg_fill_price :: price
  ro_cost_usd :: usd
  ro_fee_usd :: usd
  ro_net_profit_usd :: "usd option"
  ro_order_id :: "ident option"
  ro_tx_hash :: "string option"
  ro_latency_ms :: "u64 option"
  ro_error_message :: "message option"

text \<open>An order that left no position.\<close>

definition unfilled_outcome :: "trade_business_outcome \<Rightarrow> price \<Rightarrow> message \<Rightarrow> resolved_outcome" where
  "unfilled_outcome outcome entry_price reason =
     \<lparr>ro_business_outcome = outcome, ro_filled_shares = 0, ro_avg_fill_price = entry_price, ro_cost_usd = 0, ro_fee_usd = 0,
      ro_net_profit_usd = None, ro_order_id = None, ro_tx_hash = None, ro_latency_ms = None, ro_error_message = Some reason\<rparr>"

text \<open>\<open>resolution_prob\<close> is the result of \<open>Decimal::try_from\<close> on the stored floating-point number.\<close>

fun try_resolve :: "'z decimal_ops_scheme \<Rightarrow> execution_outcome \<Rightarrow> price \<Rightarrow> decimal option \<Rightarrow> resolved_outcome option" where
  "try_resolve D (OFilled order_id filled_shares avg_fill_price fee_paid tx_hash _ latency_ms) entry_price resolution_prob =
     (let price = (case avg_fill_price of Some x \<Rightarrow> x | None \<Rightarrow> entry_price);
          cost = dec_mul D filled_shares price;
          fused_p = (case resolution_prob of Some x \<Rightarrow> x | None \<Rightarrow> 0);
          ev = fill_expected_net_profit D fused_p filled_shares cost fee_paid
      in Some \<lparr>ro_business_outcome = Success, ro_filled_shares = filled_shares, ro_avg_fill_price = price, ro_cost_usd = cost,
           ro_fee_usd = fee_paid, ro_net_profit_usd = Some ev, ro_order_id = Some order_id, ro_tx_hash = tx_hash,
           ro_latency_ms = Some latency_ms, ro_error_message = None\<rparr>)"
| "try_resolve D (OMiss reason _) entry_price resolution_prob = Some (unfilled_outcome Miss entry_price reason)"
| "try_resolve D (OFailed e _) entry_price resolution_prob = Some (unfilled_outcome Failed entry_price e)"
| "try_resolve D (OUnknown _ _) entry_price resolution_prob = None"

fun observed_state :: "trade_business_outcome \<Rightarrow> trade_state" where
  "observed_state Success = FillObserved"
| "observed_state Miss = MissObserved"
| "observed_state Failed = FailObserved"

record trade_observation =
  tv_state :: trade_state
  tv_shares :: shares
  tv_price :: price
  tv_cost_usd :: usd
  tv_fee_usd :: usd
  tv_order_id :: "ident option"
  tv_tx_hash :: "string option"
  tv_net_profit_usd :: "usd option"
  tv_latency_ms :: "int option"
  tv_error_message :: "message option"
  tv_confirmed_at :: instant

definition to_observation :: "instant \<Rightarrow> resolved_outcome \<Rightarrow> trade_observation" where
  "to_observation now r = \<lparr>tv_state = observed_state (ro_business_outcome r), tv_shares = ro_filled_shares r,
     tv_price = ro_avg_fill_price r, tv_cost_usd = ro_cost_usd r, tv_fee_usd = ro_fee_usd r, tv_order_id = ro_order_id r,
     tv_tx_hash = ro_tx_hash r, tv_net_profit_usd = ro_net_profit_usd r,
     tv_latency_ms = map_option (\<lambda>ms. if uint ms < 2 ^ 31 then uint ms else 2 ^ 31 - 1) (ro_latency_ms r),
     tv_error_message = ro_error_message r, tv_confirmed_at = now\<rparr>"

end
