(* ===== verification/Evidence.thy ===== *)
theory Evidence
  imports Orders Control_Factors
begin

text \<open>
  The evidence that travels with an order: the scored opportunity (\<open>scorer/endgame_scorer.rs\<close>), its frozen copy
  (\<open>models/domain/trading/scored_snapshot.rs\<close>), the book context of a decision
  (\<open>observability/book_decision_context_capture.rs\<close>) and the comparison with the shadow publication
  (\<open>control/factor_shadow.rs\<close>). Values that the code renders as JSON text are kept as the values they render; the floating-point
  copies of decimals in the snapshot are not stored twice.
\<close>

section \<open>Scored opportunities\<close>

record latency_trace =
  lt_ws_ingress :: "instant option"
  lt_book_applied :: "instant option"
  lt_scan_started :: "instant option"
  lt_scan_emitted :: "instant option"
  lt_dispatch_started :: "instant option"
  lt_http_sent :: "instant option"

record scored_opportunity =
  so_opportunity :: opportunity
  so_token_yes :: ident
  so_token_no :: ident
  so_book_yes_version :: u64
  so_book_no_version :: u64
  so_score :: micro_score
  so_fill_probability :: micro_prob
  so_urgency_factor :: micro_prob
  so_category_weight :: micro_prob
  so_staleness_discount :: micro_prob
  so_applied_factors :: "applied_control_factor list"
  so_trace :: latency_trace

datatype missing_evidence_field =
    MissTokenYes | MissTokenNo | MissFillProbability | MissScore | MissBookContext | MissAppliedFactors | MissScoredSnapshot
  | MissResolutionProb | MissConfidence | MissPriceZone | MissDurationBucket | MissDepthUsedPct | MissStaleness | MissCategory

record calibration_evidence_snapshot =
  cen_sample_size :: u32
  cen_alpha_prior :: decimal
  cen_beta_prior :: decimal
  cen_posterior_mean :: decimal
  cen_fallback_tier :: "8 word"
  cen_snapshot_hash :: "string option"

definition calibration_evidence_of :: "calibration_snapshot \<Rightarrow> calibration_evidence_snapshot" where
  "calibration_evidence_of c = \<lparr>cen_sample_size = cs_sample_size c, cen_alpha_prior = cs_alpha_prior c,
     cen_beta_prior = cs_beta_prior c, cen_posterior_mean = cs_posterior_mean c, cen_fallback_tier = cs_fallback_tier c,
     cen_snapshot_hash = None\<rparr>"

record book_evidence_snapshot =
  ben_yes_book_version :: "u64 option"
  ben_no_book_version :: "u64 option"
  ben_book_age_ms :: "u64 option"
  ben_context_id :: "message option"

record applied_factor_trace =
  aft_control_publication_id :: "ident option"
  aft_factor_ids :: "ident list"
  aft_effects :: "applied_control_factor list option"

definition known_empty_trace :: applied_factor_trace where
  "known_empty_trace = \<lparr>aft_control_publication_id = None, aft_factor_ids = [], aft_effects = None\<rparr>"

record scored_snapshot =
  sn_opportunity :: opportunity
  sn_token_yes :: "ident option"
  sn_token_no :: "ident option"
  sn_fill_probability :: "micro_prob option"
  sn_score :: "micro_score option"
  sn_urgency_factor :: "micro_prob option"
  sn_category_weight :: "micro_prob option"
  sn_staleness_discount :: "micro_prob option"
  sn_convergence_secs :: u32
  sn_calibration :: calibration_evidence_snapshot
  sn_book :: "book_evidence_snapshot option"
  sn_factors :: "applied_factor_trace option"
  sn_missing_fields :: "missing_evidence_field list"
  sn_schema_version :: u32

text \<open>The fields that are copies of fields of the opportunity are read from it.\<close>

definition snapshot_from_opportunity :: "opportunity \<Rightarrow> scored_snapshot" where
  "snapshot_from_opportunity opp = \<lparr>sn_opportunity = opp, sn_token_yes = None, sn_token_no = None,
     sn_fill_probability = None, sn_score = None, sn_urgency_factor = None, sn_category_weight = None,
     sn_staleness_discount = None,
     sn_convergence_secs = (if uint (em_convergence_duration_secs (opp_meta opp)) < 2 ^ 32
       then word_of_int (uint (em_convergence_duration_secs (opp_meta opp))) else u32_max),
     sn_calibration = calibration_evidence_of (opp_calibration opp), sn_book = None, sn_factors = None,
     sn_missing_fields = [MissTokenYes, MissTokenNo, MissFillProbability, MissScore, MissBookContext, MissAppliedFactors],
     sn_schema_version = 2\<rparr>"

definition remove_missing :: "missing_evidence_field \<Rightarrow> scored_snapshot \<Rightarrow> scored_snapshot" where
  "remove_missing f s = s\<lparr>sn_missing_fields := filter (\<lambda>x. x \<noteq> f) (sn_missing_fields s)\<rparr>"

definition with_score_components ::
  "micro_prob \<Rightarrow> micro_score \<Rightarrow> micro_prob \<Rightarrow> micro_prob \<Rightarrow> micro_prob \<Rightarrow> scored_snapshot \<Rightarrow> scored_snapshot" where
  "with_score_components fill_probability score urgency_factor category_weight staleness_discount s =
     remove_missing MissScore (remove_missing MissFillProbability
       (s\<lparr>sn_fill_probability := Some fill_probability, sn_score := Some score, sn_urgency_factor := Some urgency_factor,
          sn_category_weight := Some category_weight, sn_staleness_discount := Some staleness_discount\<rparr>))"

definition with_book_context ::
  "ident \<Rightarrow> ident \<Rightarrow> u64 \<Rightarrow> u64 \<Rightarrow> u64 option \<Rightarrow> message option \<Rightarrow> scored_snapshot \<Rightarrow> scored_snapshot" where
  "with_book_context token_yes token_no yes_version no_version book_age_ms context_id s =
     remove_missing MissBookContext (remove_missing MissTokenNo (remove_missing MissTokenYes
       (s\<lparr>sn_token_yes := Some token_yes, sn_token_no := Some token_no,
          sn_book := Some \<lparr>ben_yes_book_version = Some yes_version, ben_no_book_version = Some no_version,
            ben_book_age_ms = book_age_ms, ben_context_id = context_id\<rparr>\<rparr>)))"

definition with_publication :: "ident \<Rightarrow> scored_snapshot \<Rightarrow> scored_snapshot" where
  "with_publication publication_id s =
     (let factors = (case sn_factors s of Some f \<Rightarrow> f | None \<Rightarrow> known_empty_trace)
      in remove_missing MissAppliedFactors
           (s\<lparr>sn_factors := Some (factors\<lparr>aft_control_publication_id := Some publication_id\<rparr>)\<rparr>))"

definition with_applied_control_factors :: "ident option \<Rightarrow> applied_control_factor list \<Rightarrow> scored_snapshot \<Rightarrow> scored_snapshot" where
  "with_applied_control_factors publication_id applied s =
     remove_missing MissAppliedFactors
       (s\<lparr>sn_factors := Some \<lparr>aft_control_publication_id = publication_id, aft_factor_ids = map af_factor_id applied,
          aft_effects = (if applied = [] then None else Some applied)\<rparr>\<rparr>)"

section \<open>The book context of a decision\<close>

datatype book_decision_stage =
    OpportunityDetected | RiskGateEvaluated | SizeComputed | OrderPrepared | OrderSubmitted | OrderFilled | OrderMissed
  | OrderFailed | SettlementAttributed

datatype book_quality = QFresh | QStale | QCrossed | QGap | QInvalid | QInsufficient
datatype book_evidence_tier = ExactReplay | DecisionContext | AggregateOnly | TierInsufficient
datatype fact_source =
    WsSnapshot | WsDelta | WsBbo | WsTickSize | WsLastTrade | WsMarketResolved | SourceScanner | SourceExecution
  | SourceSettlement | CalibrationUpdater | WsShardStatus

fun stage_label :: "book_decision_stage \<Rightarrow> string" where
  "stage_label OpportunityDetected = ''opportunity_detected''"
| "stage_label RiskGateEvaluated = ''risk_gate_evaluated''"
| "stage_label SizeComputed = ''size_computed''"
| "stage_label OrderPrepared = ''order_prepared''"
| "stage_label OrderSubmitted = ''order_submitted''"
| "stage_label OrderFilled = ''order_filled''"
| "stage_label OrderMissed = ''order_missed''"
| "stage_label OrderFailed = ''order_failed''"
| "stage_label SettlementAttributed = ''settlement_attributed''"

definition context_id_of :: "opportunity \<Rightarrow> book_decision_stage \<Rightarrow> u64 option \<Rightarrow> u64 option \<Rightarrow> message" where
  "context_id_of opp stage yes_version no_version =
     [Lit (opp_opportunity_id opp), Lit '':'', Lit (stage_label stage), Lit '':'',
      PInt (uint (case yes_version of Some v \<Rightarrow> v | None \<Rightarrow> 0)), Lit '':'',
      PInt (uint (case no_version of Some v \<Rightarrow> v | None \<Rightarrow> 0))]"

definition book_crossed :: "'z decimal_ops_scheme \<Rightarrow> book_snapshot \<Rightarrow> bool" where
  "book_crossed D book =
     (case (best_bid D book, best_ask D book) of (Some bid, Some ask) \<Rightarrow> bid \<ge> ask | _ \<Rightarrow> False)"

definition book_quality_of :: "'z decimal_ops_scheme \<Rightarrow> endgame_book_pair \<Rightarrow> u64 \<Rightarrow> u64 \<Rightarrow> book_quality" where
  "book_quality_of D pair max_age_ms threshold_ms =
     (if bk_bids (pb_yes pair) = [] \<or> bk_asks (pb_yes pair) = [] \<or> bk_bids (pb_no pair) = [] \<or> bk_asks (pb_no pair) = []
      then QInsufficient
      else if book_crossed D (pb_yes pair) \<or> book_crossed D (pb_no pair) then QCrossed
      else if max_age_ms > threshold_ms then QStale
      else QFresh)"

definition context_traded_book :: "opportunity \<Rightarrow> ident \<Rightarrow> ident \<Rightarrow> endgame_book_pair \<Rightarrow> book_snapshot" where
  "context_traded_book opp yes_token no_token pair =
     (if opp_token_id opp = yes_token \<or> (opp_token_id opp \<noteq> no_token \<and> em_predicted_yes (opp_meta opp))
      then pb_yes pair else pb_no pair)"

definition levels_top :: "'z decimal_ops_scheme \<Rightarrow> book_level list \<Rightarrow> nat \<Rightarrow> (price \<times> shares) list" where
  "levels_top D levels top_n = map (\<lambda>l. (price_decimal D l, size_decimal D l)) (take top_n levels)"

definition context_depth_usd :: "'z decimal_ops_scheme \<Rightarrow> book_level list \<Rightarrow> usd" where
  "context_depth_usd D levels = fold (\<lambda>l acc. dec_add D acc (micro_to_decimal D (depth_usd l))) levels 0"

definition executable_depth :: "'z decimal_ops_scheme \<Rightarrow> book_snapshot \<Rightarrow> side \<Rightarrow> nat \<Rightarrow> usd" where
  "executable_depth D book side top_n =
     context_depth_usd D (take top_n (case side of Buy \<Rightarrow> bk_asks book | Sell \<Rightarrow> bk_bids book))"

definition spread_and_mid :: "'z decimal_ops_scheme \<Rightarrow> book_snapshot \<Rightarrow> decimal option \<times> price option" where
  "spread_and_mid D book =
     (case (best_bid D book, best_ask D book) of
        (Some bid, Some ask) \<Rightarrow>
          let mid = dec_div D (dec_add D bid ask) 2
          in (if mid = 0 then None else Some (dec_mul D (dec_div D (dec_sub D ask bid) mid) 10000), Some mid)
      | _ \<Rightarrow> (None, None))"

definition imbalance :: "'z decimal_ops_scheme \<Rightarrow> book_snapshot \<Rightarrow> book_snapshot \<Rightarrow> nat \<Rightarrow> decimal option" where
  "imbalance D yes no top_n =
     (let bid_depth = dec_add D (context_depth_usd D (take top_n (bk_bids yes))) (context_depth_usd D (take top_n (bk_bids no)));
          ask_depth = dec_add D (context_depth_usd D (take top_n (bk_asks yes))) (context_depth_usd D (take top_n (bk_asks no)));
          denom = dec_add D bid_depth ask_depth
      in if denom = 0 then None else Some (dec_div D (dec_sub D bid_depth ask_depth) denom))"

text \<open>The points of the slippage curve with their running sums.\<close>

fun slippage_points :: "'z decimal_ops_scheme \<Rightarrow> book_level list \<Rightarrow> decimal \<Rightarrow> decimal \<Rightarrow> (price \<times> shares \<times> decimal \<times> decimal) list" where
  "slippage_points D [] shares usd = []"
| "slippage_points D (l # levels) shares usd =
     (let shares' = dec_add D shares (size_decimal D l); usd' = dec_add D usd (micro_to_decimal D (depth_usd l))
      in (price_decimal D l, size_decimal D l, shares', usd') # slippage_points D levels shares' usd')"

definition slippage_curve ::
  "'z decimal_ops_scheme \<Rightarrow> book_snapshot \<Rightarrow> side \<Rightarrow> nat \<Rightarrow> (price \<times> shares \<times> decimal \<times> decimal) list option" where
  "slippage_curve D book side top_n =
     (let levels = (case side of Buy \<Rightarrow> bk_asks book | Sell \<Rightarrow> bk_bids book)
      in if levels = [] then None else Some (slippage_points D (take top_n levels) 0 0))"

definition elapsed_ms :: "instant option \<Rightarrow> instant option \<Rightarrow> u64 option" where
  "elapsed_ms start end_at =
     (case (start, end_at) of
        (Some a, Some b) \<Rightarrow> let ms = max 0 (b - a) div 1000000 in if ms < 2 ^ 64 then Some (word_of_int ms) else None
      | _ \<Rightarrow> None)"

record book_decision_context_row =
  bc_context_id :: message
  bc_opportunity_id :: "ident option"
  bc_execution_id :: "ident option"
  bc_market_id :: ident
  bc_yes_token_id :: ident
  bc_no_token_id :: ident
  bc_decision_stage :: book_decision_stage
  bc_evidence_tier :: book_evidence_tier
  bc_decision_time :: int
  bc_yes_book_version :: "u64 option"
  bc_no_book_version :: "u64 option"
  bc_yes_book_age_ms :: "u64 option"
  bc_no_book_age_ms :: "u64 option"
  bc_top_n :: nat
  bc_yes_bids :: "(price \<times> shares) list"
  bc_yes_asks :: "(price \<times> shares) list"
  bc_no_bids :: "(price \<times> shares) list"
  bc_no_asks :: "(price \<times> shares) list"
  bc_yes_depth_usd :: "usd option"
  bc_no_depth_usd :: "usd option"
  bc_spread_bps :: "decimal option"
  bc_mid_price :: "price option"
  bc_imbalance :: "decimal option"
  bc_slippage_curve :: "(price \<times> shares \<times> decimal \<times> decimal) list option"
  bc_book_quality :: book_quality
  bc_latency :: "(u64 option \<times> u64 option \<times> u64 option) option"
  bc_source :: fact_source
  bc_ingestion_time :: int
  bc_sequence :: u64
  bc_schema_version :: nat

definition DEFAULT_TOP_N :: nat where "DEFAULT_TOP_N = 20"

definition capture_scored ::
  "'z decimal_ops_scheme \<Rightarrow> u64 \<Rightarrow> book_decision_stage \<Rightarrow> scored_opportunity \<Rightarrow> endgame_book_pair \<Rightarrow> ident option \<Rightarrow> u64 \<Rightarrow>
   fact_source \<Rightarrow> book_decision_context_row \<times> bool" where
  "capture_scored D now_ms stage scored pair execution_id max_book_age_ms source =
     (let opp = so_opportunity scored; top_n = DEFAULT_TOP_N;
          yes_age = saturating_sub_u64 now_ms (bk_timestamp_ms (pb_yes pair));
          no_age = saturating_sub_u64 now_ms (bk_timestamp_ms (pb_no pair));
          quality = book_quality_of D pair (max yes_age no_age) max_book_age_ms;
          production_eligible = (quality = QFresh);
          traded = context_traded_book opp (so_token_yes scored) (so_token_no scored) pair;
          (spread_bps, mid_price) = spread_and_mid D traded;
          time_ms = (if uint now_ms < 2 ^ 63 then uint now_ms else 2 ^ 63 - 1)
      in (\<lparr>bc_context_id = context_id_of opp stage (Some (so_book_yes_version scored)) (Some (so_book_no_version scored)),
           bc_opportunity_id = Some (opp_opportunity_id opp), bc_execution_id = execution_id, bc_market_id = opp_market_id opp,
           bc_yes_token_id = so_token_yes scored, bc_no_token_id = so_token_no scored, bc_decision_stage = stage,
           bc_evidence_tier = (if production_eligible then DecisionContext else TierInsufficient),
           bc_decision_time = time_ms, bc_yes_book_version = Some (so_book_yes_version scored),
           bc_no_book_version = Some (so_book_no_version scored), bc_yes_book_age_ms = Some yes_age,
           bc_no_book_age_ms = Some no_age, bc_top_n = top_n, bc_yes_bids = levels_top D (bk_bids (pb_yes pair)) top_n,
           bc_yes_asks = levels_top D (bk_asks (pb_yes pair)) top_n, bc_no_bids = levels_top D (bk_bids (pb_no pair)) top_n,
           bc_no_asks = levels_top D (bk_asks (pb_no pair)) top_n,
           bc_yes_depth_usd = Some (executable_depth D (pb_yes pair) (opp_side opp) top_n),
           bc_no_depth_usd = Some (executable_depth D (pb_no pair) (opp_side opp) top_n), bc_spread_bps = spread_bps,
           bc_mid_price = mid_price, bc_imbalance = imbalance D (pb_yes pair) (pb_no pair) top_n,
           bc_slippage_curve = slippage_curve D traded (opp_side opp) top_n, bc_book_quality = quality,
           bc_latency = Some (elapsed_ms (lt_ws_ingress (so_trace scored)) (lt_book_applied (so_trace scored)),
             elapsed_ms (lt_book_applied (so_trace scored)) (lt_scan_started (so_trace scored)),
             elapsed_ms (lt_scan_started (so_trace scored)) (lt_scan_emitted (so_trace scored))),
           bc_source = source, bc_ingestion_time = time_ms,
           bc_sequence = max (so_book_yes_version scored) (so_book_no_version scored), bc_schema_version = 1\<rparr>,
          production_eligible))"

record book_decision_context_summary =
  bcs_context_id :: message
  bcs_yes_book_age_ms :: "u64 option"
  bcs_no_book_age_ms :: "u64 option"
  bcs_production_eligible :: bool

definition context_summary :: "book_decision_context_row \<times> bool \<Rightarrow> book_decision_context_summary" where
  "context_summary captured = \<lparr>bcs_context_id = bc_context_id (fst captured),
     bcs_yes_book_age_ms = bc_yes_book_age_ms (fst captured), bcs_no_book_age_ms = bc_no_book_age_ms (fst captured),
     bcs_production_eligible = snd captured\<rparr>"

definition capture_detection ::
  "'z decimal_ops_scheme \<Rightarrow> u64 \<Rightarrow> scored_opportunity \<Rightarrow> endgame_book_pair \<Rightarrow> u64 \<Rightarrow> book_decision_context_row" where
  "capture_detection D now_ms scored pair max_book_age_ms =
     fst (capture_scored D now_ms OpportunityDetected scored pair None max_book_age_ms SourceScanner)"

section \<open>The shadow publication\<close>

record factor_effect =
  fe_resolution_multiplier :: decimal
  fe_fill_multiplier :: decimal
  fe_size_multiplier :: decimal
  fe_would_reject :: bool
  fe_applied :: "applied_control_factor list"

definition neutral_effect :: factor_effect where
  "neutral_effect = \<lparr>fe_resolution_multiplier = 1, fe_fill_multiplier = 1, fe_size_multiplier = 1, fe_would_reject = False,
     fe_applied = []\<rparr>"

definition push_source :: "applied_control_factor option \<Rightarrow> factor_effect \<Rightarrow> factor_effect" where
  "push_source src e = (case src of None \<Rightarrow> e | Some f \<Rightarrow> e\<lparr>fe_applied := fe_applied e @ [f]\<rparr>)"

definition bucket_effect ::
  "'z decimal_ops_scheme \<Rightarrow> control_factor_snapshot \<Rightarrow> ident \<Rightarrow> opportunity \<Rightarrow> bucket_risk_dimensions \<Rightarrow> factor_effect \<Rightarrow> factor_effect" where
  "bucket_effect D snapshot publication_id opp dims e =
     (case bucket_lookup (cx_bucket_risk snapshot) dims of
        None \<Rightarrow> e
      | Some found \<Rightarrow>
          let payload = ix_payload found in
          e\<lparr>fe_resolution_multiplier := bp_resolution_haircut_factor payload,
            fe_size_multiplier := dec_mul D (fe_size_multiplier e) (bp_size_multiplier payload),
            fe_would_reject := (fe_would_reject e \<or> bp_block_new_entries payload),
            fe_applied := fe_applied e @ [\<lparr>af_factor_id = ix_factor_id found, af_factor_type = BucketRisk,
              af_publication_id = publication_id, af_input_value = opp_resolution_adjust opp,
              af_output_value = effective_resolution_prob D (opp_resolution_adjust opp) (bp_resolution_haircut_factor payload),
              af_reason = ''bucket resolution haircut''\<rparr>]\<rparr>)"

definition quality_effect ::
  "control_factor_snapshot \<Rightarrow> ident \<Rightarrow> execution_quality_dimensions \<Rightarrow> factor_effect \<Rightarrow> factor_effect" where
  "quality_effect snapshot publication_id dims e =
     (case execution_quality_lookup (cx_execution_quality snapshot) dims of
        None \<Rightarrow> e
      | Some found \<Rightarrow>
          let multiplier = eqp_fill_probability_multiplier (ix_payload found) in
          e\<lparr>fe_fill_multiplier := multiplier,
            fe_applied := fe_applied e @ [\<lparr>af_factor_id = ix_factor_id found, af_factor_type = ExecutionQuality,
              af_publication_id = publication_id, af_input_value = 1, af_output_value = multiplier,
              af_reason = ''execution quality fill probability discount''\<rparr>]\<rparr>)"

definition compute_effect ::
  "'z decimal_ops_scheme \<Rightarrow> control_factor_snapshot \<Rightarrow> opportunity \<Rightarrow> bucket_risk_dimensions \<Rightarrow> execution_quality_dimensions \<Rightarrow>
   factor_effect" where
  "compute_effect D snapshot opp bucket_dims eq_dims =
     (case cx_publication_id snapshot of
        None \<Rightarrow> neutral_effect
      | Some publication_id \<Rightarrow>
          let e = quality_effect snapshot publication_id eq_dims (bucket_effect D snapshot publication_id opp bucket_dims neutral_effect);
              anomaly = anomaly_decision (cx_market_anomalies snapshot) publication_id (opp_market_id opp) (opp_event_id opp);
              e = (if is_blocking anomaly then push_source (ma_source anomaly) (e\<lparr>fe_would_reject := True\<rparr>) else e);
              recon = reconciliation_decision (cx_reconciliation_health snapshot) publication_id;
              e = push_source (rh_source recon)
                    (e\<lparr>fe_would_reject := (rh_force_maintenance_mode recon \<or> fe_would_reject e),
                       fe_size_multiplier := dec_mul D (fe_size_multiplier e) (rh_size_multiplier recon)\<rparr>);
              portfolio = portfolio_decision (cx_portfolio_risk snapshot) publication_id (opp_category opp);
              global_size = dec_mul D (fe_size_multiplier e) (pr_global_size_multiplier portfolio)
          in push_source (pr_source portfolio)
               (e\<lparr>fe_size_multiplier := (case pr_category_size_multiplier portfolio of
                     None \<Rightarrow> global_size | Some c \<Rightarrow> dec_mul D global_size c)\<rparr>))"

datatype shadow_decision_type = WouldReject | WouldSize | WouldScore | NoEffect

record new_shadow_decision =
  sd_publication_id :: ident
  sd_opportunity_id :: ident
  sd_event_id :: ident
  sd_market_id :: ident
  sd_decision_type :: shadow_decision_type
  sd_baseline :: "usd \<times> decimal \<times> decimal \<times> bool"
  sd_shadow :: "usd \<times> decimal \<times> decimal \<times> bool"
  sd_delta :: "usd \<times> int"
  sd_affected_factor_ids :: "ident list"

definition shadow_evaluate ::
  "'z decimal_ops_scheme \<Rightarrow> control_factor_snapshot \<Rightarrow> control_factor_snapshot \<Rightarrow> opportunity \<Rightarrow> bucket_risk_dimensions \<Rightarrow>
   execution_quality_dimensions \<Rightarrow> usd \<Rightarrow> new_shadow_decision option" where
  "shadow_evaluate D published shadow opp bucket_dims eq_dims baseline_size_usd =
     (case cx_publication_id shadow of
        None \<Rightarrow> None
      | Some publication_id \<Rightarrow>
          let baseline = compute_effect D published opp bucket_dims eq_dims;
              candidate = compute_effect D shadow opp bucket_dims eq_dims;
              baseline_size = size_cap D baseline_size_usd (fe_size_multiplier baseline);
              shadow_size = size_cap D baseline_size_usd (fe_size_multiplier candidate)
          in Some \<lparr>sd_publication_id = publication_id, sd_opportunity_id = opp_opportunity_id opp, sd_event_id = opp_event_id opp,
               sd_market_id = opp_market_id opp,
               sd_decision_type =
                 (if fe_would_reject candidate \<and> \<not> fe_would_reject baseline then WouldReject
                  else if shadow_size \<noteq> baseline_size then WouldSize
                  else if fe_fill_multiplier candidate \<noteq> fe_fill_multiplier baseline
                          \<or> fe_resolution_multiplier candidate \<noteq> fe_resolution_multiplier baseline then WouldScore
                  else NoEffect),
               sd_baseline = (baseline_size, fe_resolution_multiplier baseline, fe_fill_multiplier baseline, fe_would_reject baseline),
               sd_shadow = (shadow_size, fe_resolution_multiplier candidate, fe_fill_multiplier candidate, fe_would_reject candidate),
               sd_delta = (dec_sub D shadow_size baseline_size, of_bool (fe_would_reject candidate) - of_bool (fe_would_reject baseline)),
               sd_affected_factor_ids = map af_factor_id (fe_applied candidate)\<rparr>)"

end
