(* ===== verification/Trade_Store.thy ===== *)
theory Trade_Store
  imports Evidence Sizing "HOL-Library.Product_Lexorder" "HOL-Library.List_Lexorder" "HOL-Library.Char_ord"
begin

text \<open>
  The table of trades (\<open>oxide-arb-repository/src/postgres/trading/trade.rs\<close>), which is the durable side of the order path. Each
  method is one SQL statement or one transaction: here an atomic update of the rows that satisfy its \<open>WHERE\<close> clause, with the
  number of rows it changed. Where the statement leaves the order of equal keys open, the order of the table is taken. The lemmas follow
  one row through every sequence of operations.
\<close>

section \<open>Rows\<close>

datatype trade_reconcile_resolution = ResFilled | ResMiss | ResUnresolvable

text \<open>The JSON column is the value that \<open>serde_json::from_value\<close> reads from it, or its error.\<close>

record trade_info =
  tn_trade_id :: ident
  tn_execution_id :: ident
  tn_reservation_id :: ident
  tn_opportunity_id :: ident
  tn_market_id :: ident
  tn_event_id :: ident
  tn_token_id :: ident
  tn_side :: side
  tn_shares :: shares
  tn_price :: price
  tn_cost_usd :: usd
  tn_fee_usd :: usd
  tn_detected_edge_bps :: "decimal option"
  tn_detected_profit_usd :: "usd option"
  tn_net_profit_usd :: "usd option"
  tn_order_id :: "ident option"
  tn_tx_hash :: "string option"
  tn_state :: trade_state
  tn_business_outcome :: "trade_business_outcome option"
  tn_scored_snapshot :: "message + scored_snapshot"
  tn_category :: market_category
  tn_needs_reconcile :: bool
  tn_reconcile_resolution :: "trade_reconcile_resolution option"
  tn_reconciled_at :: "instant option"
  tn_reconcile_note :: "message option"
  tn_pre_submit_ctf_balance :: "shares option"
  tn_reconcile_attempts :: int
  tn_reconcile_defer_until :: "instant option"
  tn_post_trade_claim_owner :: "string option"
  tn_post_trade_claimed_at :: "instant option"
  tn_post_trade_attempts :: int
  tn_execution_mode :: execution_mode
  tn_latency_ms :: "int option"
  tn_error_message :: "message option"
  tn_submitted_at :: "instant option"
  tn_confirmed_at :: "instant option"
  tn_created_at :: instant

record new_trade =
  nt_trade_id :: ident
  nt_execution_id :: ident
  nt_reservation_id :: ident
  nt_opportunity_id :: ident
  nt_market_id :: ident
  nt_event_id :: ident
  nt_token_id :: ident
  nt_side :: side
  nt_shares :: shares
  nt_price :: price
  nt_cost_usd :: usd
  nt_fee_usd :: usd
  nt_detected_edge_bps :: "decimal option"
  nt_detected_profit_usd :: "usd option"
  nt_scored_snapshot :: scored_snapshot
  nt_category :: market_category
  nt_execution_mode :: execution_mode

text \<open>The columns that an insert leaves out take the defaults of the schema (\<open>models/idens/trade.rs\<close>).\<close>

definition inserted_row :: "instant \<Rightarrow> new_trade \<Rightarrow> trade_info" where
  "inserted_row now t = \<lparr>tn_trade_id = nt_trade_id t, tn_execution_id = nt_execution_id t, tn_reservation_id = nt_reservation_id t,
     tn_opportunity_id = nt_opportunity_id t, tn_market_id = nt_market_id t, tn_event_id = nt_event_id t,
     tn_token_id = nt_token_id t, tn_side = nt_side t, tn_shares = nt_shares t, tn_price = nt_price t, tn_cost_usd = nt_cost_usd t,
     tn_fee_usd = nt_fee_usd t, tn_detected_edge_bps = nt_detected_edge_bps t, tn_detected_profit_usd = nt_detected_profit_usd t,
     tn_net_profit_usd = None, tn_order_id = None, tn_tx_hash = None, tn_state = Intent, tn_business_outcome = None,
     tn_scored_snapshot = Inr (nt_scored_snapshot t), tn_category = nt_category t, tn_needs_reconcile = False,
     tn_reconcile_resolution = None, tn_reconciled_at = None, tn_reconcile_note = None, tn_pre_submit_ctf_balance = None,
     tn_reconcile_attempts = 0, tn_reconcile_defer_until = None, tn_post_trade_claim_owner = None,
     tn_post_trade_claimed_at = None, tn_post_trade_attempts = 0, tn_execution_mode = nt_execution_mode t, tn_latency_ms = None,
     tn_error_message = None, tn_submitted_at = None, tn_confirmed_at = None, tn_created_at = now\<rparr>"

definition post_trade_input_of :: "trade_info \<Rightarrow> post_trade_input option" where
  "post_trade_input_of t = map_option (\<lambda>outcome. \<lparr>pt_trade_id = tn_trade_id t, pt_market_id = tn_market_id t,
     pt_token_id = tn_token_id t, pt_side = tn_side t, pt_outcome = outcome, pt_cost_usd = tn_cost_usd t, pt_fee_usd = tn_fee_usd t,
     pt_net_profit_usd = tn_net_profit_usd t, pt_shares = tn_shares t, pt_entry_price = tn_price t\<rparr>) (tn_business_outcome t)"

section \<open>Operations\<close>

type_synonym trade_table = "(ident \<times> trade_info) list"

datatype storage_error = StaleData message | DuplicateKey ident

definition update_where :: "(trade_info \<Rightarrow> bool) \<Rightarrow> (trade_info \<Rightarrow> trade_info) \<Rightarrow> trade_table \<Rightarrow> nat \<times> trade_table" where
  "update_where P f t = (length (filter (\<lambda>kr. P (snd kr)) t), map (\<lambda>(k, r). (k, if P r then f r else r)) t)"

definition rows_where :: "(trade_info \<Rightarrow> bool) \<Rightarrow> trade_table \<Rightarrow> trade_info list" where
  "rows_where P t = filter P (map snd t)"

definition do_create :: "instant \<Rightarrow> new_trade \<Rightarrow> trade_table \<Rightarrow> (storage_error + trade_info) \<times> trade_table" where
  "do_create now new t =
     (if map_of t (nt_trade_id new) \<noteq> None then (Inl (DuplicateKey (nt_trade_id new)), t)
      else (Inr (inserted_row now new), (nt_trade_id new, inserted_row now new) # t))"

definition do_mark_submitted :: "ident \<Rightarrow> instant \<Rightarrow> trade_table \<Rightarrow> bool \<times> trade_table" where
  "do_mark_submitted trade_id submitted_at t =
     (case update_where (\<lambda>r. tn_trade_id r = trade_id \<and> tn_state r = Intent)
        (\<lambda>r. r\<lparr>tn_state := Submitted, tn_submitted_at := Some submitted_at\<rparr>) t of
      (n, t') \<Rightarrow> (n > 0, t'))"

text \<open>The columns an observation writes.\<close>

definition observe_row :: "trade_observation \<Rightarrow> trade_info \<Rightarrow> trade_info" where
  "observe_row obs r = r\<lparr>tn_state := tv_state obs, tn_business_outcome := state_business_outcome (tv_state obs),
     tn_shares := tv_shares obs, tn_price := tv_price obs, tn_cost_usd := tv_cost_usd obs, tn_fee_usd := tv_fee_usd obs,
     tn_order_id := tv_order_id obs, tn_tx_hash := tv_tx_hash obs, tn_net_profit_usd := tv_net_profit_usd obs,
     tn_latency_ms := tv_latency_ms obs, tn_error_message := tv_error_message obs,
     tn_confirmed_at := Some (tv_confirmed_at obs)\<rparr>"

fun trade_state_str :: "trade_state \<Rightarrow> string" where
  "trade_state_str Intent = ''intent''"
| "trade_state_str Submitted = ''submitted''"
| "trade_state_str FillObserved = ''fill_observed''"
| "trade_state_str MissObserved = ''miss_observed''"
| "trade_state_str FailObserved = ''fail_observed''"
| "trade_state_str FillProcessing = ''fill_processing''"
| "trade_state_str MissProcessing = ''miss_processing''"
| "trade_state_str FailProcessing = ''fail_processing''"
| "trade_state_str StSettled = ''settled''"
| "trade_state_str StMissed = ''missed''"
| "trade_state_str StFailed = ''failed''"
| "trade_state_str Orphaned = ''orphaned''"

definition do_mark_observed :: "ident \<Rightarrow> trade_observation \<Rightarrow> trade_table \<Rightarrow> (storage_error + unit) \<times> trade_table" where
  "do_mark_observed trade_id obs t =
     (if \<not> trade_is_unprocessed (tv_state obs)
      then (Inl (StaleData [Lit ''trade observation state '', Lit (trade_state_str (tv_state obs)), Lit '' is not claimable'']), t)
      else case update_where (\<lambda>r. tn_trade_id r = trade_id \<and> tn_state r = Submitted) (observe_row obs) t of
             (n, t') \<Rightarrow>
               if n = 0 then (Inl (StaleData [Lit ''trade '', Lit trade_id, Lit '' was not in submitted state'']), t')
               else (Inr (), t'))"

definition do_mark_reconciled_observed ::
  "instant \<Rightarrow> ident \<Rightarrow> trade_observation \<Rightarrow> trade_reconcile_resolution \<Rightarrow> message \<Rightarrow> trade_table \<Rightarrow>
   (storage_error + bool) \<times> trade_table" where
  "do_mark_reconciled_observed now trade_id obs resolution note t =
     (if \<not> trade_is_unprocessed (tv_state obs)
      then (Inl (StaleData [Lit ''reconciled observation state '', Lit (trade_state_str (tv_state obs)), Lit '' is not claimable'']), t)
      else case update_where
             (\<lambda>r. tn_trade_id r = trade_id \<and> tn_state r = Orphaned \<and> tn_needs_reconcile r \<and> tn_reconcile_resolution r = None)
             (\<lambda>r. (observe_row obs r)\<lparr>tn_needs_reconcile := False, tn_reconcile_resolution := Some resolution,
                tn_reconciled_at := Some now, tn_reconcile_note := Some note\<rparr>) t of
             (n, t') \<Rightarrow> (Inr (n > 0), t'))"

definition claimable :: "instant \<Rightarrow> trade_info \<Rightarrow> bool" where
  "claimable lease_expired_before r \<longleftrightarrow>
     trade_is_unprocessed (tn_state r)
     \<or> trade_is_processing (tn_state r)
       \<and> (case tn_post_trade_claimed_at r of None \<Rightarrow> False | Some claimed \<Rightarrow> claimed < lease_expired_before)"

fun processing_state :: "trade_state \<Rightarrow> trade_state" where
  "processing_state FillObserved = FillProcessing"
| "processing_state MissObserved = MissProcessing"
| "processing_state FailObserved = FailProcessing"
| "processing_state st = st"

definition claim_row :: "string \<Rightarrow> instant \<Rightarrow> trade_info \<Rightarrow> trade_info" where
  "claim_row owner claimed_at r = r\<lparr>tn_state := processing_state (tn_state r), tn_post_trade_claim_owner := Some owner,
     tn_post_trade_claimed_at := Some claimed_at, tn_post_trade_attempts := tn_post_trade_attempts r + 1\<rparr>"

definition do_claim_unprocessed ::
  "nat \<Rightarrow> string \<Rightarrow> instant \<Rightarrow> instant \<Rightarrow> trade_table \<Rightarrow> trade_info list \<times> trade_table" where
  "do_claim_unprocessed limit owner claimed_at lease_expired_before t =
     (let ordered = take limit (sort_key tn_created_at (rows_where (claimable lease_expired_before) t));
          ids = map tn_trade_id ordered
      in (map (claim_row owner claimed_at) ordered,
          snd (update_where (\<lambda>r. tn_trade_id r \<in> set ids) (claim_row owner claimed_at) t)))"

definition do_advance_state :: "ident \<Rightarrow> trade_state \<Rightarrow> trade_state \<Rightarrow> trade_table \<Rightarrow> bool \<times> trade_table" where
  "do_advance_state trade_id from to t =
     (case update_where (\<lambda>r. tn_trade_id r = trade_id \<and> tn_state r = from)
        (\<lambda>r. r\<lparr>tn_state := to, tn_business_outcome := state_business_outcome to, tn_post_trade_claim_owner := None,
           tn_post_trade_claimed_at := None\<rparr>) t of
      (n, t') \<Rightarrow> (n > 0, t'))"

definition do_mark_orphaned :: "ident \<Rightarrow> trade_table \<Rightarrow> bool \<times> trade_table" where
  "do_mark_orphaned trade_id t =
     (case update_where (\<lambda>r. tn_trade_id r = trade_id \<and> tn_state r = Submitted)
        (\<lambda>r. r\<lparr>tn_state := Orphaned, tn_business_outcome := None, tn_needs_reconcile := True\<rparr>) t of
      (n, t') \<Rightarrow> (n > 0, t'))"

definition do_find_stale_submitted :: "instant \<Rightarrow> nat \<Rightarrow> trade_table \<Rightarrow> trade_info list" where
  "do_find_stale_submitted older_than limit t =
     take limit (sort_key (\<lambda>r. the (tn_submitted_at r)) (rows_where (\<lambda>r. tn_state r = Submitted
       \<and> (case tn_submitted_at r of None \<Rightarrow> False | Some s \<Rightarrow> s < older_than)) t))"

definition do_find_needs_reconcile :: "instant \<Rightarrow> nat \<Rightarrow> nat \<Rightarrow> trade_table \<Rightarrow> trade_info list" where
  "do_find_needs_reconcile now limit offset t =
     take limit (drop offset (sort_key (\<lambda>r. (tn_created_at r, tn_trade_id r)) (rows_where (\<lambda>r. tn_needs_reconcile r
       \<and> tn_reconcile_resolution r = None
       \<and> (case tn_reconcile_defer_until r of None \<Rightarrow> True | Some d \<Rightarrow> d \<le> now)) t)))"

definition blocking_admission :: "trade_info \<Rightarrow> bool" where
  "blocking_admission r \<longleftrightarrow> tn_state r = Intent \<or> tn_state r = Submitted \<or> tn_state r = Orphaned \<or> tn_needs_reconcile r"

definition reservation_obligation :: "trade_info \<Rightarrow> bool" where
  "reservation_obligation r \<longleftrightarrow> tn_state r = Intent \<or> tn_state r = Submitted \<or> tn_state r = Orphaned
     \<or> tn_state r = FillObserved \<or> tn_state r = FillProcessing \<or> tn_needs_reconcile r"

definition do_count_blocking_trades :: "trade_table \<Rightarrow> nat" where
  "do_count_blocking_trades t = length (rows_where blocking_admission t)"

definition do_find_reservation_obligations :: "nat \<Rightarrow> trade_table \<Rightarrow> trade_info list" where
  "do_find_reservation_obligations limit t =
     take limit (sort_key (\<lambda>r. (tn_created_at r, tn_trade_id r)) (rows_where reservation_obligation t))"

definition do_count_needs_reconcile :: "trade_table \<Rightarrow> nat" where
  "do_count_needs_reconcile t = length (rows_where (\<lambda>r. tn_needs_reconcile r \<and> tn_reconcile_resolution r = None) t)"

definition do_count_intent_orphans :: "trade_table \<Rightarrow> nat" where
  "do_count_intent_orphans t = length (rows_where (\<lambda>r. tn_state r = Intent) t)"

definition do_oldest_blocking_age_secs :: "instant \<Rightarrow> trade_table \<Rightarrow> u64" where
  "do_oldest_blocking_age_secs now t =
     (case map tn_created_at (rows_where blocking_admission t) of
        [] \<Rightarrow> 0
      | oldest # others \<Rightarrow> word_of_int ((max 0 (now - fold min others oldest)) div 1000000000))"

definition do_count_competing_pending_reconcile :: "ident \<Rightarrow> instant option \<Rightarrow> trade_table \<Rightarrow> nat" where
  "do_count_competing_pending_reconcile market_id submitted_at t =
     length (rows_where (\<lambda>r. tn_market_id r = market_id \<and> tn_needs_reconcile r \<and> tn_reconcile_resolution r = None
       \<and> (submitted_at \<noteq> None \<longrightarrow> tn_submitted_at r = submitted_at)) t)"

definition do_record_reconcile_defer :: "ident \<Rightarrow> instant \<Rightarrow> message \<Rightarrow> trade_table \<Rightarrow> bool \<times> trade_table" where
  "do_record_reconcile_defer trade_id defer_until note t =
     (case update_where (\<lambda>r. tn_trade_id r = trade_id \<and> tn_needs_reconcile r \<and> tn_reconcile_resolution r = None)
        (\<lambda>r. r\<lparr>tn_reconcile_attempts := tn_reconcile_attempts r + 1, tn_reconcile_defer_until := Some defer_until,
           tn_reconcile_note := Some note\<rparr>) t of
      (n, t') \<Rightarrow> (n > 0, t'))"

definition do_set_pre_submit_ctf_balance :: "ident \<Rightarrow> shares \<Rightarrow> trade_table \<Rightarrow> bool \<times> trade_table" where
  "do_set_pre_submit_ctf_balance trade_id balance t =
     (case update_where (\<lambda>r. tn_trade_id r = trade_id \<and> tn_state r = Submitted)
        (\<lambda>r. r\<lparr>tn_pre_submit_ctf_balance := Some balance\<rparr>) t of
      (n, t') \<Rightarrow> (n > 0, t'))"

definition do_close_unresolvable_terminal :: "ident \<Rightarrow> message \<Rightarrow> string \<Rightarrow> instant \<Rightarrow> trade_table \<Rightarrow> bool \<times> trade_table" where
  "do_close_unresolvable_terminal trade_id note operator closed_at t =
     (case update_where
        (\<lambda>r. tn_trade_id r = trade_id \<and> tn_state r = Orphaned \<and> tn_needs_reconcile r \<and> tn_reconcile_resolution r = None)
        (\<lambda>r. r\<lparr>tn_state := StFailed, tn_business_outcome := state_business_outcome StFailed, tn_needs_reconcile := False,
           tn_reconcile_resolution := Some ResUnresolvable, tn_reconciled_at := Some closed_at,
           tn_reconcile_note := Some ([Lit operator, Lit '': ''] @ note), tn_reconcile_defer_until := None\<rparr>) t of
      (n, t') \<Rightarrow> (n > 0, t'))"

definition do_mark_reconciled ::
  "ident \<Rightarrow> trade_reconcile_resolution \<Rightarrow> message \<Rightarrow> instant \<Rightarrow> trade_table \<Rightarrow> bool \<times> trade_table" where
  "do_mark_reconciled trade_id resolution note reconciled_at t =
     (case update_where (\<lambda>r. tn_trade_id r = trade_id \<and> tn_needs_reconcile r \<and> tn_reconcile_resolution r = None)
        (\<lambda>r. r\<lparr>tn_reconcile_resolution := Some resolution, tn_reconciled_at := Some reconciled_at,
           tn_reconcile_note := Some note\<rparr>) t of
      (n, t') \<Rightarrow> (n > 0, t'))"

definition do_find_by_id :: "ident \<Rightarrow> trade_table \<Rightarrow> trade_info option" where
  "do_find_by_id trade_id t = map_of t trade_id"

section \<open>The life of a row\<close>

text \<open>The operations that write, as the code calls them: a row is advanced to the terminal state of the state it was claimed in.\<close>

datatype trade_op =
    OpCreate instant new_trade
  | OpSubmit ident instant
  | OpBalance ident shares
  | OpObserve ident trade_observation
  | OpOrphan ident
  | OpReconciled instant ident trade_observation trade_reconcile_resolution message
  | OpDefer ident instant message
  | OpResolve ident trade_reconcile_resolution message instant
  | OpClose ident message string instant
  | OpClaim nat string instant instant
  | OpAdvance ident trade_state

fun apply_trade_op :: "trade_op \<Rightarrow> trade_table \<Rightarrow> trade_table" where
  "apply_trade_op (OpCreate now new) t = snd (do_create now new t)"
| "apply_trade_op (OpSubmit trade_id submitted_at) t = snd (do_mark_submitted trade_id submitted_at t)"
| "apply_trade_op (OpBalance trade_id balance) t = snd (do_set_pre_submit_ctf_balance trade_id balance t)"
| "apply_trade_op (OpObserve trade_id obs) t = snd (do_mark_observed trade_id obs t)"
| "apply_trade_op (OpOrphan trade_id) t = snd (do_mark_orphaned trade_id t)"
| "apply_trade_op (OpReconciled now trade_id obs resolution note) t = snd (do_mark_reconciled_observed now trade_id obs resolution note t)"
| "apply_trade_op (OpDefer trade_id defer_until note) t = snd (do_record_reconcile_defer trade_id defer_until note t)"
| "apply_trade_op (OpResolve trade_id resolution note reconciled_at) t = snd (do_mark_reconciled trade_id resolution note reconciled_at t)"
| "apply_trade_op (OpClose trade_id note operator closed_at) t = snd (do_close_unresolvable_terminal trade_id note operator closed_at t)"
| "apply_trade_op (OpClaim limit owner claimed_at lease_expired_before) t = snd (do_claim_unprocessed limit owner claimed_at lease_expired_before t)"
| "apply_trade_op (OpAdvance trade_id from) t =
     (case processed_terminal from of None \<Rightarrow> t | Some to \<Rightarrow> snd (do_advance_state trade_id from to t))"

text \<open>The documented transitions of \<open>TradeState\<close>.\<close>

inductive lifecycle_step :: "trade_state \<Rightarrow> trade_state \<Rightarrow> bool" where
  submit: "lifecycle_step Intent Submitted"
| observe: "trade_is_unprocessed st \<Longrightarrow> lifecycle_step Submitted st"
| orphan: "lifecycle_step Submitted Orphaned"
| reconcile: "trade_is_unprocessed st \<Longrightarrow> lifecycle_step Orphaned st"
| close: "lifecycle_step Orphaned StFailed"
| claim: "trade_is_unprocessed st \<Longrightarrow> lifecycle_step st (processing_state st)"
| finish: "processed_terminal st = Some st' \<Longrightarrow> lifecycle_step st st'"

inductive_cases lifecycle_from_terminal: "lifecycle_step StSettled st" "lifecycle_step StMissed st" "lifecycle_step StFailed st"

definition row_ok :: "trade_info \<Rightarrow> bool" where
  "row_ok r \<longleftrightarrow> tn_business_outcome r = state_business_outcome (tn_state r)
     \<and> (tn_needs_reconcile r \<longleftrightarrow> tn_state r = Orphaned)
     \<and> (tn_post_trade_claim_owner r \<noteq> None \<longleftrightarrow> trade_is_processing (tn_state r))
     \<and> (tn_post_trade_claimed_at r \<noteq> None \<longleftrightarrow> trade_is_processing (tn_state r))
     \<and> (tn_submitted_at r = None \<longleftrightarrow> tn_state r = Intent)"

definition table_ok :: "trade_table \<Rightarrow> bool" where
  "table_ok t \<longleftrightarrow> distinct (map fst t) \<and> (\<forall>(k, r) \<in> set t. tn_trade_id r = k \<and> row_ok r)"

text \<open>What never changes, and what is fixed once an outcome is known.\<close>

definition same_trade :: "trade_info \<Rightarrow> trade_info \<Rightarrow> bool" where
  "same_trade r r' \<longleftrightarrow> tn_trade_id r' = tn_trade_id r \<and> tn_execution_id r' = tn_execution_id r
     \<and> tn_reservation_id r' = tn_reservation_id r \<and> tn_opportunity_id r' = tn_opportunity_id r \<and> tn_market_id r' = tn_market_id r
     \<and> tn_event_id r' = tn_event_id r \<and> tn_token_id r' = tn_token_id r \<and> tn_side r' = tn_side r
     \<and> tn_scored_snapshot r' = tn_scored_snapshot r \<and> tn_category r' = tn_category r
     \<and> tn_execution_mode r' = tn_execution_mode r \<and> tn_created_at r' = tn_created_at r"

definition same_economics :: "trade_info \<Rightarrow> trade_info \<Rightarrow> bool" where
  "same_economics r r' \<longleftrightarrow> tn_business_outcome r' = tn_business_outcome r \<and> tn_shares r' = tn_shares r \<and> tn_price r' = tn_price r
     \<and> tn_cost_usd r' = tn_cost_usd r \<and> tn_fee_usd r' = tn_fee_usd r \<and> tn_net_profit_usd r' = tn_net_profit_usd r
     \<and> tn_order_id r' = tn_order_id r \<and> tn_tx_hash r' = tn_tx_hash r \<and> tn_confirmed_at r' = tn_confirmed_at r"

definition row_evolves :: "trade_info \<Rightarrow> trade_info \<Rightarrow> bool" where
  "row_evolves r r' \<longleftrightarrow> same_trade r r' \<and> lifecycle_step\<^sup>*\<^sup>* (tn_state r) (tn_state r')
     \<and> (tn_business_outcome r \<noteq> None \<longrightarrow> same_economics r r')"

lemma row_evolves_refl [simp]: "row_evolves r r"
  by (simp add: row_evolves_def same_trade_def same_economics_def)

lemma row_evolves_trans: "row_evolves a b \<Longrightarrow> row_evolves b c \<Longrightarrow> row_evolves a c"
  unfolding row_evolves_def same_trade_def same_economics_def by (auto intro: rtranclp_trans)

lemma rows_update: "map_of (snd (update_where P f t)) k = map_option (\<lambda>r. if P r then f r else r) (map_of t k)"
  by (simp add: update_where_def map_of_map)

lemma update_fst [simp]: "map fst (snd (update_where P f t)) = map fst t"
  by (simp add: update_where_def case_prod_unfold comp_def)

lemma update_set: "set (snd (update_where P f t)) = (\<lambda>(k, r). (k, if P r then f r else r)) ` set t"
  by (simp add: update_where_def)

text \<open>One conditional update that respects the life of a row.\<close>

definition row_safe :: "(trade_info \<Rightarrow> bool) \<Rightarrow> (trade_info \<Rightarrow> trade_info) \<Rightarrow> bool" where
  "row_safe P f \<longleftrightarrow> (\<forall>r. row_ok r \<and> P r \<longrightarrow> row_ok (f r) \<and> row_evolves r (f r))"

lemma update_keeps:
  assumes "row_safe P f" "table_ok t"
  shows "table_ok (snd (update_where P f t))"
    "map_of t k = Some r \<Longrightarrow> \<exists>r'. map_of (snd (update_where P f t)) k = Some r' \<and> row_evolves r r'"
proof -
  have ok: "row_ok r" "tn_trade_id r = k" if "map_of t k = Some r" for k r
    using assms(2) map_of_SomeD [OF that] by (auto simp: table_ok_def)
  have "tn_trade_id (f r) = tn_trade_id r" if "row_ok r" "P r" for r
    using assms(1) that by (auto simp: row_safe_def row_evolves_def same_trade_def)
  then show "table_ok (snd (update_where P f t))"
    using assms unfolding table_ok_def update_fst update_set row_safe_def by auto
  show "map_of t k = Some r \<Longrightarrow> \<exists>r'. map_of (snd (update_where P f t)) k = Some r' \<and> row_evolves r r'"
    using assms(1) ok by (simp add: rows_update row_safe_def)
qed

lemma row_safeI:
  assumes "\<And>r. row_ok r \<Longrightarrow> P r \<Longrightarrow> row_ok (f r)" "\<And>r. P r \<Longrightarrow> same_trade r (f r)"
    "\<And>r. row_ok r \<Longrightarrow> P r \<Longrightarrow> tn_state (f r) = tn_state r \<or> lifecycle_step (tn_state r) (tn_state (f r))"
    "\<And>r. row_ok r \<Longrightarrow> P r \<Longrightarrow> tn_business_outcome r \<noteq> None \<Longrightarrow> same_economics r (f r)"
  shows "row_safe P f"
  unfolding row_safe_def row_evolves_def using assms by (metis r_into_rtranclp rtranclp.rtrancl_refl)

lemma row_ok_outcome: "row_ok r \<Longrightarrow> tn_business_outcome r = state_business_outcome (tn_state r)"
  by (simp add: row_ok_def)

lemma unprocessed_cases: "trade_is_unprocessed st \<longleftrightarrow> st = FillObserved \<or> st = MissObserved \<or> st = FailObserved"
  by auto

lemma safe_submit: "row_safe (\<lambda>r. tn_trade_id r = k \<and> tn_state r = Intent) (\<lambda>r. r\<lparr>tn_state := Submitted, tn_submitted_at := Some at_time\<rparr>)"
  by (rule row_safeI) (auto simp: row_ok_def same_trade_def same_economics_def intro: submit)

lemma safe_balance: "row_safe (\<lambda>r. tn_trade_id r = k \<and> tn_state r = Submitted) (\<lambda>r. r\<lparr>tn_pre_submit_ctf_balance := b\<rparr>)"
  by (rule row_safeI) (auto simp: row_ok_def same_trade_def same_economics_def)

lemma safe_observe:
  "trade_is_unprocessed (tv_state obs) \<Longrightarrow> row_safe (\<lambda>r. tn_trade_id r = k \<and> tn_state r = Submitted) (observe_row obs)"
  by (rule row_safeI) (auto simp: row_ok_def same_trade_def same_economics_def observe_row_def unprocessed_cases intro: observe)

lemma safe_orphan:
  "row_safe (\<lambda>r. tn_trade_id r = k \<and> tn_state r = Submitted)
     (\<lambda>r. r\<lparr>tn_state := Orphaned, tn_business_outcome := None, tn_needs_reconcile := True\<rparr>)"
  by (rule row_safeI) (auto simp: row_ok_def same_trade_def same_economics_def intro: orphan)

lemma safe_reconciled:
  "trade_is_unprocessed (tv_state obs) \<Longrightarrow>
   row_safe (\<lambda>r. tn_trade_id r = k \<and> tn_state r = Orphaned \<and> tn_needs_reconcile r \<and> tn_reconcile_resolution r = None)
     (\<lambda>r. (observe_row obs r)\<lparr>tn_needs_reconcile := False, tn_reconcile_resolution := a, tn_reconciled_at := b, tn_reconcile_note := c\<rparr>)"
  by (rule row_safeI) (auto simp: row_ok_def same_trade_def same_economics_def observe_row_def unprocessed_cases intro: reconcile)

lemma safe_notes:
  "row_safe (\<lambda>r. tn_trade_id r = k \<and> tn_needs_reconcile r \<and> tn_reconcile_resolution r = None)
     (\<lambda>r. r\<lparr>tn_reconcile_attempts := tn_reconcile_attempts r + 1, tn_reconcile_defer_until := a, tn_reconcile_note := b\<rparr>)"
  "row_safe (\<lambda>r. tn_trade_id r = k \<and> tn_needs_reconcile r \<and> tn_reconcile_resolution r = None)
     (\<lambda>r. r\<lparr>tn_reconcile_resolution := c, tn_reconciled_at := d, tn_reconcile_note := b\<rparr>)"
  by (rule row_safeI; auto simp: row_ok_def same_trade_def same_economics_def)+

lemma safe_close:
  "row_safe (\<lambda>r. tn_trade_id r = k \<and> tn_state r = Orphaned \<and> tn_needs_reconcile r \<and> tn_reconcile_resolution r = None)
     (\<lambda>r. r\<lparr>tn_state := StFailed, tn_business_outcome := state_business_outcome StFailed, tn_needs_reconcile := False,
        tn_reconcile_resolution := a, tn_reconciled_at := b, tn_reconcile_note := c, tn_reconcile_defer_until := d\<rparr>)"
  by (rule row_safeI) (auto simp: row_ok_def same_trade_def same_economics_def intro: close)

lemma processing_outcome [simp]: "state_business_outcome (processing_state st) = state_business_outcome st"
  by (cases st) auto

lemma terminal_outcome: "processed_terminal st = Some st' \<Longrightarrow> state_business_outcome st' = state_business_outcome st"
  by (cases st) auto

lemma safe_claim: "row_safe (\<lambda>r. trade_is_unprocessed (tn_state r) \<or> trade_is_processing (tn_state r)) (claim_row owner now)"
proof (rule row_safeI)
  fix r
  assume ok: "row_ok r" and P: "trade_is_unprocessed (tn_state r) \<or> trade_is_processing (tn_state r)"
  then have st: "tn_state r \<in> {FillObserved, MissObserved, FailObserved, FillProcessing, MissProcessing, FailProcessing}"
    by auto
  then show "row_ok (claim_row owner now r)"
    using ok by (auto simp: row_ok_def claim_row_def)
  show "tn_state (claim_row owner now r) = tn_state r \<or> lifecycle_step (tn_state r) (tn_state (claim_row owner now r))"
    using st claim [of "tn_state r"] by (auto simp: claim_row_def)
qed (simp_all add: same_trade_def same_economics_def claim_row_def)

lemma safe_advance:
  assumes "processed_terminal from = Some to"
  shows "row_safe (\<lambda>r. tn_trade_id r = k \<and> tn_state r = from)
     (\<lambda>r. r\<lparr>tn_state := to, tn_business_outcome := state_business_outcome to, tn_post_trade_claim_owner := None,
        tn_post_trade_claimed_at := None\<rparr>)"
proof (rule row_safeI)
  fix r assume "row_ok r" "tn_trade_id r = k \<and> tn_state r = from"
  then show "row_ok (r\<lparr>tn_state := to, tn_business_outcome := state_business_outcome to, tn_post_trade_claim_owner := None,
        tn_post_trade_claimed_at := None\<rparr>)"
    using assms by (cases "from") (auto simp: row_ok_def)
qed (use assms in \<open>auto simp: same_trade_def same_economics_def row_ok_def terminal_outcome intro: finish\<close>)

text \<open>Every operation keeps the table and moves each row along its life.\<close>

definition table_evolves :: "trade_table \<Rightarrow> trade_table \<Rightarrow> bool" where
  "table_evolves t t' \<longleftrightarrow> table_ok t' \<and> (\<forall>k r. map_of t k = Some r \<longrightarrow> (\<exists>r'. map_of t' k = Some r' \<and> row_evolves r r'))"

lemma evolves_update: "row_safe P f \<Longrightarrow> table_ok t \<Longrightarrow> table_evolves t (snd (update_where P f t))"
  using update_keeps unfolding table_evolves_def by blast

lemma evolves_refl: "table_ok t \<Longrightarrow> table_evolves t t"
  by (auto simp: table_evolves_def)

lemma evolves_trans: "table_evolves a b \<Longrightarrow> table_evolves b c \<Longrightarrow> table_evolves a c"
  unfolding table_evolves_def using row_evolves_trans by meson

lemma inserted_ok: "row_ok (inserted_row now new)" "tn_trade_id (inserted_row now new) = nt_trade_id new"
  by (simp_all add: row_ok_def inserted_row_def)

lemma evolves_create:
  assumes "table_ok t"
  shows "table_evolves t (snd (do_create now new t))"
proof (cases "map_of t (nt_trade_id new)")
  case None
  have ok: "table_ok ((nt_trade_id new, inserted_row now new) # t)"
    using assms None inserted_ok [of now new] unfolding table_ok_def map_of_eq_None_iff by simp
  have "map_of ((nt_trade_id new, inserted_row now new) # t) k = Some r" if "map_of t k = Some r" for k r
    using that None by auto
  then show ?thesis
    using ok None row_evolves_refl unfolding table_evolves_def do_create_def by fastforce
qed (use assms in \<open>simp add: do_create_def evolves_refl\<close>)

lemma table_rows: "table_ok t \<Longrightarrow> (k, r) \<in> set t \<Longrightarrow> tn_trade_id r = k \<and> row_ok r"
  unfolding table_ok_def by blast

lemma table_row_unique: "table_ok t \<Longrightarrow> (k, r) \<in> set t \<Longrightarrow> (k', r') \<in> set t \<Longrightarrow> tn_trade_id r = tn_trade_id r' \<Longrightarrow> r = r'"
  using table_rows by (metis eq_key_imp_eq_value table_ok_def)

lemma claim_states: "claimable lease r \<Longrightarrow> trade_is_unprocessed (tn_state r) \<or> trade_is_processing (tn_state r)"
  unfolding claimable_def by blast

lemma claim_update:
  assumes "table_ok t"
  shows "snd (do_claim_unprocessed limit owner now lease t) =
    snd (update_where (\<lambda>r. (trade_is_unprocessed (tn_state r) \<or> trade_is_processing (tn_state r))
      \<and> tn_trade_id r \<in> tn_trade_id ` set (take limit (sort_key tn_created_at (rows_where (claimable lease) t)))) (claim_row owner now) t)"
    (is "_ = snd (update_where (\<lambda>r. ?c r \<and> tn_trade_id r \<in> tn_trade_id ` ?S) _ _)")
proof -
  have rows: "claimable lease r' \<and> (\<exists>k'. (k', r') \<in> set t)" if "r' \<in> ?S" for r'
    using in_set_takeD [OF that] by (auto simp: rows_where_def)
  have c: "?c r" if "(k, r) \<in> set t" "tn_trade_id r \<in> tn_trade_id ` ?S" for k r
    using that rows table_row_unique [OF assms] claim_states by (metis (no_types, lifting) imageE)
  have "(if tn_trade_id r \<in> tn_trade_id ` ?S then x else r) = (if ?c r \<and> tn_trade_id r \<in> tn_trade_id ` ?S then x else r)"
    if "(k, r) \<in> set t" for k r x
    using c [OF that] by argo
  then show ?thesis
    unfolding do_claim_unprocessed_def Let_def update_where_def snd_conv set_map by (intro map_cong refl) auto
qed

lemma row_safe_mono: "row_safe P f \<Longrightarrow> row_safe (\<lambda>r. P r \<and> Q r) f"
  by (simp add: row_safe_def)

lemmas op_defs = do_mark_submitted_def do_set_pre_submit_ctf_balance_def do_mark_observed_def do_mark_orphaned_def
  do_mark_reconciled_observed_def do_record_reconcile_defer_def do_mark_reconciled_def do_close_unresolvable_terminal_def
  do_advance_state_def

lemma op_update:
  "snd (case update_where P f t of (n, t') \<Rightarrow> (g n, t')) = snd (update_where P f t)"
  "snd (case update_where P f t of (n, t') \<Rightarrow> if n = 0 then (x, t') else (y, t')) = snd (update_where P f t)"
  by (simp_all add: case_prod_unfold)

lemma evolves_op:
  assumes "table_ok t"
  shows "table_evolves t (apply_trade_op op t)"
proof (cases op)
  case (OpCreate now new)
  then show ?thesis using assms by (simp only: apply_trade_op.simps evolves_create)
next
  case (OpSubmit k now)
  then show ?thesis using evolves_update [OF safe_submit assms] by (simp only: apply_trade_op.simps op_defs op_update)
next
  case (OpBalance k b)
  then show ?thesis using evolves_update [OF safe_balance assms] by (simp only: apply_trade_op.simps op_defs op_update)
next
  case (OpObserve k obs)
  then show ?thesis
    using evolves_update [OF safe_observe assms] evolves_refl [OF assms]
    by (cases "trade_is_unprocessed (tv_state obs)") (simp_all only: apply_trade_op.simps op_defs op_update if_False if_True snd_conv not_True_eq_False not_False_eq_True)
next
  case (OpOrphan k)
  then show ?thesis using evolves_update [OF safe_orphan assms] by (simp only: apply_trade_op.simps op_defs op_update)
next
  case (OpReconciled now k obs res msg)
  then show ?thesis
    using evolves_update [OF safe_reconciled assms] evolves_refl [OF assms]
    by (cases "trade_is_unprocessed (tv_state obs)") (simp_all only: apply_trade_op.simps op_defs op_update if_False if_True snd_conv not_True_eq_False not_False_eq_True)
next
  case (OpDefer k u msg)
  then show ?thesis using evolves_update [OF safe_notes(1) assms] by (simp only: apply_trade_op.simps op_defs op_update)
next
  case (OpResolve k res msg now)
  then show ?thesis using evolves_update [OF safe_notes(2) assms] by (simp only: apply_trade_op.simps op_defs op_update)
next
  case (OpClose k msg operator now)
  then show ?thesis using evolves_update [OF safe_close assms] by (simp only: apply_trade_op.simps op_defs op_update)
next
  case (OpClaim limit owner now lease)
  then show ?thesis
    using evolves_update [OF row_safe_mono [OF safe_claim] assms] by (simp only: apply_trade_op.simps claim_update [OF assms])
next
  case (OpAdvance k st)
  then show ?thesis
    using evolves_update [OF safe_advance assms] evolves_refl [OF assms]
    by (cases "processed_terminal st") (simp_all only: apply_trade_op.simps op_defs op_update option.case)
qed


definition demo_new_trade :: new_trade where
  "demo_new_trade = \<lparr>nt_trade_id = ''t1'', nt_execution_id = ''x1'', nt_reservation_id = ''r1'', nt_opportunity_id = ''o1'',
     nt_market_id = ''m1'', nt_event_id = ''e1'', nt_token_id = ''yes'', nt_side = Buy, nt_shares = 10, nt_price = 9 / 10, nt_cost_usd = 9,
     nt_fee_usd = 1 / 100, nt_detected_edge_bps = None, nt_detected_profit_usd = None,
     nt_scored_snapshot = snapshot_from_opportunity demo_opp, nt_category = Sports, nt_execution_mode = Live\<rparr>"

definition demo_observation :: trade_observation where
  "demo_observation = \<lparr>tv_state = FillObserved, tv_shares = 10, tv_price = 9 / 10, tv_cost_usd = 9, tv_fee_usd = 1 / 100,
     tv_order_id = Some ''v1'', tv_tx_hash = None, tv_net_profit_usd = Some 0, tv_latency_ms = Some 20, tv_error_message = None,
     tv_confirmed_at = 7\<rparr>"

definition demo_row :: trade_info where "demo_row = inserted_row 1 demo_new_trade"


section \<open>Rows that nothing moves\<close>

text \<open>An intent that was not submitted stays an intent, and so blocks admission, under every operation but its own submission: no
  operation closes it.\<close>

lemma intent_stays:
  assumes "table_ok t" "map_of t k = Some r" "tn_state r = Intent" "\<forall>now. op \<noteq> OpSubmit k now"
  shows "\<exists>r'. map_of (apply_trade_op op t) k = Some r' \<and> tn_state r' = Intent \<and> blocking_admission r'"
proof -
  have row: "row_ok r" "tn_trade_id r = k"
    using assms(1,2) table_rows map_of_SomeD by metis+
  obtain r' where r': "map_of (apply_trade_op op t) k = Some r'" "row_evolves r r'"
    using evolves_op [OF assms(1), of op] assms(2) unfolding table_evolves_def by blast
  have "tn_state r' = Intent"
    using r'(1) assms(2-4) row
    by (cases op) (auto simp: op_defs case_prod_unfold rows_update do_create_def row_ok_def do_claim_unprocessed_def claim_row_def Let_def
        split: if_splits option.splits)
  then show ?thesis
    using r'(1) by (simp add: blocking_admission_def)
qed

text \<open>The balance of the holder is written only into a submitted row.\<close>

lemma balance_needs_submitted:
  "map_of t k = Some r \<Longrightarrow> tn_state r \<noteq> Submitted \<Longrightarrow> map_of (snd (do_set_pre_submit_ctf_balance k b t)) k = Some r"
  by (simp add: do_set_pre_submit_ctf_balance_def case_prod_unfold rows_update)

end
