(* ===== verification/Trade_Repository.thy ===== *)
theory Trade_Repository
  imports Trade_Store
begin

text \<open>
  The repository of trades as the order path calls it (\<open>oxide-arb-repository/src/traits/trading/trade.rs\<close>): a record of functions on
  the world \<open>'p\<close>, each of which can fail with a message. The locale \<open>trade_repository\<close> is the contract its clients rely on: a call has the effect of
  the statement it stands for, or it fails, and then the statement took effect or not. The table of the theory
  \<^emph>\<open>Trade_Store\<close> satisfies it.
\<close>

record 'p trade_env =
  tq_create :: "new_trade \<Rightarrow> 'p \<Rightarrow> (message + unit) \<times> 'p"
  tq_mark_submitted :: "ident \<Rightarrow> instant \<Rightarrow> 'p \<Rightarrow> (message + bool) \<times> 'p"
  tq_set_pre_submit_ctf_balance :: "ident \<Rightarrow> shares \<Rightarrow> 'p \<Rightarrow> (message + bool) \<times> 'p"
  tq_mark_observed :: "ident \<Rightarrow> trade_observation \<Rightarrow> 'p \<Rightarrow> (message + unit) \<times> 'p"
  tq_mark_orphaned :: "ident \<Rightarrow> 'p \<Rightarrow> (message + bool) \<times> 'p"
  tq_mark_reconciled_observed :: "instant \<Rightarrow> ident \<Rightarrow> trade_observation \<Rightarrow> trade_reconcile_resolution \<Rightarrow> message \<Rightarrow> 'p \<Rightarrow> (message + bool) \<times> 'p"
  tq_record_reconcile_defer :: "ident \<Rightarrow> instant \<Rightarrow> message \<Rightarrow> 'p \<Rightarrow> (message + bool) \<times> 'p"
  tq_close_unresolvable_terminal :: "ident \<Rightarrow> message \<Rightarrow> string \<Rightarrow> instant \<Rightarrow> 'p \<Rightarrow> (message + bool) \<times> 'p"
  tq_claim_unprocessed :: "nat \<Rightarrow> string \<Rightarrow> instant \<Rightarrow> instant \<Rightarrow> 'p \<Rightarrow> (message + trade_info list) \<times> 'p"
  tq_advance_state :: "ident \<Rightarrow> trade_state \<Rightarrow> trade_state \<Rightarrow> 'p \<Rightarrow> (message + bool) \<times> 'p"
  tq_find_stale_submitted :: "instant \<Rightarrow> nat \<Rightarrow> 'p \<Rightarrow> (message + trade_info list) \<times> 'p"
  tq_find_needs_reconcile :: "instant \<Rightarrow> nat \<Rightarrow> nat \<Rightarrow> 'p \<Rightarrow> (message + trade_info list) \<times> 'p"
  tq_find_reservation_obligations :: "nat \<Rightarrow> 'p \<Rightarrow> (message + trade_info list) \<times> 'p"
  tq_find_by_id :: "ident \<Rightarrow> 'p \<Rightarrow> (message + trade_info option) \<times> 'p"
  tq_count_blocking_trades :: "'p \<Rightarrow> (message + nat) \<times> 'p"
  tq_count_needs_reconcile :: "'p \<Rightarrow> (message + nat) \<times> 'p"
  tq_count_intent_orphans :: "'p \<Rightarrow> (message + nat) \<times> 'p"
  tq_oldest_blocking_age_secs :: "instant \<Rightarrow> 'p \<Rightarrow> (message + u64) \<times> 'p"
  tq_count_competing_pending_reconcile :: "ident \<Rightarrow> instant option \<Rightarrow> 'p \<Rightarrow> (message + nat) \<times> 'p"

section \<open>The contract\<close>

text \<open>\<open>op\<close> took effect on the rows, or the call failed and it did not.\<close>

definition effect_of :: "trade_op \<Rightarrow> trade_table \<Rightarrow> (message + 'a) \<Rightarrow> trade_table \<Rightarrow> bool" where
  "effect_of op t r t' \<longleftrightarrow> t' = apply_trade_op op t \<or> t' = t \<and> isl r"

lemma effect_evolves: "effect_of op t r t' \<Longrightarrow> table_ok t \<Longrightarrow> table_evolves t t'"
  unfolding effect_of_def using evolves_op evolves_refl by metis

locale trade_repository =
  fixes env :: "'p trade_env" and rows :: "'p \<Rightarrow> trade_table"
  assumes create: "tq_create env new p = (r, p') \<Longrightarrow> \<exists>now. effect_of (OpCreate now new) (rows p) r (rows p')"
    and create_new: "tq_create env new p = (Inr (), p') \<Longrightarrow> map_of (rows p) (nt_trade_id new) = None"
    and mark_submitted: "tq_mark_submitted env k now p = (b, p') \<Longrightarrow> effect_of (OpSubmit k now) (rows p) b (rows p')"
    and submitted_true: "tq_mark_submitted env k now p = (Inr True, p') \<Longrightarrow> fst (do_mark_submitted k now (rows p))"
    and set_balance: "tq_set_pre_submit_ctf_balance env k bal p = (b, p') \<Longrightarrow> effect_of (OpBalance k bal) (rows p) b (rows p')"
    and mark_observed: "tq_mark_observed env k obs p = (u, p') \<Longrightarrow> effect_of (OpObserve k obs) (rows p) u (rows p')"
    and observed_ok: "tq_mark_observed env k obs p = (Inr (), p') \<Longrightarrow> fst (do_mark_observed k obs (rows p)) = Inr ()"
    and mark_orphaned: "tq_mark_orphaned env k p = (b, p') \<Longrightarrow> effect_of (OpOrphan k) (rows p) b (rows p')"
    and orphaned_true: "tq_mark_orphaned env k p = (Inr True, p') \<Longrightarrow> fst (do_mark_orphaned k (rows p))"
    and reconciled: "tq_mark_reconciled_observed env now k obs res n p = (b, p') \<Longrightarrow> effect_of (OpReconciled now k obs res n) (rows p) b (rows p')"
    and defer_until: "tq_record_reconcile_defer env k d n p = (b, p') \<Longrightarrow> effect_of (OpDefer k d n) (rows p) b (rows p')"
    and close_terminal: "tq_close_unresolvable_terminal env k n operator now p = (b, p') \<Longrightarrow> effect_of (OpClose k n operator now) (rows p) b (rows p')"
    and claim_unprocessed: "tq_claim_unprocessed env l owner now lease p = (c, p') \<Longrightarrow> effect_of (OpClaim l owner now lease) (rows p) c (rows p')"
    and advance: "processed_terminal st = Some st' \<Longrightarrow> tq_advance_state env k st st' p = (b, p') \<Longrightarrow> effect_of (OpAdvance k st) (rows p) b (rows p')"
    and reads: "tq_find_stale_submitted env now l p = (c, p') \<Longrightarrow> rows p' = rows p"
      "tq_find_needs_reconcile env now l off p = (c, p') \<Longrightarrow> rows p' = rows p"
      "tq_find_reservation_obligations env l p = (c, p') \<Longrightarrow> rows p' = rows p"
      "tq_find_by_id env k p = (o1, p') \<Longrightarrow> rows p' = rows p"
      "tq_count_blocking_trades env p = (n1, p') \<Longrightarrow> rows p' = rows p"
      "tq_count_needs_reconcile env p = (n1, p') \<Longrightarrow> rows p' = rows p"
      "tq_count_intent_orphans env p = (n1, p') \<Longrightarrow> rows p' = rows p"
      "tq_oldest_blocking_age_secs env now p = (n2, p') \<Longrightarrow> rows p' = rows p"
      "tq_count_competing_pending_reconcile env m s p = (n1, p') \<Longrightarrow> rows p' = rows p"
    and count_blocking: "tq_count_blocking_trades env p = (Inr cnt, p') \<Longrightarrow> cnt = do_count_blocking_trades (rows p)"
    and found_obligations: "tq_find_reservation_obligations env l p = (Inr cs, p') \<Longrightarrow> cs = do_find_reservation_obligations l (rows p)"
begin

lemma writes_evolve:
  assumes "table_ok (rows p)"
  shows "tq_create env new p = (u, p') \<Longrightarrow> table_evolves (rows p) (rows p')"
    "tq_mark_submitted env k now p = (b, p') \<Longrightarrow> table_evolves (rows p) (rows p')"
    "tq_set_pre_submit_ctf_balance env k bal p = (b, p') \<Longrightarrow> table_evolves (rows p) (rows p')"
    "tq_mark_observed env k obs p = (u, p') \<Longrightarrow> table_evolves (rows p) (rows p')"
    "tq_mark_orphaned env k p = (b, p') \<Longrightarrow> table_evolves (rows p) (rows p')"
    "tq_mark_reconciled_observed env now k obs res n p = (b, p') \<Longrightarrow> table_evolves (rows p) (rows p')"
    "tq_record_reconcile_defer env k d n p = (b, p') \<Longrightarrow> table_evolves (rows p) (rows p')"
    "tq_close_unresolvable_terminal env k n operator now p = (b, p') \<Longrightarrow> table_evolves (rows p) (rows p')"
    "tq_claim_unprocessed env l owner now lease p = (c, p') \<Longrightarrow> table_evolves (rows p) (rows p')"
    "processed_terminal st = Some st' \<Longrightarrow> tq_advance_state env k st st' p = (b, p') \<Longrightarrow> table_evolves (rows p) (rows p')"
  by (blast dest: create intro: effect_evolves [OF _ assms])
    (erule effect_evolves [OF mark_submitted assms] effect_evolves [OF set_balance assms] effect_evolves [OF mark_observed assms]
      effect_evolves [OF mark_orphaned assms] effect_evolves [OF reconciled assms] effect_evolves [OF defer_until assms]
      effect_evolves [OF close_terminal assms] effect_evolves [OF claim_unprocessed assms] effect_evolves [OF advance assms], assumption?)+

end

section \<open>The table as a repository\<close>

fun display_storage_error :: "storage_error \<Rightarrow> message" where
  "display_storage_error (StaleData m) = m"
| "display_storage_error (DuplicateKey k) = [Lit ''duplicate key '', Lit k]"

text \<open>A statement on the rows, and a query; the rest of the world is not touched.\<close>

definition on_rows :: "(trade_table \<Rightarrow> 'a \<times> trade_table) \<Rightarrow> trade_table \<times> 'q \<Rightarrow> (message + 'a) \<times> trade_table \<times> 'q" where
  "on_rows f p = (case f (fst p) of (a, t) \<Rightarrow> (Inr a, t, snd p))"

definition on_rows_or ::
  "(trade_table \<Rightarrow> (storage_error + 'a) \<times> trade_table) \<Rightarrow> trade_table \<times> 'q \<Rightarrow> (message + 'a) \<times> trade_table \<times> 'q" where
  "on_rows_or f p = (case f (fst p) of (r, t) \<Rightarrow> (map_sum display_storage_error (\<lambda>a. a) r, t, snd p))"

definition read_rows :: "(trade_table \<Rightarrow> 'a) \<Rightarrow> trade_table \<times> 'q \<Rightarrow> (message + 'a) \<times> trade_table \<times> 'q" where
  "read_rows f p = (Inr (f (fst p)), p)"

definition pg_trade_env :: "instant \<Rightarrow> (trade_table \<times> 'q) trade_env" where
  "pg_trade_env clock = \<lparr>
     tq_create = (\<lambda>new. on_rows_or (\<lambda>t. map_prod (map_sum (\<lambda>e. e) (\<lambda>_. ())) (\<lambda>x. x) (do_create clock new t))),
     tq_mark_submitted = (\<lambda>k now. on_rows (do_mark_submitted k now)),
     tq_set_pre_submit_ctf_balance = (\<lambda>k b. on_rows (do_set_pre_submit_ctf_balance k b)),
     tq_mark_observed = (\<lambda>k obs. on_rows_or (do_mark_observed k obs)),
     tq_mark_orphaned = (\<lambda>k. on_rows (do_mark_orphaned k)),
     tq_mark_reconciled_observed = (\<lambda>now k obs res n. on_rows_or (do_mark_reconciled_observed now k obs res n)),
     tq_record_reconcile_defer = (\<lambda>k d n. on_rows (do_record_reconcile_defer k d n)),
     tq_close_unresolvable_terminal = (\<lambda>k n operator now. on_rows (do_close_unresolvable_terminal k n operator now)),
     tq_claim_unprocessed = (\<lambda>l owner now lease. on_rows (do_claim_unprocessed l owner now lease)),
     tq_advance_state = (\<lambda>k st st'. on_rows (do_advance_state k st st')),
     tq_find_stale_submitted = (\<lambda>now l. read_rows (do_find_stale_submitted now l)),
     tq_find_needs_reconcile = (\<lambda>now l off. read_rows (do_find_needs_reconcile now l off)),
     tq_find_reservation_obligations = (\<lambda>l. read_rows (do_find_reservation_obligations l)),
     tq_find_by_id = (\<lambda>k. read_rows (do_find_by_id k)),
     tq_count_blocking_trades = read_rows do_count_blocking_trades,
     tq_count_needs_reconcile = read_rows do_count_needs_reconcile,
     tq_count_intent_orphans = read_rows do_count_intent_orphans,
     tq_oldest_blocking_age_secs = (\<lambda>now. read_rows (do_oldest_blocking_age_secs now)),
     tq_count_competing_pending_reconcile = (\<lambda>m s. read_rows (do_count_competing_pending_reconcile m s))\<rparr>"

lemma on_rows_effect: "on_rows f p = (r, p') \<Longrightarrow> fst p' = snd (f (fst p)) \<and> r = Inr (fst (f (fst p)))"
  by (auto simp: on_rows_def split: prod.splits)

lemma on_rows_or_effect: "on_rows_or f p = (r, p') \<Longrightarrow> fst p' = snd (f (fst p)) \<and> r = map_sum display_storage_error (\<lambda>a. a) (fst (f (fst p)))"
  by (auto simp: on_rows_or_def split: prod.splits)

lemma read_rows_effect: "read_rows f p = (r, p') \<Longrightarrow> p' = p \<and> r = Inr (f (fst p))"
  by (auto simp: read_rows_def)

lemma map_sum_Inr:
  "map_sum f g x = Inr b \<longleftrightarrow> (\<exists>a. x = Inr a \<and> b = g a)" "Inr b = map_sum f g x \<longleftrightarrow> (\<exists>a. x = Inr a \<and> b = g a)"
  by (cases x; auto)+

interpretation pg: trade_repository "pg_trade_env clock" fst for clock
proof unfold_locales
  fix new r and p p' :: "trade_table \<times> 'q"
  assume "tq_create (pg_trade_env clock) new p = (r, p')"
  then have "fst p' = snd (do_create clock new (fst p))" "r = map_sum display_storage_error (\<lambda>a. a) (map_sum (\<lambda>e. e) (\<lambda>_. ()) (fst (do_create clock new (fst p))))"
    by (auto simp: pg_trade_env_def dest!: on_rows_or_effect)
  then show "\<exists>now. effect_of (OpCreate now new) (fst p) r (fst p')"
    by (auto simp: effect_of_def)
next
  fix new and p p' :: "trade_table \<times> 'q"
  assume "tq_create (pg_trade_env clock) new p = (Inr (), p')"
  then show "map_of (fst p) (nt_trade_id new) = None"
    by (auto simp: pg_trade_env_def do_create_def map_sum_Inr dest!: on_rows_or_effect split: if_splits)
next
  fix st st' k b and p p' :: "trade_table \<times> 'q"
  assume "processed_terminal st = Some st'" "tq_advance_state (pg_trade_env clock) k st st' p = (b, p')"
  then show "effect_of (OpAdvance k st) (fst p) b (fst p')"
    by (auto simp: pg_trade_env_def effect_of_def dest!: on_rows_effect)
qed (auto simp: pg_trade_env_def effect_of_def map_sum_Inr dest!: on_rows_effect on_rows_or_effect read_rows_effect)

end
