(* ===== verification/Spec2Isabelle.thy ===== *)
theory Spec2Isabelle
  imports Recovery Reservation_Concurrency Control_Factors Fees Trade_Repository
begin

text \<open>
  \<^bold>\<open>Verification development for \<open>oxide-arb\<close>, an automated trader for a prediction market.\<close>

  The program watches order books, detects opportunities, sizes and admits a trade through a risk engine, reserves
  exposure for it, submits it and accounts for the result. The development models the parts that decide whether money is at
  risk, translated from the Rust sources under \<open>src/crates\<close>.

  \<^bold>\<open>Theories.\<close>

  \<^item> \<open>Prelude\<close>: machine integers as words with the saturating and checked operations of the standard library,
    messages as lists of pieces, generic lemmas.
  \<^item> \<open>Decimal\<close>: \<open>rust_decimal\<close> as rationals with a record of rounding operations and the laws its
    documentation gives; the exact operations and a 28-digit instance satisfy them. \<open>Chrono\<close>: the calendar operations
    in the same style.
  \<^item> \<open>Risk_Types\<close>: enums, configurations and records of \<open>oxide-arb-models\<close>, and the redeem routing.
  \<^item> \<open>Circuit_Breaker\<close>, \<open>Accounting\<close>, \<open>Potential_Loss\<close>, \<open>Blacklist\<close>, \<open>Drawdown\<close>,
    \<open>Reconciliation\<close>: one theory for each stateful part of \<open>oxide-arb-risk\<close>, with its state as a record and one
    definition per method.
  \<^item> \<open>Context\<close>, \<open>Checks\<close>, \<open>Pipeline\<close>, \<open>Sizing\<close>, \<open>Pre_Trade\<close>: the pre-trade decision; 32 gates,
    their two phases and report modes, Kelly sizing and the decision with its audit.
  \<^item> \<open>Engine_State\<close>, \<open>Engine\<close>: the state of \<open>RiskEngine\<close> and its operations over an outside world
    given as a record of functions (store, event bus, audit sink). \<open>Engine_Safety\<close>, \<open>Fill_Markers\<close>,
    \<open>Engine_Properties\<close>: the step relation over all operations and what every run keeps.
  \<^item> \<open>Recovery\<close>: the restart from persisted state.
  \<^item> \<open>Reservation\<close>, \<open>Reservation_Concurrency\<close>: the exposure reservations, sequentially and as interleaved
    atomic steps on the concurrent maps.
  \<^item> \<open>Micro\<close>, \<open>Book\<close>, \<open>Order_Book\<close>: fixed-point numbers, book data and the walk over the asks, live books
    with their store, gate and staleness classes.
  \<^item> \<open>Control_Factors\<close>: the published factors, their validation, compilation and the decisions they give.
    \<open>Fees\<close>: fee schedules, quotes and the fixed-point formula with its table.
  \<^item> \<open>Orders\<close>, \<open>Evidence\<close>: one order from the sized bet to its outcome, and the evidence that travels with it.
    \<open>Trade_Store\<close>: the table of trades, one definition per SQL statement, and the life of a row. \<open>Trade_Repository\<close>: the
    contract its clients rely on, satisfied by the table.

  \<^bold>\<open>What is shown.\<close> Errors halt the engine, a halt is never lifted but by an operator, every reachable state is consistent, a fill is
  accounted once, a failed commit is undone, a restart neither loosens the breaker nor loses accounted risk;
  loss caps stop trading; an allowed trade passed every gate and its size respects the limits; windows, ledger, blacklist view and
  books refine plain specifications; reservations never exceed their limits under any interleaving; the budget of a walk is respected;
  a compiled publication keeps the strictest of its factors; the fee table agrees with the formula up to a stated bound; a trade row moves only
  along its documented transitions and its observed economics never change.

  \<^bold>\<open>Choices.\<close> Decimals are exact rationals with rounding at each operation (a parameter); times are integers in nanoseconds and an
  operation reads the clock once; hash maps are association lists; release-build integers wrap. Recursion is structural or has a
  termination proof, so no fuel is used. Third-party code is a parameter with its documented behaviour as a hypothesis.

  \<^bold>\<open>Not modelled.\<close> I/O and its scheduling (venue and chain clients, SQL beyond the trade table, caches, HTTP and websocket servers, task loops), telemetry,
  ORM and schema declarations, generated code, configuration catalogues, tests and benches; they have no logic of their own
  beyond calls into third-party code or are declarations for it.
\<close>

end
